(* ===== verification/RD_Prelude.thy ===== *)
theory RD_Prelude
  imports Main "HOL-Library.Word" "HOL-Library.Sublist"
begin

text \<open>
  Shared vocabulary of the development: Rust strings as UTF-8 byte lists (\<open>string\<close>), the
  few string functions of the Rust standard library the modelled code calls (\<open>trim\<close>,
  \<open>to_ascii_lowercase\<close>, \<open>contains\<close>, \<open>split\<close>, \<open>parse::<i32>\<close>, decimal
  formatting), fixed-width casts, a bounded-queue helper, and the lemma collections the
  component theories feed.
\<close>

named_theorems frame_simps \<open>fields an operation leaves alone\<close>
named_theorems codec_simps \<open>evaluation rules of the byte-level codecs\<close>
named_theorems bridge_simps \<open>unfolding rules of the bridge operations\<close>

section \<open>Integers\<close>

type_synonym u8 = "8 word"
type_synonym u16 = "16 word"
type_synonym u32 = "32 word"
type_synonym u64 = "64 word"
type_synonym u128 = "128 word"

text \<open>\<open>x as i32\<close>: two's complement wrap-around of an integer.\<close>

definition as_i32 :: "int \<Rightarrow> int" where
  "as_i32 x = (x + 2 ^ 31) mod 2 ^ 32 - 2 ^ 31"

definition is_i32 :: "int \<Rightarrow> bool" where
  "is_i32 x \<longleftrightarrow> - (2 ^ 31) \<le> x \<and> x < 2 ^ 31"

definition as_u32 :: "int \<Rightarrow> int" where
  "as_u32 x = x mod 2 ^ 32"

definition as_u8 :: "int \<Rightarrow> nat" where
  "as_u8 x = nat (x mod 2 ^ 8)"

definition usize_max :: nat where
  "usize_max = 2 ^ 64 - 1"

text \<open>\<open>usize::saturating_mul\<close> on a 64-bit target.\<close>

definition saturating_mul_usize :: "nat \<Rightarrow> nat \<Rightarrow> nat" where
  "saturating_mul_usize a b = min (a * b) usize_max"

definition saturating_add_u64 :: "u64 \<Rightarrow> u64 \<Rightarrow> u64" where
  "saturating_add_u64 a b = (if unat a + unat b < 2 ^ 64 then a + b else - 1)"

lemma as_i32_id [simp]: "is_i32 x \<Longrightarrow> as_i32 x = x"
  by (simp add: as_i32_def is_i32_def)

lemma as_i32_range: "is_i32 (as_i32 x)"
  by (simp add: as_i32_def is_i32_def)

lemma saturating_add_u64_mono: "a \<le> saturating_add_u64 a b"
proof (cases "unat a + unat b < 2 ^ 64")
  case True
  then show ?thesis by (simp add: saturating_add_u64_def word_le_nat_alt unat_word_ariths)
qed (simp add: saturating_add_u64_def)

definition is_i64 :: "int \<Rightarrow> bool" where
  "is_i64 x \<longleftrightarrow> - (2 ^ 63) \<le> x \<and> x < 2 ^ 63"

definition as_i64 :: "int \<Rightarrow> int" where
  "as_i64 x = (x + 2 ^ 63) mod 2 ^ 64 - 2 ^ 63"

lemma as_i64_id: "- (2 ^ 63) \<le> x \<Longrightarrow> x < 2 ^ 63 \<Longrightarrow> as_i64 x = x"
  by (simp add: as_i64_def)

text \<open>\<open>i64::saturating_sub\<close>.\<close>

definition saturating_sub_i64 :: "int \<Rightarrow> int \<Rightarrow> int" where
  "saturating_sub_i64 a b = max (- (2 ^ 63)) (min (2 ^ 63 - 1) (a - b))"

section \<open>Bounded queues\<close>

text \<open>\<open>if v.len() > n { v.drain(0..v.len() - n) }\<close>: only the newest \<open>n\<close> elements stay.\<close>

definition keep_last :: "nat \<Rightarrow> 'a list \<Rightarrow> 'a list" where
  "keep_last n xs = (if n < length xs then drop (length xs - n) xs else xs)"

lemma length_keep_last [simp]: "length (keep_last n xs) = min n (length xs)"
  by (simp add: keep_last_def)

lemma keep_last_short [simp]: "length xs \<le> n \<Longrightarrow> keep_last n xs = xs"
  by (simp add: keep_last_def)

lemma keep_last_suffix: "\<exists>ys. xs = ys @ keep_last n xs"
  by (metis append.left_neutral append_take_drop_id keep_last_def)

lemma keep_last_snoc: "0 < n \<Longrightarrow> last (keep_last n (xs @ [x])) = x"
  by (simp add: keep_last_def)

lemma keep_last_keep_last:
  "keep_last n (keep_last n xs @ ys) = keep_last n (xs @ ys)"
  by (auto simp: keep_last_def add.commute)

lemma set_keep_last: "set (keep_last n xs) \<subseteq> set xs"
  by (auto simp: keep_last_def dest: in_set_dropD)

section \<open>Strings\<close>

definition str_contains :: "string \<Rightarrow> string \<Rightarrow> bool" where
  "str_contains s p \<longleftrightarrow> sublist p s"

definition starts_with :: "string \<Rightarrow> string \<Rightarrow> bool" where
  "starts_with s p \<longleftrightarrow> prefix p s"

text \<open>\<open>s.split(c)\<close>: always at least one piece, as in Rust.\<close>

fun str_split :: "char \<Rightarrow> string \<Rightarrow> string list" where
  "str_split c [] = [[]]"
| "str_split c (x # xs) =
     (if x = c then [] # str_split c xs
      else (case str_split c xs of [] \<Rightarrow> [[x]] | p # ps \<Rightarrow> (x # p) # ps))"

lemma str_split_nonempty [simp]: "str_split c s \<noteq> []"
  by (induction s) (auto split: list.splits)

lemma str_split_absent [simp]: "c \<notin> set s \<Longrightarrow> str_split c s = [s]"
  by (induction s) auto

lemma str_split_append: "c \<notin> set a \<Longrightarrow> str_split c (a @ c # b) = a # str_split c b"
  by (induction a) auto

lemma hd_str_split: "hd (str_split c s) = takeWhile (\<lambda>x. x \<noteq> c) s"
proof (induction s)
  case (Cons x s)
  then show ?case by (cases "str_split c s") auto
qed simp

lemma case_str_split: "(case str_split c s of [] \<Rightarrow> [] | x # _ \<Rightarrow> x) = takeWhile (\<lambda>x. x \<noteq> c) s"
  using hd_str_split [of c s] by (cases "str_split c s") simp_all

lemma str_split_pieces: "p \<in> set (str_split c s) \<Longrightarrow> c \<notin> set p"
proof (induction s arbitrary: p)
  case (Cons x s)
  then show ?case
    by (cases "str_split c s") (auto split: if_splits)
qed simp

lemma hd_str_split_subset: "set (hd (str_split c s)) \<subseteq> set s"
proof (induction s)
  case (Cons x s)
  then show ?case
    by (cases "str_split c s") auto
qed simp

lemma str_split_tl: "c \<in> set s \<Longrightarrow> tl (str_split c s) \<noteq> []"
proof (induction s)
  case (Cons x s)
  then show ?case by (cases "str_split c s") auto
qed simp

definition str_join :: "string \<Rightarrow> string list \<Rightarrow> string" where
  "str_join sep xs = (case xs of [] \<Rightarrow> [] | y # ys \<Rightarrow> y @ concat (map (\<lambda>s. sep @ s) ys))"

text \<open>The White\_Space code points of Unicode in UTF-8, which \<open>str::trim\<close> strips.\<close>

definition utf8_whitespace :: "string list" where
  "utf8_whitespace =
     [[CHR 0x09], [CHR 0x0A], [CHR 0x0B], [CHR 0x0C], [CHR 0x0D], [CHR 0x20],
      [CHR 0xC2, CHR 0x85], [CHR 0xC2, CHR 0xA0], [CHR 0xE1, CHR 0x9A, CHR 0x80],
      [CHR 0xE2, CHR 0x80, CHR 0x80], [CHR 0xE2, CHR 0x80, CHR 0x81],
      [CHR 0xE2, CHR 0x80, CHR 0x82], [CHR 0xE2, CHR 0x80, CHR 0x83],
      [CHR 0xE2, CHR 0x80, CHR 0x84], [CHR 0xE2, CHR 0x80, CHR 0x85],
      [CHR 0xE2, CHR 0x80, CHR 0x86], [CHR 0xE2, CHR 0x80, CHR 0x87],
      [CHR 0xE2, CHR 0x80, CHR 0x88], [CHR 0xE2, CHR 0x80, CHR 0x89],
      [CHR 0xE2, CHR 0x80, CHR 0x8A], [CHR 0xE2, CHR 0x80, CHR 0xA8],
      [CHR 0xE2, CHR 0x80, CHR 0xA9], [CHR 0xE2, CHR 0x80, CHR 0xAF],
      [CHR 0xE2, CHR 0x81, CHR 0x9F], [CHR 0xE3, CHR 0x80, CHR 0x80]]"

text \<open>Strip, from the front, every leading occurrence of one of the given byte patterns.\<close>

function strip_front :: "string list \<Rightarrow> string \<Rightarrow> string" where
  "strip_front ws s =
     (case find (\<lambda>w. w \<noteq> [] \<and> prefix w s) ws of
        None \<Rightarrow> s
      | Some w \<Rightarrow> strip_front ws (drop (length w) s))"
  by pat_completeness auto
termination
  by (relation "measure (\<lambda>(ws, s). length s)")
    (auto simp: find_Some_iff prefix_def)

declare strip_front.simps [simp del]

definition trim_start :: "string \<Rightarrow> string" where
  "trim_start s = strip_front utf8_whitespace s"

definition trim_end :: "string \<Rightarrow> string" where
  "trim_end s = rev (strip_front (map rev utf8_whitespace) (rev s))"

definition str_trim :: "string \<Rightarrow> string" where
  "str_trim s = trim_end (trim_start s)"

lemma strip_front_suffix: "suffix (strip_front ws s) s"
proof (induction ws s rule: strip_front.induct)
  case (1 ws s)
  show ?case
  proof (cases "find (\<lambda>w. w \<noteq> [] \<and> prefix w s) ws")
    case None
    then show ?thesis by (simp add: strip_front.simps [of ws s])
  next
    case (Some w)
    with 1 have "suffix (strip_front ws (drop (length w) s)) (drop (length w) s)" by simp
    then show ?thesis
      using Some suffix_drop [of "length w" s]
      by (simp add: strip_front.simps [of ws s] suffix_order.trans)
  qed
qed

lemma strip_front_idem: "strip_front ws (strip_front ws s) = strip_front ws s"
proof (induction ws s rule: strip_front.induct)
  case (1 ws s)
  show ?case
    using 1 by (cases "find (\<lambda>w. w \<noteq> [] \<and> prefix w s) ws")
      (simp_all add: strip_front.simps [of ws s])
qed

lemma strip_front_Nil [simp]: "strip_front ws [] = []"
proof -
  have "find (\<lambda>w. w \<noteq> [] \<and> prefix w []) ws = None"
    by (simp add: find_None_iff)
  then show ?thesis by (simp add: strip_front.simps [of ws "[]"])
qed

lemma str_trim_Nil [simp]: "str_trim [] = []"
  by (simp add: str_trim_def trim_start_def trim_end_def)

lemma length_str_trim: "length (str_trim s) \<le> length s"
proof -
  have "length (strip_front ws t) \<le> length t" for ws t
    using strip_front_suffix by (rule suffix_length_le)
  then show ?thesis
    unfolding str_trim_def trim_end_def trim_start_def
    by (metis (no_types) dual_order.trans length_rev)
qed

definition ascii_lower :: "char \<Rightarrow> char" where
  "ascii_lower c =
     (let k = (of_char c :: nat) in if 65 \<le> k \<and> k \<le> 90 then char_of (k + 32) else c)"

definition to_ascii_lowercase :: "string \<Rightarrow> string" where
  "to_ascii_lowercase s = map ascii_lower s"

text \<open>\<open>str::to_lowercase\<close>, as far as an ASCII pattern can tell: besides the ASCII capitals, the Kelvin
  sign (U+212A) is lowered to \<open>k\<close> and U+0130 to \<open>i\<close> with a combining dot; no other character is lowered
  to text with an ASCII letter, and those are left as they are.\<close>

function to_lowercase :: "string \<Rightarrow> string" where
  "to_lowercase s =
     (case s of
        [] \<Rightarrow> []
      | c # t \<Rightarrow>
          if take 3 s = [CHR 0xE2, CHR 0x84, CHR 0xAA] then CHR ''k'' # to_lowercase (drop 2 t)
          else if take 2 s = [CHR 0xC4, CHR 0xB0]
          then [CHR ''i'', CHR 0xCC, CHR 0x87] @ to_lowercase (drop 1 t)
          else ascii_lower c # to_lowercase t)"
  by pat_completeness auto
termination
  by (relation "measure length") auto

declare to_lowercase.simps [simp del]

section \<open>UTF-8\<close>

text \<open>One step of \<open>Utf8Chunks\<close> at a non-empty position: whether a well-formed character starts
  here, and the length of it, or of the maximal ill-formed part.\<close>

definition utf8_cont :: "nat \<Rightarrow> bool" where
  "utf8_cont b \<longleftrightarrow> 0x80 \<le> b \<and> b < 0xC0"

definition byte_at :: "string \<Rightarrow> nat \<Rightarrow> nat" where
  "byte_at s i = (if i < length s then of_char (s ! i) else 0)"

definition utf8_step :: "string \<Rightarrow> bool \<times> nat" where
  "utf8_step s =
     (let b0 = byte_at s 0; b1 = byte_at s 1; b2 = byte_at s 2; b3 = byte_at s 3;
          second3 = (if b0 = 0xE0 then 0xA0 \<le> b1 \<and> b1 < 0xC0
                     else if b0 = 0xED then 0x80 \<le> b1 \<and> b1 < 0xA0 else utf8_cont b1);
          second4 = (if b0 = 0xF0 then 0x90 \<le> b1 \<and> b1 < 0xC0
                     else if b0 = 0xF4 then 0x80 \<le> b1 \<and> b1 < 0x90 else utf8_cont b1)
      in if b0 < 0x80 then (True, 1)
         else if 0xC2 \<le> b0 \<and> b0 < 0xE0 then (if utf8_cont b1 then (True, 2) else (False, 1))
         else if 0xE0 \<le> b0 \<and> b0 < 0xF0 then
           (if \<not> second3 then (False, 1) else if \<not> utf8_cont b2 then (False, 2) else (True, 3))
         else if 0xF0 \<le> b0 \<and> b0 < 0xF5 then
           (if \<not> second4 then (False, 1) else if \<not> utf8_cont b2 then (False, 2)
            else if \<not> utf8_cont b3 then (False, 3) else (True, 4))
         else (False, 1))"

lemma utf8_step_pos: "0 < snd (utf8_step s)"
  by (simp add: utf8_step_def Let_def)

function from_utf8_lossy :: "string \<Rightarrow> string" where
  "from_utf8_lossy s =
     (if s = [] then []
      else let (ok, n) = utf8_step s
           in (if ok then take n s else [CHR 0xEF, CHR 0xBF, CHR 0xBD]) @ from_utf8_lossy (drop n s))"
  by pat_completeness auto
termination
  by (relation "measure length")
    (auto dest!: arg_cong [where f = snd] intro!: diff_less simp: utf8_step_pos)

function valid_utf8 :: "string \<Rightarrow> bool" where
  "valid_utf8 s =
     (if s = [] then True else let (ok, n) = utf8_step s in ok \<and> valid_utf8 (drop n s))"
  by pat_completeness auto
termination
  by (relation "measure length")
    (auto dest!: arg_cong [where f = snd] intro!: diff_less simp: utf8_step_pos)

declare from_utf8_lossy.simps [simp del] valid_utf8.simps [simp del]

lemma from_utf8_lossy_Nil [simp]: "from_utf8_lossy [] = []"
  by (simp add: from_utf8_lossy.simps)

lemma from_utf8_lossy_valid: "valid_utf8 s \<Longrightarrow> from_utf8_lossy s = s"
proof (induction s rule: valid_utf8.induct)
  case (1 s)
  obtain ok n where st: "utf8_step s = (ok, n)" by (cases "utf8_step s")
  then show ?case
    using 1 by (cases "s = []")
      (simp_all add: valid_utf8.simps [of s] from_utf8_lossy.simps [of s])
qed

text \<open>\<open>s.chars().count()\<close>: the bytes that start a character.\<close>

definition utf8_chars :: "string \<Rightarrow> nat" where
  "utf8_chars s = length (filter (\<lambda>c. \<not> utf8_cont (of_char c)) s)"

section \<open>Decimal numbers\<close>

definition digit_char :: "nat \<Rightarrow> char" where
  "digit_char d = ''0123456789'' ! d"

definition digit_value :: "char \<Rightarrow> nat option" where
  "digit_value c = (let k = (of_char c :: nat) in if 48 \<le> k \<and> k \<le> 57 then Some (k - 48) else None)"

fun dec_nat :: "nat \<Rightarrow> string" where
  "dec_nat n = (if n < 10 then [digit_char n] else dec_nat (n div 10) @ [digit_char (n mod 10)])"

declare dec_nat.simps [simp del]

definition dec_int :: "int \<Rightarrow> string" where
  "dec_int i = (if i < 0 then CHR ''-'' # dec_nat (nat (- i)) else dec_nat (nat i))"

definition dec_bool :: "bool \<Rightarrow> string" where
  "dec_bool b = (if b then ''true'' else ''false'')"

text \<open>Unsigned decimal digits; \<open>None\<close> for the empty string or a non-digit.\<close>

fun parse_digits :: "nat \<Rightarrow> string \<Rightarrow> nat option" where
  "parse_digits acc [] = Some acc"
| "parse_digits acc (c # cs) =
     (case digit_value c of None \<Rightarrow> None | Some d \<Rightarrow> parse_digits (acc * 10 + d) cs)"

definition parse_nat :: "string \<Rightarrow> nat option" where
  "parse_nat s = (if s = [] then None else parse_digits 0 s)"

text \<open>\<open>str::parse\<close> at a signed type: optional sign, digits, range check.\<close>

definition parse_signed :: "int \<Rightarrow> int \<Rightarrow> string \<Rightarrow> int option" where
  "parse_signed lo hi s =
     (let (neg, ds) = (case s of
                [] \<Rightarrow> (False, [])
              | c # cs \<Rightarrow> if c = CHR ''-'' then (True, cs)
                         else if c = CHR ''+'' then (False, cs) else (False, s))
      in case parse_nat ds of
           None \<Rightarrow> None
         | Some n \<Rightarrow>
             (let v = (if neg then - int n else int n)
              in if lo \<le> v \<and> v \<le> hi then Some v else None))"

definition parse_i32 :: "string \<Rightarrow> int option" where
  "parse_i32 = parse_signed (- (2 ^ 31)) (2 ^ 31 - 1)"

definition parse_i64 :: "string \<Rightarrow> int option" where
  "parse_i64 = parse_signed (- (2 ^ 63)) (2 ^ 63 - 1)"

text \<open>\<open>str::parse\<close> at an unsigned type accepts a leading plus but no minus.\<close>

definition parse_u32 :: "string \<Rightarrow> nat option" where
  "parse_u32 s =
     (let ds = (case s of c # cs \<Rightarrow> if c = CHR ''+'' then cs else s | [] \<Rightarrow> [])
      in case parse_nat ds of
           None \<Rightarrow> None
         | Some n \<Rightarrow> if n < 2 ^ 32 then Some n else None)"

lemma digit_value_digit_char [simp]:
  assumes "d < 10" shows "digit_value (digit_char d) = Some d"
proof -
  have "d \<in> {0, 1, 2, 3, 4, 5, 6, 7, 8, 9}" using assms by auto
  then show ?thesis by (auto simp: digit_value_def digit_char_def)
qed

lemma parse_digits_append:
  "parse_digits acc (xs @ ys) =
     (case parse_digits acc xs of None \<Rightarrow> None | Some a \<Rightarrow> parse_digits a ys)"
  by (induction xs arbitrary: acc) (auto split: option.splits)

lemma dec_nat_nonempty [simp]: "dec_nat n \<noteq> []"
  by (subst dec_nat.simps) simp

lemma parse_digits_dec_nat [simp]: "parse_digits 0 (dec_nat n) = Some n"
proof (induction n rule: dec_nat.induct)
  case (1 n)
  then show ?case
    by (cases "n < 10") (simp_all add: dec_nat.simps [of n] parse_digits_append)
qed

lemma parse_nat_dec_nat [simp]: "parse_nat (dec_nat n) = Some n"
  by (simp add: parse_nat_def)

lemma hd_dec_nat: "digit_value (hd (dec_nat n)) \<noteq> None"
proof (induction n rule: dec_nat.induct)
  case (1 n)
  then show ?case
    by (cases "n < 10") (simp_all add: dec_nat.simps [of n] hd_append)
qed

lemma hd_dec_nat_no_sign: "hd (dec_nat n) \<noteq> CHR ''-''" "hd (dec_nat n) \<noteq> CHR ''+''"
  using hd_dec_nat [of n] by (auto simp: digit_value_def)

lemma parse_signed_dec_int:
  assumes "lo \<le> i" "i \<le> hi"
  shows "parse_signed lo hi (dec_int i) = Some i"
proof (cases "i < 0")
  case True
  then show ?thesis using assms by (simp add: parse_signed_def dec_int_def)
next
  case False
  obtain c cs where c: "dec_nat (nat i) = c # cs"
    by (cases "dec_nat (nat i)") simp_all
  then have "c \<noteq> CHR ''-''" "c \<noteq> CHR ''+''"
    using hd_dec_nat_no_sign [of "nat i"] by simp_all
  then show ?thesis using assms False c parse_nat_dec_nat [of "nat i"]
    by (simp add: parse_signed_def dec_int_def)
qed

lemma parse_i32_dec_int [simp]: "is_i32 i \<Longrightarrow> parse_i32 (dec_int i) = Some i"
  unfolding parse_i32_def is_i32_def by (rule parse_signed_dec_int) auto

end
