(* ===== verification/BytesCodec.thy ===== *)
theory BytesCodec
  imports RD_Prelude
begin

unbundle bit_operations_syntax

text \<open>
  The framing codec of \<open>libs/hbb_common/src/bytes_codec.rs\<close>: a frame is a one to four byte
  little-endian header, whose two low bits give the header's length minus one and whose other
  bits the payload length, followed by the payload. Buffers (\<open>BytesMut\<close>) are byte lists.
  \<open>decode_head\<close> also returns the number of bytes it asks the buffer to reserve.
\<close>

section \<open>State and operations\<close>

datatype decode_state = Head | Data nat

record bytes_codec =
  bc_state :: decode_state
  bc_raw :: bool
  max_packet_length :: nat

datatype io_error = InvalidData string | InvalidInput string

definition MAX_PREALLOCATED_PAYLOAD_LEN :: nat where
  "MAX_PREALLOCATED_PAYLOAD_LEN = 256 * 1024"

definition bytes_codec_new :: bytes_codec where
  "bytes_codec_new = \<lparr>bc_state = Head, bc_raw = False, max_packet_length = usize_max\<rparr>"

definition set_raw :: "bytes_codec \<Rightarrow> bytes_codec" where
  "set_raw c = c\<lparr>bc_raw := True\<rparr>"

definition set_max_packet_length :: "nat \<Rightarrow> bytes_codec \<Rightarrow> bytes_codec" where
  "set_max_packet_length n c = c\<lparr>max_packet_length := n\<rparr>"

text \<open>\<open>Ok(None)\<close> is \<open>Inr None\<close>; \<open>Ok(Some(n))\<close> also carries the rest of the buffer and the
  reservation.\<close>

definition header_value :: "nat \<Rightarrow> u8 list \<Rightarrow> nat" where
  "header_value head_len src =
     (let n0 = (ucast (src ! 0) :: u64);
          n1 = (if head_len > 1 then n0 OR push_bit 8 (ucast (src ! 1)) else n0);
          n2 = (if head_len > 2 then n1 OR push_bit 16 (ucast (src ! 2)) else n1);
          n3 = (if head_len > 3 then n2 OR push_bit 24 (ucast (src ! 3)) else n2)
      in unat (drop_bit 2 n3))"

definition decode_head ::
    "bytes_codec \<Rightarrow> u8 list \<Rightarrow> io_error + (nat \<times> u8 list \<times> nat) option" where
  "decode_head c src =
     (if src = [] then Inr None
      else
        let head_len = unat (src ! 0 AND 3) + 1
        in if length src < head_len then Inr None
           else
             let n = header_value head_len src
             in if n > max_packet_length c then Inl (InvalidData ''Too big packet'')
                else
                  let rest = drop head_len src
                  in Inr (Some (n, rest, min (n - length rest) MAX_PREALLOCATED_PAYLOAD_LEN)))"

definition decode_data :: "nat \<Rightarrow> u8 list \<Rightarrow> (u8 list \<times> u8 list) option" where
  "decode_data n src = (if length src < n then None else Some (take n src, drop n src))"

text \<open>The result is the item, if any, the codec and what is left in the buffer.\<close>

definition decode ::
    "bytes_codec \<Rightarrow> u8 list \<Rightarrow> io_error + (u8 list option \<times> bytes_codec \<times> u8 list)" where
  "decode c src =
     (if bc_raw c then
        (if src \<noteq> [] then Inr (Some src, c, []) else Inr (None, c, src))
      else
        case (case bc_state c of
                Head \<Rightarrow>
                  (case decode_head c src of
                     Inl e \<Rightarrow> Inl e
                   | Inr None \<Rightarrow> Inr None
                   | Inr (Some (n, rest, _)) \<Rightarrow> Inr (Some (n, c\<lparr>bc_state := Data n\<rparr>, rest)))
              | Data n \<Rightarrow> Inr (Some (n, c, src))) of
          Inl e \<Rightarrow> Inl e
        | Inr None \<Rightarrow> Inr (None, c, src)
        | Inr (Some (n, c', src')) \<Rightarrow>
            (case decode_data n src' of
               Some (payload, rest) \<Rightarrow> Inr (Some payload, c'\<lparr>bc_state := Head\<rparr>, rest)
             | None \<Rightarrow> Inr (None, c', src')))"

definition le16 :: "u16 \<Rightarrow> u8 list" where
  "le16 h = [ucast h, ucast (drop_bit 8 h)]"

definition le32 :: "u32 \<Rightarrow> u8 list" where
  "le32 h = [ucast h, ucast (drop_bit 8 h), ucast (drop_bit 16 h), ucast (drop_bit 24 h)]"

definition encode :: "bytes_codec \<Rightarrow> u8 list \<Rightarrow> u8 list \<Rightarrow> io_error + u8 list" where
  "encode c payload buf =
     (let len = length payload in
      if bc_raw c then Inr (buf @ payload)
      else if len \<le> 0x3F then Inr (buf @ [word_of_nat (len * 4)] @ payload)
      else if len \<le> 0x3FFF then Inr (buf @ le16 (word_of_nat (len * 4) OR 1) @ payload)
      else if len \<le> 0x3FFFFF then
        (let h = (word_of_nat (len * 4) OR 2 :: u32)
         in Inr (buf @ le16 (ucast (h AND 0xFFFF)) @ [ucast (drop_bit 16 h)] @ payload))
      else if len \<le> 0x3FFFFFFF then Inr (buf @ le32 (word_of_nat (len * 4) OR 3) @ payload)
      else Inl (InvalidInput ''Overflow''))"

section \<open>Header arithmetic\<close>

lemma and_3_take_bit: "w AND 3 = take_bit 2 (w :: 'a::len word)"
  by (simp add: take_bit_eq_mask mask_eq_exp_minus_1)

lemma or_small:
  fixes w :: "'a::len word"
  assumes "k < 4" "4 * n + k < 2 ^ LENGTH('a)"
  shows "unat (word_of_nat (n * 4) OR word_of_nat k :: 'a word) = 4 * n + k"
proof -
  have "(4 * n) AND k = 0"
  proof (rule bit_eqI)
    fix i
    have "k = take_bit 2 k" using assms(1) by (simp add: take_bit_nat_eq_self)
    moreover have "4 * n = push_bit 2 n" by (simp add: push_bit_eq_mult)
    ultimately have "bit ((4 * n) AND k) i = bit (push_bit 2 n AND take_bit 2 k) i" by metis
    then show "bit ((4 * n) AND k) i = bit (0 :: nat) i" by (auto simp: bit_simps)
  qed
  then have or: "4 * n + k = (4 * n OR k)"
    by (rule disjunctive_add_eq_or)
  have "word_of_nat (n * 4) OR word_of_nat k = (word_of_nat (4 * n + k) :: 'a word)"
    unfolding or by (simp add: of_nat_or_eq mult.commute)
  then show ?thesis using assms(2) by (simp add: unat_of_nat del: of_nat_add of_nat_mult)
qed

lemma join_bytes_16:
  fixes h :: u16
  shows "(ucast (ucast h :: u8) :: u64) OR push_bit 8 (ucast (ucast (drop_bit 8 h) :: u8)) = ucast h"
proof (rule bit_word_eqI)
  fix n
  show "bit ((ucast (ucast h :: u8) :: u64) OR push_bit 8 (ucast (ucast (drop_bit 8 h) :: u8))) n
        = bit (ucast h :: u64) n"
    using bit_imp_le_length [of h n] by (auto simp: bit_simps)
qed

lemma join_bytes_32:
  fixes h :: u32
  shows "(((ucast (ucast h :: u8) :: u64) OR push_bit 8 (ucast (ucast (drop_bit 8 h) :: u8)))
          OR push_bit 16 (ucast (ucast (drop_bit 16 h) :: u8)))
          OR push_bit 24 (ucast (ucast (drop_bit 24 h) :: u8)) = ucast h" (is "?l = _")
proof (rule bit_word_eqI)
  fix n
  show "bit ?l n = bit (ucast h :: u64) n"
    using bit_imp_le_length [of h n]
    by (cases "n < 16"; cases "n < 24") (auto simp: bit_simps)
qed

lemma join_bytes_24:
  fixes h :: u32
  assumes "unat h < 2 ^ 24"
  shows "((ucast (ucast h :: u8) :: u64) OR push_bit 8 (ucast (ucast (drop_bit 8 h) :: u8)))
          OR push_bit 16 (ucast (ucast (drop_bit 16 h) :: u8)) = ucast h"
proof -
  have "unat (drop_bit 24 h) = 0"
    by (subst unat_drop_bit_eq) (use assms in \<open>simp add: drop_bit_eq_div\<close>)
  then have "drop_bit 24 h = 0" by (simp only: unat_eq_zero)
  then show ?thesis using join_bytes_32 [of h] by simp
qed

text \<open>What \<open>encode\<close> puts in front of a payload, and how many header bytes that is.\<close>

definition header :: "nat \<Rightarrow> u8 list" where
  "header len =
     (if len \<le> 0x3F then [word_of_nat (len * 4)]
      else if len \<le> 0x3FFF then le16 (word_of_nat (len * 4) OR 1)
      else if len \<le> 0x3FFFFF then
        (let h = (word_of_nat (len * 4) OR 2 :: u32)
         in le16 (ucast (h AND 0xFFFF)) @ [ucast (drop_bit 16 h)])
      else le32 (word_of_nat (len * 4) OR 3))"

lemma encode_header:
  assumes "\<not> bc_raw c" "length p \<le> 0x3FFFFFFF"
  shows "encode c p buf = Inr (buf @ header (length p) @ p)"
  using assms by (simp add: encode_def header_def Let_def)

lemma low_bits_of_byte:
  assumes "unat (h :: 'a::len word) = 4 * n + k" "k < 4" "8 \<le> LENGTH('a)"
  shows "unat (ucast h AND 3 :: u8) = k"
proof -
  have "unat (ucast h :: u8) = (4 * n + k) mod 2 ^ 8"
    using assms by (simp add: unsigned_ucast_eq take_bit_eq_mod)
  then have "unat (take_bit 2 (ucast h :: u8)) = (4 * n + k) mod 2 ^ 8 mod 2 ^ 2"
    by (subst unsigned_take_bit_eq) (simp add: take_bit_eq_mod)
  also have "\<dots> = (4 * n + k) mod 4"
    by (subst mod_mod_cancel) simp_all
  finally show ?thesis using assms(2) by (simp add: and_3_take_bit)
qed

lemma unat_drop_2:
  assumes "unat (h :: 'a::len word) = 4 * n + k" "k < 4" "LENGTH('a) \<le> 64"
  shows "unat (drop_bit 2 (ucast h :: u64)) = n"
proof -
  have "4 * n + k < 2 ^ LENGTH('a)"
    using assms(1) unsigned_less [of h, where ?'a = nat] by simp
  also have "\<dots> \<le> 2 ^ 64"
    by (rule power_increasing) (use assms(3) in simp_all)
  finally have "unat (ucast h :: u64) = 4 * n + k"
    using assms(1) by (simp add: unsigned_ucast_eq take_bit_nat_eq_self)
  then have "unat (drop_bit 2 (ucast h :: u64)) = (4 * n + k) div 4"
    by (subst unat_drop_bit_eq) (simp add: drop_bit_eq_div)
  then show ?thesis using assms(2) by simp
qed

lemma decode_head_header:
  assumes "len \<le> 0x3FFFFFFF" "len \<le> max_packet_length c"
  shows "decode_head c (header len @ rest) =
           Inr (Some (len, rest, min (len - length rest) MAX_PREALLOCATED_PAYLOAD_LEN))"
proof -
  consider "len \<le> 0x3F" | "0x3F < len" "len \<le> 0x3FFF" | "0x3FFF < len" "len \<le> 0x3FFFFF"
    | "0x3FFFFF < len" by linarith
  then show ?thesis
  proof cases
    case 1
    define h :: u8 where "h = word_of_nat (len * 4) OR word_of_nat 0"
    have h: "unat h = 4 * len + 0" unfolding h_def by (rule or_small) (use 1 in simp_all)
    have "header len = [h]" using 1 by (simp add: header_def h_def)
    with low_bits_of_byte [OF h] unat_drop_2 [OF h] assms(2) show ?thesis
      by (simp add: decode_head_def header_value_def)
  next
    case 2
    define h :: u16 where "h = word_of_nat (len * 4) OR word_of_nat 1"
    have h: "unat h = 4 * len + 1" unfolding h_def by (rule or_small) (use 2 in simp_all)
    have "header len = le16 h" using 2 by (simp add: header_def h_def)
    with low_bits_of_byte [OF h] unat_drop_2 [OF h] assms(2) show ?thesis
      by (simp add: decode_head_def header_value_def le16_def join_bytes_16 Let_def del: drop_bit_or)
  next
    case 3
    define h :: u32 where "h = word_of_nat (len * 4) OR word_of_nat 2"
    have h: "unat h = 4 * len + 2" unfolding h_def by (rule or_small) (use 3 in simp_all)
    have m: "(0xFFFF :: u32) = mask 16" by (simp add: mask_eq_exp_minus_1)
    have bytes: "ucast (ucast (h AND 0xFFFF) :: u16) = (ucast h :: u8)"
      "ucast (drop_bit 8 (ucast (h AND 0xFFFF) :: u16)) = (ucast (drop_bit 8 h) :: u8)"
      unfolding m by (rule bit_word_eqI; auto simp: bit_simps)+
    have "header len = [ucast h, ucast (drop_bit 8 h), ucast (drop_bit 16 h)]"
      unfolding bytes [symmetric] using 3 by (simp add: header_def h_def Let_def le16_def)
    with low_bits_of_byte [OF h] unat_drop_2 [OF h] assms(2) join_bytes_24 [of h] h 3 show ?thesis
      by (simp add: decode_head_def header_value_def Let_def del: drop_bit_or)
  next
    case 4
    define h :: u32 where "h = word_of_nat (len * 4) OR word_of_nat 3"
    have h: "unat h = 4 * len + 3" unfolding h_def by (rule or_small) (use assms(1) in simp_all)
    have "header len = le32 h" using 4 by (simp add: header_def h_def)
    with low_bits_of_byte [OF h] unat_drop_2 [OF h] assms(2) show ?thesis
      by (simp add: decode_head_def header_value_def le32_def join_bytes_32 Let_def
          del: drop_bit_or)
  qed
qed

section \<open>Streams\<close>

text \<open>
  The read side calls \<open>decode\<close> on the receive buffer until it answers \<open>Ok(None)\<close> or an error,
  then waits for more bytes. \<open>drain_buffer\<close> is that loop: packets, error if any, codec, rest.
\<close>

definition buffer_measure :: "bytes_codec \<Rightarrow> u8 list \<Rightarrow> nat" where
  "buffer_measure c s = 2 * length s + (case bc_state c of Head \<Rightarrow> 0 | Data _ \<Rightarrow> 1)"

lemma decode_head_shrinks:
  "decode_head c s = Inr (Some (n, rest, r)) \<Longrightarrow> length rest < length s"
  by (auto simp: decode_head_def Let_def split: if_splits)

lemma decode_Some_shrinks:
  assumes "decode c s = Inr (Some p, c', s')"
  shows "buffer_measure c' s' < buffer_measure c s"
  using assms
  by (auto simp: decode_def decode_data_def buffer_measure_def dest!: decode_head_shrinks
      split: if_splits decode_state.splits sum.splits option.splits prod.splits)

function drain_buffer ::
    "bytes_codec \<Rightarrow> u8 list \<Rightarrow> u8 list list \<times> io_error option \<times> bytes_codec \<times> u8 list" where
  "drain_buffer c s =
     (case decode c s of
        Inl e \<Rightarrow> ([], Some e, c, s)
      | Inr (None, c', s') \<Rightarrow> ([], None, c', s')
      | Inr (Some p, c', s') \<Rightarrow> (case drain_buffer c' s' of (ps, r) \<Rightarrow> (p # ps, r)))"
  by pat_completeness auto
termination
  by (relation "measure (\<lambda>(c, s). buffer_measure c s)") (auto intro: decode_Some_shrinks)

declare drain_buffer.simps [simp del]

text \<open>Bytes arrive in arbitrary chunks; an error ends the stream.\<close>

fun receive ::
    "bytes_codec \<Rightarrow> u8 list \<Rightarrow> u8 list list \<Rightarrow>
     u8 list list \<times> io_error option \<times> bytes_codec \<times> u8 list" where
  "receive c buf [] = ([], None, c, buf)"
| "receive c buf (chunk # chunks) =
     (case drain_buffer c (buf @ chunk) of
        (ps, Some e, c', buf') \<Rightarrow> (ps, Some e, c', buf' @ concat chunks)
      | (ps, None, c', buf') \<Rightarrow> (case receive c' buf' chunks of (qs, r) \<Rightarrow> (ps @ qs, r)))"

text \<open>Decoding never looks past what it consumes: more input does not change a finished step.\<close>

lemma header_value_append:
  assumes "0 < k" "k \<le> length s"
  shows "header_value k (s @ t) = header_value k s"
proof -
  have "i < k \<Longrightarrow> (s @ t) ! i = s ! i" for i
    using assms by (simp add: nth_append)
  with assms(1) show ?thesis by (simp add: header_value_def Let_def cong: if_cong)
qed

lemma decode_head_append:
  assumes "decode_head c s \<noteq> Inr None"
  shows "decode_head c (s @ t) =
           map_sum id (map_option (\<lambda>(n, rest, r). (n, rest @ t,
             min (n - length (rest @ t)) MAX_PREALLOCATED_PAYLOAD_LEN))) (decode_head c s)"
proof -
  let ?k = "unat (s ! 0 AND 3) + 1"
  have ne: "s \<noteq> []" and k: "?k \<le> length s"
    using assms by (auto simp: decode_head_def Let_def split: if_splits)
  have first: "(s @ t) ! 0 = s ! 0" using ne by (simp add: nth_append)
  have val: "header_value ?k (s @ t) = header_value ?k s"
    by (rule header_value_append) (use k in simp_all)
  have "\<not> length (s @ t) < ?k" "\<not> length s < ?k" using k by simp_all
  with ne k show ?thesis
    unfolding decode_head_def Let_def first val by simp
qed

lemma decode_head_maxlen [simp]:
  "decode_head (c\<lparr>bc_state := x\<rparr>) s = decode_head c s"
  by (simp add: decode_head_def)

lemma decode_in_Head:
  assumes "\<not> bc_raw c" "bc_state c = Head"
  shows "decode c s =
    (case decode_head c s of
       Inl e \<Rightarrow> Inl e
     | Inr None \<Rightarrow> Inr (None, c, s)
     | Inr (Some (n, rest, _)) \<Rightarrow>
         (if length rest < n then Inr (None, c\<lparr>bc_state := Data n\<rparr>, rest)
          else Inr (Some (take n rest), c, drop n rest)))"
  using assms by (auto simp: decode_def decode_data_def split: sum.splits option.splits)

lemma decode_in_Data:
  assumes "\<not> bc_raw c" "bc_state c = Data n"
  shows "decode c s = (if length s < n then Inr (None, c, s)
                       else Inr (Some (take n s), c\<lparr>bc_state := Head\<rparr>, drop n s))"
  using assms by (simp add: decode_def decode_data_def)

lemmas decode_cases = decode_in_Head decode_in_Data

lemma decode_append_Some:
  assumes "decode c s = Inr (Some p, c', s')" "\<not> bc_raw c"
  shows "decode c (s @ t) = Inr (Some p, c', s' @ t)"
proof (cases "bc_state c")
  case Head
  with assms show ?thesis
    by (cases "decode_head c s")
      (auto simp: decode_cases decode_head_append split: option.splits if_splits)
qed (use assms in \<open>auto simp: decode_cases split: if_splits\<close>)

lemma decode_append_error:
  assumes "decode c s = Inl e"
  shows "decode c (s @ t) = Inl e"
proof -
  have raw: "\<not> bc_raw c" using assms by (auto simp: decode_def split: if_splits)
  show ?thesis
  proof (cases "bc_state c")
    case Head
    with assms raw show ?thesis
      by (cases "decode_head c s")
        (auto simp: decode_cases decode_head_append split: option.splits if_splits)
  qed (use assms raw in \<open>auto simp: decode_cases split: if_splits\<close>)
qed

lemma decode_append_None:
  assumes "decode c s = Inr (None, c', s')" "\<not> bc_raw c"
  shows "decode c (s @ t) = decode c' (s' @ t) \<and> (c' = c \<and> s' = s \<or> (\<forall>e u. decode c' u \<noteq> Inl e))"
proof (cases "bc_state c")
  case Head
  with assms show ?thesis
    by (cases "decode_head c s")
      (auto simp: decode_cases decode_head_append split: option.splits if_splits)
qed (use assms in \<open>auto simp: decode_cases split: if_splits\<close>)

lemma decode_raw_flag:
  "decode c s = Inr (x, c', s') \<Longrightarrow> bc_raw c' = bc_raw c \<and> max_packet_length c' = max_packet_length c"
  by (auto simp: decode_def
      split: if_splits decode_state.splits sum.splits option.splits prod.splits)

lemma drain_buffer_raw_flag:
  "drain_buffer c s = (ps, e, c', s') \<Longrightarrow> bc_raw c' = bc_raw c \<and> max_packet_length c' = max_packet_length c"
proof (induction c s arbitrary: ps rule: drain_buffer.induct)
  case (1 c s)
  then show ?case
    by (auto simp: drain_buffer.simps [of c s] dest: decode_raw_flag
        split: sum.splits option.splits prod.splits)
qed

text \<open>Draining a prefix first and the rest later gives what draining everything gives.\<close>

lemma drain_buffer_append:
  assumes "\<not> bc_raw c"
  shows "drain_buffer c (s @ t) =
    (case drain_buffer c s of
       (ps, Some e, c', s') \<Rightarrow> (ps, Some e, c', s' @ t)
     | (ps, None, c', s') \<Rightarrow> (case drain_buffer c' (s' @ t) of (qs, r) \<Rightarrow> (ps @ qs, r)))"
  using assms
proof (induction c s rule: drain_buffer.induct)
  case (1 c s)
  show ?case
  proof (cases "decode c s")
    case (Inl e)
    then show ?thesis
      by (simp add: drain_buffer.simps [of c s] drain_buffer.simps [of c "s @ t"] decode_append_error)
  next
    case (Inr r)
    obtain x c' s' where r: "r = (x, c', s')" by (cases r)
    show ?thesis
    proof (cases x)
      case None
      with Inr r decode_append_None [of c s c' s' t] "1.prems"
      have "drain_buffer c (s @ t) = drain_buffer c' (s' @ t)"
        by (auto simp: drain_buffer.simps [of c "s @ t"] drain_buffer.simps [of c' "s' @ t"]
            split: sum.splits)
      with None Inr r show ?thesis by (simp add: drain_buffer.simps [of c s])
    next
      case (Some p)
      from Inr r Some "1.prems" have "\<not> bc_raw c'" using decode_raw_flag by blast
      with "1.IH" Inr r Some have IH: "drain_buffer c' (s' @ t) =
        (case drain_buffer c' s' of
           (ps, Some e, c', s') \<Rightarrow> (ps, Some e, c', s' @ t)
         | (ps, None, c', s') \<Rightarrow> (case drain_buffer c' (s' @ t) of (qs, r) \<Rightarrow> (ps @ qs, r)))"
        by blast
      from Inr r Some "1.prems" have "decode c (s @ t) = Inr (Some p, c', s' @ t)"
        by (simp add: decode_append_Some)
      with Inr r Some IH show ?thesis
        by (simp add: drain_buffer.simps [of c s] drain_buffer.simps [of c "s @ t"]
            split: prod.splits option.splits)
    qed
  qed
qed

section \<open>Properties\<close>

text \<open>Encoding a list of payloads into one buffer stops at the first that is too long.\<close>

fun encode_all :: "bytes_codec \<Rightarrow> u8 list list \<Rightarrow> u8 list \<Rightarrow> io_error + u8 list" where
  "encode_all c [] buf = Inr buf"
| "encode_all c (p # ps) buf =
     (case encode c p buf of Inl e \<Rightarrow> Inl e | Inr buf' \<Rightarrow> encode_all c ps buf')"

lemma encode_ok_length: "encode c p buf = Inr b \<Longrightarrow> \<not> bc_raw c \<Longrightarrow> length p \<le> 0x3FFFFFFF"
  by (auto simp: encode_def Let_def split: if_splits)

lemma encode_all_wire:
  assumes "encode_all c ps buf = Inr wire" "\<not> bc_raw c"
  shows "wire = buf @ concat (map (\<lambda>p. header (length p) @ p) ps) \<and>
         (\<forall>p \<in> set ps. length p \<le> 0x3FFFFFFF)"
  using assms
proof (induction ps arbitrary: buf)
  case (Cons p ps)
  then obtain b where b: "encode c p buf = Inr b" "encode_all c ps b = Inr wire"
    by (auto split: sum.splits)
  have "length p \<le> 0x3FFFFFFF" using b(1) Cons.prems(2) by (rule encode_ok_length)
  with b Cons.IH [OF b(2)] Cons.prems(2) encode_header show ?case by auto
qed simp

lemma drain_buffer_frames:
  assumes "\<not> bc_raw c" "bc_state c = Head"
    and "\<forall>p \<in> set ps. length p \<le> 0x3FFFFFFF \<and> length p \<le> max_packet_length c"
  shows "drain_buffer c (concat (map (\<lambda>p. header (length p) @ p) ps)) = (ps, None, c, [])"
  using assms(3)
proof (induction ps)
  case Nil
  then show ?case
    by (simp add: drain_buffer.simps [of c "[]"] decode_in_Head [OF assms(1,2)] decode_head_def)
next
  case (Cons p ps)
  let ?r = "concat (map (\<lambda>p. header (length p) @ p) ps)"
  have "decode c (header (length p) @ p @ ?r) = Inr (Some p, c, ?r)"
    using Cons.prems by (simp add: decode_in_Head [OF assms(1,2)] decode_head_header)
  with Cons show ?case by (simp add: drain_buffer.simps [of c "header (length p) @ p @ ?r"])
qed

lemma receive_eq_drain:
  assumes "\<not> bc_raw c" "drain_buffer c (buf @ concat chunks) = (ps, None, c', buf')" "chunks \<noteq> []"
  shows "receive c buf chunks = (ps, None, c', buf')"
  using assms
proof (induction chunks arbitrary: c buf ps)
  case (Cons chunk chunks)
  obtain qs e d rest where d: "drain_buffer c (buf @ chunk) = (qs, e, d, rest)"
    by (metis prod_cases4)
  have raw: "\<not> bc_raw d" using drain_buffer_raw_flag [OF d] Cons.prems(1) by simp
  show ?case
  proof (cases "chunks = []")
    case True
    with Cons.prems d show ?thesis by simp
  next
    case False
    with Cons.prems(2) d drain_buffer_append [OF Cons.prems(1), of "buf @ chunk" "concat chunks"]
    obtain rs where e: "e = None" and "drain_buffer d (rest @ concat chunks) = (rs, None, c', buf')"
      and ps: "ps = qs @ rs"
      by (auto split: option.splits prod.splits)
    with Cons.IH [OF raw] False have "receive d rest chunks = (rs, None, c', buf')" by blast
    with d e ps show ?thesis by simp
  qed
qed simp

lemma decode_bounded:
  assumes "decode c s = Inr (x, c', s')" "\<not> bc_raw c"
    and "\<And>n. bc_state c = Data n \<Longrightarrow> n \<le> max_packet_length c"
  shows "(\<forall>p. x = Some p \<longrightarrow> length p \<le> max_packet_length c) \<and>
         (\<forall>n. bc_state c' = Data n \<longrightarrow> n \<le> max_packet_length c')"
proof (cases "bc_state c")
  case Head
  have "n \<le> max_packet_length c" if "decode_head c s = Inr (Some (n, r))" for n r
    using that by (auto simp: decode_head_def Let_def split: if_splits)
  with Head assms show ?thesis
    by (cases "decode_head c s") (fastforce simp: decode_cases split: option.splits if_splits)+
qed (use assms in \<open>auto simp: decode_cases split: if_splits\<close>)

text \<open>C5: whatever the chunks the transport cuts the byte stream into, the receiver gets exactly
  the payloads that were encoded, in order, keeps nothing back and is ready for the next header.\<close>

theorem stream_roundtrip:
  assumes "encode_all c ps [] = Inr wire"
    and "concat chunks = wire" "chunks \<noteq> []"
    and "\<not> bc_raw c" "bc_state c = Head" "\<forall>p \<in> set ps. length p \<le> max_packet_length c"
  shows "receive c [] chunks = (ps, None, c, [])"
proof -
  have "wire = concat (map (\<lambda>p. header (length p) @ p) ps)" "\<forall>p \<in> set ps. length p \<le> 0x3FFFFFFF"
    using encode_all_wire [OF assms(1,4)] by simp_all
  with assms drain_buffer_frames [OF assms(4,5)] show ?thesis
    by (intro receive_eq_drain) simp_all
qed

theorem stream_roundtrip_witness:
  "receive bytes_codec_new [] [[8, 1], [2, 4], [7]] = ([[1, 2], [7]], None, bytes_codec_new, [])"
  by (rule stream_roundtrip [where wire = "[8, 1, 2, 4, 7]"])
    (simp_all add: bytes_codec_new_def encode_def usize_max_def)



end
