(* ===== verification/ConfigStore.thy ===== *)
theory ConfigStore
  imports RD_Prelude Complex_Main
begin

text \<open>
  Layered settings of \<open>libs/hbb_common/src/config.rs\<close>: a lookup goes through the overwriting
  settings of a custom client, the user's saved options and the defaults, in that order
  (\<open>get_or\<close>), and a save is refused where it could have no effect (\<open>is_option_can_save\<close>).
  The static \<open>RwLock\<close> cells are the fields of one state record; \<open>config.store()\<close> copies a
  configuration to the field that stands for its file, as a later load reads it back (the
  encryption of the stored secrets is in theory PasswordSecurity).
\<close>

section \<open>State\<close>

type_synonym strmap = "string \<Rightarrow> string option"

record config2 =
  rendezvous_server :: string
  nat_type :: int
  serial :: int
  unlock_pin :: string
  trusted_devices :: string
  c2_options :: strmap

record local_config =
  remote_id :: string
  kb_layout_type :: string
  lc_size :: "int \<times> int \<times> int \<times> int"
  fav :: "string list"
  local_options :: strmap
  local_ui_flutter :: strmap

record config_state =
  overwrite_settings :: strmap
  default_settings :: strmap
  overwrite_local_settings :: strmap
  default_local_settings :: strmap
  overwrite_display_settings :: strmap
  default_display_settings :: strmap
  hard_settings :: strmap
  builtin_settings :: strmap
  exe_rendezvous_server :: string
  prod_rendezvous_server :: string
  config_id :: string
  config2 :: config2
  config2_file :: config2
  local_conf :: local_config
  local_conf_file :: local_config
  user_default :: strmap
  user_default_file :: strmap
  status_values :: strmap
  online :: "(string \<times> int) list"

definition unwrap_or_default :: "string option \<Rightarrow> string" where
  "unwrap_or_default v = (case v of None \<Rightarrow> [] | Some s \<Rightarrow> s)"

section \<open>Lookup and admission\<close>

definition get_or :: "strmap \<Rightarrow> strmap \<Rightarrow> strmap \<Rightarrow> string \<Rightarrow> string option" where
  "get_or a b c k =
     (case a k of Some v \<Rightarrow> Some v | None \<Rightarrow> (case b k of Some v \<Rightarrow> Some v | None \<Rightarrow> c k))"

definition is_option_can_save :: "strmap \<Rightarrow> string \<Rightarrow> strmap \<Rightarrow> string \<Rightarrow> bool" where
  "is_option_can_save overwrite k defaults v \<longleftrightarrow>
     \<not> (overwrite k \<noteq> None \<or> (case defaults k of None \<Rightarrow> False | Some x \<Rightarrow> x = v))"

text \<open>The part shared by \<open>Config::set_option\<close> and \<open>LocalConfig::set_option\<close>: the options after
  writing \<open>v\<close>, and whether the configuration was stored.\<close>

definition write_option :: "strmap \<Rightarrow> string \<Rightarrow> string \<Rightarrow> strmap \<times> bool" where
  "write_option opts k v =
     (let v2 = (if v = [] then None else Some v)
      in if v2 \<noteq> opts k then (opts(k := v2), True) else (opts, False))"

definition remove_option :: "strmap \<Rightarrow> string \<Rightarrow> strmap \<times> bool" where
  "remove_option opts k = (opts(k := None), opts k \<noteq> None)"

section \<open>Config\<close>

definition config2_put :: "config_state \<Rightarrow> config2 \<Rightarrow> bool \<Rightarrow> config_state" where
  "config2_put s c stored =
     (if stored then s\<lparr>config2 := c, config2_file := c\<rparr> else s\<lparr>config2 := c\<rparr>)"

definition get_options :: "config_state \<Rightarrow> strmap" where
  "get_options s = default_settings s ++ c2_options (config2 s) ++ overwrite_settings s"

definition purify_options :: "config_state \<Rightarrow> strmap \<Rightarrow> strmap" where
  "purify_options s v =
     (\<lambda>k. case v k of None \<Rightarrow> None
        | Some x \<Rightarrow> if is_option_can_save (overwrite_settings s) k (default_settings s) x
                    then Some x else None)"

definition set_options :: "strmap \<Rightarrow> config_state \<Rightarrow> config_state" where
  "set_options v s =
     (let v' = purify_options s v; c = config2 s
      in if c2_options c = v' then s else config2_put s (c\<lparr>c2_options := v'\<rparr>) True)"

definition get_option :: "config_state \<Rightarrow> string \<Rightarrow> string" where
  "get_option s k =
     unwrap_or_default
       (get_or (overwrite_settings s) (c2_options (config2 s)) (default_settings s) k)"

definition set_option :: "string \<Rightarrow> string \<Rightarrow> config_state \<Rightarrow> config_state" where
  "set_option k v s =
     (let c = config2 s;
          (opts, stored) =
            (if \<not> is_option_can_save (overwrite_settings s) k (default_settings s) v
             then remove_option (c2_options c) k
             else write_option (c2_options c) k v)
      in config2_put s (c\<lparr>c2_options := opts\<rparr>) stored)"

definition option2bool :: "string \<Rightarrow> string \<Rightarrow> bool" where
  "option2bool option value =
     (if starts_with option ''enable-'' then value \<noteq> ''N''
      else if starts_with option ''allow-'' \<or> option = ''stop-service''
              \<or> option = ''direct-server'' \<or> option = ''force-always-relay''
      then value = ''Y''
      else value \<noteq> ''N'')"

definition get_bool_option :: "config_state \<Rightarrow> string \<Rightarrow> bool" where
  "get_bool_option s k = option2bool k (get_option s k)"

definition use_ws :: "config_state \<Rightarrow> bool" where
  "use_ws s = option2bool ''allow-websocket'' (get_option s ''allow-websocket'')"

definition set_nat_type :: "int \<Rightarrow> config_state \<Rightarrow> config_state" where
  "set_nat_type n s =
     (if n = nat_type (config2 s) then s else config2_put s ((config2 s)\<lparr>nat_type := n\<rparr>) True)"

definition SERIAL :: int where "SERIAL = 3"

definition set_serial :: "int \<Rightarrow> config_state \<Rightarrow> config_state" where
  "set_serial n s =
     (if n = serial (config2 s) then s else config2_put s ((config2 s)\<lparr>serial := n\<rparr>) True)"

definition get_serial :: "config_state \<Rightarrow> int" where
  "get_serial s = max (serial (config2 s)) SERIAL"

definition is_disable_unlock_pin :: "config_state \<Rightarrow> bool" where
  "is_disable_unlock_pin s = (builtin_settings s ''disable-unlock-pin'' = Some ''Y'')"

definition get_unlock_pin :: "config_state \<Rightarrow> string" where
  "get_unlock_pin s = (if is_disable_unlock_pin s then [] else unlock_pin (config2 s))"

definition set_unlock_pin :: "string \<Rightarrow> config_state \<Rightarrow> config_state" where
  "set_unlock_pin pin s =
     (if is_disable_unlock_pin s then s
      else if pin = unlock_pin (config2 s) then s
      else config2_put s ((config2 s)\<lparr>unlock_pin := pin\<rparr>) True)"

definition is_incoming_only :: "config_state \<Rightarrow> bool" where
  "is_incoming_only s = (hard_settings s ''conn-type'' = Some ''incoming'')"

definition is_outgoing_only :: "config_state \<Rightarrow> bool" where
  "is_outgoing_only s = (hard_settings s ''conn-type'' = Some ''outgoing'')"

definition is_some_hard_opton :: "config_state \<Rightarrow> string \<Rightarrow> bool" where
  "is_some_hard_opton s name = (hard_settings s name = Some ''Y'')"

section \<open>Rendezvous servers\<close>

definition RENDEZVOUS_SERVERS :: "string list" where
  "RENDEZVOUS_SERVERS = [''rs-ny.rustdesk.com'']"

definition RENDEZVOUS_PORT :: nat where "RENDEZVOUS_PORT = 21116"

definition get_rendezvous_servers :: "config_state \<Rightarrow> string list" where
  "get_rendezvous_servers s =
     (let exe = exe_rendezvous_server s in
      if exe \<noteq> [] then [exe]
      else
        let custom = get_option s ''custom-rendezvous-server'' in
        if custom \<noteq> [] then [custom]
        else
          let prod = prod_rendezvous_server s in
          if prod \<noteq> [] then [prod]
          else
            let ss = (if serial (config2 s) > SERIAL
                      then [x \<leftarrow> str_split (CHR '','') (get_option s ''rendezvous-servers'').
                              CHR ''.'' \<in> set x]
                      else [])
            in if ss \<noteq> [] then ss else RENDEZVOUS_SERVERS)"

definition get_rendezvous_server :: "config_state \<Rightarrow> string" where
  "get_rendezvous_server s =
     (let r = exe_rendezvous_server s;
          r = (if r = [] then get_option s ''custom-rendezvous-server'' else r);
          r = (if r = [] then prod_rendezvous_server s else r);
          r = (if r = [] then rendezvous_server (config2 s) else r);
          r = (if r = [] then
                 (case get_rendezvous_servers s of [] \<Rightarrow> [] | x # _ \<Rightarrow> x) else r)
      in if CHR '':'' \<in> set r then r else r @ '':'' @ dec_nat RENDEZVOUS_PORT)"

text \<open>\<open>ONLINE\<close> is a hash map; the model lists its entries in iteration order.\<close>

definition reset_online :: "config_state \<Rightarrow> config_state" where
  "reset_online s = s\<lparr>online := []\<rparr>"

fun online_insert :: "string \<Rightarrow> int \<Rightarrow> (string \<times> int) list \<Rightarrow> (string \<times> int) list" where
  "online_insert h l [] = [(h, l)]"
| "online_insert h l ((h', l') # r) =
     (if h' = h then (h, l) # r else (h', l') # online_insert h l r)"

fun best_host :: "string \<times> int \<Rightarrow> (string \<times> int) list \<Rightarrow> string \<times> int" where
  "best_host acc [] = acc"
| "best_host (host, delay) ((h, d) # r) =
     best_host (if d > 0 \<and> d < delay then (h, d) else (host, delay)) r"

definition update_latency :: "string \<Rightarrow> int \<Rightarrow> config_state \<Rightarrow> config_state" where
  "update_latency h latency s =
     (let s1 = s\<lparr>online := online_insert h latency (online s)\<rparr>;
          host = fst (best_host ([], 2 ^ 63 - 1) (online s1))
      in if host \<noteq> [] \<and> host \<noteq> rendezvous_server (config2 s1)
         then config2_put s1 ((config2 s1)\<lparr>rendezvous_server := host\<rparr>) True
         else s1)"

definition get_online_state :: "config_state \<Rightarrow> int" where
  "get_online_state s = (case map snd (online s) of [] \<Rightarrow> 0 | v # vs \<Rightarrow> fold max vs v)"

section \<open>LocalConfig\<close>

definition local_put :: "config_state \<Rightarrow> local_config \<Rightarrow> bool \<Rightarrow> config_state" where
  "local_put s c stored =
     (if stored then s\<lparr>local_conf := c, local_conf_file := c\<rparr> else s\<lparr>local_conf := c\<rparr>)"

definition local_get_option :: "config_state \<Rightarrow> string \<Rightarrow> string" where
  "local_get_option s k =
     unwrap_or_default
       (get_or (overwrite_local_settings s) (local_options (local_conf s))
          (default_local_settings s) k)"

definition local_set_option :: "string \<Rightarrow> string \<Rightarrow> config_state \<Rightarrow> config_state" where
  "local_set_option k v s =
     (let c = local_conf s;
          (opts, stored) =
            (if \<not> is_option_can_save (overwrite_local_settings s) k (default_local_settings s) v
             then remove_option (local_options c) k
             else if k = ''lang'' \<and> v = ''default'' then ((local_options c)(k \<mapsto> []), True)
             else write_option (local_options c) k v)
      in local_put s (c\<lparr>local_options := opts\<rparr>) stored)"

definition local_get_bool_option :: "config_state \<Rightarrow> string \<Rightarrow> bool" where
  "local_get_bool_option s k = option2bool k (local_get_option s k)"

definition local_get_flutter_option :: "config_state \<Rightarrow> string \<Rightarrow> string" where
  "local_get_flutter_option s k =
     unwrap_or_default
       (get_or (overwrite_local_settings s) (local_ui_flutter (local_conf s))
          (default_local_settings s) k)"

definition local_set_flutter_option :: "string \<Rightarrow> string \<Rightarrow> config_state \<Rightarrow> config_state" where
  "local_set_flutter_option k v s =
     (let c = local_conf s; (opts, stored) = write_option (local_ui_flutter c) k v
      in local_put s (c\<lparr>local_ui_flutter := opts\<rparr>) stored)"

definition local_set_size :: "int \<Rightarrow> int \<Rightarrow> int \<Rightarrow> int \<Rightarrow> config_state \<Rightarrow> config_state" where
  "local_set_size x y w h s =
     (if (x, y, w, h) = lc_size (local_conf s) \<or> w < 300 \<or> h < 300 then s
      else local_put s ((local_conf s)\<lparr>lc_size := (x, y, w, h)\<rparr>) True)"

definition local_set_remote_id :: "string \<Rightarrow> config_state \<Rightarrow> config_state" where
  "local_set_remote_id i s =
     (if i = remote_id (local_conf s) then s
      else local_put s ((local_conf s)\<lparr>remote_id := i\<rparr>) True)"

definition local_set_fav :: "string list \<Rightarrow> config_state \<Rightarrow> config_state" where
  "local_set_fav f s =
     (if fav (local_conf s) = f then s else local_put s ((local_conf s)\<lparr>fav := f\<rparr>) True)"

section \<open>Status\<close>

definition status_get :: "config_state \<Rightarrow> string \<Rightarrow> string" where
  "status_get s k = unwrap_or_default (status_values s k)"

definition status_set :: "string \<Rightarrow> string \<Rightarrow> config_state \<Rightarrow> config_state" where
  "status_set k v s =
     (if status_get s k = v then s else s\<lparr>status_values := (status_values s)(k \<mapsto> v)\<rparr>)"

section \<open>UserDefaultConfig\<close>

definition user_default_get_after :: "config_state \<Rightarrow> string \<Rightarrow> string option" where
  "user_default_get_after s k =
     get_or (overwrite_display_settings s) (user_default s) (default_display_settings s) k"

definition user_default_get_string ::
    "config_state \<Rightarrow> string \<Rightarrow> string \<Rightarrow> string list \<Rightarrow> string" where
  "user_default_get_string s key dflt others =
     (case user_default_get_after s key of
        Some option \<Rightarrow> if option \<in> set others then option else dflt
      | None \<Rightarrow> dflt)"

text \<open>\<open>T: FromStr + ToString + PartialOrd\<close>: the instance is given by its parser and printer.\<close>

definition user_default_get_num_string ::
    "(string \<Rightarrow> 'n option) \<Rightarrow> ('n \<Rightarrow> string) \<Rightarrow> config_state \<Rightarrow> string \<Rightarrow>
     'n::linorder \<Rightarrow> 'n \<Rightarrow> 'n \<Rightarrow> string" where
  "user_default_get_num_string parse to_string s key dflt lo hi =
     (case user_default_get_after s key of
        Some option \<Rightarrow>
          (let v = (case parse option of Some x \<Rightarrow> x | None \<Rightarrow> dflt)
           in if v \<ge> lo \<and> v \<le> hi then to_string v else to_string dflt)
      | None \<Rightarrow> to_string dflt)"

text \<open>\<open>f64\<close> parsing and printing are parameters; a string that does not parse to a finite number
  is \<open>None\<close> (the code then falls back to the default either way).\<close>

definition user_default_get ::
    "(string \<Rightarrow> rat option) \<Rightarrow> (rat \<Rightarrow> string) \<Rightarrow> config_state \<Rightarrow> string \<Rightarrow> string" where
  "user_default_get parse_f64 show_f64 s key =
     (if key = ''view_style'' then user_default_get_string s key ''original'' [''adaptive'']
      else if key = ''scroll_style'' then
        user_default_get_string s key ''scrollauto'' [''scrolledge'', ''scrollbar'']
      else if key = ''image_quality'' then
        user_default_get_string s key ''balanced'' [''best'', ''low'', ''custom'']
      else if key = ''codec-preference'' then
        user_default_get_string s key ''auto'' [''vp8'', ''vp9'', ''av1'', ''h264'', ''h265'']
      else if key = ''custom_image_quality'' then
        user_default_get_num_string parse_f64 show_f64 s key 50 10 4095
      else if key = ''custom-fps'' then
        user_default_get_num_string parse_f64 show_f64 s key 30 5 120
      else if key = ''enable-file-copy-paste'' then
        user_default_get_string s key ''Y'' ['''', ''N'']
      else if key = ''edge-scroll-edge-thickness'' then
        user_default_get_num_string parse_i32 dec_int s key 100 20 150
      else if key = ''trackpad-speed'' then
        user_default_get_num_string parse_i32 dec_int s key 100 10 1000
      else unwrap_or_default (user_default_get_after s key))"

definition user_default_set :: "string \<Rightarrow> string \<Rightarrow> config_state \<Rightarrow> config_state" where
  "user_default_set key v s =
     (if \<not> is_option_can_save (overwrite_display_settings s) key (default_display_settings s) v
      then
        (if user_default s key \<noteq> None
         then s\<lparr>user_default := (user_default s)(key := None),
                user_default_file := (user_default s)(key := None)\<rparr>
         else s)
      else
        let opts = (if v = [] then (user_default s)(key := None) else (user_default s)(key \<mapsto> v))
        in s\<lparr>user_default := opts, user_default_file := opts\<rparr>)"

section \<open>The contract of a layered store\<close>

text \<open>
  What the callers of the three option stores rely on. \<open>fixed\<close> holds the overwriting settings and
  \<open>eff s k v\<close> is the value a saved \<open>v\<close> is read back as: an empty string falls through to the
  default setting.
\<close>

locale option_store =
  fixes get :: "'s \<Rightarrow> string \<Rightarrow> string"
    and set :: "string \<Rightarrow> string \<Rightarrow> 's \<Rightarrow> 's"
    and fixed :: "'s \<Rightarrow> string \<Rightarrow> string option"
    and eff :: "'s \<Rightarrow> string \<Rightarrow> string \<Rightarrow> string"
  assumes get_fixed: "fixed s k = Some w \<Longrightarrow> get s k = w"
    and get_set: "fixed s k = None \<Longrightarrow> get (set k v s) k = eff s k v"
    and get_other: "k \<noteq> k' \<Longrightarrow> get (set k v s) k' = get s k'"
    and fixed_set: "fixed (set k v s) = fixed s"
    and eff_set: "eff (set k v s) = eff s"
begin

lemma fixed_immutable: "fixed s k = Some w \<Longrightarrow> get (set k' v s) k = w"
  by (rule get_fixed) (simp add: fixed_set)

lemma last_write_wins: "get (set k v (set k w s)) k' = get (set k v s) k'"
proof (cases "k = k'")
  case True
  then show ?thesis
    by (cases "fixed s k") (simp_all add: get_set fixed_set eff_set fixed_immutable)
qed (simp add: get_other)

lemma writes_commute:
  assumes "k \<noteq> k'"
  shows "get (set k v (set k' w s)) j = get (set k' w (set k v s)) j"
proof (cases "fixed s j")
  case None
  then show ?thesis using assms
    by (cases "j = k"; cases "j = k'") (simp_all add: get_set get_other fixed_set eff_set)
qed (simp add: fixed_immutable fixed_set)

lemma fold_set_state:
  "fixed (fold (\<lambda>(k, v). set k v) kvs s) = fixed s"
  "eff (fold (\<lambda>(k, v). set k v) kvs s) = eff s"
  by (induction kvs arbitrary: s) (auto simp: fixed_set eff_set)

lemma get_fold_set:
  "get (fold (\<lambda>(k, v). set k v) kvs s) k =
     (case fixed s k of Some w \<Rightarrow> w
      | None \<Rightarrow> (case map_of (rev kvs) k of None \<Rightarrow> get s k | Some v \<Rightarrow> eff s k v))"
proof (induction kvs rule: rev_induct)
  case Nil
  then show ?case by (simp add: get_fixed split: option.split)
next
  case (snoc kv kvs)
  obtain a v where kv: "kv = (a, v)" by (cases kv)
  show ?case
  proof (cases "fixed s k")
    case None
    then show ?thesis using snoc
      by (cases "a = k") (simp_all add: kv get_set get_other fold_set_state)
  next
    case (Some w)
    then show ?thesis by (simp add: kv fixed_immutable fold_set_state)
  qed
qed

end

section \<open>The three stores keep the contract\<close>

definition saved_value :: "strmap \<Rightarrow> string \<Rightarrow> string \<Rightarrow> string" where
  "saved_value defaults k v = (if v = [] then unwrap_or_default (defaults k) else v)"

definition saved_local_value :: "strmap \<Rightarrow> string \<Rightarrow> string \<Rightarrow> string" where
  "saved_local_value defaults k v =
     (if k = ''lang'' \<and> v = ''default'' \<and> defaults k \<noteq> Some v then []
      else saved_value defaults k v)"

lemma config2_put_simps [simp]:
  "config2 (config2_put s c b) = c"
  "overwrite_settings (config2_put s c b) = overwrite_settings s"
  "default_settings (config2_put s c b) = default_settings s"
  "online (config2_put s c b) = online s"
  "local_conf (config2_put s c b) = local_conf s"
  by (simp_all add: config2_put_def)

lemma local_put_simps [simp]:
  "local_conf (local_put s c b) = c"
  "overwrite_local_settings (local_put s c b) = overwrite_local_settings s"
  "default_local_settings (local_put s c b) = default_local_settings s"
  "config2 (local_put s c b) = config2 s"
  by (simp_all add: local_put_def)

text \<open>Either branch of a save leaves the same lookup: the saved value, or nothing.\<close>

lemma fst_write_option [simp]:
  "fst (write_option opts k v) = opts(k := (if v = [] then None else Some v))"
  by (auto simp: write_option_def Let_def)

lemma fst_remove_option [simp]: "fst (remove_option opts k) = opts(k := None)"
  by (simp add: remove_option_def)

lemma set_option_fields [frame_simps]:
  "overwrite_settings (set_option k v s) = overwrite_settings s"
  "default_settings (set_option k v s) = default_settings s"
  "local_conf (set_option k v s) = local_conf s"
  by (simp_all add: set_option_def Let_def case_prod_beta)

lemma set_option_options:
  "c2_options (config2 (set_option k v s)) =
     (c2_options (config2 s))(k := (if \<not> is_option_can_save (overwrite_settings s) k
        (default_settings s) v \<or> v = [] then None else Some v))"
  by (simp add: set_option_def Let_def case_prod_beta)

lemma local_set_option_fields [frame_simps]:
  "overwrite_local_settings (local_set_option k v s) = overwrite_local_settings s"
  "default_local_settings (local_set_option k v s) = default_local_settings s"
  "config2 (local_set_option k v s) = config2 s"
  by (simp_all add: local_set_option_def Let_def case_prod_beta)

lemma local_set_option_options:
  "local_options (local_conf (local_set_option k v s)) =
     (local_options (local_conf s))(k :=
        (if \<not> is_option_can_save (overwrite_local_settings s) k (default_local_settings s) v
         then None
         else if k = ''lang'' \<and> v = ''default'' then Some []
         else if v = [] then None else Some v))"
  by (simp add: local_set_option_def Let_def case_prod_beta)

lemma user_default_set_fields [frame_simps]:
  "overwrite_display_settings (user_default_set k v s) = overwrite_display_settings s"
  "default_display_settings (user_default_set k v s) = default_display_settings s"
  by (simp_all add: user_default_set_def Let_def)

lemma user_default_set_options:
  "user_default (user_default_set k v s) =
     (user_default s)(k := (if \<not> is_option_can_save (overwrite_display_settings s) k
        (default_display_settings s) v \<or> v = [] then None else Some v))"
  by (auto simp: user_default_set_def Let_def)

definition user_default_lookup :: "config_state \<Rightarrow> string \<Rightarrow> string" where
  "user_default_lookup s k = unwrap_or_default (user_default_get_after s k)"

interpretation config_options: option_store get_option set_option overwrite_settings
    "\<lambda>s. saved_value (default_settings s)"
proof unfold_locales
  show "overwrite_settings s k = Some w \<Longrightarrow> get_option s k = w" for s k w
    by (simp add: get_option_def get_or_def unwrap_or_default_def)
  show "overwrite_settings s k = None \<Longrightarrow>
      get_option (set_option k v s) k = saved_value (default_settings s) k v" for s k v
    by (auto simp: get_option_def get_or_def set_option_options frame_simps saved_value_def
        unwrap_or_default_def is_option_can_save_def split: option.splits)
  show "k \<noteq> k' \<Longrightarrow> get_option (set_option k v s) k' = get_option s k'" for k k' v s
    by (simp add: get_option_def set_option_options frame_simps get_or_def split: option.split)
qed (simp_all add: frame_simps)

interpretation local_store: option_store local_get_option local_set_option
    overwrite_local_settings "\<lambda>s. saved_local_value (default_local_settings s)"
proof unfold_locales
  show "overwrite_local_settings s k = Some w \<Longrightarrow> local_get_option s k = w" for s k w
    by (simp add: local_get_option_def get_or_def unwrap_or_default_def)
  show "overwrite_local_settings s k = None \<Longrightarrow>
      local_get_option (local_set_option k v s) k =
      saved_local_value (default_local_settings s) k v" for s k v
    by (auto simp: local_get_option_def get_or_def local_set_option_options frame_simps
        saved_local_value_def saved_value_def unwrap_or_default_def is_option_can_save_def
        split: option.splits)
  show "k \<noteq> k' \<Longrightarrow> local_get_option (local_set_option k v s) k' = local_get_option s k'" for k k' v s
    by (auto simp: local_get_option_def local_set_option_options frame_simps get_or_def
        simp del: fun_upd_apply split: option.split simp add: fun_upd_other)
qed (simp_all add: frame_simps)

interpretation user_defaults: option_store user_default_lookup user_default_set
    overwrite_display_settings "\<lambda>s. saved_value (default_display_settings s)"
proof unfold_locales
  show "overwrite_display_settings s k = Some w \<Longrightarrow> user_default_lookup s k = w" for s k w
    by (simp add: user_default_lookup_def user_default_get_after_def get_or_def unwrap_or_default_def)
  show "overwrite_display_settings s k = None \<Longrightarrow>
      user_default_lookup (user_default_set k v s) k = saved_value (default_display_settings s) k v"
    for s k v
    by (auto simp: user_default_lookup_def user_default_get_after_def get_or_def
        user_default_set_options frame_simps saved_value_def
        unwrap_or_default_def is_option_can_save_def split: option.splits)
  show "k \<noteq> k' \<Longrightarrow> user_default_lookup (user_default_set k v s) k' = user_default_lookup s k'"
    for k k' v s
    by (simp add: user_default_lookup_def user_default_get_after_def user_default_set_options
        frame_simps get_or_def split: option.split)
qed (simp_all add: frame_simps)

section \<open>Properties\<close>

lemma best_host_spec:
  assumes "best_host (h, d) xs = (h', d')"
  shows "((h', d') = (h, d) \<or> (h', d') \<in> set xs \<and> 0 < d') \<and> d' \<le> d \<and>
    (\<forall>(g, e) \<in> set xs. 0 < e \<longrightarrow> d' \<le> e)"
  using assms
proof (induction xs arbitrary: h d)
  case (Cons x xs)
  obtain g e where x: "x = (g, e)" by (cases x)
  show ?case using Cons.IH [of "if e > 0 \<and> e < d then g else h" "if e > 0 \<and> e < d then e else d"]
      Cons.prems by (auto simp: x split: if_splits)
qed simp

lemma online_update_latency:
  "online (update_latency h l s) = online_insert h l (online s)"
  by (simp add: update_latency_def Let_def)

lemma rendezvous_server_update_latency:
  "rendezvous_server (config2 (update_latency h l s)) =
     (let g = fst (best_host ([], 2 ^ 63 - 1) (online_insert h l (online s)))
      in if g = [] then rendezvous_server (config2 s) else g)"
  by (simp add: update_latency_def Let_def)

lemma rendezvous_servers_nonempty:
  "get_rendezvous_servers s \<noteq> []" "[] \<notin> set (get_rendezvous_servers s)"
  by (simp_all add: get_rendezvous_servers_def RENDEZVOUS_SERVERS_def Let_def)

text \<open>The steps that write the second configuration file.\<close>

datatype config_op =
    Op_set_option string string | Op_set_options strmap | Op_set_nat_type int
  | Op_set_serial int | Op_set_unlock_pin string | Op_update_latency string int

fun config_step :: "config_op \<Rightarrow> config_state \<Rightarrow> config_state" where
  "config_step (Op_set_option k v) = set_option k v"
| "config_step (Op_set_options v) = set_options v"
| "config_step (Op_set_nat_type n) = set_nat_type n"
| "config_step (Op_set_serial n) = set_serial n"
| "config_step (Op_set_unlock_pin p) = set_unlock_pin p"
| "config_step (Op_update_latency h l) = update_latency h l"

definition in_sync :: "config_state \<Rightarrow> bool" where
  "in_sync s \<longleftrightarrow> config2_file s = config2 s"

lemma config2_put_in_sync:
  "in_sync s \<Longrightarrow> b \<or> c = config2 s \<Longrightarrow> in_sync (config2_put s c b)"
  by (auto simp: in_sync_def config2_put_def)

lemma stored_or_unchanged:
  "snd (write_option opts k v) \<or> fst (write_option opts k v) = opts"
  "snd (remove_option opts k) \<or> fst (remove_option opts k) = opts"
  by (auto simp: write_option_def remove_option_def Let_def fun_eq_iff; metis not_Some_eq)+

lemma set_option_in_sync: "in_sync s \<Longrightarrow> in_sync (set_option k v s)"
  unfolding set_option_def Let_def case_prod_beta
  using stored_or_unchanged(1) [of "c2_options (config2 s)" k v]
    stored_or_unchanged(2) [of "c2_options (config2 s)" k]
  by (intro config2_put_in_sync) (auto simp del: fst_write_option fst_remove_option)

lemma config_step_in_sync: "in_sync s \<Longrightarrow> in_sync (config_step op s)"
  using set_option_in_sync [of s] by (cases op)
    (auto simp: set_options_def set_nat_type_def set_serial_def
      set_unlock_pin_def update_latency_def Let_def in_sync_def config2_put_def)

text \<open>C16: after any sequence of \<open>Config::set_option\<close> calls, \<open>get_option\<close> returns the overwriting
  setting if there is one, otherwise the last value written to the key (an empty one falling back
  to the default setting), and what it returned before for a key that was never written.\<close>

theorem config_writes_read_back:
  "get_option (fold (\<lambda>(k, v). set_option k v) kvs s) k =
     (case overwrite_settings s k of Some w \<Rightarrow> w
      | None \<Rightarrow> (case map_of (rev kvs) k of None \<Rightarrow> get_option s k
                | Some v \<Rightarrow> if v = [] then unwrap_or_default (default_settings s k) else v))"
  by (simp add: config_options.get_fold_set saved_value_def split: option.split)

text \<open>the bulk read \<open>get_options\<close> agrees with the key-by-key lookup, and a bulk write of
  \<open>set_options\<close> is read back exactly, except that overwriting settings win and missing keys show
  their default.\<close>

theorem bulk_options_agree:
  "unwrap_or_default (get_options s k) = get_option s k \<and>
   get_option (set_options v s) k =
     (case overwrite_settings s k of Some w \<Rightarrow> w
      | None \<Rightarrow> (case v k of Some x \<Rightarrow> x | None \<Rightarrow> unwrap_or_default (default_settings s k)))"
proof (rule conjI)
  show "unwrap_or_default (get_options s k) = get_option s k"
    by (auto simp: get_options_def get_option_def get_or_def map_add_def split: option.split)
  have *: "c2_options (config2 (set_options v s)) = purify_options s v"
    "overwrite_settings (set_options v s) = overwrite_settings s"
    "default_settings (set_options v s) = default_settings s"
    by (simp_all add: set_options_def Let_def)
  show "get_option (set_options v s) k =
     (case overwrite_settings s k of Some w \<Rightarrow> w
      | None \<Rightarrow> (case v k of Some x \<Rightarrow> x | None \<Rightarrow> unwrap_or_default (default_settings s k)))"
    by (auto simp: get_option_def get_or_def * purify_options_def is_option_can_save_def
        unwrap_or_default_def split: option.splits)
qed


definition blank_config :: config_state where
  "blank_config =
     \<lparr>overwrite_settings = Map.empty, default_settings = Map.empty,
      overwrite_local_settings = Map.empty, default_local_settings = Map.empty,
      overwrite_display_settings = Map.empty, default_display_settings = Map.empty,
      hard_settings = Map.empty, builtin_settings = Map.empty, exe_rendezvous_server = [],
      prod_rendezvous_server = [], config_id = [],
      config2 = \<lparr>rendezvous_server = [], nat_type = 0, serial = 0, unlock_pin = [],
                 trusted_devices = [], c2_options = Map.empty\<rparr>,
      config2_file = \<lparr>rendezvous_server = [], nat_type = 0, serial = 0, unlock_pin = [],
                 trusted_devices = [], c2_options = Map.empty\<rparr>,
      local_conf = \<lparr>remote_id = [], kb_layout_type = [], lc_size = (0, 0, 0, 0), fav = [],
                    local_options = Map.empty, local_ui_flutter = Map.empty\<rparr>,
      local_conf_file = \<lparr>remote_id = [], kb_layout_type = [], lc_size = (0, 0, 0, 0), fav = [],
                    local_options = Map.empty, local_ui_flutter = Map.empty\<rparr>,
      user_default = Map.empty, user_default_file = Map.empty, status_values = Map.empty,
      online = []\<rparr>"


text \<open>The rendezvous server handed to the mediator always carries a port and names a host, and
  the candidate list is never empty and never holds an empty name.\<close>

theorem rendezvous_server_wellformed:
  "(\<exists>h. h \<noteq> [] \<and> get_rendezvous_server s \<in> {h, h @ '':21116''}) \<and>
   CHR '':'' \<in> set (get_rendezvous_server s) \<and>
   get_rendezvous_servers s \<noteq> [] \<and> [] \<notin> set (get_rendezvous_servers s)"
proof -
  obtain x xs where "get_rendezvous_servers s = x # xs" "x \<noteq> []"
    using rendezvous_servers_nonempty [of s] by (cases "get_rendezvous_servers s") auto
  moreover have "dec_nat RENDEZVOUS_PORT = ''21116''"
    by (simp add: RENDEZVOUS_PORT_def dec_nat.simps digit_char_def)
  ultimately show ?thesis
    using rendezvous_servers_nonempty [of s]
    by (auto simp: get_rendezvous_server_def Let_def)
qed

text \<open>after a latency report the configured rendezvous server is one of the known hosts, with
  a positive latency no greater than that of any host that answered.\<close>

theorem update_latency_picks_fastest:
  assumes "(g, d) \<in> set (online (update_latency h l s))" "0 < d" "d < 2 ^ 63 - 1"
    and "[] \<notin> fst ` set (online (update_latency h l s))"
  shows "\<exists>e. (rendezvous_server (config2 (update_latency h l s)), e)
               \<in> set (online (update_latency h l s)) \<and> 0 < e \<and> e \<le> d"
proof -
  let ?xs = "online_insert h l (online s)"
  obtain b e where b: "best_host ([], 2 ^ 63 - 1) ?xs = (b, e)" by fastforce
  from best_host_spec [OF b] assms
  have "e \<le> d" "(b, e) \<in> set ?xs" "0 < e"
    by (auto simp: online_update_latency)
  moreover from this assms(4) have "b \<noteq> []"
    by (force simp: online_update_latency)
  ultimately show ?thesis
    by (auto simp: online_update_latency rendezvous_server_update_latency b [simplified] Let_def)
qed

theorem update_latency_picks_fastest_witness:
  "\<exists>e. (rendezvous_server (config2 (update_latency ''b'' 20
            (blank_config\<lparr>online := [(''a'', 35)]\<rparr>))), e)
          \<in> set (online (update_latency ''b'' 20 (blank_config\<lparr>online := [(''a'', 35)]\<rparr>))) \<and>
        0 < e \<and> e \<le> 35"
  by (rule update_latency_picks_fastest [of "''a''"])
    (simp_all add: online_update_latency)

text \<open>A default read through \<open>UserDefaultConfig::get\<close> is always a value the client can use:
  numbers stay in their ranges and styles among the listed ones, whatever the file holds.\<close>

theorem user_default_in_range:
  "(\<exists>q. user_default_get parse show_f s ''custom_image_quality'' = show_f q \<and> 10 \<le> q \<and> q \<le> 4095) \<and>
   (\<exists>q. user_default_get parse show_f s ''custom-fps'' = show_f q \<and> 5 \<le> q \<and> q \<le> 120) \<and>
   (\<exists>n. user_default_get parse show_f s ''trackpad-speed'' = dec_int n \<and> 10 \<le> n \<and> n \<le> 1000) \<and>
   (\<exists>n. user_default_get parse show_f s ''edge-scroll-edge-thickness'' = dec_int n \<and> 20 \<le> n \<and> n \<le> 150) \<and>
   user_default_get parse show_f s ''image_quality'' \<in> {''balanced'', ''best'', ''low'', ''custom''} \<and>
   user_default_get parse show_f s ''view_style'' \<in> {''original'', ''adaptive''}"
proof -
  have num: "\<exists>q. user_default_get_num_string p f s key dflt lo hi = f q \<and> lo \<le> q \<and> q \<le> hi"
    if "lo \<le> dflt" "dflt \<le> hi" for p f and key dflt and lo hi :: "'n :: linorder"
    using that by (auto simp: user_default_get_num_string_def Let_def split: option.split)
  have str: "user_default_get_string s key dflt others \<in> insert dflt (set others)"
    for key dflt others
    by (auto simp: user_default_get_string_def split: option.split)
  have "user_default_get parse show_f s ''image_quality'' \<in> {''balanced'', ''best'', ''low'', ''custom''}"
    "user_default_get parse show_f s ''view_style'' \<in> {''original'', ''adaptive''}"
    using str [of "''image_quality''" "''balanced''" "[''best'', ''low'', ''custom'']"]
      str [of "''view_style''" "''original''" "[''adaptive'']"]
    by (simp_all add: user_default_get_def)
  then show ?thesis by (simp add: user_default_get_def num)
qed

end
