(* ===== verification/AddrMangle.thy ===== *)
theory AddrMangle
  imports RD_Prelude
begin

text \<open>
  The address mangling and version helpers of \<open>libs/hbb_common/src/lib.rs\<close>. An IPv4 address is
  scrambled with the low 32 bits of the clock so that middle boxes do not rewrite it; the clock is an
  argument here. 128-bit arithmetic wraps, as in a release build (\<open>decode\<close> can underflow on bytes no
  encoder produced). Flow label and scope of an IPv6 socket address are not transmitted and not
  modelled.
\<close>

unbundle bit_operations_syntax

section \<open>Little-endian bytes\<close>

fun le_value :: "u8 list \<Rightarrow> nat" where
  "le_value [] = 0"
| "le_value (b # bs) = unat b + 256 * le_value bs"

fun le_bytes :: "nat \<Rightarrow> nat \<Rightarrow> u8 list" where
  "le_bytes 0 x = []"
| "le_bytes (Suc n) x = word_of_nat x # le_bytes n (x div 256)"

lemma length_le_bytes [simp]: "length (le_bytes n x) = n"
  by (induction n arbitrary: x) simp_all

lemma le_value_less: "le_value bs < 256 ^ length bs"
proof (induction bs)
  case (Cons b bs)
  have "unat b < 256" using unsigned_less [of b, where ?'a = nat] by simp
  with Cons show ?case by simp
qed simp

lemma le_value_le_bytes [codec_simps]: "le_value (le_bytes n x) = x mod 256 ^ n"
proof (induction n arbitrary: x)
  case (Suc n)
  have "unat (word_of_nat x :: u8) = x mod 256" by (simp add: unat_of_nat)
  then show ?case using Suc mod_mult2_eq [of x 256 "256 ^ n"] by simp
qed simp

lemma le_bytes_le_value [codec_simps]: "le_bytes (length bs) (le_value bs) = bs"
proof (induction bs)
  case (Cons b bs)
  have "unat b < 256" using unsigned_less [of b, where ?'a = nat] by simp
  moreover have "(word_of_nat (unat b + 256 * le_value bs) :: u8) = b"
    using \<open>unat b < 256\<close>
    by (simp add: word_unat_eq_iff unat_of_nat del: of_nat_add of_nat_mult)
  ultimately show ?case using Cons by simp
qed simp

lemma le_value_append_zeros: "le_value (bs @ replicate k 0) = le_value bs"
proof (induction bs)
  case Nil
  have "le_value (replicate k 0) = 0" by (induction k) simp_all
  then show ?case by simp
qed simp

section \<open>AddrMangle\<close>

datatype socket_addr = V4 "u8 list" u16 | V6 "u8 list" u16

definition wf_addr :: "socket_addr \<Rightarrow> bool" where
  "wf_addr a = (case a of V4 ip _ \<Rightarrow> length ip = 4 | V6 ip _ \<Rightarrow> length ip = 16)"

definition is_loopback6 :: "u8 list \<Rightarrow> bool" where
  "is_loopback6 ip \<longleftrightarrow> ip = replicate 15 0 @ [1]"

text \<open>\<open>Ipv6Addr::to_ipv4\<close>: the compatible (\<open>::a.b.c.d\<close>) and the mapped (\<open>::ffff:a.b.c.d\<close>) forms.\<close>

definition to_ipv4 :: "u8 list \<Rightarrow> u8 list option" where
  "to_ipv4 ip =
     (if take 10 ip = replicate 10 0 \<and> (take 2 (drop 10 ip) = [0, 0] \<or> take 2 (drop 10 ip) = [255, 255])
      then Some (drop 12 ip) else None)"

definition try_into_v4 :: "socket_addr \<Rightarrow> socket_addr" where
  "try_into_v4 addr =
     (case addr of
        V6 ip port \<Rightarrow>
          if \<not> is_loopback6 ip then
            (case to_ipv4 ip of Some v4 \<Rightarrow> V4 v4 port | None \<Rightarrow> addr)
          else addr
      | V4 _ _ \<Rightarrow> addr)"

definition mangle_value :: "u32 \<Rightarrow> u8 list \<Rightarrow> u16 \<Rightarrow> u128" where
  "mangle_value clock ip4 port16 =
     (let tm = (ucast clock :: u128); ip = word_of_nat (le_value ip4); port = (ucast port16 :: u128)
      in push_bit 49 (ip + tm) OR push_bit 17 tm OR (port + (tm AND 0xFFFF)))"

definition strip_padding :: "u8 list \<Rightarrow> u8 list" where
  "strip_padding bytes = rev (dropWhile (\<lambda>b. b = 0) (rev bytes))"

definition addr_encode :: "u32 \<Rightarrow> socket_addr \<Rightarrow> u8 list" where
  "addr_encode clock addr =
     (case try_into_v4 addr of
        V4 ip port \<Rightarrow> strip_padding (le_bytes 16 (unat (mangle_value clock ip port)))
      | V6 ip port \<Rightarrow> ip @ le_bytes 2 (unat port))"

definition unmangle_value :: "u128 \<Rightarrow> u8 list \<times> u16" where
  "unmangle_value number =
     (let tm = drop_bit 17 number AND 0xFFFFFFFF;
          ip = le_bytes 4 (unat (ucast (drop_bit 49 number - tm) :: u32));
          port = (number AND 0xFFFFFF) - (tm AND 0xFFFF)
      in (ip, ucast port))"

definition addr_decode :: "u8 list \<Rightarrow> socket_addr" where
  "addr_decode bytes =
     (if length bytes > 16 then
        if length bytes \<noteq> 18 then V6 (replicate 16 0) 0
        else V6 (take 16 bytes) (word_of_nat (le_value (drop 16 bytes)))
      else
        let padded = bytes @ replicate (16 - length bytes) 0;
            number = (word_of_nat (le_value padded) :: u128);
            (ip, port) = unmangle_value number
        in V4 ip port)"

section \<open>The encoding is injective\<close>

lemma strip_padding_spec: "\<exists>k. bytes = strip_padding bytes @ replicate k 0"
proof -
  let ?t = "takeWhile (\<lambda>b. b = 0) (rev bytes)"
  have "rev bytes = ?t @ dropWhile (\<lambda>b. b = 0) (rev bytes)" by simp
  then have "bytes = strip_padding bytes @ rev ?t"
    unfolding strip_padding_def by (metis rev_append rev_rev_ident)
  moreover have "?t = replicate (length ?t) 0"
    by (rule replicate_length_same [symmetric]) (metis set_takeWhileD)
  ultimately show ?thesis by (metis rev_replicate)
qed

lemma or_as_sum:
  fixes b :: nat
  assumes "b < 2 ^ n" shows "push_bit n a OR b = a * 2 ^ n + b"
proof -
  have "push_bit n a AND b = 0"
  proof (rule bit_eqI)
    fix i
    have "take_bit n b = b" using assms by (simp add: take_bit_nat_eq_self)
    then have "bit b i \<longleftrightarrow> i < n \<and> bit b i" using bit_take_bit_iff [of n b i] by simp
    then show "bit (push_bit n a AND b) i = bit (0::nat) i"
      by (auto simp: bit_simps)
  qed
  then have "push_bit n a OR b = push_bit n a + b"
    by (simp add: disjunctive_add_eq_or)
  then show ?thesis by (simp add: push_bit_eq_mult)
qed

lemma unat_mangle_value:
  assumes "length ip4 = 4"
  shows "unat (mangle_value clock ip4 port) =
    (le_value ip4 + unat clock) * 2 ^ 49 + unat clock * 2 ^ 17
      + (unat port + unat clock mod 2 ^ 16)"
proof -
  let ?ip = "word_of_nat (le_value ip4) :: u128" and ?tm = "ucast clock :: u128"
  have ip: "le_value ip4 < 2 ^ 32" using le_value_less [of ip4] assms by simp
  have tm: "unat clock < 2 ^ 32" "unat port < 2 ^ 16"
    using unsigned_less [of clock, where ?'a = nat] unsigned_less [of port, where ?'a = nat]
    by simp_all
  have u: "unat ?ip = le_value ip4" "unat ?tm = unat clock" "unat (ucast port :: u128) = unat port"
    using ip tm by (simp_all add: unat_of_nat unsigned_ucast_eq take_bit_nat_eq_self)
  have low: "unat (?tm AND 0xFFFF) = unat clock mod 2 ^ 16"
    using take_bit_eq_mask [of 16 ?tm] unsigned_take_bit_eq [of 16 ?tm, where ?'a = nat]
    by (simp add: mask_eq_exp_minus_1 u take_bit_eq_mod)
  have sum1: "unat (?ip + ?tm) = le_value ip4 + unat clock"
    using ip tm by (subst unat_plus_simple [THEN iffD1]) (simp_all add: u word_le_nat_alt unat_word_ariths)
  have sum2: "unat ((ucast port :: u128) + (?tm AND 0xFFFF)) = unat port + unat clock mod 2 ^ 16"
    using tm by (simp add: unat_word_ariths u low)
  have p1: "unat (push_bit 49 (?ip + ?tm)) = (le_value ip4 + unat clock) * 2 ^ 49"
    using ip tm by (subst unsigned_push_bit_eq) (simp add: sum1 take_bit_eq_mod push_bit_eq_mult)
  have p2: "unat (push_bit 17 ?tm) = unat clock * 2 ^ 17"
    using tm by (subst unsigned_push_bit_eq) (simp add: u take_bit_eq_mod push_bit_eq_mult)
  have "unat (mangle_value clock ip4 port) =
      push_bit 49 (le_value ip4 + unat clock) OR
      (push_bit 17 (unat clock) OR (unat port + unat clock mod 2 ^ 16))"
    by (simp only: mangle_value_def Let_def unsigned_or_eq p1 p2 sum2 or.assoc)
      (simp only: push_bit_eq_mult)
  also have "\<dots> = push_bit 49 (le_value ip4 + unat clock) OR
      (unat clock * 2 ^ 17 + (unat port + unat clock mod 2 ^ 16))"
    using tm by (subst or_as_sum) simp_all
  also have "\<dots> = (le_value ip4 + unat clock) * 2 ^ 49 +
      (unat clock * 2 ^ 17 + (unat port + unat clock mod 2 ^ 16))"
    using tm by (subst or_as_sum) simp_all
  finally show ?thesis by simp
qed

lemma unat_and_mask:
  fixes w :: "'a::len word"
  shows "unat (w AND mask n) = unat w mod 2 ^ n"
  unfolding take_bit_eq_mask [symmetric]
  by (subst unsigned_take_bit_eq) (simp only: take_bit_eq_mod)

lemma unat_drop_bit: "unat (drop_bit n w) = unat w div 2 ^ n"
  by (subst unat_drop_bit_eq) (simp only: drop_bit_eq_div)

lemma unmangle_mangle:
  assumes "length ip4 = 4"
  shows "unmangle_value (mangle_value clock ip4 port) = (ip4, port)"
proof -
  define x where "x = mangle_value clock ip4 port"
  have ip: "le_value ip4 < 2 ^ 32" using le_value_less [of ip4] assms by simp
  have tm: "unat clock < 2 ^ 32" and port: "unat port < 2 ^ 16"
    using unsigned_less [of clock, where ?'a = nat] unsigned_less [of port, where ?'a = nat]
    by simp_all
  have x: "unat x = (le_value ip4 + unat clock) * 2 ^ 49 + unat clock * 2 ^ 17
      + (unat port + unat clock mod 2 ^ 16)"
    by (simp add: x_def unat_mangle_value [OF assms])
  have masks: "0xFFFFFFFF = (mask 32 :: u128)" "0xFFFFFF = (mask 24 :: u128)" "0xFFFF = (mask 16 :: u128)"
    by (simp_all add: mask_eq_exp_minus_1)
  have small: "unat port + unat clock mod 2 ^ 16 < 2 ^ 17" using port by simp
  have q: "unat x div 2 ^ 17 = (le_value ip4 + unat clock) * 2 ^ 32 + unat clock"
    using small by (simp add: x)
  let ?t = "drop_bit 17 x AND mask 32"
  have t: "unat ?t = unat clock"
    using tm by (simp only: unat_and_mask unat_drop_bit q mod_mult_self3 mod_less)
  have "unat x div 2 ^ 49 = unat x div 2 ^ 17 div 2 ^ 32" by (simp flip: div_mult2_eq)
  then have "unat (drop_bit 49 x) = le_value ip4 + unat clock"
    using tm by (simp only: unat_drop_bit q) simp
  with t have i: "unat (drop_bit 49 x - ?t) = le_value ip4"
    by (subst unat_sub) (simp_all add: word_le_nat_alt)
  have "le_bytes 4 (le_value ip4) = ip4" using le_bytes_le_value [of ip4] assms by simp
  moreover have "unat (ucast (drop_bit 49 x - ?t) :: u32) = le_value ip4"
    using ip by (simp add: unsigned_ucast_eq i take_bit_nat_eq_self)
  moreover have "(ucast ((x AND mask 24) - (?t AND mask 16)) :: u16) = port"
  proof -
    have hi: "unat (x AND mask 24) =
        ((le_value ip4 + unat clock) * 2 ^ 49 + unat clock * 2 ^ 17 +
          (unat port + unat clock mod 2 ^ 16)) mod 2 ^ 24"
      by (simp only: unat_and_mask x)
    have lo: "unat (?t AND mask 16) = unat clock mod 2 ^ 16"
      by (subst unat_and_mask) (simp only: t)
    define k where "k = (unat clock mod 2 ^ 7) * 2"
    have m: "unat (x AND mask 24) = k * 2 ^ 16 + (unat port + unat clock mod 2 ^ 16)"
    proof -
      let ?A = "le_value ip4 + unat clock" and ?r = "unat port + unat clock mod 2 ^ 16"
      have "?A * 2 ^ 49 + unat clock * 2 ^ 17 + ?r =
          (?A * 2 ^ 25 + unat clock div 2 ^ 7) * 2 ^ 24 + (k * 2 ^ 16 + ?r)"
        by (simp add: k_def algebra_simps) (use mult_div_mod_eq [of 128 "unat clock"] in linarith)
      moreover have "k \<le> 254" by (simp add: k_def)
      then have "k * 2 ^ 16 + ?r < 2 ^ 24" using small by simp
      ultimately show ?thesis by (simp only: hi mod_mult_self3 mod_less)
    qed
    have "unat ((x AND mask 24) - (?t AND mask 16)) = k * 2 ^ 16 + unat port"
      by (subst unat_sub) (simp_all only: word_le_nat_alt m lo)
    then show ?thesis using port
      by (simp add: word_unat_eq_iff unsigned_ucast_eq take_bit_eq_mod)
  qed
  ultimately show ?thesis
    by (simp add: unmangle_value_def Let_def masks flip: x_def)
qed

section \<open>Version strings\<close>

definition i64_or_zero :: "string \<Rightarrow> int" where
  "i64_or_zero x = (case parse_i64 x of Some i \<Rightarrow> i | None \<Rightarrow> 0)"

fun version_parts :: "int \<times> int \<Rightarrow> string list \<Rightarrow> int \<times> int" where
  "version_parts (n, prev) [] = (n, prev)"
| "version_parts (n, prev) (x # xs) =
     (let l = i64_or_zero x in version_parts (as_i64 (n * 1000 + l), l) xs)"

definition get_version_number :: "string \<Rightarrow> int" where
  "get_version_number v =
     (let versions = str_split (CHR ''-'') v;
          (n, prev) = version_parts (0, 0) (str_split (CHR ''.'') (hd versions));
          n = as_i64 (as_i64 (n - prev) + as_i64 (prev * 10))
      in (case tl versions of
            p # _ \<Rightarrow> as_i64 (n + i64_or_zero p)
          | [] \<Rightarrow> n))"

text \<open>Positions are counted from the end of the string, as in the code.\<close>

fun position_of :: "char \<Rightarrow> string \<Rightarrow> nat option" where
  "position_of c [] = None"
| "position_of c (x # xs) = (if x = c then Some 0 else map_option Suc (position_of c xs))"

definition get_version_from_url :: "string \<Rightarrow> string" where
  "get_version_from_url url =
     (let n = length url in
      case position_of (CHR ''-'') (rev url) of
        None \<Rightarrow> []
      | Some a \<Rightarrow>
          (case position_of (CHR ''.'') (rev url) of
             None \<Rightarrow> []
           | Some b \<Rightarrow>
               if a > b then
                 if parse_i32 (drop (n - b) url) \<noteq> None then drop (n - a) url
                 else take (a - b - 1) (drop (n - a) url)
               else drop (n - a) url))"

lemma position_of_append:
  "c \<notin> set xs \<Longrightarrow> position_of c (xs @ c # ys) = Some (length xs)"
  by (induction xs) auto

lemma digit_value_set_dec_nat: "c \<in> set (dec_nat n) \<Longrightarrow> digit_value c \<noteq> None"
proof (induction n rule: dec_nat.induct)
  case (1 n)
  then show ?case
    by (cases "n < 10") (auto simp: dec_nat.simps [of n])
qed

lemma dec_nat_no_separator:
  "CHR ''.'' \<notin> set (dec_nat n)" "CHR ''-'' \<notin> set (dec_nat n)"
  using digit_value_set_dec_nat [of "CHR ''.''" n] digit_value_set_dec_nat [of "CHR ''-''" n]
  by (auto simp: digit_value_def)

lemma i64_or_zero_dec_nat: "int n < 2 ^ 63 \<Longrightarrow> i64_or_zero (dec_nat n) = int n"
  using parse_signed_dec_int [of "- (2 ^ 63)" "int n" "2 ^ 63 - 1"]
  by (simp add: i64_or_zero_def parse_i64_def dec_int_def)

text \<open>The release version \<open>a.b.c\<close>, with an optional patch number \<open>-p\<close>.\<close>

definition version_string :: "nat \<Rightarrow> nat \<Rightarrow> nat \<Rightarrow> nat option \<Rightarrow> string" where
  "version_string a b c p =
     dec_nat a @ CHR ''.'' # dec_nat b @ CHR ''.'' # dec_nat c @
     (case p of None \<Rightarrow> [] | Some q \<Rightarrow> CHR ''-'' # dec_nat q)"

lemma get_version_number_string:
  assumes "a < 1000000" "b < 1000" "c < 1000"
    and "q < 10"
  shows "get_version_number (version_string a b c (if q = 0 then None else Some q)) =
    int (a * 1000000 + b * 1000 + c * 10 + q)"
proof -
  have parts: "version_parts (0, 0) (str_split (CHR ''.'') (dec_nat a @ CHR ''.'' # dec_nat b @
      CHR ''.'' # dec_nat c)) = (int (a * 1000000 + b * 1000 + c), int c)"
    using assms by (simp add: str_split_append str_split_absent dec_nat_no_separator
        i64_or_zero_dec_nat as_i64_id Let_def algebra_simps)
  have nodash: "CHR ''-'' \<notin> set (dec_nat a @ CHR ''.'' # dec_nat b @ CHR ''.'' # dec_nat c)"
    by (simp add: dec_nat_no_separator)
  show ?thesis
  proof (cases "q = 0")
    case True
    then show ?thesis using assms parts
      by (simp add: get_version_number_def version_string_def str_split_absent [OF nodash, simplified]
          as_i64_id)
  next
    case False
    then show ?thesis using assms parts
      str_split_append [OF nodash, of "dec_nat q", simplified]
      by (simp add: get_version_number_def version_string_def str_split_absent dec_nat_no_separator
          as_i64_id i64_or_zero_dec_nat)
  qed
qed

section \<open>Properties\<close>

text \<open>C18: a mangled socket address is decoded to the address it stands for, an IPv4 address in
  its plain form, whatever the clock was when it was encoded, and the encoding never has a length
  the decoder takes for the other family.\<close>

theorem addr_mangle_roundtrip:
  assumes "wf_addr a"
  shows "addr_decode (addr_encode clock a) = try_into_v4 a"
proof -
  have wf: "wf_addr (try_into_v4 a)"
    using assms by (auto simp: wf_addr_def try_into_v4_def to_ipv4_def split: socket_addr.splits)
  show ?thesis
  proof (cases "try_into_v4 a")
    case (V4 ip port)
    let ?m = "mangle_value clock ip port"
    obtain k where k: "le_bytes 16 (unat ?m) = strip_padding (le_bytes 16 (unat ?m)) @ replicate k 0"
      using strip_padding_spec by blast
    then have len: "length (strip_padding (le_bytes 16 (unat ?m))) + k = 16"
      by (metis length_append length_le_bytes length_replicate)
    have "le_value (strip_padding (le_bytes 16 (unat ?m))) = unat ?m"
      using arg_cong [OF k, of le_value] unsigned_less [of ?m, where ?'a = nat]
      by (simp add: le_value_append_zeros le_value_le_bytes)
    with len V4 wf show ?thesis
      by (simp add: addr_decode_def addr_encode_def le_value_append_zeros unmangle_mangle
          wf_addr_def)
  next
    case (V6 ip port)
    then show ?thesis using wf unsigned_less [of port, where ?'a = nat]
      by (simp add: addr_decode_def addr_encode_def wf_addr_def le_value_le_bytes)
  qed
qed

theorem addr_mangle_roundtrip_witness:
  "addr_decode (addr_encode 0xFFFFFFFF (V4 [192, 168, 16, 32] 21116)) =
   try_into_v4 (V4 [192, 168, 16, 32] 21116)"
  by (rule addr_mangle_roundtrip) (simp add: wf_addr_def)

text \<open>Version numbers order releases: between versions whose parts stay in the decimal
  fields the code reserves for them, the number grows exactly with (major, minor, revision, patch).\<close>

theorem version_number_orders_releases:
  assumes "a < 1000000" "b < 1000" "c < 100" "q < 10" "a' < 1000000" "b' < 1000" "c' < 100" "q' < 10"
  shows "get_version_number (version_string a b c (if q = 0 then None else Some q)) <
         get_version_number (version_string a' b' c' (if q' = 0 then None else Some q')) \<longleftrightarrow>
         a < a' \<or> a = a' \<and> (b < b' \<or> b = b' \<and> (c < c' \<or> c = c' \<and> q < q'))"
  using assms get_version_number_string [of a b c q] get_version_number_string [of a' b' c' q']
  by auto

theorem version_number_orders_releases_witness:
  "get_version_number (version_string 1 1 10 None) <
   get_version_number (version_string 1 2 3 None) \<longleftrightarrow>
   (1::nat) < 1 \<or> (1::nat) = 1 \<and> ((1::nat) < 2 \<or> (1::nat) = 2 \<and>
     ((10::nat) < 3 \<or> (10::nat) = 3 \<and> (0::nat) < 0))"
  using version_number_orders_releases [of 1 1 10 0 1 2 3 0] by simp

text \<open>from a release URL the version between the last dash and the file extension is read;
  a last component that is a number belongs to the version.\<close>

theorem version_from_url:
  assumes "CHR ''-'' \<notin> set v" "CHR ''-'' \<notin> set ext" "CHR ''.'' \<notin> set ext"
  shows "get_version_from_url (p @ CHR ''-'' # v @ CHR ''.'' # ext) =
    (if parse_i32 ext \<noteq> None then v @ CHR ''.'' # ext else v)"
proof -
  let ?url = "p @ CHR ''-'' # v @ CHR ''.'' # ext"
  have a: "position_of (CHR ''-'') (rev ?url) = Some (length v + 1 + length ext)"
    using position_of_append [of "CHR ''-''" "rev ext @ CHR ''.'' # rev v" "rev p"] assms by simp
  have b: "position_of (CHR ''.'') (rev ?url) = Some (length ext)"
    using position_of_append [of "CHR ''.''" "rev ext" "rev v @ CHR ''-'' # rev p"] assms by simp
  show ?thesis using a b by (simp add: get_version_from_url_def)
qed

theorem version_from_url_witness:
  "get_version_from_url (''rustdesk'' @ CHR ''-'' # ''1.2.3'' @ CHR ''.'' # ''exe'') = ''1.2.3''"
  using version_from_url [of "''1.2.3''" "''exe''" "''rustdesk''"]
  by (simp add: parse_i32_def parse_signed_def parse_nat_def digit_value_def)

end
