(* ===== verification/BridgeState.thy ===== *)
theory BridgeState
  imports RD_Prelude
begin

text \<open>
  The snapshot and the event queue of the stub bridge, \<open>native_rust_core/src/bridge_state.rs\<close>: JSON
  written by hand with \<open>escape_json\<close>, and a queue that keeps the newest 50 events. The clock is an
  argument. The escaping lemmas are shared with the bridge of the full core, which has the same
  function.
\<close>

section \<open>JSON text\<close>

abbreviation quote_char :: char where "quote_char \<equiv> CHR 0x22"
abbreviation backslash :: char where "backslash \<equiv> CHR 0x5C"
abbreviation newline :: char where "newline \<equiv> CHR 0x0A"
abbreviation carriage_return :: char where "carriage_return \<equiv> CHR 0x0D"

definition replace_char :: "char \<Rightarrow> string \<Rightarrow> string \<Rightarrow> string" where
  "replace_char c w s = concat (map (\<lambda>x. if x = c then w else [x]) s)"

definition escape_json :: "string \<Rightarrow> string" where
  "escape_json value =
     replace_char carriage_return [backslash, CHR ''r'']
       (replace_char newline [backslash, CHR ''n'']
          (replace_char quote_char [backslash, quote_char]
             (replace_char backslash [backslash, backslash] value)))"

text \<open>A quoted key with its colon, and a quoted string.\<close>

definition json_key :: "string \<Rightarrow> string" where
  "json_key k = quote_char # k @ [quote_char, CHR '':'']"

definition json_quoted :: "string \<Rightarrow> string" where
  "json_quoted s = quote_char # s @ [quote_char]"

text \<open>The reader of a JSON string literal (RFC 8259), after the opening quote: the value and the
  rest of the text. It rejects raw control characters and the escapes the bridge never writes.\<close>

fun read_json_string :: "string \<Rightarrow> (string \<times> string) option" where
  "read_json_string [] = None"
| "read_json_string (c # cs) =
     (if c = quote_char then Some ([], cs)
      else if c = backslash then
        (case cs of
           [] \<Rightarrow> None
         | e # es \<Rightarrow>
             (case (if e = quote_char then Some quote_char
                    else if e = backslash then Some backslash
                    else if e = CHR ''n'' then Some newline
                    else if e = CHR ''r'' then Some carriage_return else None) of
                None \<Rightarrow> None
              | Some d \<Rightarrow>
                  (case read_json_string es of None \<Rightarrow> None | Some (v, r) \<Rightarrow> Some (d # v, r))))
      else if (of_char c :: nat) < 32 then None
      else (case read_json_string cs of None \<Rightarrow> None | Some (v, r) \<Rightarrow> Some (c # v, r)))"

definition escape_char :: "char \<Rightarrow> string" where
  "escape_char c =
     (if c = backslash then [backslash, backslash]
      else if c = quote_char then [backslash, quote_char]
      else if c = newline then [backslash, CHR ''n'']
      else if c = carriage_return then [backslash, CHR ''r'']
      else [c])"

lemma escape_json_chars: "escape_json s = concat (map escape_char s)"
  by (induction s) (simp_all add: escape_json_def replace_char_def escape_char_def)

lemma escape_json_Nil [simp]: "escape_json [] = []"
  by (simp add: escape_json_chars)

lemma escape_json_Cons: "escape_json (c # s) = escape_char c @ escape_json s"
  by (simp add: escape_json_chars)

text \<open>The characters a JSON string may hold unescaped, or that the bridge escapes.\<close>

definition json_safe :: "char \<Rightarrow> bool" where
  "json_safe c \<longleftrightarrow> 32 \<le> (of_char c :: nat) \<or> c = newline \<or> c = carriage_return"

lemma read_escape_json:
  "read_json_string (escape_json s @ quote_char # rest) =
     (if list_all json_safe s then Some (s, rest) else None)"
  by (induction s) (auto simp: escape_json_Cons escape_char_def json_safe_def)

section \<open>The snapshot\<close>

record bridge_snapshot =
  adapter :: string
  core_ready :: bool
  incoming_ready :: bool
  display_id :: string
  fingerprint :: string
  direct_address :: string
  status_summary :: string
  detail_message :: string
  server :: string
  session_stage :: string
  active_peer_id :: string
  last_error :: string

definition new_stub :: "string \<Rightarrow> bridge_snapshot" where
  "new_stub srv =
     \<lparr>adapter = ''native-stub'', core_ready = False, incoming_ready = False, display_id = [],
      fingerprint = ''Pending official native core'',
      direct_address = ''Pending official native core'',
      status_summary = ''Rust bridge ABI ready, official core logic still missing'',
      detail_message = ''The Rust bridge crate exports the expected ABI now. Next step is wiring official RustDesk core registration and session logic here.'',
      server = srv, session_stage = ''idle'', active_peer_id = [], last_error = []\<rparr>"

definition to_json :: "bridge_snapshot \<Rightarrow> string" where
  "to_json s =
     ''{'' @ json_key ''adapter'' @ json_quoted (escape_json (adapter s)) @ '','' @
     json_key ''coreReady'' @ dec_bool (core_ready s) @ '','' @
     json_key ''incomingReady'' @ dec_bool (incoming_ready s) @ '','' @
     json_key ''displayId'' @ json_quoted (escape_json (display_id s)) @ '','' @
     json_key ''fingerprint'' @ json_quoted (escape_json (fingerprint s)) @ '','' @
     json_key ''directAddress'' @ json_quoted (escape_json (direct_address s)) @ '','' @
     json_key ''statusSummary'' @ json_quoted (escape_json (status_summary s)) @ '','' @
     json_key ''detailMessage'' @ json_quoted (escape_json (detail_message s)) @ '','' @
     json_key ''server'' @ json_quoted (escape_json (server s)) @ '','' @
     json_key ''sessionStage'' @ json_quoted (escape_json (session_stage s)) @ '','' @
     json_key ''activePeerId'' @ json_quoted (escape_json (active_peer_id s)) @ '','' @
     json_key ''lastError'' @ json_quoted (escape_json (last_error s)) @ ''}''"

section \<open>The event queue\<close>

definition session_event_json :: "int \<Rightarrow> string \<Rightarrow> string \<Rightarrow> string \<Rightarrow> string" where
  "session_event_json now kind detail peer_id =
     ''{'' @ json_key ''kind'' @ json_quoted (escape_json kind) @ '','' @
     json_key ''detail'' @ json_quoted (escape_json detail) @ '','' @
     json_key ''peerId'' @ json_quoted (escape_json peer_id) @ '','' @
     json_key ''timestamp'' @ dec_int now @ ''}''"

definition queue_session_event ::
    "int \<Rightarrow> string \<Rightarrow> string \<Rightarrow> string \<Rightarrow> string list \<Rightarrow> string list" where
  "queue_session_event now kind detail peer_id events =
     keep_last 50 (events @ [session_event_json now kind detail peer_id])"

definition drain_session_events_json :: "string list \<Rightarrow> string \<times> string list" where
  "drain_session_events_json events = (''['' @ str_join '','' events @ '']'', [])"

section \<open>Reading the text back\<close>

lemma escape_char_inj_prefix:
  "escape_char c @ x = escape_char d @ y \<Longrightarrow> c = d \<and> x = y"
  by (auto simp: escape_char_def split: if_splits)

lemma json_quoted_inj [codec_simps]:
  "json_quoted (escape_json a) @ x = json_quoted (escape_json b) @ y \<longleftrightarrow> a = b \<and> x = y"
proof -
  have "escape_json a @ quote_char # x = escape_json b @ quote_char # y \<Longrightarrow> a = b \<and> x = y"
  proof (induction a arbitrary: b)
    case Nil
    then show ?case
      by (cases b) (auto simp: escape_json_Cons escape_char_def split: if_splits)
  next
    case (Cons c cs)
    show ?case
    proof (cases b)
      case Nil
      with Cons.prems show ?thesis
        by (auto simp: escape_json_Cons escape_char_def split: if_splits)
    next
      case (Cons d ds)
      with Cons.prems have "escape_char c @ escape_json cs @ quote_char # x =
          escape_char d @ escape_json ds @ quote_char # y"
        by (simp add: escape_json_Cons)
      from escape_char_inj_prefix [OF this] Cons Cons.IH [of ds] show ?thesis by simp
    qed
  qed
  then show ?thesis by (auto simp: json_quoted_def)
qed

lemma json_quoted_inj_end [codec_simps]:
  "json_quoted (escape_json a) = json_quoted (escape_json b) \<longleftrightarrow> a = b"
  using json_quoted_inj [of a "[]" b "[]"] by simp

lemma dec_bool_inj [codec_simps]: "dec_bool a @ x = dec_bool b @ y \<longleftrightarrow> a = b \<and> x = y"
  by (auto simp: dec_bool_def)

lemma fold_queue_session_event:
  "fold (\<lambda>(t, k, d, p). queue_session_event t k d p) evs (keep_last 50 q) =
   keep_last 50 (q @ map (\<lambda>(t, k, d, p). session_event_json t k d p) evs)"
  by (induction evs arbitrary: q)
    (auto simp: queue_session_event_def keep_last_keep_last)

section \<open>Properties\<close>

text \<open>C19: the client reads back exactly the text the bridge escaped, with nothing after it
  consumed, so no event or status text can end its JSON string early; this holds precisely when the
  text has no control character other than newline and carriage return, which the escaping leaves
  raw and a JSON reader rejects.\<close>

theorem escape_json_reads_back:
  "read_json_string (escape_json s @ quote_char # rest) =
     (if list_all (\<lambda>c. 32 \<le> (of_char c :: nat) \<or> c = newline \<or> c = carriage_return) s
      then Some (s, rest) else None)"
  using read_escape_json [of s rest] by (simp add: json_safe_def [abs_def])

text \<open>the snapshot text determines the snapshot: two states with the same JSON are the same
  in every field.\<close>

theorem snapshot_json_injective: "to_json s = to_json t \<longleftrightarrow> s = t"
  by (cases s; cases t) (auto simp: to_json_def codec_simps)


end
