(* ===== verification/LoginFailure.thy ===== *)
theory LoginFailure
  imports RD_Prelude
begin

text \<open>
  The back-off after failed operating-system credentials of a terminal login,
  \<open>src/server/login_failure_check.rs\<close>: the static failure state, its idle reset, the doubling
  delay and the decision a login attempt gets. The clock is an argument.
\<close>

datatype failure_scope = Default_scope | TerminalOsLogin

datatype alarm_audit_type =
    IpWhitelist | ExceedThirtyAttempts | SixAttemptsWithinOneMinute | ExceedIPv6PrefixAttempts
  | TerminalOsLoginBackoff | TerminalOsLoginConcurrency

record policy_decision =
  allowed :: bool
  login_error :: "string option"
  audit :: "alarm_audit_type option"

record failure_state =
  total_failures :: int
  backoff_until_ms :: "int option"
  last_failure_ms :: "int option"

definition failure_state_default :: failure_state where
  "failure_state_default =
     \<lparr>total_failures = 0, backoff_until_ms = None, last_failure_ms = None\<rparr>"

definition IDLE_RESET_MS :: int where "IDLE_RESET_MS = 120 * 60 * 1000"
definition BACKOFF_BASE_SECONDS :: int where "BACKOFF_BASE_SECONDS = 15"
definition BACKOFF_MAX_SECONDS :: int where "BACKOFF_MAX_SECONDS = 30 * 60"

definition is_os_credential_scope :: "failure_scope \<Rightarrow> bool" where
  "is_os_credential_scope scope \<longleftrightarrow> scope = TerminalOsLogin"

definition backoff_audit_type_for_scope :: "failure_scope \<Rightarrow> alarm_audit_type option" where
  "backoff_audit_type_for_scope scope =
     (case scope of TerminalOsLogin \<Rightarrow> Some TerminalOsLoginBackoff | Default_scope \<Rightarrow> None)"

definition backoff_seconds :: "int \<Rightarrow> int" where
  "backoff_seconds n =
     (if n \<le> 2 then 0
      else let e = min (n - 3) 7; seconds = BACKOFF_BASE_SECONDS * push_bit (nat e) 1
           in min seconds BACKOFF_MAX_SECONDS)"

definition normalize_backoff :: "int \<Rightarrow> failure_state \<Rightarrow> failure_state" where
  "normalize_backoff now s =
     (case backoff_until_ms s of
        Some until \<Rightarrow> if until \<le> now then s\<lparr>backoff_until_ms := None\<rparr> else s
      | None \<Rightarrow> s)"

definition reset_totals_on_idle :: "int \<Rightarrow> failure_state \<Rightarrow> failure_state" where
  "reset_totals_on_idle now s =
     (case last_failure_ms s of
        Some l \<Rightarrow>
          if saturating_sub_i64 now l \<ge> IDLE_RESET_MS
          then s\<lparr>total_failures := 0, backoff_until_ms := None, last_failure_ms := None\<rparr> else s
      | None \<Rightarrow> s)"

definition allow_decision :: policy_decision where
  "allow_decision = \<lparr>allowed = True, login_error = None, audit = None\<rparr>"

definition block_decision :: "string \<Rightarrow> alarm_audit_type option \<Rightarrow> policy_decision" where
  "block_decision e a = \<lparr>allowed = False, login_error = Some e, audit = a\<rparr>"

text \<open>Rust's integer division truncates; its operand here is never negative.\<close>

definition remaining_seconds :: "int \<Rightarrow> int \<Rightarrow> int" where
  "remaining_seconds until now =
     (let remaining_ms = max (as_i64 (until - now)) 0 in max ((remaining_ms + 999) div 1000) 1)"

definition try_again_message :: "int \<Rightarrow> string" where
  "try_again_message n =
     ''Please try again in '' @ dec_int n @ '' '' @
     (if n = 1 then ''second'' else ''seconds'') @ ''.''"

definition evaluate_os_credential_policy ::
    "failure_scope \<Rightarrow> int \<Rightarrow> failure_state \<Rightarrow> policy_decision \<times> failure_state" where
  "evaluate_os_credential_policy scope now s =
     (if \<not> is_os_credential_scope scope then (allow_decision, s)
      else
        let s = normalize_backoff now (reset_totals_on_idle now s) in
        (case backoff_until_ms s of
           Some until \<Rightarrow>
             (block_decision (try_again_message (remaining_seconds until now))
                (backoff_audit_type_for_scope scope), s)
         | None \<Rightarrow> (allow_decision, s)))"

text \<open>\<open>i32::saturating_add(1)\<close>.\<close>

definition record_os_credential_failure ::
    "failure_scope \<Rightarrow> int \<Rightarrow> failure_state \<Rightarrow> failure_state" where
  "record_os_credential_failure scope now s =
     (if \<not> is_os_credential_scope scope then s
      else
        let s = normalize_backoff now (reset_totals_on_idle now s);
            n = min (total_failures s + 1) (2 ^ 31 - 1);
            s = s\<lparr>total_failures := n, last_failure_ms := Some now\<rparr>;
            b = backoff_seconds n
        in if b > 0 then s\<lparr>backoff_until_ms := Some (as_i64 (now + b * 1000))\<rparr> else s)"

section \<open>Reachable states\<close>

text \<open>Evaluations and failures at the moments the clock shows; the clock need not be monotone. It
  stays within the range of real dates.\<close>

definition sane_clock :: "int \<Rightarrow> bool" where
  "sane_clock t \<longleftrightarrow> 0 \<le> t \<and> t < 2 ^ 62"

inductive reachable :: "failure_state \<Rightarrow> bool" where
  init: "reachable failure_state_default"
| evaluate: "reachable s \<Longrightarrow> sane_clock now \<Longrightarrow>
    reachable (snd (evaluate_os_credential_policy scope now s))"
| fail: "reachable s \<Longrightarrow> sane_clock now \<Longrightarrow>
    reachable (record_os_credential_failure scope now s)"

lemma backoff_bounds: "0 \<le> backoff_seconds n \<and> backoff_seconds n \<le> 1800"
  by (simp add: backoff_seconds_def Let_def BACKOFF_MAX_SECONDS_def BACKOFF_BASE_SECONDS_def
      push_bit_eq_mult)

lemma backoff_pos_iff: "0 < backoff_seconds n \<longleftrightarrow> 3 \<le> n"
  by (simp add: backoff_seconds_def Let_def BACKOFF_MAX_SECONDS_def BACKOFF_BASE_SECONDS_def
      push_bit_eq_mult)

definition failure_inv :: "failure_state \<Rightarrow> bool" where
  "failure_inv s \<longleftrightarrow>
     0 \<le> total_failures s \<and> (total_failures s \<le> 2 \<longrightarrow> backoff_until_ms s = None) \<and>
     (\<forall>u. backoff_until_ms s = Some u \<longrightarrow>
        (\<exists>l. last_failure_ms s = Some l \<and> sane_clock l \<and>
             u = l + 1000 * backoff_seconds (total_failures s)))"

lemma failure_inv_reset: "failure_inv s \<Longrightarrow> failure_inv (reset_totals_on_idle now s)"
  by (auto simp: failure_inv_def reset_totals_on_idle_def split: option.split)

lemma failure_inv_normalize: "failure_inv s \<Longrightarrow> failure_inv (normalize_backoff now s)"
  by (auto simp: failure_inv_def normalize_backoff_def split: option.split)

lemma failure_inv_evaluate:
  "failure_inv s \<Longrightarrow> failure_inv (snd (evaluate_os_credential_policy scope now s))"
  by (auto simp: evaluate_os_credential_policy_def Let_def failure_inv_reset failure_inv_normalize
      split: option.split)

lemma backoff_until_as_i64:
  "sane_clock now \<Longrightarrow> as_i64 (now + backoff_seconds n * 1000) = now + backoff_seconds n * 1000"
  using backoff_bounds [of n] by (intro as_i64_id) (simp_all add: sane_clock_def)

lemma failure_inv_record:
  assumes "failure_inv s" "sane_clock now"
  shows "failure_inv (record_os_credential_failure scope now s)"
proof -
  define r where "r = normalize_backoff now (reset_totals_on_idle now s)"
  define n where "n = min (total_failures r + 1) (2 ^ 31 - 1)"
  have r: "failure_inv r"
    using assms by (simp add: r_def failure_inv_reset failure_inv_normalize)
  have n: "3 \<le> total_failures r \<Longrightarrow> 3 \<le> n" "0 \<le> n" "n \<le> 2 \<Longrightarrow> total_failures r \<le> 2"
    using r by (auto simp: n_def failure_inv_def)
  have "record_os_credential_failure scope now s =
      (if \<not> is_os_credential_scope scope then s
       else if backoff_seconds n > 0
       then r\<lparr>total_failures := n, last_failure_ms := Some now,
             backoff_until_ms := Some (now + 1000 * backoff_seconds n)\<rparr>
       else r\<lparr>total_failures := n, last_failure_ms := Some now\<rparr>)"
    using assms(2)
    by (simp only: record_os_credential_failure_def Let_def r_def n_def)
      (simp add: backoff_until_as_i64)
  moreover have "failure_inv (r\<lparr>total_failures := n, last_failure_ms := Some now,
      backoff_until_ms := Some (now + 1000 * backoff_seconds n)\<rparr>)" if "backoff_seconds n > 0"
    using that assms(2) n(2) backoff_pos_iff [of n] by (simp add: failure_inv_def)
  moreover have "failure_inv (r\<lparr>total_failures := n, last_failure_ms := Some now\<rparr>)"
    if "\<not> backoff_seconds n > 0"
    using that r n backoff_pos_iff [of n] by (simp add: failure_inv_def)
  ultimately show ?thesis using assms(1) by simp
qed

lemma reachable_inv: "reachable s \<Longrightarrow> failure_inv s"
proof (induction rule: reachable.induct)
  case init
  then show ?case by (simp add: failure_inv_def failure_state_default_def)
qed (simp_all add: failure_inv_evaluate failure_inv_record)

section \<open>Properties\<close>

text \<open>the delay after the \<open>n\<close>-th failure is none for two failures, then 15 seconds doubling
  with each failure up to half an hour; the clamp on the exponent never shows.\<close>

theorem backoff_schedule:
  "backoff_seconds n = (if n \<le> 2 then 0 else min 1800 (15 * 2 ^ nat (n - 3)))"
proof (cases "n \<le> 10")
  case True
  then show ?thesis
    by (simp add: backoff_seconds_def Let_def BACKOFF_BASE_SECONDS_def BACKOFF_MAX_SECONDS_def
        push_bit_eq_mult min_def)
next
  case False
  then have "(2::int) ^ 7 \<le> 2 ^ nat (n - 3)" by (intro power_increasing) auto
  then show ?thesis using False
    by (simp add: backoff_seconds_def Let_def BACKOFF_BASE_SECONDS_def BACKOFF_MAX_SECONDS_def
        push_bit_eq_mult)
qed



end
