(* ===== verification/VideoQos.thy ===== *)
theory VideoQos
  imports ConfigStore "HOL-Library.AList"
begin

text \<open>
  The controller of the frame rate and the bit rate of the controlled side,
  \<open>src/server/video_qos.rs\<close>, with the \<open>Quality\<close> of \<open>libs/scrap/src/common/codec.rs\<close>. An \<open>f32\<close> is the
  rational it stands for, and every operation on \<open>f32\<close> is the exact one followed by the rounding
  \<open>rnd\<close>, a parameter; \<open>f32_ok\<close> is what IEEE 754 says of it in the range the code stays in (no
  overflow, no NaN). \<open>u32\<close> values are natural numbers with the wrap-around of a release build written
  out. \<open>f32::clamp\<close> panics when its bounds are in the wrong order: that is \<open>None\<close>. The hash maps are
  association lists in iteration order; clocks are arguments, in milliseconds.
\<close>

section \<open>Numbers\<close>

definition add32 :: "nat \<Rightarrow> nat \<Rightarrow> nat" where
  "add32 a b = (a + b) mod 2 ^ 32"

definition sum32 :: "nat list \<Rightarrow> nat" where
  "sum32 xs = sum_list xs mod 2 ^ 32"

text \<open>\<open>x as u32\<close> of an \<open>f32\<close>.\<close>

definition f32_as_u32 :: "rat \<Rightarrow> nat" where
  "f32_as_u32 x = nat (min (2 ^ 32 - 1) \<lfloor>x\<rfloor>)"

definition f32_clamp :: "rat \<Rightarrow> rat \<Rightarrow> rat \<Rightarrow> rat option" where
  "f32_clamp x lo hi = (if lo \<le> hi then Some (max lo (min hi x)) else None)"

definition clamp_u32 :: "nat \<Rightarrow> nat \<Rightarrow> nat \<Rightarrow> nat" where
  "clamp_u32 x lo hi = max lo (min hi x)"

text \<open>Rounding keeps the order and the numbers that have at most 24 binary digits.\<close>

definition f32_ok :: "(rat \<Rightarrow> rat) \<Rightarrow> bool" where
  "f32_ok rnd \<longleftrightarrow>
     (\<forall>x y. x \<le> y \<longrightarrow> rnd x \<le> rnd y) \<and> (\<forall>x. rnd (rnd x) = rnd x) \<and>
     (\<forall>n k. n \<le> 2 ^ 24 \<longrightarrow> k \<le> 24 \<longrightarrow> rnd (of_nat n / 2 ^ k) = of_nat n / 2 ^ k)"

section \<open>Constants\<close>

definition FPS :: nat where "FPS = 30"
definition MIN_FPS :: nat where "MIN_FPS = 1"
definition MAX_FPS :: nat where "MAX_FPS = 120"
definition INIT_FPS :: nat where "INIT_FPS = 15"
definition HISTORY_DELAY_LEN :: nat where "HISTORY_DELAY_LEN = 2"
definition ADJUST_RATIO_INTERVAL :: nat where "ADJUST_RATIO_INTERVAL = 3"
definition DYNAMIC_SCREEN_THRESHOLD :: nat where "DYNAMIC_SCREEN_THRESHOLD = 2"
definition DELAY_THRESHOLD_150MS :: nat where "DELAY_THRESHOLD_150MS = 150"
definition WINDOW_SAMPLES :: nat where "WINDOW_SAMPLES = 60"
definition MIN_SAMPLES :: nat where "MIN_SAMPLES = 10"

lemmas qos_constants = FPS_def MIN_FPS_def MAX_FPS_def INIT_FPS_def HISTORY_DELAY_LEN_def
  ADJUST_RATIO_INTERVAL_def DYNAMIC_SCREEN_THRESHOLD_def DELAY_THRESHOLD_150MS_def
  WINDOW_SAMPLES_def MIN_SAMPLES_def

definition BR_MAX :: "(rat \<Rightarrow> rat) \<Rightarrow> rat" where "BR_MAX rnd = rnd 40"
definition BR_MIN :: "(rat \<Rightarrow> rat) \<Rightarrow> rat" where "BR_MIN rnd = rnd (1 / 5)"
definition BR_MIN_HIGH_RESOLUTION :: "(rat \<Rightarrow> rat) \<Rightarrow> rat" where
  "BR_MIN_HIGH_RESOLUTION rnd = rnd (1 / 10)"
definition BR_BEST :: "(rat \<Rightarrow> rat) \<Rightarrow> rat" where "BR_BEST rnd = rnd (3 / 2)"
definition BR_BALANCED :: "(rat \<Rightarrow> rat) \<Rightarrow> rat" where "BR_BALANCED rnd = rnd (67 / 100)"
definition BR_SPEED :: "(rat \<Rightarrow> rat) \<Rightarrow> rat" where "BR_SPEED rnd = rnd (1 / 2)"

section \<open>Round-trip times\<close>

record rtt_calculator =
  min_rtt :: "nat option"
  window_min_rtt :: "nat option"
  smoothed_rtt :: "nat option"
  samples :: "nat list"

definition rtt_default :: rtt_calculator where
  "rtt_default = \<lparr>min_rtt = None, window_min_rtt = None, smoothed_rtt = None, samples = []\<rparr>"

definition rtt_update :: "(rat \<Rightarrow> rat) \<Rightarrow> nat \<Rightarrow> rtt_calculator \<Rightarrow> rtt_calculator" where
  "rtt_update rnd delay r =
     (let least = (case min_rtt r of Some m \<Rightarrow> if delay < m then delay else m | None \<Rightarrow> delay);
          kept = (if length (samples r) \<ge> WINDOW_SAMPLES then tl (samples r) else samples r) @ [delay];
          window = min_list kept;
          r = r\<lparr>min_rtt := Some least, samples := kept, window_min_rtt := Some window\<rparr>
      in if length kept \<ge> WINDOW_SAMPLES
         then r\<lparr>smoothed_rtt :=
                  Some (f32_as_u32 (rnd (rnd (1 / 2 * rnd (of_nat least)) + rnd (1 / 2 * rnd (of_nat window)))))\<rparr>
         else r)"

definition get_rtt :: "rtt_calculator \<Rightarrow> nat option" where
  "get_rtt r =
     (case smoothed_rtt r of
        Some rtt \<Rightarrow> Some rtt
      | None \<Rightarrow> if length (samples r) \<ge> MIN_SAMPLES then min_rtt r else None)"

section \<open>Users and displays\<close>

record user_delay =
  response_delayed :: bool
  delay_history :: "nat list"
  delay_fps :: "nat option"
  rtt_state :: rtt_calculator
  quick_increase_fps_count :: nat
  increase_fps_count :: nat

definition delay_default :: user_delay where
  "delay_default = \<lparr>response_delayed = False, delay_history = [], delay_fps = None, rtt_state = rtt_default,
     quick_increase_fps_count = 0, increase_fps_count = 0\<rparr>"

definition add_delay :: "(rat \<Rightarrow> rat) \<Rightarrow> nat \<Rightarrow> user_delay \<Rightarrow> user_delay" where
  "add_delay rnd delay d =
     d\<lparr>rtt_state := rtt_update rnd delay (rtt_state d),
       delay_history :=
         (if length (delay_history d) > HISTORY_DELAY_LEN then tl (delay_history d) else delay_history d)
         @ [delay]\<rparr>"

definition avg_delay :: "user_delay \<Rightarrow> nat" where
  "avg_delay d =
     (let len = length (delay_history d) in
      if len > 0 then
        let avg = sum32 (delay_history d) div len
        in case get_rtt (rtt_state d) of Some t \<Rightarrow> if avg > t then avg - t else avg | None \<Rightarrow> avg
      else DELAY_THRESHOLD_150MS)"

datatype quality = Best | Balanced | Low | Custom rat

definition quality_ratio :: "(rat \<Rightarrow> rat) \<Rightarrow> quality \<Rightarrow> rat" where
  "quality_ratio rnd q =
     (case q of Best \<Rightarrow> BR_BEST rnd | Balanced \<Rightarrow> BR_BALANCED rnd | Low \<Rightarrow> BR_SPEED rnd | Custom v \<Rightarrow> v)"

record user_data =
  auto_adjust_fps :: "nat option"
  custom_fps :: "nat option"
  u_quality :: "(int \<times> quality) option"
  u_delay :: user_delay
  u_record :: bool

definition user_default_data :: user_data where
  "user_default_data =
     \<lparr>auto_adjust_fps = None, custom_fps = None, u_quality = None, u_delay = delay_default, u_record = False\<rparr>"

record display_data =
  send_counter :: nat
  support_changing_quality :: bool

record video_qos =
  q_fps :: nat
  q_ratio :: rat
  q_users :: "(int \<times> user_data) list"
  q_displays :: "(string \<times> display_data) list"
  bitrate_store :: nat
  adjust_ratio_instant :: int
  abr_config :: bool
  new_user_instant :: int

definition qos_default :: "(rat \<Rightarrow> rat) \<Rightarrow> int \<Rightarrow> video_qos" where
  "qos_default rnd now =
     \<lparr>q_fps = FPS, q_ratio = BR_BALANCED rnd, q_users = [], q_displays = [], bitrate_store = 0,
      adjust_ratio_instant = now, abr_config = True, new_user_instant = now\<rparr>"

text \<open>\<open>get_mut\<close> with a change of the entry, if there is one.\<close>

definition on_user :: "int \<Rightarrow> (user_data \<Rightarrow> user_data) \<Rightarrow> video_qos \<Rightarrow> video_qos" where
  "on_user i f q =
     (case map_of (q_users q) i of
        Some u \<Rightarrow> q\<lparr>q_users := AList.update i (f u) (q_users q)\<rparr>
      | None \<Rightarrow> q)"

definition on_display :: "string \<Rightarrow> (display_data \<Rightarrow> display_data) \<Rightarrow> video_qos \<Rightarrow> video_qos" where
  "on_display name f q =
     (case map_of (q_displays q) name of
        Some d \<Rightarrow> q\<lparr>q_displays := AList.update name (f d) (q_displays q)\<rparr>
      | None \<Rightarrow> q)"

section \<open>Reading\<close>

definition get_fps :: "video_qos \<Rightarrow> nat" where
  "get_fps q = (if q_fps q \<ge> MIN_FPS \<and> q_fps q \<le> MAX_FPS then q_fps q else FPS)"

definition spf :: "(rat \<Rightarrow> rat) \<Rightarrow> video_qos \<Rightarrow> rat" where
  "spf rnd q = rnd (1 / rnd (of_nat (get_fps q)))"

definition store_bitrate :: "nat \<Rightarrow> video_qos \<Rightarrow> video_qos" where
  "store_bitrate b q = q\<lparr>bitrate_store := b\<rparr>"

definition get_ratio :: "(rat \<Rightarrow> rat) \<Rightarrow> video_qos \<Rightarrow> rat \<times> video_qos" where
  "get_ratio rnd q =
     (let q = (if q_ratio q < BR_MIN_HIGH_RESOLUTION rnd \<or> q_ratio q > BR_MAX rnd
               then q\<lparr>q_ratio := BR_BALANCED rnd\<rparr> else q)
      in (q_ratio q, q))"

definition is_record :: "video_qos \<Rightarrow> bool" where
  "is_record q \<longleftrightarrow> (\<exists>u\<in>set (q_users q). u_record (snd u))"

definition set_support_changing_quality :: "string \<Rightarrow> bool \<Rightarrow> video_qos \<Rightarrow> video_qos" where
  "set_support_changing_quality name support = on_display name (\<lambda>d. d\<lparr>support_changing_quality := support\<rparr>)"

definition in_vbr_state :: "video_qos \<Rightarrow> bool" where
  "in_vbr_state q \<longleftrightarrow> abr_config q \<and> (\<forall>d\<in>set (q_displays q). support_changing_quality (snd d))"

definition user_fps :: "user_data \<Rightarrow> nat" where
  "user_fps u =
     (let fps = (case custom_fps u of Some f \<Rightarrow> f | None \<Rightarrow> FPS)
      in case auto_adjust_fps u of
           Some a \<Rightarrow> if fps = 0 \<or> a < fps then a else fps
         | None \<Rightarrow> fps)"

definition highest_fps :: "video_qos \<Rightarrow> nat" where
  "highest_fps q =
     (let fs = filter (\<lambda>f. f \<ge> MIN_FPS) (map (\<lambda>u. user_fps (snd u)) (q_users q));
          fps = (if fs = [] then FPS else min_list fs)
      in clamp_u32 fps MIN_FPS MAX_FPS)"

text \<open>\<open>max_by\<close>: of several latest entries, the last in iteration order.\<close>

fun later :: "int \<times> quality \<Rightarrow> (int \<times> quality) list \<Rightarrow> int \<times> quality" where
  "later a [] = a"
| "later a (b # r) = later (if fst a \<le> fst b then b else a) r"

definition latest_quality :: "video_qos \<Rightarrow> quality" where
  "latest_quality q =
     (case List.map_filter (\<lambda>u. u_quality (snd u)) (q_users q) of
        [] \<Rightarrow> Balanced
      | a # r \<Rightarrow> snd (later a r))"

section \<open>Adjusting\<close>

definition adjust_fps :: "int \<Rightarrow> video_qos \<Rightarrow> video_qos" where
  "adjust_fps now q =
     (let highest = highest_fps q;
          fs = map (\<lambda>u. case delay_fps (u_delay (snd u)) of Some f \<Rightarrow> f | None \<Rightarrow> INIT_FPS) (q_users q);
          fps = (if fs = [] then INIT_FPS else min_list fs);
          fps = (if (\<exists>u\<in>set (q_users q). response_delayed (u_delay (snd u))) \<and> fps > MIN_FPS + 1
                 then MIN_FPS + 1 else fps);
          fps = (if (now - new_user_instant q) div 1000 < 1 \<and> fps > INIT_FPS then INIT_FPS else fps)
      in q\<lparr>q_fps := clamp_u32 fps MIN_FPS highest\<rparr>)"

text \<open>The least ratio allowed for a quality, and the ratio asked for by the worst delay.\<close>

definition least_ratio :: "(rat \<Rightarrow> rat) \<Rightarrow> quality \<Rightarrow> rat option \<Rightarrow> rat" where
  "least_ratio rnd target one_mbps =
     (case target of
        Best \<Rightarrow>
          (let m = rnd (BR_BEST rnd / rnd (5 / 2));
               m = (case one_mbps of Some r \<Rightarrow> if m > r then r else m | None \<Rightarrow> m)
           in max m (BR_MIN rnd))
      | Balanced \<Rightarrow>
          (let m = min (rnd (BR_BALANCED rnd / 2)) (rnd (2 / 5));
               m = (case one_mbps of Some r \<Rightarrow> if m > r then r else m | None \<Rightarrow> m)
           in max m (BR_MIN_HIGH_RESOLUTION rnd))
      | Low \<Rightarrow> BR_MIN_HIGH_RESOLUTION rnd
      | Custom _ \<Rightarrow> BR_MIN_HIGH_RESOLUTION rnd)"

definition delayed_ratio :: "(rat \<Rightarrow> rat) \<Rightarrow> bool \<Rightarrow> nat \<Rightarrow> rat \<Rightarrow> rat" where
  "delayed_ratio rnd dynamic_screen max_delay current =
     (let scale = (\<lambda>f. rnd (current * rnd f)) in
      if max_delay < 50 then (if dynamic_screen then scale (115 / 100) else current)
      else if max_delay < 100 then (if dynamic_screen then scale (11 / 10) else current)
      else if max_delay < DELAY_THRESHOLD_150MS then (if dynamic_screen then scale (105 / 100) else current)
      else if max_delay < 200 then scale (95 / 100)
      else if max_delay < 300 then scale (9 / 10)
      else if max_delay < 500 then scale (85 / 100)
      else scale (8 / 10))"

text \<open>The ratios of one megabit and of 150 kilobits more, and the limit the latter puts on an increase.\<close>

definition ratio_1mbps :: "(rat \<Rightarrow> rat) \<Rightarrow> nat \<Rightarrow> rat \<Rightarrow> rat option" where
  "ratio_1mbps rnd bitrate current =
     (if bitrate > 0
      then Some (max (rnd (rnd (current * 1000) / rnd (of_nat bitrate))) (BR_MIN_HIGH_RESOLUTION rnd))
      else None)"

definition ratio_add_150kbps :: "(rat \<Rightarrow> rat) \<Rightarrow> nat \<Rightarrow> rat \<Rightarrow> rat option" where
  "ratio_add_150kbps rnd bitrate current =
     (if bitrate > 0
      then Some (rnd (rnd (rnd (of_nat (add32 bitrate 150)) * current) / rnd (of_nat bitrate)))
      else None)"

definition limit_increase :: "(rat \<Rightarrow> rat) \<Rightarrow> rat option \<Rightarrow> rat \<Rightarrow> rat \<Rightarrow> rat" where
  "limit_increase rnd limit current v =
     (case limit of
        Some r \<Rightarrow> if v > r \<and> r > current \<and> current \<ge> BR_SPEED rnd then r else v
      | None \<Rightarrow> v)"

definition adjust_ratio :: "(rat \<Rightarrow> rat) \<Rightarrow> int \<Rightarrow> bool \<Rightarrow> video_qos \<Rightarrow> video_qos option" where
  "adjust_ratio rnd now dynamic_screen q =
     (if \<not> in_vbr_state q then Some q
      else if q_users q = [] then Some q
      else
        let max_delay = fold max (map (\<lambda>u. avg_delay (u_delay (snd u))) (q_users q)) 0;
            target = latest_quality q;
            current = q_ratio q;
            v = limit_increase rnd (ratio_add_150kbps rnd (bitrate_store q) current) current
                  (delayed_ratio rnd dynamic_screen max_delay current)
        in (case f32_clamp v (least_ratio rnd target (ratio_1mbps rnd (bitrate_store q) current))
                   (rnd (quality_ratio rnd target * 1)) of
              Some r \<Rightarrow> Some (q\<lparr>q_ratio := r, adjust_ratio_instant := now\<rparr>)
            | None \<Rightarrow> None))"

section \<open>Connections and their messages\<close>

definition on_connection_open :: "config_state \<Rightarrow> int \<Rightarrow> int \<Rightarrow> video_qos \<Rightarrow> video_qos" where
  "on_connection_open cfg now i q =
     q\<lparr>q_users := AList.update i user_default_data (q_users q),
       abr_config := get_option cfg ''enable-abr'' \<noteq> ''N'', new_user_instant := now\<rparr>"

definition on_connection_close :: "(rat \<Rightarrow> rat) \<Rightarrow> int \<Rightarrow> int \<Rightarrow> video_qos \<Rightarrow> video_qos" where
  "on_connection_close rnd now i q =
     (let q = q\<lparr>q_users := AList.delete i (q_users q)\<rparr>
      in if q_users q = [] then qos_default rnd now else q)"

definition user_custom_fps :: "int \<Rightarrow> nat \<Rightarrow> video_qos \<Rightarrow> video_qos" where
  "user_custom_fps i fps q =
     (if fps < MIN_FPS \<or> fps > MAX_FPS then q else on_user i (\<lambda>u. u\<lparr>custom_fps := Some fps\<rparr>) q)"

definition user_auto_adjust_fps :: "int \<Rightarrow> nat \<Rightarrow> video_qos \<Rightarrow> video_qos" where
  "user_auto_adjust_fps i fps q =
     (if fps < MIN_FPS \<or> fps > MAX_FPS then q else on_user i (\<lambda>u. u\<lparr>auto_adjust_fps := Some fps\<rparr>) q)"

definition convert_quality :: "(rat \<Rightarrow> rat) \<Rightarrow> int \<Rightarrow> quality option" where
  "convert_quality rnd n =
     (if n = 3 then Some Balanced
      else if n = 2 then Some Low
      else if n = 4 then Some Best
      else map_option Custom
        (f32_clamp (rnd (rnd (of_int (take_bit 12 (drop_bit 8 n) * 2)) / 100)) (BR_MIN rnd) (BR_MAX rnd)))"

definition user_image_quality :: "(rat \<Rightarrow> rat) \<Rightarrow> int \<Rightarrow> int \<Rightarrow> int \<Rightarrow> video_qos \<Rightarrow> video_qos option" where
  "user_image_quality rnd now i image_quality q =
     (case convert_quality rnd image_quality of
        None \<Rightarrow> None
      | Some v \<Rightarrow>
          (case map_of (q_users q) i of
             None \<Rightarrow> Some q
           | Some u \<Rightarrow>
               (let q = on_user i (\<lambda>u. u\<lparr>u_quality := Some (now, v)\<rparr>) q
                in Some (q\<lparr>q_ratio := quality_ratio rnd (latest_quality q)\<rparr>))))"

definition user_record :: "int \<Rightarrow> bool \<Rightarrow> video_qos \<Rightarrow> video_qos" where
  "user_record i v = on_user i (\<lambda>u. u\<lparr>u_record := v\<rparr>)"

definition fps_bounds :: "(rat \<Rightarrow> rat) \<Rightarrow> rat \<Rightarrow> nat \<times> nat" where
  "fps_bounds rnd target_ratio =
     (if target_ratio \<ge> BR_BEST rnd then (8, 16)
      else if target_ratio \<ge> BR_BALANCED rnd then (10, 20)
      else (12, 24))"

text \<open>The frame rate after a sample with the average \<open>avg\<close>, and the counter of quick increases.\<close>

definition next_fps ::
    "(rat \<Rightarrow> rat) \<Rightarrow> nat \<Rightarrow> nat \<Rightarrow> nat \<Rightarrow> nat \<Rightarrow> nat \<Rightarrow> nat \<Rightarrow> nat \<times> nat" where
  "next_fps rnd min_fps normal_fps old_avg avg quick fps =
     (let dividend_ms = DELAY_THRESHOLD_150MS * min_fps;
          devide_fps = f32_as_u32 (of_int \<lceil>rnd (rnd (of_nat fps) /
            rnd (rnd (of_nat avg) / rnd (of_nat DELAY_THRESHOLD_150MS)))\<rceil>)
      in if avg < 50 then
           let quick = quick + 1; step = (if fps < normal_fps then 1 else 0)
           in if quick \<ge> 3 then (max min_fps (add32 fps 5), 0) else (max min_fps (add32 fps step), quick)
         else if avg < 100 then
           (max min_fps (add32 fps (if avg < old_avg \<and> fps < normal_fps then 1 else 0)), quick)
         else if avg < DELAY_THRESHOLD_150MS then (max min_fps fps, quick)
         else if avg < 200 then (max min_fps devide_fps, quick)
         else if avg < 300 then (min min_fps devide_fps, quick)
         else if avg < 600 then (dividend_ms div avg, quick)
         else (min (dividend_ms div avg) devide_fps, quick))"

definition delay_sample ::
    "(rat \<Rightarrow> rat) \<Rightarrow> nat \<Rightarrow> nat \<Rightarrow> nat \<Rightarrow> nat \<Rightarrow> nat \<Rightarrow> user_delay \<Rightarrow> user_delay" where
  "delay_sample rnd min_fps normal_fps highest fps delay d =
     (let old_avg = avg_delay d;
          d = add_delay rnd (max 10 delay) d;
          avg = max 10 (avg_delay d);
          (fps, quick) = next_fps rnd min_fps normal_fps old_avg avg (quick_increase_fps_count d) fps;
          increase = (if avg < DELAY_THRESHOLD_150MS then increase_fps_count d + 1 else 0);
          (fps, increase) = (if increase \<ge> 3 then (add32 fps 1, 0) else (fps, increase));
          quick = (if avg > 50 then 0 else quick)
      in d\<lparr>quick_increase_fps_count := quick, increase_fps_count := increase,
           delay_fps := Some (clamp_u32 fps MIN_FPS highest)\<rparr>)"

text \<open>The flag is the platform: the code does not adjust the ratio at once on Linux.\<close>

definition user_network_delay ::
    "(rat \<Rightarrow> rat) \<Rightarrow> bool \<Rightarrow> int \<Rightarrow> int \<Rightarrow> nat \<Rightarrow> video_qos \<Rightarrow> video_qos option" where
  "user_network_delay rnd is_linux now i delay q =
     (let highest = highest_fps q;
          (min_fps, normal_fps) = fps_bounds rnd (quality_ratio rnd (latest_quality q));
          first = (case map_of (q_users q) i of Some u \<Rightarrow> delay_fps (u_delay u) = None | None \<Rightarrow> False);
          q = on_user i (\<lambda>u. u\<lparr>u_delay :=
                delay_sample rnd min_fps normal_fps highest (q_fps q) delay (u_delay u)\<rparr>) q;
          q = adjust_fps now q
      in if first \<and> \<not> is_linux then adjust_ratio rnd now False q else Some q)"

definition user_delay_response_elapsed :: "(rat \<Rightarrow> rat) \<Rightarrow> int \<Rightarrow> int \<Rightarrow> nat \<Rightarrow> video_qos \<Rightarrow> video_qos" where
  "user_delay_response_elapsed rnd now i elapsed q =
     (if map_of (q_users q) i = None then q
      else if elapsed > 2000 then
        adjust_fps now (on_user i (\<lambda>u. u\<lparr>u_delay :=
          add_delay rnd (elapsed mod 2 ^ 32) ((u_delay u)\<lparr>response_delayed := True\<rparr>)\<rparr>) q)
      else on_user i (\<lambda>u. u\<lparr>u_delay := (u_delay u)\<lparr>response_delayed := False\<rparr>\<rparr>) q)"

definition new_display :: "string \<Rightarrow> video_qos \<Rightarrow> video_qos" where
  "new_display name q =
     q\<lparr>q_displays := AList.update name \<lparr>send_counter = 0, support_changing_quality = False\<rparr> (q_displays q)\<rparr>"

definition remove_display :: "string \<Rightarrow> video_qos \<Rightarrow> video_qos" where
  "remove_display name q = q\<lparr>q_displays := AList.delete name (q_displays q)\<rparr>"

definition update_display_data ::
    "(rat \<Rightarrow> rat) \<Rightarrow> int \<Rightarrow> string \<Rightarrow> nat \<Rightarrow> video_qos \<Rightarrow> video_qos option" where
  "update_display_data rnd now name n q =
     (let q = on_display name (\<lambda>d. d\<lparr>send_counter := send_counter d + n\<rparr>) q;
          q = adjust_fps now q
      in if in_vbr_state q then
           (if (now - adjust_ratio_instant q) div 1000 \<ge> int ADJUST_RATIO_INTERVAL then
              let dynamic_screen = (\<exists>d\<in>set (q_displays q).
                    send_counter (snd d) \<ge> ADJUST_RATIO_INTERVAL * DYNAMIC_SCREEN_THRESHOLD)
              in adjust_ratio rnd now dynamic_screen
                   (q\<lparr>q_displays := map (\<lambda>(k, d). (k, d\<lparr>send_counter := 0\<rparr>)) (q_displays q)\<rparr>)
            else Some q)
         else Some (q\<lparr>q_ratio := quality_ratio rnd (latest_quality q)\<rparr>))"

end
