(* ===== verification/VideoQosProps.thy ===== *)
theory VideoQosProps
  imports VideoQos
begin

text \<open>
  Properties of the controller of theory VideoQos: no sequence of its operations panics or leaves the
  frame rate, the bit-rate ratio or the sample windows out of range; the frame rate respects what each
  user asked for; and the answer to a bad network.
\<close>

section \<open>Operations\<close>

datatype qos_op =
    Op_open config_state int
  | Op_close int
  | Op_custom_fps int nat
  | Op_auto_adjust_fps int nat
  | Op_image_quality int int
  | Op_record int bool
  | Op_network_delay int nat
  | Op_response_elapsed int nat
  | Op_new_display string
  | Op_remove_display string
  | Op_support string bool
  | Op_display_data string nat
  | Op_store_bitrate nat
  | Op_ratio

fun qos_step :: "(rat \<Rightarrow> rat) \<Rightarrow> bool \<Rightarrow> int \<times> qos_op \<Rightarrow> video_qos \<Rightarrow> video_qos option" where
  "qos_step rnd lin (now, Op_open cfg i) q = Some (on_connection_open cfg now i q)"
| "qos_step rnd lin (now, Op_close i) q = Some (on_connection_close rnd now i q)"
| "qos_step rnd lin (now, Op_custom_fps i f) q = Some (user_custom_fps i f q)"
| "qos_step rnd lin (now, Op_auto_adjust_fps i f) q = Some (user_auto_adjust_fps i f q)"
| "qos_step rnd lin (now, Op_image_quality i n) q = user_image_quality rnd now i n q"
| "qos_step rnd lin (now, Op_record i v) q = Some (user_record i v q)"
| "qos_step rnd lin (now, Op_network_delay i d) q = user_network_delay rnd lin now i d q"
| "qos_step rnd lin (now, Op_response_elapsed i d) q = Some (user_delay_response_elapsed rnd now i d q)"
| "qos_step rnd lin (now, Op_new_display n) q = Some (new_display n q)"
| "qos_step rnd lin (now, Op_remove_display n) q = Some (remove_display n q)"
| "qos_step rnd lin (now, Op_support n v) q = Some (set_support_changing_quality n v q)"
| "qos_step rnd lin (now, Op_display_data n c) q = update_display_data rnd now n c q"
| "qos_step rnd lin (now, Op_store_bitrate b) q = Some (store_bitrate b q)"
| "qos_step rnd lin (now, Op_ratio) q = Some (snd (get_ratio rnd q))"

primrec qos_run :: "(rat \<Rightarrow> rat) \<Rightarrow> bool \<Rightarrow> (int \<times> qos_op) list \<Rightarrow> video_qos \<Rightarrow> video_qos option" where
  "qos_run rnd lin [] q = Some q"
| "qos_run rnd lin (x # xs) q = Option.bind (qos_step rnd lin x q) (qos_run rnd lin xs)"

section \<open>Ranges\<close>

definition quality_ok :: "(rat \<Rightarrow> rat) \<Rightarrow> quality \<Rightarrow> bool" where
  "quality_ok rnd v \<longleftrightarrow> (case v of Custom r \<Rightarrow> BR_MIN rnd \<le> r \<and> r \<le> BR_MAX rnd \<and> rnd r = r | _ \<Rightarrow> True)"

definition delay_ok :: "user_delay \<Rightarrow> bool" where
  "delay_ok d \<longleftrightarrow>
     length (delay_history d) \<le> HISTORY_DELAY_LEN + 1 \<and> length (samples (rtt_state d)) \<le> WINDOW_SAMPLES"

definition user_ok :: "(rat \<Rightarrow> rat) \<Rightarrow> user_data \<Rightarrow> bool" where
  "user_ok rnd u \<longleftrightarrow>
     delay_ok (u_delay u) \<and> (case u_quality u of Some (_, v) \<Rightarrow> quality_ok rnd v | None \<Rightarrow> True) \<and>
     (\<forall>f. custom_fps u = Some f \<longrightarrow> MIN_FPS \<le> f) \<and> (\<forall>f. auto_adjust_fps u = Some f \<longrightarrow> MIN_FPS \<le> f)"

definition qos_ok :: "(rat \<Rightarrow> rat) \<Rightarrow> video_qos \<Rightarrow> bool" where
  "qos_ok rnd q \<longleftrightarrow>
     MIN_FPS \<le> q_fps q \<and> q_fps q \<le> MAX_FPS \<and>
     BR_MIN_HIGH_RESOLUTION rnd \<le> q_ratio q \<and> q_ratio q \<le> BR_MAX rnd \<and>
     (\<forall>u\<in>snd ` set (q_users q). user_ok rnd u)"

subsection \<open>Constants under rounding\<close>

lemma f32_okD:
  assumes "f32_ok rnd"
  shows "x \<le> y \<Longrightarrow> rnd x \<le> rnd y" "rnd (rnd x) = rnd x" "rnd 40 = 40" "rnd (1 / 2) = 1 / 2"
    "rnd (3 / 2) = 3 / 2" "rnd (5 / 2) = 5 / 2"
proof -
  have e: "n \<le> 2 ^ 24 \<Longrightarrow> k \<le> 24 \<Longrightarrow> rnd (of_nat n / 2 ^ k) = of_nat n / 2 ^ k" for n k :: nat
    using assms by (simp add: f32_ok_def)
  show "x \<le> y \<Longrightarrow> rnd x \<le> rnd y" "rnd (rnd x) = rnd x" using assms by (simp_all add: f32_ok_def)
  show "rnd 40 = 40" using e [of 40 0] by simp
  show "rnd (1 / 2) = 1 / 2" using e [of 1 1] by simp
  show "rnd (3 / 2) = 3 / 2" using e [of 3 1] by simp
  show "rnd (5 / 2) = 5 / 2" using e [of 5 1] by simp
qed

lemma ratio_constants:
  assumes "f32_ok rnd"
  shows "BR_MIN_HIGH_RESOLUTION rnd \<le> BR_MIN rnd" "BR_MIN rnd \<le> rnd (2 / 5)" "rnd (2 / 5) \<le> BR_SPEED rnd"
    "BR_SPEED rnd \<le> BR_BALANCED rnd" "BR_BALANCED rnd \<le> BR_BEST rnd" "BR_BEST rnd \<le> BR_MAX rnd"
    "rnd (3 / 5) \<le> BR_BEST rnd" "BR_MIN rnd \<le> BR_SPEED rnd"
  using f32_okD(1) [OF assms]
  by (simp_all add: BR_MIN_HIGH_RESOLUTION_def BR_MIN_def BR_SPEED_def BR_BALANCED_def BR_BEST_def BR_MAX_def)

lemma quality_ratio_range:
  assumes "f32_ok rnd" "quality_ok rnd v"
  shows "BR_MIN rnd \<le> quality_ratio rnd v" "quality_ratio rnd v \<le> BR_MAX rnd"
    "rnd (quality_ratio rnd v) = quality_ratio rnd v"
  using assms(2) ratio_constants [OF assms(1)] f32_okD(2) [OF assms(1)]
  by (cases v; force simp: quality_ratio_def quality_ok_def BR_SPEED_def BR_BALANCED_def BR_BEST_def)+

lemma least_ratio_below_target:
  assumes "f32_ok rnd" "quality_ok rnd v" "\<forall>r. x = Some r \<longrightarrow> BR_MIN_HIGH_RESOLUTION rnd \<le> r"
  shows "least_ratio rnd v x \<le> quality_ratio rnd v" "BR_MIN_HIGH_RESOLUTION rnd \<le> least_ratio rnd v x"
proof -
  note c = ratio_constants [OF assms(1)]
  have b: "rnd (BR_BEST rnd / rnd (5 / 2)) = rnd (3 / 5)"
    by (simp add: BR_BEST_def f32_okD [OF assms(1)])
  show "least_ratio rnd v x \<le> quality_ratio rnd v"
    using c assms(2)
    by (cases v; cases x) (auto simp: least_ratio_def quality_ratio_def b quality_ok_def min_def max_def Let_def)
  show "BR_MIN_HIGH_RESOLUTION rnd \<le> least_ratio rnd v x"
    using c by (cases v) (auto simp: least_ratio_def le_max_iff_disj Let_def)
qed

subsection \<open>The latest quality and the highest frame rate\<close>

lemma snd_later: "\<forall>a\<in>set (a # r). P (snd a) \<Longrightarrow> P (snd (later a r))"
  by (induction a r rule: later.induct) auto

lemma latest_quality_ok:
  assumes "\<forall>u\<in>snd ` set (q_users q). user_ok rnd u"
  shows "quality_ok rnd (latest_quality q)"
proof -
  have "\<forall>a\<in>set (List.map_filter (\<lambda>u. u_quality (snd u)) (q_users q)). quality_ok rnd (snd a)"
    using assms by (force simp: List.map_filter_def user_ok_def split: option.splits)
  then show ?thesis
    using snd_later [where P = "quality_ok rnd"]
    by (auto simp: latest_quality_def quality_ok_def split: list.split)
qed

lemma min_list_le: "x \<in> set xs \<Longrightarrow> min_list xs \<le> (x :: nat)"
  by (cases "xs = []") (simp_all add: min_list_Min)

lemma min_list_in: "xs \<noteq> [] \<Longrightarrow> min_list xs \<in> set (xs :: nat list)"
  by (simp add: min_list_Min)

lemma highest_fps_range [simp]: "MIN_FPS \<le> highest_fps q" "highest_fps q \<le> MAX_FPS"
  by (simp_all add: highest_fps_def clamp_u32_def qos_constants Let_def)

lemma highest_fps_le:
  assumes "u \<in> snd ` set (q_users q)" "MIN_FPS \<le> user_fps u"
  shows "highest_fps q \<le> user_fps u"
proof -
  let ?fs = "filter (\<lambda>f. MIN_FPS \<le> f) (map (\<lambda>u. user_fps (snd u)) (q_users q))"
  have i: "user_fps u \<in> set ?fs" using assms by auto
  then have "min_list ?fs \<le> user_fps u" by (rule min_list_le)
  moreover have "?fs \<noteq> []" using i by (metis list.set(1) empty_iff)
  ultimately show ?thesis
    using assms(2) by (simp only: highest_fps_def Let_def clamp_u32_def if_False)
qed

lemma user_fps_ok:
  assumes "user_ok rnd u"
  shows "MIN_FPS \<le> user_fps u" "custom_fps u = Some f \<Longrightarrow> user_fps u \<le> f"
    "auto_adjust_fps u = Some g \<Longrightarrow> user_fps u \<le> g"
  using assms by (auto simp: user_ok_def user_fps_def qos_constants Let_def split: option.split)

subsection \<open>Every operation keeps the ranges\<close>

lemma delay_ok_default [simp]: "delay_ok delay_default"
  by (simp add: delay_ok_def delay_default_def rtt_default_def)

lemma delay_ok_add: "delay_ok d \<Longrightarrow> delay_ok (add_delay rnd x d)"
  by (auto simp: delay_ok_def add_delay_def rtt_update_def Let_def qos_constants)

lemma delay_ok_update [simp]:
  "delay_ok (d\<lparr>response_delayed := b\<rparr>) = delay_ok d"
  "delay_ok (d\<lparr>quick_increase_fps_count := m, increase_fps_count := n, delay_fps := o'\<rparr>) = delay_ok d"
  by (simp_all add: delay_ok_def)

lemma delay_ok_sample: "delay_ok d \<Longrightarrow> delay_ok (delay_sample rnd a b h f x d)"
  by (simp add: delay_sample_def Let_def delay_ok_add split: prod.split)

lemma user_ok_default [simp]: "user_ok rnd user_default_data"
  by (simp add: user_ok_def user_default_data_def)

lemma user_ok_delay: "user_ok rnd u \<Longrightarrow> delay_ok d \<Longrightarrow> user_ok rnd (u\<lparr>u_delay := d\<rparr>)"
  by (simp add: user_ok_def)

lemma set_update_subset: "set (AList.update k v al) \<subseteq> insert (k, v) (set al)"
  by (induction al) auto

lemma qos_ok_on_user:
  assumes "qos_ok rnd q" "\<And>u. user_ok rnd u \<Longrightarrow> user_ok rnd (f u)"
  shows "qos_ok rnd (on_user i f q)"
proof (cases "map_of (q_users q) i")
  case (Some u)
  then have "user_ok rnd u" using assms(1) map_of_SomeD [OF Some] by (force simp: qos_ok_def)
  then have "user_ok rnd (f u)" by (rule assms(2))
  moreover have "set (AList.update i (f u) (q_users q)) \<subseteq> insert (i, f u) (set (q_users q))"
    by (rule set_update_subset)
  ultimately show ?thesis using assms(1) Some by (force simp: on_user_def qos_ok_def)
qed (use assms in \<open>simp add: on_user_def\<close>)

lemma qos_ok_fields:
  "qos_ok rnd (q\<lparr>q_displays := d\<rparr>) = qos_ok rnd q"
  "qos_ok rnd (q\<lparr>bitrate_store := b\<rparr>) = qos_ok rnd q"
  "qos_ok rnd (q\<lparr>adjust_ratio_instant := t\<rparr>) = qos_ok rnd q"
  by (simp_all add: qos_ok_def)

lemma qos_ok_on_display [simp]: "qos_ok rnd (on_display n f q) = qos_ok rnd q"
  by (simp add: on_display_def qos_ok_def split: option.split)

lemma qos_ok_default: "f32_ok rnd \<Longrightarrow> qos_ok rnd (qos_default rnd t)"
  using ratio_constants [of rnd] by (auto simp: qos_ok_def qos_default_def qos_constants)

lemma clamp_u32_range: "lo \<le> hi \<Longrightarrow> lo \<le> clamp_u32 x lo hi \<and> clamp_u32 x lo hi \<le> hi"
  by (simp add: clamp_u32_def)

lemma adjust_fps_fields [simp]:
  "q_users (adjust_fps t q) = q_users q" "q_ratio (adjust_fps t q) = q_ratio q"
  by (simp_all add: adjust_fps_def Let_def)

lemma adjust_fps_range: "MIN_FPS \<le> q_fps (adjust_fps t q) \<and> q_fps (adjust_fps t q) \<le> highest_fps q"
  using clamp_u32_range [OF highest_fps_range(1) [of q]] by (simp add: adjust_fps_def Let_def)

lemma qos_ok_adjust_fps: "qos_ok rnd q \<Longrightarrow> qos_ok rnd (adjust_fps t q)"
  using adjust_fps_range [of t q] highest_fps_range(2) [of q] by (auto simp: qos_ok_def intro: order_trans)

lemma qos_ok_latest_ratio:
  assumes "f32_ok rnd" "qos_ok rnd q"
  shows "qos_ok rnd (q\<lparr>q_ratio := quality_ratio rnd (latest_quality q)\<rparr>)"
proof -
  have "quality_ok rnd (latest_quality q)" using assms(2) by (intro latest_quality_ok) (simp add: qos_ok_def)
  from quality_ratio_range [OF assms(1) this] ratio_constants [OF assms(1)] assms(2)
  show ?thesis by (simp add: qos_ok_def)
qed

lemma adjust_ratio_ok:
  assumes "f32_ok rnd" "qos_ok rnd q"
  shows "\<exists>q'. adjust_ratio rnd t dyn q = Some q' \<and> qos_ok rnd q' \<and> q_fps q' = q_fps q"
proof -
  let ?v = "latest_quality q"
  have v: "quality_ok rnd ?v" using assms(2) by (intro latest_quality_ok) (simp add: qos_ok_def)
  note r = quality_ratio_range [OF assms(1) v]
  have m: "\<forall>r. ratio_1mbps rnd b c = Some r \<longrightarrow> BR_MIN_HIGH_RESOLUTION rnd \<le> r" for b c
    by (simp add: ratio_1mbps_def)
  note l = least_ratio_below_target [OF assms(1) v m]
  have c: "\<exists>r. f32_clamp x (least_ratio rnd ?v (ratio_1mbps rnd b c)) (rnd (quality_ratio rnd ?v * 1)) = Some r \<and>
      BR_MIN_HIGH_RESOLUTION rnd \<le> r \<and> r \<le> BR_MAX rnd" for x b c
    using l [of b c] r by (auto simp: f32_clamp_def le_max_iff_disj intro: order_trans)
  obtain f where "\<And>x. f32_clamp x (least_ratio rnd ?v (ratio_1mbps rnd (bitrate_store q) (q_ratio q)))
      (rnd (quality_ratio rnd ?v * 1)) = Some (f x) \<and> BR_MIN_HIGH_RESOLUTION rnd \<le> f x \<and> f x \<le> BR_MAX rnd"
    using c [of _ "bitrate_store q" "q_ratio q"] by metis
  then show ?thesis using assms(2) by (auto simp: adjust_ratio_def Let_def qos_ok_def)
qed

lemma convert_quality_ok:
  assumes "f32_ok rnd"
  shows "\<exists>v. convert_quality rnd n = Some v \<and> quality_ok rnd v"
proof -
  have c: "BR_MIN rnd \<le> BR_MAX rnd" using ratio_constants [OF assms] by linarith
  have "rnd (max (BR_MIN rnd) (min (BR_MAX rnd) (rnd x))) = max (BR_MIN rnd) (min (BR_MAX rnd) (rnd x))" for x
    using f32_okD(2) [OF assms] by (auto simp: max_def min_def BR_MIN_def BR_MAX_def)
  then show ?thesis
    using c by (auto simp: convert_quality_def f32_clamp_def quality_ok_def)
qed

lemma user_image_quality_ok:
  assumes "f32_ok rnd" "qos_ok rnd q"
  shows "\<exists>q'. user_image_quality rnd t i n q = Some q' \<and> qos_ok rnd q'"
proof -
  obtain v where v: "convert_quality rnd n = Some v" "quality_ok rnd v"
    using convert_quality_ok [OF assms(1)] by blast
  have "qos_ok rnd (on_user i (\<lambda>u. u\<lparr>u_quality := Some (t, v)\<rparr>) q)"
    by (rule qos_ok_on_user [OF assms(2)]) (simp add: user_ok_def v(2))
  from qos_ok_latest_ratio [OF assms(1) this]
  show ?thesis using v(1) assms(2) by (auto simp: user_image_quality_def Let_def split: option.split)
qed

lemma user_network_delay_ok:
  assumes "f32_ok rnd" "qos_ok rnd q"
  shows "\<exists>q'. user_network_delay rnd lin t i d q = Some q' \<and> qos_ok rnd q'"
proof -
  obtain a b where ab: "fps_bounds rnd (quality_ratio rnd (latest_quality q)) = (a, b)" by fastforce
  let ?q = "adjust_fps t (on_user i (\<lambda>u. u\<lparr>u_delay :=
    delay_sample rnd a b (highest_fps q) (q_fps q) d (u_delay u)\<rparr>) q)"
  have "qos_ok rnd ?q"
    by (intro qos_ok_adjust_fps qos_ok_on_user [OF assms(2)])
      (simp add: user_ok_def delay_ok_sample)
  with adjust_ratio_ok [OF assms(1) this, of t False]
  show ?thesis by (auto simp: user_network_delay_def ab Let_def)
qed

lemma update_display_data_ok:
  assumes "f32_ok rnd" "qos_ok rnd q"
  shows "\<exists>q'. update_display_data rnd t n c q = Some q' \<and> qos_ok rnd q'"
proof -
  let ?q = "adjust_fps t (on_display n (\<lambda>d. d\<lparr>send_counter := send_counter d + c\<rparr>) q)"
  have q: "qos_ok rnd ?q" using assms(2) by (intro qos_ok_adjust_fps) simp
  then have "qos_ok rnd (?q\<lparr>q_displays := ds\<rparr>)" for ds by (simp add: qos_ok_fields)
  from adjust_ratio_ok [OF assms(1) this] qos_ok_latest_ratio [OF assms(1) q] q
  show ?thesis by (simp add: update_display_data_def Let_def) blast
qed

lemma response_elapsed_ok:
  assumes "qos_ok rnd q"
  shows "qos_ok rnd (user_delay_response_elapsed rnd t i d q)"
proof -
  have "qos_ok rnd (on_user i (\<lambda>u. u\<lparr>u_delay := (u_delay u)\<lparr>response_delayed := False\<rparr>\<rparr>) q)"
    "qos_ok rnd (adjust_fps t (on_user i (\<lambda>u. u\<lparr>u_delay :=
       add_delay rnd (d mod 2 ^ 32) ((u_delay u)\<lparr>response_delayed := True\<rparr>)\<rparr>) q))"
    by (intro qos_ok_adjust_fps qos_ok_on_user [OF assms]; simp add: user_ok_def delay_ok_add)+
  with assms show ?thesis by (simp add: user_delay_response_elapsed_def)
qed

lemma open_close_ok:
  assumes "f32_ok rnd" "qos_ok rnd q"
  shows "qos_ok rnd (on_connection_open cfg t i q)" "qos_ok rnd (on_connection_close rnd t i q)"
proof -
  show "qos_ok rnd (on_connection_open cfg t i q)"
    using assms(2) set_update_subset [of i user_default_data "q_users q"]
    by (force simp: qos_ok_def on_connection_open_def)
  have "set (AList.delete i (q_users q)) \<subseteq> set (q_users q)" by (auto simp: AList.delete_eq)
  then show "qos_ok rnd (on_connection_close rnd t i q)"
    using assms(2) qos_ok_default [OF assms(1), of t]
    by (auto simp: on_connection_close_def Let_def qos_ok_def)
qed

lemma get_ratio_ok:
  assumes "f32_ok rnd" "qos_ok rnd q"
  shows "qos_ok rnd (snd (get_ratio rnd q))"
  using assms(2) by (auto simp: get_ratio_def qos_ok_def Let_def)

lemma custom_fps_ok:
  assumes "qos_ok rnd q"
  shows "qos_ok rnd (user_custom_fps i f q)" "qos_ok rnd (user_auto_adjust_fps i f q)"
    "qos_ok rnd (user_record i v q)"
proof -
  show "qos_ok rnd (user_record i v q)"
    unfolding user_record_def by (rule qos_ok_on_user [OF assms]) (simp add: user_ok_def)
  have "MIN_FPS \<le> f \<Longrightarrow> qos_ok rnd (on_user i (\<lambda>u. u\<lparr>custom_fps := Some f\<rparr>) q)"
    by (rule qos_ok_on_user [OF assms]) (simp add: user_ok_def)
  with assms show "qos_ok rnd (user_custom_fps i f q)" by (simp add: user_custom_fps_def)
  have "MIN_FPS \<le> f \<Longrightarrow> qos_ok rnd (on_user i (\<lambda>u. u\<lparr>auto_adjust_fps := Some f\<rparr>) q)"
    by (rule qos_ok_on_user [OF assms]) (simp add: user_ok_def)
  with assms show "qos_ok rnd (user_auto_adjust_fps i f q)" by (simp add: user_auto_adjust_fps_def)
qed

lemma qos_step_ok:
  assumes "f32_ok rnd" "qos_ok rnd q"
  shows "\<exists>q'. qos_step rnd lin x q = Some q' \<and> qos_ok rnd q'"
proof -
  obtain t a where x: "x = (t, a)" by fastforce
  show ?thesis
    unfolding x using assms
    by (cases a)
      (simp_all add: user_image_quality_ok user_network_delay_ok update_display_data_ok response_elapsed_ok
        open_close_ok custom_fps_ok get_ratio_ok qos_ok_fields new_display_def remove_display_def
        set_support_changing_quality_def store_bitrate_def)
qed

lemma qos_run_ok:
  assumes "f32_ok rnd"
  shows "qos_ok rnd q \<Longrightarrow> \<exists>q'. qos_run rnd lin xs q = Some q' \<and> qos_ok rnd q'"
proof (induction xs arbitrary: q)
  case (Cons x xs)
  from qos_step_ok [OF assms Cons.prems] obtain q' where "qos_step rnd lin x q = Some q'" "qos_ok rnd q'"
    by blast
  with Cons.IH show ?case by simp
qed simp

section \<open>Properties\<close>

lemma f32_ok_id: "f32_ok (\<lambda>x. x)"
  by (simp add: f32_ok_def)

text \<open>C10: from the start of the service, no sequence of connections, option changes, delay reports and
  encoder updates panics, and the frame rate, the bit-rate ratio, and the windows of delay samples of every user
  stay in their ranges.\<close>

theorem qos_stays_in_range:
  assumes "f32_ok rnd"
  shows "\<exists>q. qos_run rnd is_linux ops (qos_default rnd t) = Some q \<and>
    MIN_FPS \<le> q_fps q \<and> q_fps q \<le> MAX_FPS \<and> get_fps q = q_fps q \<and>
    BR_MIN_HIGH_RESOLUTION rnd \<le> q_ratio q \<and> q_ratio q \<le> BR_MAX rnd \<and> get_ratio rnd q = (q_ratio q, q) \<and>
    list_all (\<lambda>(_, u). length (delay_history (u_delay u)) \<le> HISTORY_DELAY_LEN + 1 \<and>
       length (samples (rtt_state (u_delay u))) \<le> WINDOW_SAMPLES) (q_users q)"
proof -
  obtain q where q: "qos_run rnd is_linux ops (qos_default rnd t) = Some q" "qos_ok rnd q"
    using qos_run_ok [OF assms qos_ok_default [OF assms]] by blast
  have "u \<in> set (q_users q) \<Longrightarrow> delay_ok (u_delay (snd u))" for u
    using q(2) by (auto simp: qos_ok_def user_ok_def)
  then have "list_all (\<lambda>(_, u). length (delay_history (u_delay u)) \<le> HISTORY_DELAY_LEN + 1 \<and>
      length (samples (rtt_state (u_delay u))) \<le> WINDOW_SAMPLES) (q_users q)"
    by (force simp: list_all_iff delay_ok_def)
  with q show ?thesis by (simp add: qos_ok_def get_fps_def get_ratio_def Let_def not_less)
qed

lemma qos_stays_in_range_witness:
  "\<exists>q. qos_run (\<lambda>x. x) False [(0, Op_image_quality 7 (80 * 256)), (5, Op_network_delay 7 400)]
     (qos_default (\<lambda>x. x) 0) = Some q \<and> 1 \<le> q_fps q \<and> q_fps q \<le> 120 \<and> 1 / 10 \<le> q_ratio q \<and> q_ratio q \<le> 40"
  using qos_stays_in_range [OF f32_ok_id, of False "[(0, Op_image_quality 7 (80 * 256)), (5, Op_network_delay 7 400)]" 0]
  by (auto simp: MIN_FPS_def MAX_FPS_def BR_MIN_HIGH_RESOLUTION_def BR_MAX_def)

text \<open>C29: whenever the frame rate is adjusted it is at most what every connected user asked for, and at
  most two while the answer of some user is late.\<close>

theorem fps_respects_every_user:
  assumes "qos_ok rnd q" "u \<in> snd ` set (q_users q)"
  shows "(custom_fps u = Some f \<longrightarrow> q_fps (adjust_fps t q) \<le> f) \<and>
    (auto_adjust_fps u = Some g \<longrightarrow> q_fps (adjust_fps t q) \<le> g) \<and>
    (response_delayed (u_delay u) \<longrightarrow> q_fps (adjust_fps t q) \<le> MIN_FPS + 1)"
proof (intro conjI impI)
  have ok: "user_ok rnd u" using assms unfolding qos_ok_def by blast
  have le: "q_fps (adjust_fps t q) \<le> user_fps u"
    using adjust_fps_range [of t q] highest_fps_le [OF assms(2) user_fps_ok(1) [OF ok]] by simp
  show "q_fps (adjust_fps t q) \<le> f" if "custom_fps u = Some f" using le user_fps_ok(2) [OF ok that] by simp
  show "q_fps (adjust_fps t q) \<le> g" if "auto_adjust_fps u = Some g" using le user_fps_ok(3) [OF ok that] by simp
  show "q_fps (adjust_fps t q) \<le> MIN_FPS + 1" if "response_delayed (u_delay u)"
  proof -
    have late: "\<exists>v\<in>set (q_users q). response_delayed (u_delay (snd v))" using that assms(2) by auto
    show ?thesis
      unfolding adjust_fps_def Let_def clamp_u32_def using late
      by (auto simp: qos_constants not_less intro: min.coboundedI2)
  qed
qed

lemma avg_delay_update:
  "avg_delay (d\<lparr>quick_increase_fps_count := m, increase_fps_count := n, delay_fps := v\<rparr>) = avg_delay d"
  by (simp add: avg_delay_def)

lemma add_delay_counts:
  "quick_increase_fps_count (add_delay rnd x d) = quick_increase_fps_count d"
  "increase_fps_count (add_delay rnd x d) = increase_fps_count d"
  by (simp_all add: add_delay_def)

lemma add32_small: "x < 2 ^ 31 \<Longrightarrow> y < 2 ^ 31 \<Longrightarrow> add32 x y = x + y"
  by (simp add: add32_def)

lemma next_fps_low:
  assumes "avg < 200"
  shows "min_fps \<le> fst (next_fps rnd min_fps normal_fps old avg quick fps)"
  using assms by (simp add: next_fps_def Let_def DELAY_THRESHOLD_150MS_def)

lemma next_fps_small:
  assumes "avg < 150" "max min_fps fps < 2 ^ 30"
  shows "fst (next_fps rnd min_fps normal_fps old avg quick fps) < 2 ^ 31"
  using assms by (simp add: next_fps_def Let_def DELAY_THRESHOLD_150MS_def add32_small)

lemma next_fps_high:
  assumes "200 \<le> avg"
  shows "fst (next_fps rnd min_fps normal_fps old avg quick fps) \<le> min_fps"
proof -
  have "150 * min_fps div avg \<le> 150 * min_fps div 150"
    using assms by (intro div_le_mono2) simp_all
  then show ?thesis
    using assms by (simp add: next_fps_def Let_def DELAY_THRESHOLD_150MS_def min.coboundedI1)
qed

text \<open>A sample sets the frame rate of the branch, or one more after three samples without delay.\<close>

lemma delay_sample_fps:
  fixes d rnd min_fps normal_fps fps delay
  defines "avg \<equiv> max 10 (avg_delay (add_delay rnd (max 10 delay) d))"
  defines "v \<equiv> fst (next_fps rnd min_fps normal_fps (avg_delay d) avg (quick_increase_fps_count d) fps)"
  shows "\<exists>w. delay_fps (delay_sample rnd min_fps normal_fps highest fps delay d) =
      Some (clamp_u32 w MIN_FPS highest) \<and> (w = v \<or> w = add32 v 1 \<and> avg < 150)"
  unfolding avg_def v_def
  by (auto simp: delay_sample_def Let_def DELAY_THRESHOLD_150MS_def case_prod_unfold add_delay_counts)

definition demo_qos :: video_qos where
  "demo_qos = (qos_default (\<lambda>x. x) 0)
     \<lparr>q_users := [(7, user_default_data\<lparr>custom_fps := Some 20, u_delay := delay_default\<lparr>response_delayed := True\<rparr>\<rparr>)]\<rparr>"

lemma demo_qos_ok: "qos_ok (\<lambda>x. x) demo_qos"
  using qos_ok_default [OF f32_ok_id, of 0]
  by (simp add: qos_ok_def demo_qos_def user_ok_def user_default_data_def qos_constants)

lemma fps_respects_every_user_witness:
  "q_fps (adjust_fps 9 demo_qos) \<le> 20 \<and> q_fps (adjust_fps 9 demo_qos) \<le> 2"
  using fps_respects_every_user [OF demo_qos_ok, of _ 20 9 0]
  by (simp add: demo_qos_def user_default_data_def MIN_FPS_def)

text \<open>C30: with an average delay below 150 ms the frame rate of a user is at least the minimum for the picture
  quality (or the highest allowed); from 200 ms on it is at most that minimum; between 150 and 200 ms it still
  is at least the minimum, although the description at the head of the file says it is lower.\<close>

theorem fps_follows_the_delay:
  assumes "1 \<le> min_fps" "max min_fps fps < 2 ^ 30" "MIN_FPS \<le> highest"
    and "d' = delay_sample rnd min_fps normal_fps highest fps delay d"
  shows "(max 10 (avg_delay d') < 200 \<longrightarrow> min min_fps highest \<le> the (delay_fps d')) \<and>
    (200 \<le> avg_delay d' \<longrightarrow> the (delay_fps d') \<le> min_fps) \<and>
    delay_fps d' \<noteq> None \<and> the (delay_fps d') \<le> highest"
proof -
  define avg where "avg = max 10 (avg_delay (add_delay rnd (max 10 delay) d))"
  define v where "v = fst (next_fps rnd min_fps normal_fps (avg_delay d) avg (quick_increase_fps_count d) fps)"
  have avg: "max 10 (avg_delay d') = avg"
    by (simp add: assms(4) delay_sample_def Let_def avg_delay_update avg_def case_prod_unfold)
  obtain w where w: "delay_fps d' = Some (clamp_u32 w MIN_FPS highest)" "w = v \<or> w = add32 v 1 \<and> avg < 150"
    using delay_sample_fps [of rnd min_fps normal_fps highest fps delay d]
    by (auto simp: assms(4) v_def avg_def)
  have low: "avg < 200 \<Longrightarrow> min_fps \<le> v" and high: "200 \<le> avg \<Longrightarrow> v \<le> min_fps"
    by (simp_all add: v_def next_fps_low next_fps_high)
  have small: "avg < 150 \<Longrightarrow> v < 2 ^ 31"
    unfolding v_def by (rule next_fps_small [OF _ assms(2)])
  have w1: "w = v \<or> w = v + 1 \<and> avg < 150" using w(2) small by (auto simp: add32_small)
  have big: "200 \<le> avg_delay d' \<Longrightarrow> 200 \<le> avg" using avg by simp
  show ?thesis
    using w(1) w1 low high big assms(1,3) by (auto simp: avg clamp_u32_def MIN_FPS_def)
qed

lemma fps_follows_the_delay_witness:
  "the (delay_fps (delay_sample (\<lambda>x. x) 10 20 30 15 400 delay_default)) \<le> 10 \<and>
   200 \<le> avg_delay (delay_sample (\<lambda>x. x) 10 20 30 15 400 delay_default)"
proof -
  have "avg_delay (delay_sample (\<lambda>x. x) 10 20 30 15 400 delay_default) = 400"
    by (simp add: delay_sample_def Let_def avg_delay_update case_prod_unfold add_delay_def avg_delay_def
        delay_default_def rtt_default_def rtt_update_def get_rtt_def sum32_def qos_constants)
  then show ?thesis
    using fps_follows_the_delay [of 10 15 30 "delay_sample (\<lambda>x. x) 10 20 30 15 400 delay_default"
        "\<lambda>x. x" 20 400 delay_default]
    by (simp add: MIN_FPS_def)
qed

end
