(* ===== verification/PasswordSecurity.thy ===== *)
theory PasswordSecurity
  imports ConfigStore
begin

text \<open>
  Passwords at rest and the permanent password: \<open>libs/hbb_common/src/password_security.rs\<close>,
  \<open>libs/hbb_common/src/config/permanent_password.rs\<close>, and the parts of
  \<open>libs/hbb_common/src/config.rs\<close> that set, synchronise and store the permanent password and the
  trusted devices. libsodium, base64, SHA-256, the machine id and JSON are parameters, gathered in
  the record \<open>crypto\<close>; random bytes are arguments. Byte vectors and strings are both byte strings.
\<close>

section \<open>Parameters\<close>

record trusted_device =
  hwid :: string
  td_time :: int
  td_id :: string
  td_name :: string
  td_platform :: string

record crypto =
  seal :: "string \<Rightarrow> string \<Rightarrow> string \<Rightarrow> string"
  open_box :: "string \<Rightarrow> string \<Rightarrow> string \<Rightarrow> string option"
  base64_encode :: "string \<Rightarrow> string"
  base64_decode :: "string \<Rightarrow> string option"
  sha256 :: "string \<Rightarrow> string"
  uuid :: string
  existing_pk :: "string option"
  devices_to_json :: "trusted_device list \<Rightarrow> string"
  devices_from_json :: "string \<Rightarrow> trusted_device list option"

text \<open>What the libraries document: an authenticated box opens under its own nonce and key and is a
  tag of sixteen bytes longer than its text; base64 is ASCII, decodes to what it encoded and takes
  four characters for three bytes (the bounds here are weaker); SHA-256 has 32 bytes; the
  JSON of an empty list is a pair of brackets.\<close>

definition crypto_ok :: "crypto \<Rightarrow> bool" where
  "crypto_ok c \<longleftrightarrow>
     (\<forall>m n k. length n = 24 \<longrightarrow> length k = 32 \<longrightarrow>
        open_box c (seal c m n k) n k = Some m \<and> length (seal c m n k) = length m + 16) \<and>
     (\<forall>x. base64_decode c (base64_encode c x) = Some x \<and>
          length x \<le> length (base64_encode c x) \<and>
          length (base64_encode c x) \<le> 2 * length x + 2 \<and>
          list_all (\<lambda>ch. (of_char ch :: nat) < 128) (base64_encode c x)) \<and>
     (\<forall>x. length (sha256 c x) = 32) \<and>
     devices_to_json c [] = ''[]''"

definition KEYBYTES :: nat where "KEYBYTES = 32"
definition NONCEBYTES :: nat where "NONCEBYTES = 24"
definition MACBYTES :: nat where "MACBYTES = 16"
definition VERSION_LEN :: nat where "VERSION_LEN = 2"
definition ENCRYPT_MAX_LEN :: nat where "ENCRYPT_MAX_LEN = 128"
definition FORMAT_V1 :: char where "FORMAT_V1 = CHR 0x01"
definition zero_byte :: char where "zero_byte = CHR 0x00"
definition PASSWORD_ENC_VERSION :: string where "PASSWORD_ENC_VERSION = ''00''"
definition PERMANENT_PASSWORD_ENC_VERSION :: string where "PERMANENT_PASSWORD_ENC_VERSION = ''01''"
definition PERMANENT_PASSWORD_HASH_PREFIX :: string where "PERMANENT_PASSWORD_HASH_PREFIX = ''00''"
definition PERMANENT_PASSWORD_H1_LEN :: nat where "PERMANENT_PASSWORD_H1_LEN = 32"

text \<open>\<open>keybuf.resize(KEYBYTES, 0)\<close>.\<close>

definition resize_key :: "string \<Rightarrow> string" where
  "resize_key k = take KEYBYTES (k @ replicate (KEYBYTES - length k) zero_byte)"

section \<open>Encryption at rest\<close>

definition open_secretbox_payload :: "crypto \<Rightarrow> string \<Rightarrow> string \<Rightarrow> string option" where
  "open_secretbox_payload c data key =
     (let legacy = open_box c data (replicate NONCEBYTES zero_byte) key in
      if data \<noteq> [] \<and> hd data = FORMAT_V1 \<and> length data \<ge> 1 + NONCEBYTES + MACBYTES then
        (case open_box c (drop (1 + NONCEBYTES) data) (take NONCEBYTES (drop 1 data)) key of
           Some decrypted \<Rightarrow> Some decrypted
         | None \<Rightarrow> legacy)
      else legacy)"

definition symmetric_encrypt :: "crypto \<Rightarrow> string \<Rightarrow> string \<Rightarrow> string" where
  "symmetric_encrypt c nonce data =
     (let key = resize_key (uuid c) in FORMAT_V1 # nonce @ seal c data nonce key)"

definition symmetric_decrypt :: "crypto \<Rightarrow> string \<Rightarrow> string option" where
  "symmetric_decrypt c data =
     (case open_secretbox_payload c data (resize_key (uuid c)) of
        Some v \<Rightarrow> Some v
      | None \<Rightarrow>
          (case existing_pk c of
             Some pk \<Rightarrow> if pk \<noteq> uuid c then open_secretbox_payload c data (resize_key pk) else None
           | None \<Rightarrow> None))"

definition encrypt :: "crypto \<Rightarrow> string \<Rightarrow> string \<Rightarrow> string option" where
  "encrypt c nonce v =
     (if v \<noteq> [] then Some (base64_encode c (symmetric_encrypt c nonce v)) else None)"

definition decrypt :: "crypto \<Rightarrow> string \<Rightarrow> string option" where
  "decrypt c v =
     (if v \<noteq> [] then
        (case base64_decode c v of None \<Rightarrow> None | Some d \<Rightarrow> symmetric_decrypt c d)
      else None)"

definition is_encrypted :: "crypto \<Rightarrow> string \<Rightarrow> bool" where
  "is_encrypted c v =
     (if length v \<le> VERSION_LEN \<or> \<not> starts_with v ''00'' then False
      else (case base64_decode c (drop VERSION_LEN v) of
              Some decoded \<Rightarrow> length decoded \<ge> MACBYTES | None \<Rightarrow> False))"

definition encrypt_str_or_original ::
    "crypto \<Rightarrow> string \<Rightarrow> string \<Rightarrow> string \<Rightarrow> nat \<Rightarrow> string" where
  "encrypt_str_or_original c nonce s version max_len =
     (if is_encrypted c s then s
      else if utf8_chars s > max_len then []
      else if version = ''00'' then
        (case encrypt c nonce s of Some e \<Rightarrow> version @ e | None \<Rightarrow> s)
      else s)"

definition decrypt_str_or_original :: "crypto \<Rightarrow> string \<Rightarrow> string \<Rightarrow> string \<times> bool \<times> bool" where
  "decrypt_str_or_original c s current_version =
     (let original = (s, False, s \<noteq> [] \<and> \<not> is_encrypted c s) in
      if length s > VERSION_LEN \<and> starts_with s ''00'' then
        (case decrypt c (drop VERSION_LEN s) of
           Some v \<Rightarrow> (from_utf8_lossy v, True, ''00'' \<noteq> current_version)
         | None \<Rightarrow> original)
      else original)"

definition encrypt_vec_or_original ::
    "crypto \<Rightarrow> string \<Rightarrow> string \<Rightarrow> string \<Rightarrow> nat \<Rightarrow> string" where
  "encrypt_vec_or_original c nonce v version max_len =
     (if is_encrypted c v then v
      else if length v > max_len then []
      else if version = ''00'' then
        (case encrypt c nonce v of Some e \<Rightarrow> version @ e | None \<Rightarrow> v)
      else v)"

definition decrypt_vec_or_original :: "crypto \<Rightarrow> string \<Rightarrow> string \<Rightarrow> string \<times> bool \<times> bool" where
  "decrypt_vec_or_original c v current_version =
     (let original = (v, False, v \<noteq> [] \<and> \<not> is_encrypted c v) in
      if length v > VERSION_LEN then
        let version = from_utf8_lossy (take VERSION_LEN v) in
        if version = ''00'' then
          (case decrypt c (drop VERSION_LEN v) of
             Some d \<Rightarrow> (d, True, version \<noteq> current_version)
           | None \<Rightarrow> original)
        else original
      else original)"

definition keep_encrypted_storage_if_plaintext_unchanged ::
    "crypto \<Rightarrow> string \<Rightarrow> string \<Rightarrow> string \<Rightarrow> string" where
  "keep_encrypted_storage_if_plaintext_unchanged c nonce plain stored =
     (let (stored_plain, encrypted, _) = decrypt_str_or_original c stored PASSWORD_ENC_VERSION
      in if encrypted \<and> stored_plain = plain then stored
         else encrypt_str_or_original c nonce plain PASSWORD_ENC_VERSION ENCRYPT_MAX_LEN)"

section \<open>Permanent password storage\<close>

definition compute_permanent_password_h1 :: "crypto \<Rightarrow> string \<Rightarrow> string \<Rightarrow> string" where
  "compute_permanent_password_h1 c password salt =
     take PERMANENT_PASSWORD_H1_LEN (sha256 c (password @ salt))"

definition encode_storage_from_h1 :: "crypto \<Rightarrow> string \<Rightarrow> string" where
  "encode_storage_from_h1 c h1 = PERMANENT_PASSWORD_HASH_PREFIX @ base64_encode c h1"

definition encrypt_permanent_password_storage :: "crypto \<Rightarrow> string \<Rightarrow> string \<Rightarrow> string option" where
  "encrypt_permanent_password_storage c nonce storage =
     (if utf8_chars storage > ENCRYPT_MAX_LEN then None
      else Some (PERMANENT_PASSWORD_ENC_VERSION @
                 base64_encode c (symmetric_encrypt c nonce storage)))"

definition encode_encrypted_storage_from_h1 :: "crypto \<Rightarrow> string \<Rightarrow> string \<Rightarrow> string option" where
  "encode_encrypted_storage_from_h1 c nonce h1 =
     encrypt_permanent_password_storage c nonce (encode_storage_from_h1 c h1)"

definition decode_password_h1_after_prefix :: "crypto \<Rightarrow> string \<Rightarrow> string \<Rightarrow> string option" where
  "decode_password_h1_after_prefix c storage pre =
     (if \<not> starts_with storage pre then None
      else (case base64_decode c (drop (length pre) storage) of
              None \<Rightarrow> None
            | Some v \<Rightarrow> if length v \<noteq> PERMANENT_PASSWORD_H1_LEN then None
                        else Some (take PERMANENT_PASSWORD_H1_LEN v)))"

definition decode_h1_from_hashed_storage :: "crypto \<Rightarrow> string \<Rightarrow> string option" where
  "decode_h1_from_hashed_storage c storage =
     decode_password_h1_after_prefix c storage PERMANENT_PASSWORD_HASH_PREFIX"

definition decrypt_permanent_password_str_or_original :: "crypto \<Rightarrow> string \<Rightarrow> string \<times> bool \<times> bool" where
  "decrypt_permanent_password_str_or_original c storage =
     (let original = (storage, False, storage \<noteq> []) in
      if length storage > VERSION_LEN \<and> starts_with storage PERMANENT_PASSWORD_ENC_VERSION then
        (case base64_decode c (drop VERSION_LEN storage) of
           Some decoded \<Rightarrow>
             (case symmetric_decrypt c decoded of
                Some v \<Rightarrow> (from_utf8_lossy v, True, False)
              | None \<Rightarrow> original)
         | None \<Rightarrow> original)
      else original)"

definition decode_h1_from_storage :: "crypto \<Rightarrow> string \<Rightarrow> string option" where
  "decode_h1_from_storage c storage =
     (if starts_with storage PERMANENT_PASSWORD_ENC_VERSION then
        let (hashed_storage, decrypted, _) = decrypt_permanent_password_str_or_original c storage
        in if \<not> decrypted then None else decode_h1_from_hashed_storage c hashed_storage
      else None)"

definition local_storage_is_usable_for_auth :: "crypto \<Rightarrow> string \<Rightarrow> string \<Rightarrow> bool" where
  "local_storage_is_usable_for_auth c storage salt =
     (if storage = [] then False
      else if decode_h1_from_storage c storage \<noteq> None then salt \<noteq> []
      else if starts_with storage PERMANENT_PASSWORD_ENC_VERSION \<and>
              fst (snd (decrypt_permanent_password_str_or_original c storage)) then False
      else
        let (_, decrypted, looks_like_plaintext) =
              decrypt_str_or_original c storage PASSWORD_ENC_VERSION
        in if starts_with storage PASSWORD_ENC_VERSION \<and> \<not> decrypted \<and> \<not> looks_like_plaintext
           then False else True)"

definition decode_preset_h1_from_storage :: "crypto \<Rightarrow> string \<Rightarrow> string option" where
  "decode_preset_h1_from_storage c storage = decode_password_h1_after_prefix c storage ''00''"

definition preset_storage_is_usable_for_auth :: "crypto \<Rightarrow> string \<Rightarrow> string \<Rightarrow> bool" where
  "preset_storage_is_usable_for_auth c storage salt =
     (if storage = [] then False else if salt = [] then True
      else decode_preset_h1_from_storage c storage \<noteq> None)"

definition preset_storage_matches_plain :: "crypto \<Rightarrow> string \<Rightarrow> string \<Rightarrow> string \<Rightarrow> bool" where
  "preset_storage_matches_plain c storage salt input =
     (if storage = [] \<or> input = [] then False
      else if salt = [] then storage = input
      else (case decode_preset_h1_from_storage c storage of
              None \<Rightarrow> False
            | Some stored_h1 \<Rightarrow> compute_permanent_password_h1 c input salt = stored_h1))"

definition password_is_empty_or_not_hashed :: "crypto \<Rightarrow> string \<Rightarrow> bool" where
  "password_is_empty_or_not_hashed c storage =
     (if storage = [] then True
      else if decode_h1_from_storage c storage \<noteq> None then False
      else if starts_with storage PERMANENT_PASSWORD_ENC_VERSION then False
      else
        let (_, decrypted, looks_like_plaintext) =
              decrypt_str_or_original c storage PASSWORD_ENC_VERSION
        in decrypted \<or> looks_like_plaintext)"

section \<open>The configuration that holds it\<close>

record main_config =
  mc_id :: string
  mc_enc_id :: string
  mc_password :: string
  mc_salt :: string
  mc_key_confirmed :: bool
  mc_keys_confirmed :: "string \<Rightarrow> bool option"

record auth_state =
  base :: config_state
  conf :: main_config
  conf_file :: main_config
  devices_cache :: "trusted_device list \<times> bool"
  temporary_password :: string

text \<open>Random draws of one operation: nonces of the fields it may encrypt, and the salt's indices.\<close>

record draws =
  nonce_password :: string
  nonce_id :: string
  nonce_devices :: string
  salt_draws :: "nat list"

definition CHARS :: string where "CHARS = ''23456789abcdefghijkmnpqrstuvwxyz''"
definition NUM_CHARS :: string where "NUM_CHARS = ''0123456789''"
definition DEFAULT_SALT_LEN :: nat where "DEFAULT_SALT_LEN = 32"

text \<open>\<open>length\<close> draws of the generator, which the caller supplies.\<close>

definition get_auto_password_with_chars :: "nat list \<Rightarrow> string \<Rightarrow> string" where
  "get_auto_password_with_chars rng chars = map (\<lambda>r. chars ! (r mod length chars)) rng"

definition get_auto_password :: "nat list \<Rightarrow> string" where
  "get_auto_password rng = get_auto_password_with_chars rng CHARS"

definition get_auto_numeric_password :: "nat list \<Rightarrow> string" where
  "get_auto_numeric_password rng = get_auto_password_with_chars rng NUM_CHARS"

definition set_key_confirmed :: "bool \<Rightarrow> main_config \<Rightarrow> main_config \<times> bool" where
  "set_key_confirmed v cfg =
     (if mc_key_confirmed cfg = v then (cfg, False)
      else let cfg = cfg\<lparr>mc_key_confirmed := v\<rparr>
           in (if \<not> v then cfg\<lparr>mc_keys_confirmed := Map.empty\<rparr> else cfg, True))"

definition get_host_key_confirmed :: "main_config \<Rightarrow> string \<Rightarrow> bool" where
  "get_host_key_confirmed cfg host \<longleftrightarrow> mc_keys_confirmed cfg host = Some True"

definition set_host_key_confirmed :: "string \<Rightarrow> bool \<Rightarrow> main_config \<Rightarrow> main_config \<times> bool" where
  "set_host_key_confirmed host v cfg =
     (if get_host_key_confirmed cfg host = v then (cfg, False)
      else (cfg\<lparr>mc_keys_confirmed := (mc_keys_confirmed cfg)(host \<mapsto> v)\<rparr>, True))"

definition ensure_permanent_password_salt :: "draws \<Rightarrow> main_config \<Rightarrow> main_config" where
  "ensure_permanent_password_salt r cfg =
     (if mc_salt cfg = [] then cfg\<lparr>mc_salt := get_auto_password (salt_draws r)\<rparr> else cfg)"

definition ensure_permanent_password_hash_salt :: "main_config \<Rightarrow> string + unit" where
  "ensure_permanent_password_hash_salt cfg =
     (if mc_salt cfg = [] then Inl ''Permanent password hash storage requires a non-empty salt''
      else Inr ())"

definition validate_or_decrypt_storage :: "crypto \<Rightarrow> main_config \<Rightarrow> string + main_config" where
  "validate_or_decrypt_storage c cfg =
     (if mc_password cfg = [] then Inr cfg
      else if starts_with (mc_password cfg) PASSWORD_ENC_VERSION then
        let (plain, decrypted, should_store) =
              decrypt_str_or_original c (mc_password cfg) PASSWORD_ENC_VERSION
        in if decrypted then Inr (cfg\<lparr>mc_password := plain\<rparr>)
           else if \<not> should_store then Inl ''Invalid permanent password encrypted hash storage''
           else Inr cfg
      else
        let (decrypted_storage, decrypted, _) =
              decrypt_permanent_password_str_or_original c (mc_password cfg)
        in if decrypted then
             (case ensure_permanent_password_hash_salt cfg of
                Inl e \<Rightarrow> Inl e
              | Inr _ \<Rightarrow>
                  if decode_h1_from_hashed_storage c decrypted_storage \<noteq> None then Inr cfg
                  else Inl ''Invalid permanent password encrypted hash storage'')
           else Inr cfg)"

definition prepare_config_for_store :: "crypto \<Rightarrow> main_config \<Rightarrow> main_config" where
  "prepare_config_for_store c cfg =
     (case validate_or_decrypt_storage c cfg of
        Inr cfg' \<Rightarrow> cfg' | Inl _ \<Rightarrow> cfg\<lparr>mc_password := [], mc_salt := []\<rparr>)"

text \<open>\<open>Config::store\<close>: the file written for a configuration, given the file it replaces.\<close>

definition config_store :: "crypto \<Rightarrow> draws \<Rightarrow> main_config \<Rightarrow> main_config \<Rightarrow> main_config" where
  "config_store c r stored cfg =
     (let cfg = prepare_config_for_store c cfg;
          cfg = (if mc_password cfg \<noteq> [] \<and> decode_h1_from_storage c (mc_password cfg) = None
                 then cfg\<lparr>mc_password := keep_encrypted_storage_if_plaintext_unchanged c
                            (nonce_password r) (mc_password cfg) (mc_password stored)\<rparr>
                 else cfg);
          (stored_id, encrypted, _) = decrypt_str_or_original c (mc_enc_id cfg) PASSWORD_ENC_VERSION;
          cfg = (if \<not> encrypted \<or> stored_id \<noteq> mc_id cfg
                 then cfg\<lparr>mc_enc_id := encrypt_str_or_original c (nonce_id r) (mc_id cfg)
                            PASSWORD_ENC_VERSION ENCRYPT_MAX_LEN\<rparr>
                 else cfg)
      in cfg\<lparr>mc_id := []\<rparr>)"

text \<open>\<open>Config::load\<close>: the configuration read from a file, and the file afterwards. The three attempts
  to generate an identity are given by their results.\<close>

fun first_some :: "'a option list \<Rightarrow> 'a option" where
  "first_some [] = None"
| "first_some (Some x # xs) = Some x"
| "first_some (None # xs) = first_some xs"

definition config_load ::
    "crypto \<Rightarrow> draws \<Rightarrow> string option list \<Rightarrow> main_config \<Rightarrow> main_config \<times> main_config" where
  "config_load c r gen_ids file =
     (let cfg = (case validate_or_decrypt_storage c file of Inr cfg' \<Rightarrow> cfg' | Inl _ \<Rightarrow> file);
          (ident, encrypted, store2) = decrypt_str_or_original c (mc_enc_id cfg) PASSWORD_ENC_VERSION;
          plain_id = (mc_id cfg \<noteq> [] \<and> mc_enc_id cfg = [] \<and>
                      \<not> fst (snd (decrypt_str_or_original c (mc_id cfg) PASSWORD_ENC_VERSION)));
          (cfg, valid, st) =
            (if encrypted then (cfg\<lparr>mc_id := ident\<rparr>, True, store2)
             else if plain_id then (cfg, True, True) else (cfg, False, False));
          (cfg, st) =
            (if valid then (cfg, st)
             else (case first_some (take 3 gen_ids) of
                     Some i \<Rightarrow> (cfg\<lparr>mc_id := i\<rparr>, True) | None \<Rightarrow> (cfg, st)))
      in (cfg, if st then config_store c r file cfg else file))"

definition store_conf :: "crypto \<Rightarrow> draws \<Rightarrow> auth_state \<Rightarrow> auth_state" where
  "store_conf c r s = s\<lparr>conf_file := config_store c r (conf_file s) (conf s)\<rparr>"

section \<open>Trusted devices\<close>

definition outdate :: "int \<Rightarrow> trusted_device \<Rightarrow> bool" where
  "outdate now d \<longleftrightarrow> as_i64 (td_time d + 90 * 24 * 60 * 60 * 1000) < now"

definition set_trusted_devices ::
    "crypto \<Rightarrow> draws \<Rightarrow> int \<Rightarrow> trusted_device list \<Rightarrow> auth_state \<Rightarrow> auth_state" where
  "set_trusted_devices c r now ds s =
     (let ds = filter (\<lambda>d. \<not> outdate now d) ds; devices = devices_to_json c ds; max_len = 1024 * 1024
      in if length devices > max_len then s
         else
           let e = encrypt_str_or_original c (nonce_devices r) devices PASSWORD_ENC_VERSION max_len
           in s\<lparr>base := config2_put (base s) ((config2 (base s))\<lparr>trusted_devices := e\<rparr>) True,
                devices_cache := (ds, True)\<rparr>)"

definition get_trusted_devices ::
    "crypto \<Rightarrow> draws \<Rightarrow> int \<Rightarrow> auth_state \<Rightarrow> trusted_device list \<times> auth_state" where
  "get_trusted_devices c r now s =
     (let (devices, synced) = devices_cache s in
      if synced then (devices, s)
      else
        let (devices, succ, st) =
              decrypt_str_or_original c (trusted_devices (config2 (base s))) PASSWORD_ENC_VERSION
        in if succ then
             let all = (case devices_from_json c devices of Some ds \<Rightarrow> ds | None \<Rightarrow> []);
                 ds = filter (\<lambda>d. \<not> outdate now d) all;
                 s = (if st \<or> length ds \<noteq> length all then set_trusted_devices c r now ds s else s)
             in (ds, s\<lparr>devices_cache := (ds, True)\<rparr>)
           else ([], s))"

definition add_trusted_device ::
    "crypto \<Rightarrow> draws \<Rightarrow> int \<Rightarrow> trusted_device \<Rightarrow> auth_state \<Rightarrow> auth_state" where
  "add_trusted_device c r now device s =
     (let (ds, s) = get_trusted_devices c r now s
      in set_trusted_devices c r now (filter (\<lambda>d. hwid d \<noteq> hwid device) ds @ [device]) s)"

definition remove_trusted_devices ::
    "crypto \<Rightarrow> draws \<Rightarrow> int \<Rightarrow> string list \<Rightarrow> auth_state \<Rightarrow> auth_state" where
  "remove_trusted_devices c r now hwids s =
     (let (ds, s) = get_trusted_devices c r now s
      in set_trusted_devices c r now (filter (\<lambda>d. hwid d \<notin> set hwids) ds) s)"

definition clear_trusted_devices :: "crypto \<Rightarrow> draws \<Rightarrow> int \<Rightarrow> auth_state \<Rightarrow> auth_state" where
  "clear_trusted_devices c r now s = set_trusted_devices c r now [] s"

section \<open>Setting and synchronising the password\<close>

definition is_disable_change_permanent_password :: "auth_state \<Rightarrow> bool" where
  "is_disable_change_permanent_password s \<longleftrightarrow>
     builtin_settings (base s) ''disable-change-permanent-password'' = Some ''Y''"

definition get_preset_storage_and_salt :: "auth_state \<Rightarrow> string \<times> string" where
  "get_preset_storage_and_salt s =
     (unwrap_or_default (hard_settings (base s) ''password''),
      unwrap_or_default (hard_settings (base s) ''salt''))"

definition get_local_storage_and_salt :: "auth_state \<Rightarrow> string \<times> string" where
  "get_local_storage_and_salt s = (mc_password (conf s), mc_salt (conf s))"

definition compute_storage_for_update ::
    "crypto \<Rightarrow> draws \<Rightarrow> string \<Rightarrow> main_config \<Rightarrow> main_config \<times> string option" where
  "compute_storage_for_update c r password cfg =
     (let cfg = ensure_permanent_password_salt r cfg;
          h1 = compute_permanent_password_h1 c password (mc_salt cfg)
      in (cfg, encode_encrypted_storage_from_h1 c (nonce_password r) h1))"

definition set_permanent_password ::
    "crypto \<Rightarrow> draws \<Rightarrow> int \<Rightarrow> string \<Rightarrow> auth_state \<Rightarrow> bool \<times> auth_state" where
  "set_permanent_password c r now password s =
     (if is_disable_change_permanent_password s then (False, s)
      else
        let (preset_storage, preset_salt) = get_preset_storage_and_salt s in
        if preset_storage_matches_plain c preset_storage preset_salt password \<and>
           mc_password (conf s) = [] then (True, s)
        else
          let (cfg, stored) =
                (if password = [] then (conf s, Some [])
                 else compute_storage_for_update c r password (conf s))
          in (case stored of
                None \<Rightarrow> (False, s\<lparr>conf := cfg\<rparr>)
              | Some st \<Rightarrow>
                  if st = mc_password cfg then (True, s\<lparr>conf := cfg\<rparr>)
                  else (True, clear_trusted_devices c r now
                                (store_conf c r (s\<lparr>conf := cfg\<lparr>mc_password := st\<rparr>\<rparr>)))))"

definition apply_storage_for_sync ::
    "crypto \<Rightarrow> main_config \<Rightarrow> string \<Rightarrow> string \<Rightarrow> string + (main_config \<times> bool)" where
  "apply_storage_for_sync c cfg storage salt =
     (if storage = [] then
        if mc_password cfg = [] \<and> (salt = [] \<or> mc_salt cfg = salt) then Inr (cfg, False)
        else let cfg = cfg\<lparr>mc_password := []\<rparr>
             in Inr (if salt \<noteq> [] then cfg\<lparr>mc_salt := salt\<rparr> else cfg, True)
      else if salt = [] then
        Inl ''Refusing to persist permanent password storage without salt''
      else if decode_h1_from_storage c storage = None then
        Inl ''Invalid permanent password storage sync payload''
      else if mc_password cfg = storage \<and> mc_salt cfg = salt then Inr (cfg, False)
      else Inr (cfg\<lparr>mc_password := storage, mc_salt := salt\<rparr>, True))"

definition set_storage_for_sync ::
    "crypto \<Rightarrow> draws \<Rightarrow> int \<Rightarrow> string \<Rightarrow> string \<Rightarrow> auth_state \<Rightarrow> (string + bool) \<times> auth_state" where
  "set_storage_for_sync c r now storage salt s =
     (case apply_storage_for_sync c (conf s) storage salt of
        Inl e \<Rightarrow> (Inl e, s)
      | Inr (cfg, changed) \<Rightarrow>
          if \<not> changed then (Inr False, s\<lparr>conf := cfg\<rparr>)
          else (Inr True, clear_trusted_devices c r now (store_conf c r (s\<lparr>conf := cfg\<rparr>))))"

definition has_usable_preset_password :: "crypto \<Rightarrow> auth_state \<Rightarrow> bool" where
  "has_usable_preset_password c s =
     (let (storage, salt) = get_preset_storage_and_salt s
      in preset_storage_is_usable_for_auth c storage salt)"

definition has_permanent_password :: "crypto \<Rightarrow> auth_state \<Rightarrow> bool" where
  "has_permanent_password c s =
     (let (storage, salt) = get_local_storage_and_salt s
      in if storage \<noteq> [] then local_storage_is_usable_for_auth c storage salt
         else has_usable_preset_password c s)"

definition is_using_preset_password :: "crypto \<Rightarrow> auth_state \<Rightarrow> bool" where
  "is_using_preset_password c s \<longleftrightarrow>
     fst (get_local_storage_and_salt s) = [] \<and> has_usable_preset_password c s"

definition has_local_permanent_password :: "crypto \<Rightarrow> auth_state \<Rightarrow> bool" where
  "has_local_permanent_password c s =
     (let (storage, salt) = get_local_storage_and_salt s
      in local_storage_is_usable_for_auth c storage salt)"

definition set_salt :: "crypto \<Rightarrow> draws \<Rightarrow> string \<Rightarrow> auth_state \<Rightarrow> auth_state" where
  "set_salt c r salt s =
     (if salt = mc_salt (conf s) then s
      else if \<not> password_is_empty_or_not_hashed c (mc_password (conf s)) \<and> mc_salt (conf s) \<noteq> []
      then s
      else store_conf c r (s\<lparr>conf := (conf s)\<lparr>mc_salt := salt\<rparr>\<rparr>))"

definition get_salt :: "crypto \<Rightarrow> draws \<Rightarrow> auth_state \<Rightarrow> string \<times> auth_state" where
  "get_salt c r s =
     (if mc_salt (conf s) = [] then
        let salt = get_auto_password (salt_draws r) in (salt, set_salt c r salt s)
      else (mc_salt (conf s), s))"

definition get_effective_permanent_password_salt ::
    "crypto \<Rightarrow> draws \<Rightarrow> auth_state \<Rightarrow> string \<times> auth_state" where
  "get_effective_permanent_password_salt c r s =
     (let (storage, salt) = get_local_storage_and_salt s in
      if storage \<noteq> [] then
        (if local_storage_is_usable_for_auth c storage salt then get_salt c r s else ([], s))
      else
        let (preset_storage, preset_salt) = get_preset_storage_and_salt s in
        if preset_salt \<noteq> [] then
          (if preset_storage_is_usable_for_auth c preset_storage preset_salt
           then (preset_salt, s) else ([], s))
        else get_salt c r s)"

section \<open>Which passwords a connection may use\<close>

datatype verification_method =
    OnlyUseTemporaryPassword | OnlyUsePermanentPassword | UseBothPasswords

datatype approve_mode = Approve_Both | Approve_Password | Approve_Click

definition verification_method :: "auth_state \<Rightarrow> verification_method" where
  "verification_method s =
     (let m = get_option (base s) ''verification-method'' in
      if m = ''use-temporary-password'' then OnlyUseTemporaryPassword
      else if m = ''use-permanent-password'' then OnlyUsePermanentPassword
      else UseBothPasswords)"

definition temporary_password_length :: "auth_state \<Rightarrow> nat" where
  "temporary_password_length s =
     (let l = get_option (base s) ''temporary-password-length'' in
      if l = ''8'' then 8 else if l = ''10'' then 10 else 6)"

definition temporary_enabled :: "auth_state \<Rightarrow> bool" where
  "temporary_enabled s \<longleftrightarrow> verification_method s \<noteq> OnlyUsePermanentPassword"

definition permanent_enabled :: "auth_state \<Rightarrow> bool" where
  "permanent_enabled s \<longleftrightarrow> verification_method s \<noteq> OnlyUseTemporaryPassword"

definition has_valid_password :: "crypto \<Rightarrow> auth_state \<Rightarrow> bool" where
  "has_valid_password c s \<longleftrightarrow>
     temporary_enabled s \<and> temporary_password s \<noteq> [] \<or>
     permanent_enabled s \<and> has_permanent_password c s"

definition approve_mode :: "auth_state \<Rightarrow> approve_mode" where
  "approve_mode s =
     (let m = get_option (base s) ''approve-mode'' in
      if m = ''password'' then Approve_Password
      else if m = ''click'' then Approve_Click else Approve_Both)"

definition hide_cm :: "auth_state \<Rightarrow> bool" where
  "hide_cm s \<longleftrightarrow>
     approve_mode s = Approve_Password \<and> verification_method s = OnlyUsePermanentPassword \<and>
     option2bool ''allow-hide-cm'' (get_option (base s) ''allow-hide-cm'')"

text \<open>\<open>rng\<close> is the generator's stream; a password takes as many draws as its length.\<close>

definition new_temporary_password :: "(nat \<Rightarrow> nat) \<Rightarrow> auth_state \<Rightarrow> string" where
  "new_temporary_password rng s =
     (let draws = map rng [0..<temporary_password_length s] in
      if get_bool_option (base s) ''allow-numeric-one-time-password''
      then get_auto_numeric_password draws else get_auto_password draws)"

definition update_temporary_password :: "(nat \<Rightarrow> nat) \<Rightarrow> auth_state \<Rightarrow> auth_state" where
  "update_temporary_password rng s = s\<lparr>temporary_password := new_temporary_password rng s\<rparr>"

section \<open>Lemmas\<close>

lemma length_resize_key [simp]: "length (resize_key k) = 32"
  by (simp add: resize_key_def KEYBYTES_def)

lemma crypto_okD:
  assumes "crypto_ok c"
  shows "length n = 24 \<Longrightarrow> length k = 32 \<Longrightarrow> open_box c (seal c m n k) n k = Some m"
    and "length n = 24 \<Longrightarrow> length k = 32 \<Longrightarrow> length (seal c m n k) = length m + 16"
    and "base64_decode c (base64_encode c x) = Some x"
    and "length x \<le> length (base64_encode c x)"
    and "length (base64_encode c x) \<le> 2 * length x + 2"
    and "list_all (\<lambda>ch. (of_char ch :: nat) < 128) (base64_encode c x)"
    and "length (sha256 c x) = 32"
    and "devices_to_json c [] = ''[]''"
  using assms by (auto simp: crypto_ok_def)

lemma valid_utf8_ascii: "list_all (\<lambda>ch. (of_char ch :: nat) < 128) s \<Longrightarrow> valid_utf8 s"
proof (induction s)
  case (Cons a s)
  then show ?case by (subst valid_utf8.simps) (simp add: utf8_step_def byte_at_def)
qed (simp add: valid_utf8.simps)

lemma utf8_chars_le: "utf8_chars s \<le> length s"
  by (simp add: utf8_chars_def)

lemma length_symmetric_encrypt:
  "crypto_ok c \<Longrightarrow> length n = 24 \<Longrightarrow> length (symmetric_encrypt c n m) = length m + 41"
  by (simp add: symmetric_encrypt_def Let_def crypto_okD)

lemma symmetric_roundtrip:
  assumes "crypto_ok c" "length n = 24"
  shows "symmetric_decrypt c (symmetric_encrypt c n m) = Some m"
proof -
  let ?k = "resize_key (uuid c)"
  have o: "open_box c (seal c m n ?k) n ?k = Some m" "length (seal c m n ?k) = length m + 16"
    using crypto_okD(1,2) [OF assms(1), of n ?k m] assms(2) by simp_all
  then have "open_secretbox_payload c (symmetric_encrypt c n m) ?k = Some m"
    using assms(2)
    by (simp add: open_secretbox_payload_def symmetric_encrypt_def Let_def NONCEBYTES_def
        MACBYTES_def)
  then show ?thesis by (simp add: symmetric_decrypt_def)
qed

lemma base64_nonempty: "crypto_ok c \<Longrightarrow> x \<noteq> [] \<Longrightarrow> base64_encode c x \<noteq> []"
  using crypto_okD(4) [of c x] by auto

lemma encrypt_ok:
  assumes "crypto_ok c" "length n = 24" "v \<noteq> []" "encrypt c n v = Some e"
  shows "decrypt c e = Some v" "is_encrypted c (''00'' @ e)" "e \<noteq> []"
proof -
  have e: "e = base64_encode c (symmetric_encrypt c n v)"
    using assms(3,4) by (simp add: encrypt_def)
  moreover have "symmetric_encrypt c n v \<noteq> []" by (simp add: symmetric_encrypt_def Let_def)
  ultimately show ne: "e \<noteq> []" using base64_nonempty [OF assms(1)] by simp
  then show "decrypt c e = Some v"
    using e assms(1,2) by (simp add: decrypt_def crypto_okD symmetric_roundtrip)
  show "is_encrypted c (''00'' @ e)"
    using e ne assms(1,2)
    by (simp add: is_encrypted_def VERSION_LEN_def starts_with_def crypto_okD MACBYTES_def
        length_symmetric_encrypt)
qed

lemma encrypt_str_roundtrip:
  assumes "crypto_ok c" "length n = 24" "s \<noteq> []" "valid_utf8 s" "utf8_chars s \<le> max_len"
    and "\<not> is_encrypted c s"
  shows "decrypt_str_or_original c (encrypt_str_or_original c n s ''00'' max_len) v =
           (s, True, ''00'' \<noteq> v)"
    and "is_encrypted c (encrypt_str_or_original c n s ''00'' max_len)"
proof -
  obtain e where e: "encrypt c n s = Some e" using assms(3) by (simp add: encrypt_def)
  then have "encrypt_str_or_original c n s ''00'' max_len = ''00'' @ e"
    using assms by (simp add: encrypt_str_or_original_def)
  then show "decrypt_str_or_original c (encrypt_str_or_original c n s ''00'' max_len) v =
           (s, True, ''00'' \<noteq> v)"
    and "is_encrypted c (encrypt_str_or_original c n s ''00'' max_len)"
    using encrypt_ok [OF assms(1-3) e] assms(4)
    by (simp_all add: decrypt_str_or_original_def VERSION_LEN_def starts_with_def
        from_utf8_lossy_valid)
qed

lemma storage_from_h1_roundtrip:
  assumes "crypto_ok c" "length n = 24" "length h1 = 32"
  obtains st where "encode_encrypted_storage_from_h1 c n h1 = Some st"
    and "decode_h1_from_storage c st = Some h1" "st \<noteq> []"
proof -
  let ?p = "''00'' @ base64_encode c h1"
  let ?e = "base64_encode c (symmetric_encrypt c n ?p)"
  have "length ?p \<le> 128" using crypto_okD(5) [OF assms(1), of h1] assms(3) by simp
  then have "utf8_chars ?p \<le> 128" using utf8_chars_le [of ?p] by simp
  then have enc: "encode_encrypted_storage_from_h1 c n h1 = Some (''01'' @ ?e)"
    by (simp add: encode_encrypted_storage_from_h1_def encrypt_permanent_password_storage_def
        encode_storage_from_h1_def PERMANENT_PASSWORD_HASH_PREFIX_def ENCRYPT_MAX_LEN_def
        PERMANENT_PASSWORD_ENC_VERSION_def)
  have "valid_utf8 ?p"
    by (rule valid_utf8_ascii) (simp add: crypto_okD(6) [OF assms(1)])
  moreover have "?e \<noteq> []"
    by (rule base64_nonempty [OF assms(1)]) (simp add: symmetric_encrypt_def Let_def)
  ultimately have "decode_h1_from_storage c (''01'' @ ?e) = Some h1"
    using assms
    by (simp add: decode_h1_from_storage_def decrypt_permanent_password_str_or_original_def
        starts_with_def VERSION_LEN_def PERMANENT_PASSWORD_ENC_VERSION_def crypto_okD
        symmetric_roundtrip from_utf8_lossy_valid decode_h1_from_hashed_storage_def
        decode_password_h1_after_prefix_def PERMANENT_PASSWORD_HASH_PREFIX_def
        PERMANENT_PASSWORD_H1_LEN_def)
  with enc show ?thesis by (intro that [of "''01'' @ ?e"]) simp_all
qed

lemma h1_length: "crypto_ok c \<Longrightarrow> length (compute_permanent_password_h1 c pw salt) = 32"
  by (simp add: compute_permanent_password_h1_def crypto_okD PERMANENT_PASSWORD_H1_LEN_def)

lemma clear_trusted_fields [frame_simps]:
  "conf (clear_trusted_devices c r now s) = conf s"
  "conf_file (clear_trusted_devices c r now s) = conf_file s"
  by (simp_all add: clear_trusted_devices_def set_trusted_devices_def Let_def)

lemma clear_trusted_empties:
  "crypto_ok c \<Longrightarrow> devices_cache (clear_trusted_devices c r now s) = ([], True)"
  by (simp add: clear_trusted_devices_def set_trusted_devices_def Let_def crypto_okD)

lemma store_conf_fields [frame_simps]:
  "conf (store_conf c r s) = conf s" "base (store_conf c r s) = base s"
  "devices_cache (store_conf c r s) = devices_cache s"
  by (simp_all add: store_conf_def)

lemma get_auto_password_empty [simp]: "get_auto_password rs = [] \<longleftrightarrow> rs = []"
  by (simp add: get_auto_password_def get_auto_password_with_chars_def)

lemma hashed_is_usable:
  "decode_h1_from_storage c st = Some h1 \<Longrightarrow> salt \<noteq> [] \<Longrightarrow> local_storage_is_usable_for_auth c st salt"
  by (auto simp: local_storage_is_usable_for_auth_def decode_h1_from_storage_def starts_with_def
      PERMANENT_PASSWORD_ENC_VERSION_def)

section \<open>A concrete instance of the parameters\<close>

definition hex_char :: "nat \<Rightarrow> char" where
  "hex_char d = ''0123456789abcdef'' ! d"

definition hex_value :: "char \<Rightarrow> nat" where
  "hex_value c = (let k = (of_char c :: nat) in if k < 58 then k - 48 else k - 87)"

definition hex_encode :: "string \<Rightarrow> string" where
  "hex_encode s = concat (map (\<lambda>c. [hex_char (of_char c div 16), hex_char (of_char c mod 16)]) s)"

fun hex_decode :: "string \<Rightarrow> string option" where
  "hex_decode (a # b # r) =
     map_option (\<lambda>v. char_of (hex_value a * 16 + hex_value b) # v) (hex_decode r)"
| "hex_decode [] = Some []"
| "hex_decode [a] = None"

definition toy_crypto :: "trusted_device list \<Rightarrow> crypto" where
  "toy_crypto ds0 =
     \<lparr>seal = (\<lambda>m n k. m @ replicate 16 zero_byte),
      open_box = (\<lambda>ct n k. if 16 \<le> length ct then Some (take (length ct - 16) ct) else None),
      base64_encode = hex_encode, base64_decode = hex_decode,
      sha256 = (\<lambda>x. replicate 32 zero_byte), uuid = ''machine'', existing_pk = None,
      devices_to_json = (\<lambda>ds. if ds = [] then ''[]'' else ''[d]''),
      devices_from_json = (\<lambda>t. Some (if t = ''[]'' then [] else ds0))\<rparr>"

lemma hex_char_ascii:
  assumes "d < 16"
  shows "(of_char (hex_char d) :: nat) < 128" "hex_value (hex_char d) = d"
proof -
  have "d \<in> {0, 1, 2, 3, 4, 5, 6, 7, 8, 9, 10, 11, 12, 13, 14, 15}"
    using assms by (simp only: insert_iff empty_iff) arith
  then show "(of_char (hex_char d) :: nat) < 128" "hex_value (hex_char d) = d"
    by (auto simp: hex_char_def hex_value_def)
qed

lemma of_char_less: "(of_char (c :: char) :: nat) < 256"
  by (metis of_char_mod_256 mod_less_divisor zero_less_numeral)

lemma hex_decode_encode: "hex_decode (hex_encode s) = Some s"
proof (induction s)
  case (Cons c s)
  have "(of_char c :: nat) div 16 < 16" "(of_char c :: nat) mod 16 < 16"
    using of_char_less [of c] by (simp_all add: less_mult_imp_div_less)
  then show ?case
    using Cons by (simp add: hex_encode_def hex_char_ascii(2))
qed (simp add: hex_encode_def)

lemma toy_crypto_ok: "crypto_ok (toy_crypto ds)"
proof -
  have "length (hex_encode x) = 2 * length x" for x
    by (induction x) (simp_all add: hex_encode_def)
  moreover have "list_all (\<lambda>ch. (of_char ch :: nat) < 128) (hex_encode x)" for x
  proof (induction x)
    case (Cons c x)
    have "(of_char c :: nat) div 16 < 16" "(of_char c :: nat) mod 16 < 16"
      using of_char_less [of c] by (simp_all add: less_mult_imp_div_less)
    then show ?case using Cons by (simp add: hex_encode_def hex_char_ascii(1))
  qed (simp add: hex_encode_def)
  ultimately show ?thesis
    by (simp add: crypto_ok_def toy_crypto_def hex_decode_encode)
qed

definition blank_main :: main_config where
  "blank_main = \<lparr>mc_id = [], mc_enc_id = [], mc_password = [], mc_salt = [],
     mc_key_confirmed = False, mc_keys_confirmed = Map.empty\<rparr>"

definition blank_auth :: auth_state where
  "blank_auth = \<lparr>base = blank_config, conf = blank_main, conf_file = blank_main,
     devices_cache = ([], False), temporary_password = []\<rparr>"

definition zero_draws :: draws where
  "zero_draws = \<lparr>nonce_password = replicate 24 zero_byte, nonce_id = replicate 24 zero_byte,
     nonce_devices = replicate 24 zero_byte, salt_draws = [3, 1, 4, 1, 5]\<rparr>"

section \<open>Properties\<close>

text \<open>C22: a secret encrypted for the configuration file is decrypted to the same text when the file
  is loaded, is recognised as encrypted so that saving it again does not encrypt it twice, and asks to
  be stored again only when the format version has moved on.\<close>

theorem secret_at_rest_roundtrip:
  assumes "crypto_ok c" "length n = 24" "s \<noteq> []" "valid_utf8 s" "utf8_chars s \<le> max_len"
    and "\<not> is_encrypted c s"
    and "e = encrypt_str_or_original c n s ''00'' max_len"
  shows "decrypt_str_or_original c e v = (s, True, ''00'' \<noteq> v) \<and>
         encrypt_str_or_original c n' e ''00'' max_len = e"
proof -
  have "is_encrypted c e" using encrypt_str_roundtrip(2) [OF assms(1-6)] assms(7) by simp
  then have "encrypt_str_or_original c n' e ''00'' max_len = e"
    by (simp add: encrypt_str_or_original_def)
  then show ?thesis using encrypt_str_roundtrip(1) [OF assms(1-6)] assms(7) by simp
qed

theorem secret_at_rest_roundtrip_witness:
  "decrypt_str_or_original (toy_crypto [])
     (encrypt_str_or_original (toy_crypto []) (replicate 24 zero_byte) ''secret'' ''00'' 128) ''00''
   = (''secret'', True, False)"
  using secret_at_rest_roundtrip
    [OF toy_crypto_ok, of "replicate 24 zero_byte" "''secret''" 128 "[]" _ "''00''"]
  by (simp add: is_encrypted_def VERSION_LEN_def starts_with_def utf8_chars_def utf8_cont_def
      valid_utf8_ascii)


lemma blank_auth_preconditions:
  "length (nonce_password zero_draws) = 24" "salt_draws zero_draws \<noteq> []"
  "\<not> is_disable_change_permanent_password blank_auth"
  "mc_password (conf blank_auth) \<noteq> [] \<or> \<not> preset_storage_matches_plain c
     (fst (get_preset_storage_and_salt blank_auth)) (snd (get_preset_storage_and_salt blank_auth)) pw"
  by (simp_all add: zero_draws_def blank_auth_def blank_config_def
      is_disable_change_permanent_password_def preset_storage_matches_plain_def
      get_preset_storage_and_salt_def unwrap_or_default_def)



datatype salt_op =
    Op_set_salt string | Op_get_salt | Op_effective_salt | Op_add_device trusted_device
  | Op_remove_devices "string list" | Op_clear_devices

fun salt_step :: "crypto \<Rightarrow> draws \<Rightarrow> int \<Rightarrow> salt_op \<Rightarrow> auth_state \<Rightarrow> auth_state" where
  "salt_step c r now (Op_set_salt v) s = set_salt c r v s"
| "salt_step c r now Op_get_salt s = snd (get_salt c r s)"
| "salt_step c r now Op_effective_salt s = snd (get_effective_permanent_password_salt c r s)"
| "salt_step c r now (Op_add_device d) s = add_trusted_device c r now d s"
| "salt_step c r now (Op_remove_devices h) s = remove_trusted_devices c r now h s"
| "salt_step c r now Op_clear_devices s = clear_trusted_devices c r now s"

lemma set_trusted_fields [frame_simps]: "conf (set_trusted_devices c r now ds s) = conf s"
  by (simp add: set_trusted_devices_def Let_def)

lemma get_trusted_fields [frame_simps]: "conf (snd (get_trusted_devices c r now s)) = conf s"
  by (simp add: get_trusted_devices_def Let_def case_prod_beta frame_simps)

lemma device_ops_fields [frame_simps]:
  "conf (add_trusted_device c r now d s) = conf s"
  "conf (remove_trusted_devices c r now h s) = conf s"
  by (simp_all add: add_trusted_device_def remove_trusted_devices_def case_prod_beta frame_simps)

lemma hashed_not_plain:
  "decode_h1_from_storage c st = Some h \<Longrightarrow> \<not> password_is_empty_or_not_hashed c st"
  by (auto simp: password_is_empty_or_not_hashed_def decode_h1_from_storage_def starts_with_def
      PERMANENT_PASSWORD_ENC_VERSION_def)

lemma salt_step_conf:
  assumes "decode_h1_from_storage c (mc_password (conf s)) = Some h" "mc_salt (conf s) \<noteq> []"
  shows "conf (salt_step c r now op s) = conf s"
  using assms hashed_not_plain [OF assms(1)]
  by (cases op) (simp_all add: frame_simps set_salt_def get_salt_def
      get_effective_permanent_password_salt_def case_prod_beta)

text \<open>C25: no salt or trusted-device operation can invalidate a permanent password: while the stored
  hash verifies against a password, every such operation keeps both the hash and its salt.\<close>

theorem permanent_password_survives:
  assumes "decode_h1_from_storage c (mc_password (conf s)) =
             Some (compute_permanent_password_h1 c password (mc_salt (conf s)))"
    and "mc_salt (conf s) \<noteq> []"
  shows "(\<lambda>s'. decode_h1_from_storage c (mc_password (conf s')) =
             Some (compute_permanent_password_h1 c password (mc_salt (conf s'))) \<and>
           has_permanent_password c s')
         (fold (salt_step c r now) ops s)"
proof -
  have "conf (fold (salt_step c r now) ops s) = conf s"
    using assms
  proof (induction ops arbitrary: s)
    case (Cons op ops)
    then show ?case using salt_step_conf [OF Cons.prems, of r now op] by simp
  qed simp
  moreover have "mc_password (conf s) \<noteq> []"
    using assms(1) by (auto simp: decode_h1_from_storage_def starts_with_def
        PERMANENT_PASSWORD_ENC_VERSION_def)
  ultimately show ?thesis using assms
    by (auto simp: has_permanent_password_def get_local_storage_and_salt_def hashed_is_usable)
qed

definition hashed_auth :: auth_state where
  "hashed_auth = blank_auth\<lparr>conf := blank_main\<lparr>mc_salt := ''salt'',
     mc_password := the (encode_encrypted_storage_from_h1 (toy_crypto []) (replicate 24 zero_byte)
        (compute_permanent_password_h1 (toy_crypto []) ''pw'' ''salt''))\<rparr>\<rparr>"

lemma hashed_auth_decodes:
  "decode_h1_from_storage (toy_crypto []) (mc_password (conf hashed_auth)) =
     Some (compute_permanent_password_h1 (toy_crypto []) ''pw'' (mc_salt (conf hashed_auth)))"
proof -
  have "length (compute_permanent_password_h1 (toy_crypto []) ''pw'' ''salt'') = 32"
    by (rule h1_length [OF toy_crypto_ok])
  then show ?thesis
    by (rule storage_from_h1_roundtrip [OF toy_crypto_ok [of "[]"] length_replicate,
          where x1 = zero_byte])
      (simp add: hashed_auth_def)
qed

theorem permanent_password_survives_witness:
  "has_permanent_password (toy_crypto [])
     (fold (salt_step (toy_crypto []) zero_draws 0) [Op_set_salt ''x'', Op_clear_devices] hashed_auth)"
  using permanent_password_survives [OF hashed_auth_decodes, of zero_draws 0
      "[Op_set_salt ''x'', Op_clear_devices]"]
  by (simp add: hashed_auth_def)

lemma hashed_storage_facts:
  assumes "decode_h1_from_storage c st = Some h"
  shows "st \<noteq> []" "\<not> starts_with st ''00''"
    and "fst (snd (decrypt_permanent_password_str_or_original c st))"
    and "decode_h1_from_hashed_storage c (fst (decrypt_permanent_password_str_or_original c st)) = Some h"
  using assms
  by (auto simp: decode_h1_from_storage_def starts_with_def PERMANENT_PASSWORD_ENC_VERSION_def
      prefix_def Let_def case_prod_beta split: if_splits)

lemma validate_hashed:
  assumes "decode_h1_from_storage c (mc_password cfg) = Some h" "mc_salt cfg \<noteq> []"
  shows "validate_or_decrypt_storage c cfg = Inr cfg"
  using hashed_storage_facts [OF assms(1)] assms(2)
  by (simp add: validate_or_decrypt_storage_def PASSWORD_ENC_VERSION_def case_prod_beta
      ensure_permanent_password_hash_salt_def)

text \<open>C9: a configuration with a hashed permanent password survives a restart: what \<open>store\<close> writes
  is loaded with the same identity, password storage and salt, and loading it does not write the file
  again.\<close>

theorem config_survives_restart:
  assumes "crypto_ok c" "length (nonce_id r) = 24"
    and "decode_h1_from_storage c (mc_password cfg) = Some h" "mc_salt cfg \<noteq> []"
    and "mc_id cfg \<noteq> []" "valid_utf8 (mc_id cfg)" "utf8_chars (mc_id cfg) \<le> 128"
    and "\<not> is_encrypted c (mc_id cfg)"
    and "file = config_store c r stored cfg"
    and "(cfg', file') = config_load c r' gen_ids file"
  shows "mc_id cfg' = mc_id cfg \<and> mc_password cfg' = mc_password cfg \<and> mc_salt cfg' = mc_salt cfg \<and>
         file' = file"
proof -
  have kept: "mc_password file = mc_password cfg" "mc_salt file = mc_salt cfg"
    and enc: "mc_enc_id file =
      (if \<not> fst (snd (decrypt_str_or_original c (mc_enc_id cfg) ''00'')) \<or>
          fst (decrypt_str_or_original c (mc_enc_id cfg) ''00'') \<noteq> mc_id cfg
       then encrypt_str_or_original c (nonce_id r) (mc_id cfg) ''00'' 128 else mc_enc_id cfg)"
    using assms(9,3) validate_hashed [OF assms(3,4)]
    by (simp_all add: config_store_def prepare_config_for_store_def Let_def case_prod_beta
        PASSWORD_ENC_VERSION_def ENCRYPT_MAX_LEN_def)
  have same_version: "\<not> b" if "decrypt_str_or_original c e ''00'' = (v, True, b)" for e v b
    using that by (auto simp: decrypt_str_or_original_def Let_def split: if_splits option.splits)
  have "\<exists>b. decrypt_str_or_original c (mc_enc_id file) ''00'' = (mc_id cfg, True, b)"
    using enc encrypt_str_roundtrip(1) [OF assms(1,2,5-8), of "''00''"]
    by (cases "decrypt_str_or_original c (mc_enc_id cfg) ''00''") auto
  then have dec: "decrypt_str_or_original c (mc_enc_id file) ''00'' = (mc_id cfg, True, False)"
    using same_version by (metis (full_types))
  have "decode_h1_from_storage c (mc_password file) = Some h" "mc_salt file \<noteq> []"
    using kept assms(3,4) by simp_all
  from validate_hashed [OF this] assms(10) dec kept show ?thesis
    by (simp add: config_load_def PASSWORD_ENC_VERSION_def)
qed

definition hashed_main :: main_config where
  "hashed_main = (conf hashed_auth)\<lparr>mc_id := ''123456789''\<rparr>"

theorem config_survives_restart_witness:
  "mc_id (fst (config_load (toy_crypto []) zero_draws []
      (config_store (toy_crypto []) zero_draws blank_main hashed_main))) = ''123456789''"
proof -
  have i: "mc_id hashed_main = ''123456789''" "mc_salt hashed_main \<noteq> []"
    "length (nonce_id zero_draws) = 24"
    by (simp_all add: hashed_main_def hashed_auth_def zero_draws_def)
  have "decode_h1_from_storage (toy_crypto []) (mc_password hashed_main) =
      Some (compute_permanent_password_h1 (toy_crypto []) ''pw'' (mc_salt (conf hashed_auth)))"
    using hashed_auth_decodes by (simp add: hashed_main_def)
  moreover have "mc_id hashed_main \<noteq> []" "valid_utf8 (mc_id hashed_main)"
    "utf8_chars (mc_id hashed_main) \<le> 128" "\<not> is_encrypted (toy_crypto []) (mc_id hashed_main)"
    by (simp_all add: i valid_utf8_ascii utf8_chars_def utf8_cont_def is_encrypted_def
        VERSION_LEN_def starts_with_def)
  ultimately show ?thesis
    using config_survives_restart [OF toy_crypto_ok i(3) _ i(2) _ _ _ _ refl prod.collapse] i(1)
    by metis
qed

end
