(* ===== verification/PeerConfigs.thy ===== *)
theory PeerConfigs
  imports PasswordSecurity
begin

text \<open>
  The per-peer configuration of \<open>libs/hbb_common/src/config.rs\<close>: its fields, the defaults it takes
  from \<open>UserDefaultConfig\<close>, the validation of what a file holds, and \<open>PeerConfig::load\<close> and
  \<open>store\<close> with the secrets they encrypt. The file system is a map from peer ids to stored
  configurations. \<open>ud\<close> is \<open>UserDefaultConfig::read\<close>; floating-point parsing is a parameter.
\<close>

section \<open>Fields\<close>

record peer_info_serde =
  pi_username :: string
  pi_hostname :: string
  pi_platform :: string

record transfer_serde =
  write_jobs :: "string list"
  read_jobs :: "string list"

type_synonym size = "int \<times> int \<times> int \<times> int"

record peer_config =
  p_password :: string
  p_size :: size
  p_size_ft :: size
  p_size_pf :: size
  p_view_style :: string
  p_scroll_style :: string
  p_edge_scroll_edge_thickness :: int
  p_image_quality :: string
  p_custom_image_quality :: "int list"
  p_show_remote_cursor :: bool
  p_lock_after_session_end :: bool
  p_terminal_persistent :: bool
  p_privacy_mode :: bool
  p_allow_swap_key :: bool
  p_port_forwards :: "(int \<times> string \<times> int) list"
  p_direct_failures :: int
  p_disable_audio :: bool
  p_disable_clipboard :: bool
  p_enable_file_copy_paste :: bool
  p_show_quality_monitor :: bool
  p_follow_remote_cursor :: bool
  p_follow_remote_window :: bool
  p_keyboard_mode :: string
  p_view_only :: bool
  p_show_my_cursor :: bool
  p_sync_init_clipboard :: bool
  p_reverse_mouse_wheel :: string
  p_displays_as_individual_windows :: string
  p_use_all_my_displays :: string
  p_trackpad_speed :: int
  p_custom_resolutions :: "string \<Rightarrow> (int \<times> int) option"
  p_options :: strmap
  p_ui_flutter :: strmap
  p_info :: peer_info_serde
  p_transfer :: transfer_serde

section \<open>Defaults and validation\<close>

text \<open>\<open>f as i32\<close> of a finite \<open>f64\<close>: truncation towards zero, saturating.\<close>

definition f64_as_i32 :: "rat \<Rightarrow> int" where
  "f64_as_i32 q =
     max (- (2 ^ 31)) (min (2 ^ 31 - 1) (if q < 0 then - \<lfloor>- q\<rfloor> else \<lfloor>q\<rfloor>))"

definition default_custom_image_quality ::
    "(string \<Rightarrow> rat option) \<Rightarrow> (string \<Rightarrow> string) \<Rightarrow> int list" where
  "default_custom_image_quality parse_f64 ud =
     (let f = (case parse_f64 (ud ''custom_image_quality'') of Some q \<Rightarrow> q | None \<Rightarrow> 50)
      in [f64_as_i32 f])"

definition deserialize_custom_image_quality ::
    "(string \<Rightarrow> rat option) \<Rightarrow> (string \<Rightarrow> string) \<Rightarrow> int list \<Rightarrow> int list" where
  "deserialize_custom_image_quality parse_f64 ud v =
     (case v of
        [x] \<Rightarrow> if x \<ge> 10 \<and> x \<le> 0xFFF then v else default_custom_image_quality parse_f64 ud
      | _ \<Rightarrow> default_custom_image_quality parse_f64 ud)"

definition default_num :: "(string \<Rightarrow> string) \<Rightarrow> string \<Rightarrow> int" where
  "default_num ud key = (case parse_i32 (ud key) of Some v \<Rightarrow> v | None \<Rightarrow> 100)"

definition default_trackpad_speed :: "(string \<Rightarrow> string) \<Rightarrow> int" where
  "default_trackpad_speed ud = default_num ud ''trackpad-speed''"

definition deserialize_trackpad_speed :: "(string \<Rightarrow> string) \<Rightarrow> int \<Rightarrow> int" where
  "deserialize_trackpad_speed ud v =
     (if v \<ge> 10 \<and> v \<le> 1000 then v else default_trackpad_speed ud)"

definition default_edge_scroll_edge_thickness :: "(string \<Rightarrow> string) \<Rightarrow> int" where
  "default_edge_scroll_edge_thickness ud = default_num ud ''edge-scroll-edge-thickness''"

definition deserialize_edge_scroll_edge_thickness :: "(string \<Rightarrow> string) \<Rightarrow> int \<Rightarrow> int" where
  "deserialize_edge_scroll_edge_thickness ud v =
     (if v \<ge> 20 \<and> v \<le> 150 then v else default_edge_scroll_edge_thickness ud)"

text \<open>\<open>serde_field_string!\<close>: a missing, ill-typed or empty string takes the default.\<close>

definition deserialize_string_field :: "(string \<Rightarrow> string) \<Rightarrow> string \<Rightarrow> string option \<Rightarrow> string" where
  "deserialize_string_field ud key raw =
     (let s = (case raw of Some s \<Rightarrow> s | None \<Rightarrow> ud key) in if s = [] then ud key else s)"

definition default_options :: "(string \<Rightarrow> string) \<Rightarrow> strmap" where
  "default_options ud =
     foldl (\<lambda>mp key. mp(key \<mapsto> ud key)) Map.empty
       [''codec-preference'', ''custom-fps'', ''zoom-cursor'', ''i444'', ''swap-left-right-mouse'',
        ''collapse_toolbar'']"

text \<open>\<open>serde_field_bool!\<close>.\<close>

definition default_bool :: "(string \<Rightarrow> string) \<Rightarrow> string \<Rightarrow> bool" where
  "default_bool ud name \<longleftrightarrow> ud name = ''Y''"

definition peer_config_default ::
    "(string \<Rightarrow> rat option) \<Rightarrow> (string \<Rightarrow> string) \<Rightarrow> peer_config" where
  "peer_config_default parse_f64 ud =
     \<lparr>p_password = [], p_size = (0, 0, 0, 0), p_size_ft = (0, 0, 0, 0), p_size_pf = (0, 0, 0, 0),
      p_view_style = ud ''view_style'', p_scroll_style = ud ''scroll_style'',
      p_edge_scroll_edge_thickness = default_edge_scroll_edge_thickness ud,
      p_image_quality = ud ''image_quality'',
      p_custom_image_quality = default_custom_image_quality parse_f64 ud,
      p_show_remote_cursor = default_bool ud ''show_remote_cursor'',
      p_lock_after_session_end = default_bool ud ''lock_after_session_end'',
      p_terminal_persistent = default_bool ud ''terminal-persistent'',
      p_privacy_mode = default_bool ud ''privacy_mode'',
      p_allow_swap_key = default_bool ud ''allow_swap_key'',
      p_port_forwards = [], p_direct_failures = 0,
      p_disable_audio = default_bool ud ''disable_audio'',
      p_disable_clipboard = default_bool ud ''disable_clipboard'',
      p_enable_file_copy_paste = default_bool ud ''enable-file-copy-paste'',
      p_show_quality_monitor = default_bool ud ''show_quality_monitor'',
      p_follow_remote_cursor = default_bool ud ''follow_remote_cursor'',
      p_follow_remote_window = default_bool ud ''follow_remote_window'',
      p_keyboard_mode = [], p_view_only = default_bool ud ''view_only'',
      p_show_my_cursor = default_bool ud ''show_my_cursor'',
      p_sync_init_clipboard = default_bool ud ''sync-init-clipboard'',
      p_reverse_mouse_wheel = ud ''reverse_mouse_wheel'',
      p_displays_as_individual_windows = ud ''displays_as_individual_windows'',
      p_use_all_my_displays = ud ''use_all_my_displays_for_the_remote_session'',
      p_trackpad_speed = default_trackpad_speed ud,
      p_custom_resolutions = Map.empty, p_options = default_options ud, p_ui_flutter = Map.empty,
      p_info = \<lparr>pi_username = [], pi_hostname = [], pi_platform = []\<rparr>,
      p_transfer = \<lparr>write_jobs = [], read_jobs = []\<rparr>\<rparr>"

text \<open>What the \<open>deserialize_with\<close> functions make of a file's fields when it is read.\<close>

definition validate_peer ::
    "(string \<Rightarrow> rat option) \<Rightarrow> (string \<Rightarrow> string) \<Rightarrow> peer_config \<Rightarrow> peer_config" where
  "validate_peer parse_f64 ud cfg =
     cfg\<lparr>p_view_style := deserialize_string_field ud ''view_style'' (Some (p_view_style cfg)),
         p_scroll_style := deserialize_string_field ud ''scroll_style'' (Some (p_scroll_style cfg)),
         p_edge_scroll_edge_thickness :=
           deserialize_edge_scroll_edge_thickness ud (p_edge_scroll_edge_thickness cfg),
         p_image_quality :=
           deserialize_string_field ud ''image_quality'' (Some (p_image_quality cfg)),
         p_custom_image_quality :=
           deserialize_custom_image_quality parse_f64 ud (p_custom_image_quality cfg),
         p_reverse_mouse_wheel :=
           deserialize_string_field ud ''reverse_mouse_wheel'' (Some (p_reverse_mouse_wheel cfg)),
         p_displays_as_individual_windows :=
           deserialize_string_field ud ''displays_as_individual_windows''
             (Some (p_displays_as_individual_windows cfg)),
         p_use_all_my_displays :=
           deserialize_string_field ud ''use_all_my_displays_for_the_remote_session''
             (Some (p_use_all_my_displays cfg)),
         p_trackpad_speed := deserialize_trackpad_speed ud (p_trackpad_speed cfg)\<rparr>"

lemma validate_peer_idem [simp]:
  "validate_peer parse_f64 ud (validate_peer parse_f64 ud cfg) = validate_peer parse_f64 ud cfg"
  by (auto simp: validate_peer_def deserialize_string_field_def Let_def
      deserialize_edge_scroll_edge_thickness_def deserialize_trackpad_speed_def
      deserialize_custom_image_quality_def default_custom_image_quality_def split: list.split)

lemma validate_peer_default [simp]:
  "validate_peer parse_f64 ud (peer_config_default parse_f64 ud) = peer_config_default parse_f64 ud"
  by (simp add: validate_peer_def peer_config_default_def deserialize_string_field_def Let_def
      deserialize_edge_scroll_edge_thickness_def deserialize_trackpad_speed_def
      deserialize_custom_image_quality_def default_custom_image_quality_def)

section \<open>Files\<close>

definition secret_options :: "string list" where
  "secret_options = [''rdp_password'', ''os-username'', ''os-password'']"

text \<open>Nonces of one store: of the password and of each secret option.\<close>

record peer_nonces =
  pn_password :: string
  pn_option :: "string \<Rightarrow> string"

definition encrypt_options :: "crypto \<Rightarrow> peer_nonces \<Rightarrow> strmap \<Rightarrow> strmap" where
  "encrypt_options c r opts =
     foldl (\<lambda>o1 opt. case o1 opt of
              None \<Rightarrow> o1
            | Some v \<Rightarrow> o1(opt \<mapsto> encrypt_str_or_original c (pn_option r opt) v
                             PASSWORD_ENC_VERSION ENCRYPT_MAX_LEN)) opts secret_options"

definition peer_store_file :: "crypto \<Rightarrow> peer_nonces \<Rightarrow> peer_config \<Rightarrow> peer_config" where
  "peer_store_file c r cfg =
     cfg\<lparr>p_password := encrypt_vec_or_original c (pn_password r) (p_password cfg)
           PASSWORD_ENC_VERSION ENCRYPT_MAX_LEN,
         p_options := encrypt_options c r (p_options cfg)\<rparr>"

definition decrypt_option :: "crypto \<Rightarrow> strmap \<times> bool \<Rightarrow> string \<Rightarrow> strmap \<times> bool" where
  "decrypt_option c os opt =
     (case fst os opt of
        None \<Rightarrow> os
      | Some v \<Rightarrow>
          (let (d, _, store2) = decrypt_str_or_original c v PASSWORD_ENC_VERSION
           in ((fst os)(opt \<mapsto> d), snd os \<or> store2)))"

definition decrypt_options :: "crypto \<Rightarrow> strmap \<times> bool \<Rightarrow> strmap \<times> bool" where
  "decrypt_options c os = foldl (decrypt_option c) os secret_options"

type_synonym peer_files = "string \<Rightarrow> peer_config option"

definition peer_store ::
    "crypto \<Rightarrow> peer_nonces \<Rightarrow> string \<Rightarrow> peer_config \<Rightarrow> peer_files \<Rightarrow> peer_files" where
  "peer_store c r i cfg fs = fs(i \<mapsto> peer_store_file c r cfg)"

text \<open>\<open>PeerConfig::load\<close>: the configuration and the files afterwards. A missing or unreadable file
  is \<open>None\<close>; a file that parses is given by its fields.\<close>

definition peer_load ::
    "crypto \<Rightarrow> peer_nonces \<Rightarrow> (string \<Rightarrow> rat option) \<Rightarrow> (string \<Rightarrow> string) \<Rightarrow> string \<Rightarrow> peer_files \<Rightarrow>
     peer_config \<times> peer_files" where
  "peer_load c r parse_f64 ud i fs =
     (case fs i of
        None \<Rightarrow> (peer_config_default parse_f64 ud, fs)
      | Some file \<Rightarrow>
          (let cfg0 = validate_peer parse_f64 ud file;
               (pw, _, store2) = decrypt_vec_or_original c (p_password cfg0) PASSWORD_ENC_VERSION;
               (opts, st) = decrypt_options c (p_options cfg0, store2);
               cfg = cfg0\<lparr>p_password := pw, p_options := opts\<rparr>
           in (cfg, if st then peer_store c r i cfg fs else fs)))"

text \<open>\<open>PeerConfig::batch_peers\<close> over an already sorted list of stored peers: the slice, and those
  kept because they have a platform; the other files are removed.\<close>

definition BATCH_LOADING_COUNT :: nat where "BATCH_LOADING_COUNT = 100"

definition batch_peers ::
    "(string \<times> peer_config) list \<Rightarrow> nat \<Rightarrow> nat option \<Rightarrow>
     (string \<times> peer_config) list \<times> string list \<times> nat" where
  "batch_peers all from limit =
     (if from \<ge> length all then ([], [], 0)
      else
        let to = (case limit of Some t \<Rightarrow> min t (length all)
                  | None \<Rightarrow> min (from + BATCH_LOADING_COUNT) (length all))
        in if to \<le> from then ([], [], from)
           else
             let slice = take (to - from) (drop from all)
             in (filter (\<lambda>p. pi_platform (p_info (snd p)) \<noteq> []) slice,
                 map fst (filter (\<lambda>p. pi_platform (p_info (snd p)) = []) slice), to))"

section \<open>Lemmas\<close>

definition encrypt_field :: "crypto \<Rightarrow> string \<Rightarrow> string \<Rightarrow> string" where
  "encrypt_field c n v = encrypt_str_or_original c n v PASSWORD_ENC_VERSION ENCRYPT_MAX_LEN"

definition storable_text :: "crypto \<Rightarrow> string \<Rightarrow> bool" where
  "storable_text c v \<longleftrightarrow>
     v = [] \<or> valid_utf8 v \<and> utf8_chars v \<le> ENCRYPT_MAX_LEN \<and> \<not> is_encrypted c v"

definition storable_peer :: "crypto \<Rightarrow> peer_config \<Rightarrow> bool" where
  "storable_peer c cfg \<longleftrightarrow>
     length (p_password cfg) \<le> ENCRYPT_MAX_LEN \<and> \<not> is_encrypted c (p_password cfg) \<and>
     list_all (\<lambda>k. case p_options cfg k of None \<Rightarrow> True | Some v \<Rightarrow> storable_text c v) secret_options"

definition good_nonces :: "peer_nonces \<Rightarrow> bool" where
  "good_nonces r \<longleftrightarrow> length (pn_password r) = 24 \<and> list_all (\<lambda>k. length (pn_option r k) = 24) secret_options"

lemma is_encrypted_Nil [simp]: "\<not> is_encrypted c []"
  by (simp add: is_encrypted_def)

lemma decrypt_encrypt_field:
  assumes "crypto_ok c" "length n = 24" "storable_text c v"
  shows "\<exists>b. decrypt_str_or_original c (encrypt_field c n v) PASSWORD_ENC_VERSION = (v, b, False)"
proof (cases "v = []")
  case True
  then show ?thesis
    by (simp add: encrypt_field_def encrypt_str_or_original_def encrypt_def utf8_chars_def
        decrypt_str_or_original_def PASSWORD_ENC_VERSION_def) blast
next
  case False
  then show ?thesis
    using assms encrypt_str_roundtrip(1) [OF assms(1,2) False]
    by (auto simp: storable_text_def encrypt_field_def PASSWORD_ENC_VERSION_def)
qed

lemma decrypt_encrypt_vec:
  assumes "crypto_ok c" "length n = 24" "length v \<le> ENCRYPT_MAX_LEN" "\<not> is_encrypted c v"
  shows "\<exists>b. decrypt_vec_or_original c
    (encrypt_vec_or_original c n v PASSWORD_ENC_VERSION ENCRYPT_MAX_LEN) PASSWORD_ENC_VERSION = (v, b, False)"
proof (cases "v = []")
  case True
  then show ?thesis
    by (simp add: encrypt_vec_or_original_def encrypt_def decrypt_vec_or_original_def
        PASSWORD_ENC_VERSION_def) blast
next
  case False
  then obtain e where e: "encrypt c n v = Some e" by (simp add: encrypt_def)
  have "from_utf8_lossy ''00'' = ''00''"
    by (rule from_utf8_lossy_valid, rule valid_utf8_ascii) simp
  then show ?thesis
    using assms encrypt_ok [OF assms(1,2) False e] e
    by (simp add: encrypt_vec_or_original_def decrypt_vec_or_original_def VERSION_LEN_def
        PASSWORD_ENC_VERSION_def) blast
qed

lemma encrypt_options_apply:
  "encrypt_options c r opts k =
     (if k \<in> set secret_options then map_option (encrypt_field c (pn_option r k)) (opts k) else opts k)"
  by (auto simp: encrypt_options_def secret_options_def encrypt_field_def split: option.split)

lemma decrypt_encrypt_options:
  assumes "crypto_ok c" "good_nonces r"
    and "list_all (\<lambda>k. case opts k of None \<Rightarrow> True | Some v \<Rightarrow> storable_text c v) secret_options"
  shows "decrypt_options c (encrypt_options c r opts, False) = (opts, False)"
proof -
  have step: "decrypt_option c (o1, False) k = (o1(k := opts k), False)"
    if "k \<in> set secret_options" "o1 k = encrypt_options c r opts k" for k o1
  proof (cases "opts k")
    case None
    with that show ?thesis
      by (auto simp: decrypt_option_def encrypt_options_apply fun_eq_iff)
  next
    case (Some v)
    have "length (pn_option r k) = 24" "storable_text c v"
      using that(1) assms(2,3) Some by (auto simp: good_nonces_def list_all_iff)
    with decrypt_encrypt_field [OF assms(1)] that Some show ?thesis
      by (fastforce simp: decrypt_option_def encrypt_options_apply)
  qed
  let ?e = "encrypt_options c r opts"
  have "decrypt_options c (?e, False) =
      decrypt_option c (decrypt_option c (decrypt_option c (?e, False) ''rdp_password'') ''os-username'')
        ''os-password''"
    by (simp add: decrypt_options_def secret_options_def)
  also have "\<dots> = (?e(''rdp_password'' := opts ''rdp_password'', ''os-username'' := opts ''os-username'',
      ''os-password'' := opts ''os-password''), False)"
    by (simp add: step secret_options_def)
  also have "?e(''rdp_password'' := opts ''rdp_password'', ''os-username'' := opts ''os-username'',
      ''os-password'' := opts ''os-password'') = opts"
    by (auto simp: fun_eq_iff encrypt_options_apply secret_options_def)
  finally show ?thesis .
qed

text \<open>A printer and a parser of numbers that agree, in unary: the sign, as many \<open>1\<close> as the numerator,
  as many \<open>0\<close> as the denominator.\<close>

definition show_signed_ratio :: "rat \<Rightarrow> string" where
  "show_signed_ratio q =
     (let (n, d) = quotient_of q
      in (if n < 0 then ''-'' else []) @ replicate (nat \<bar>n\<bar>) (CHR ''1'') @ replicate (nat d) (CHR ''0''))"

definition parse_signed_ratio :: "string \<Rightarrow> rat option" where
  "parse_signed_ratio s =
     (let n = int (count_list s (CHR ''1'')); d = int (count_list s (CHR ''0''))
      in Some (Fract (if CHR ''-'' \<in> set s then - n else n) d))"

lemma parse_show_signed_ratio: "parse_signed_ratio (show_signed_ratio q) = Some q"
proof -
  have c: "count_list (replicate n x) y = (if x = y then n else 0)" for n and x y :: char
    by (induction n) auto
  obtain n d where nd: "quotient_of q = (n, d)" by (cases "quotient_of q")
  then have "0 < d" "q = Fract n d"
    using quotient_of_denom_pos [of q n d] quotient_of_div [of q n d] by (simp_all add: Fract_of_int_quotient)
  with nd show ?thesis
    by (auto simp: show_signed_ratio_def parse_signed_ratio_def c Let_def abs_if)
qed

section \<open>Properties\<close>



text \<open>whatever a peer file holds, the loaded quality, track-pad speed and edge thickness are in
  range, as long as numbers the defaults print can be parsed back.\<close>

theorem peer_fields_in_range:
  assumes "\<And>q. parse_f64 (show_f64 q) = Some q"
    and "ud = user_default_get parse_f64 show_f64 s"
  shows "(\<exists>x. deserialize_custom_image_quality parse_f64 ud v = [x] \<and> 10 \<le> x \<and> x \<le> 0xFFF) \<and>
         10 \<le> deserialize_trackpad_speed ud t \<and> deserialize_trackpad_speed ud t \<le> 1000 \<and>
         20 \<le> deserialize_edge_scroll_edge_thickness ud e \<and>
         deserialize_edge_scroll_edge_thickness ud e \<le> 150"
proof -
  have r: "(\<exists>n. user_default_get_num_string p f s key dflt lo hi = f n \<and> lo \<le> n \<and> n \<le> hi)"
    if "lo \<le> dflt" "dflt \<le> hi" for p f key and dflt lo hi :: "'n :: linorder"
    using that by (auto simp: user_default_get_num_string_def Let_def split: option.split)
  obtain q :: rat where q: "ud ''custom_image_quality'' = show_f64 q" "10 \<le> q" "q \<le> 4095"
    using r [of "10 :: rat" 50 4095 parse_f64 show_f64 "''custom_image_quality''"] by (auto simp: assms(2) user_default_get_def)
  obtain n where n: "ud ''trackpad-speed'' = dec_int n" "10 \<le> n" "n \<le> 1000"
    using r [of "10 :: int" 100 1000 parse_i32 dec_int "''trackpad-speed''"] by (auto simp: assms(2) user_default_get_def)
  obtain m where m: "ud ''edge-scroll-edge-thickness'' = dec_int m" "20 \<le> m" "m \<le> 150"
    using r [of "20 :: int" 100 150 parse_i32 dec_int "''edge-scroll-edge-thickness''"] by (auto simp: assms(2) user_default_get_def)
  have "10 \<le> \<lfloor>q\<rfloor>" "\<lfloor>q\<rfloor> \<le> 4095" using q(2,3) by (simp_all add: le_floor_iff floor_le_iff)
  then have "\<exists>x. default_custom_image_quality parse_f64 ud = [x] \<and> 10 \<le> x \<and> x \<le> 4095"
    using q by (simp add: default_custom_image_quality_def assms(1) f64_as_i32_def)
  then show ?thesis using n m
    by (auto simp: deserialize_custom_image_quality_def deserialize_trackpad_speed_def
        deserialize_edge_scroll_edge_thickness_def default_trackpad_speed_def
        default_edge_scroll_edge_thickness_def default_num_def is_i32_def split: list.split)
qed

theorem peer_fields_in_range_witness:
  "deserialize_trackpad_speed (user_default_get parse_signed_ratio show_signed_ratio blank_config) 2 = 100"
proof -
  have "10 \<le> deserialize_trackpad_speed (user_default_get parse_signed_ratio show_signed_ratio blank_config) 2"
    by (rule peer_fields_in_range [where v = "[]" and e = 0 and t = 2, OF parse_show_signed_ratio refl,
          THEN conjunct2, THEN conjunct1])
  then show ?thesis
    by (simp add: deserialize_trackpad_speed_def default_trackpad_speed_def default_num_def
        user_default_get_def user_default_get_num_string_def user_default_get_after_def get_or_def
        blank_config_def is_i32_def)
qed

text \<open>Loading the peers in two rounds shows each peer with a platform exactly once and in
  order, and removes exactly the others.\<close>

theorem batch_peers_two_rounds:
  assumes "batch_peers all 0 None = (first, gone1, to)"
    and "batch_peers all to (Some (length all)) = (rest, gone2, to')"
  shows "first @ rest = filter (\<lambda>p. pi_platform (p_info (snd p)) \<noteq> []) all \<and>
         gone1 @ gone2 = map fst (filter (\<lambda>p. pi_platform (p_info (snd p)) = []) all)"
proof (cases "all = []")
  case True
  then show ?thesis using assms by (simp add: batch_peers_def)
next
  case False
  then have f: "first = filter (\<lambda>p. pi_platform (p_info (snd p)) \<noteq> []) (take 100 all)"
    "gone1 = map fst (filter (\<lambda>p. pi_platform (p_info (snd p)) = []) (take 100 all))"
    "to = min 100 (length all)"
    using assms(1) by (auto simp: batch_peers_def BATCH_LOADING_COUNT_def Let_def min_def split: if_splits)
  have "rest = filter (\<lambda>p. pi_platform (p_info (snd p)) \<noteq> []) (drop 100 all)"
    "gone2 = map fst (filter (\<lambda>p. pi_platform (p_info (snd p)) = []) (drop 100 all))"
    using assms(2) f(3) by (auto simp: batch_peers_def Let_def min_def split: if_splits)
  with f show ?thesis
    using append_take_drop_id [of 100 all] by (metis filter_append map_append)
qed

theorem batch_peers_two_rounds_witness:
  "[(''a'', (peer_config_default (\<lambda>_. None) (\<lambda>_. []))\<lparr>p_info :=
       \<lparr>pi_username = [], pi_hostname = [], pi_platform = ''Linux''\<rparr>\<rparr>)] @ [] =
   filter (\<lambda>p. pi_platform (p_info (snd p)) \<noteq> [])
     [(''a'', (peer_config_default (\<lambda>_. None) (\<lambda>_. []))\<lparr>p_info :=
       \<lparr>pi_username = [], pi_hostname = [], pi_platform = ''Linux''\<rparr>\<rparr>)]"
  by (rule batch_peers_two_rounds [where ?gone1.0 = "[]" and ?gone2.0 = "[]"
        and to = 1 and to' = 0, THEN conjunct1])
    (simp_all add: batch_peers_def BATCH_LOADING_COUNT_def)

end
