(* ===== verification/Messages.thy ===== *)
theory Messages
  imports ConfigStore AddrMangle
begin

text \<open>
  The vocabulary the client sends and receives: the protocol messages it builds (generated code, of
  which only the fields the client sets are kept), the \<open>Data\<close> commands of \<open>src/client.rs\<close> that a
  session hands to its connection thread, the callbacks of the user interface
  (\<open>InvokeUiSession\<close> in \<open>src/ui_session_interface.rs\<close>), and the keyboard modes of
  \<open>libs/hbb_common/src/keyboard.rs\<close> and \<open>src/common.rs\<close>. An \<open>f64\<close> is its bit pattern.
\<close>

type_synonym f64 = u64

section \<open>Protocol messages\<close>

datatype bool_option = BoolNotSet | BoolNo | BoolYes

datatype image_quality = QualityNotSet | QualityLow | QualityBalanced | QualityBest

record supported_decoding =
  sd_vp9 :: int
  sd_vp8 :: int
  sd_av1 :: int
  sd_h264 :: int
  sd_h265 :: int
  sd_prefer :: string

record option_message =
  om_image_quality :: image_quality
  om_lock_after_session_end :: bool_option
  om_show_remote_cursor :: bool_option
  om_privacy_mode :: bool_option
  om_block_input :: bool_option
  om_custom_image_quality :: int
  om_disable_audio :: bool_option
  om_disable_clipboard :: bool_option
  om_enable_file_transfer :: bool_option
  om_supported_decoding :: "supported_decoding option"
  om_custom_fps :: int
  om_disable_keyboard :: bool_option
  om_follow_remote_cursor :: bool_option
  om_follow_remote_window :: bool_option
  om_terminal_persistent :: bool_option
  om_show_my_cursor :: bool_option

definition empty_option :: option_message where
  "empty_option =
     \<lparr>om_image_quality = QualityNotSet, om_lock_after_session_end = BoolNotSet,
      om_show_remote_cursor = BoolNotSet, om_privacy_mode = BoolNotSet,
      om_block_input = BoolNotSet, om_custom_image_quality = 0, om_disable_audio = BoolNotSet,
      om_disable_clipboard = BoolNotSet, om_enable_file_transfer = BoolNotSet,
      om_supported_decoding = None, om_custom_fps = 0, om_disable_keyboard = BoolNotSet,
      om_follow_remote_cursor = BoolNotSet, om_follow_remote_window = BoolNotSet,
      om_terminal_persistent = BoolNotSet, om_show_my_cursor = BoolNotSet\<rparr>"

definition bool_option :: "bool \<Rightarrow> bool_option" where
  "bool_option b = (if b then BoolYes else BoolNo)"

lemma bool_option_inj [simp]: "bool_option a = bool_option b \<longleftrightarrow> a = b"
  by (simp add: bool_option_def)

text \<open>A control key is its name in the protocol.\<close>

type_synonym control_key = string

datatype keyboard_mode = KM_Legacy | KM_Map | KM_Translate | KM_Auto

datatype key_union = KU_None | KU_Chr nat | KU_ControlKey control_key | KU_Seq string

record key_event =
  ke_down :: bool
  ke_press :: bool
  ke_union :: key_union
  ke_modifiers :: "control_key list"
  ke_mode :: keyboard_mode

definition key_event_new :: key_event where
  "key_event_new =
     \<lparr>ke_down = False, ke_press = False, ke_union = KU_None, ke_modifiers = [], ke_mode = KM_Legacy\<rparr>"

record mouse_event =
  me_mask :: int
  me_x :: int
  me_y :: int
  me_modifiers :: "control_key list"

datatype touch_event =
    Touch_scale int | Touch_pan_start int int | Touch_pan_update int int | Touch_pan_end int int

datatype login_kind =
    Login_default | Login_file_transfer string bool | Login_view_camera
  | Login_port_forward string int | Login_terminal string

record login_request =
  lr_username :: string
  lr_password :: string
  lr_my_id :: string
  lr_my_platform :: string
  lr_option :: "option_message option"
  lr_session_id :: u64
  lr_version :: string
  lr_os_username :: string
  lr_os_password :: string
  lr_hwid :: string
  lr_kind :: login_kind

datatype message =
    Msg_option option_message
  | Msg_login_request login_request
  | Msg_refresh_video bool
  | Msg_restart_remote_device bool
  | Msg_toggle_privacy_mode string bool
  | Msg_toggle_virtual_display int bool
  | Msg_chat string
  | Msg_key_event key_event
  | Msg_mouse_event mouse_event
  | Msg_pointer_device_event touch_event "control_key list"
  | Msg_terminal_open int nat nat
  | Msg_terminal_data int string
  | Msg_terminal_resize int nat nat
  | Msg_terminal_close int
  | Msg_capture_displays "int list" "int list" "int list"
  | Msg_switch_display int int int
  | Msg_change_display_resolution int int int
  | Msg_change_resolution int int
  | Msg_selected_sid nat
  | Msg_message_query int
  | Msg_auth_2fa string string
  | Msg_clipboard string
  | Msg_read_dir string bool
  | Msg_read_empty_dirs string bool

section \<open>Keyboard modes\<close>

definition keyboard_mode_to_string :: "keyboard_mode \<Rightarrow> string" where
  "keyboard_mode_to_string m =
     (case m of KM_Legacy \<Rightarrow> ''legacy'' | KM_Map \<Rightarrow> ''map'' | KM_Translate \<Rightarrow> ''translate''
      | KM_Auto \<Rightarrow> ''auto'')"

definition keyboard_mode_from_str :: "string \<Rightarrow> keyboard_mode option" where
  "keyboard_mode_from_str s =
     (if s = ''legacy'' then Some KM_Legacy
      else if s = ''map'' then Some KM_Map
      else if s = ''translate'' then Some KM_Translate
      else if s = ''auto'' then Some KM_Auto
      else None)"

definition KEYBOARD_MODES :: "keyboard_mode list" where
  "KEYBOARD_MODES = [KM_Legacy, KM_Map, KM_Translate, KM_Auto]"

definition is_keyboard_mode_supported :: "keyboard_mode \<Rightarrow> int \<Rightarrow> string \<Rightarrow> bool" where
  "is_keyboard_mode_supported m version_number peer_platform \<longleftrightarrow>
     (case m of
        KM_Legacy \<Rightarrow> True
      | KM_Map \<Rightarrow>
          if to_lowercase peer_platform = to_lowercase ''Android'' then False
          else version_number \<ge> get_version_number ''1.2.0''
      | KM_Translate \<Rightarrow> version_number \<ge> get_version_number ''1.2.0''
      | KM_Auto \<Rightarrow> version_number \<ge> get_version_number ''1.2.0'')"

definition get_supported_keyboard_modes :: "int \<Rightarrow> string \<Rightarrow> keyboard_mode list" where
  "get_supported_keyboard_modes version peer_platform =
     filter (\<lambda>m. is_keyboard_mode_supported m version peer_platform) KEYBOARD_MODES"

lemma keyboard_mode_roundtrip [simp]: "keyboard_mode_from_str (keyboard_mode_to_string m) = Some m"
  by (cases m) (simp_all add: keyboard_mode_to_string_def keyboard_mode_from_str_def)

lemma set_supported_keyboard_modes [simp]:
  "m \<in> set (get_supported_keyboard_modes v p) \<longleftrightarrow> is_keyboard_mode_supported m v p"
  by (cases m) (simp_all add: get_supported_keyboard_modes_def KEYBOARD_MODES_def)

section \<open>Commands to the connection thread\<close>

datatype data =
    Close
  | Login string string string bool
  | Message message
  | SendFiles int int string string int bool bool
  | RemoveDirAll int string bool bool
  | ConfirmDeleteFiles int int
  | SetNoConfirm int
  | RemoveDir int string
  | RemoveFile int string int bool
  | CreateDir int string bool
  | CancelJob int
  | RemovePortForward int
  | AddPortForward int string int
  | NewRDP
  | SetConfirmOverrideFile int int bool bool bool
  | AddJob int int string string int bool bool
  | ResumeJob int bool
  | RecordScreen bool
  | ElevateDirect
  | ElevateWithLogon string string
  | NewVoiceCall
  | CloseVoiceCall
  | ResetDecoder "nat option"
  | RenameFile int string string bool
  | TakeScreenshot int string

datatype conn_type =
    DEFAULT_CONN | FILE_TRANSFER | PORT_FORWARD | RDP | VIEW_CAMERA | TERMINAL

definition conn_type_debug :: "conn_type \<Rightarrow> string" where
  "conn_type_debug t =
     (case t of DEFAULT_CONN \<Rightarrow> ''DEFAULT_CONN'' | FILE_TRANSFER \<Rightarrow> ''FILE_TRANSFER''
      | PORT_FORWARD \<Rightarrow> ''PORT_FORWARD'' | RDP \<Rightarrow> ''RDP'' | VIEW_CAMERA \<Rightarrow> ''VIEW_CAMERA''
      | TERMINAL \<Rightarrow> ''TERMINAL'')"

section \<open>What the peer reports\<close>

record display_info =
  di_x :: int
  di_y :: int
  di_width :: int
  di_height :: int
  di_name :: string
  di_online :: bool
  di_cursor_embedded :: bool
  di_original :: "(int \<times> int) option"
  di_scale :: f64

record supported_encoding =
  se_h264 :: bool
  se_h265 :: bool
  se_vp8 :: bool
  se_av1 :: bool

record peer_info =
  pi_user :: string
  pi_host :: string
  pi_os :: string
  pi_displays :: "display_info list"
  pi_current_display :: int
  pi_version :: string
  pi_features :: "bool option"
  pi_encoding :: "supported_encoding option"
  pi_sessions :: "(nat \<times> string) list"
  pi_current_sid :: nat

record switch_display =
  sw_display :: int
  sw_x :: int
  sw_y :: int
  sw_width :: int
  sw_height :: int
  sw_cursor_embedded :: bool
  sw_resolutions :: "(int \<times> int) list"
  sw_original :: "int \<times> int"

record cursor_data =
  cd_id :: u64
  cd_hotx :: int
  cd_hoty :: int
  cd_width :: int
  cd_height :: int
  cd_colors :: "u8 list"

record quality_status =
  qs_speed :: "string option"
  qs_fps :: "(nat \<times> int) list"
  qs_delay :: "int option"
  qs_target_bitrate :: "int option"
  qs_codec_format :: "string option"
  qs_chroma :: "string option"

record file_entry =
  fe_type :: int
  fe_name :: string
  fe_hidden :: bool
  fe_size :: nat
  fe_time :: nat

datatype image_format = ABGR | ARGB | Raw

record image_rgb =
  im_raw :: "u8 list"
  im_w :: nat
  im_h :: nat
  im_fmt :: image_format
  im_align :: nat

datatype terminal_response =
    Term_opened int bool string nat string "int list" bool
  | Term_data int "u8 list" bool
  | Term_closed int int
  | Term_error int string
  | Term_none
  | Term_other

section \<open>Callbacks of the user interface\<close>

datatype ui_call =
    Ui_set_cursor_data cursor_data
  | Ui_set_cursor_id string
  | Ui_set_cursor_position int int
  | Ui_set_display int int int int bool f64
  | Ui_switch_display switch_display
  | Ui_set_peer_info peer_info
  | Ui_set_displays "display_info list"
  | Ui_set_platform_additions string
  | Ui_on_connected conn_type
  | Ui_update_privacy_mode
  | Ui_set_permission string bool
  | Ui_close_success
  | Ui_update_quality_status quality_status
  | Ui_set_connection_type bool bool string
  | Ui_set_fingerprint string
  | Ui_job_error int string int
  | Ui_job_done int int
  | Ui_job_progress int int f64 f64
  | Ui_clear_all_jobs
  | Ui_new_message string
  | Ui_update_transfer_list
  | Ui_load_last_job int string bool
  | Ui_update_folder_files int "file_entry list" string bool bool
  | Ui_confirm_delete_files int int string
  | Ui_override_file_confirm int int string bool bool
  | Ui_update_block_input_state bool
  | Ui_adapt_size
  | Ui_on_rgba nat image_rgb
  | Ui_msgbox string string string string bool
  | Ui_cancel_msgbox string
  | Ui_switch_back string
  | Ui_portable_service_running bool
  | Ui_on_voice_call_started
  | Ui_on_voice_call_closed string
  | Ui_on_voice_call_waiting
  | Ui_on_voice_call_incoming
  | Ui_next_rgba nat
  | Ui_set_multiple_windows_session "(nat \<times> string) list"
  | Ui_set_current_display int
  | Ui_update_record_status bool
  | Ui_printer_request int string
  | Ui_handle_screenshot_resp string string
  | Ui_handle_terminal_response terminal_response

end
