(* ===== verification/LoginConfig.thy ===== *)
theory LoginConfig
  imports PeerConfigs Messages
begin

text \<open>
  \<open>LoginConfigHandler\<close> of \<open>src/client.rs\<close>: what a client keeps about the peer it talks to. The record
  \<open>login_config\<close> is the handler, with its copy of the peer's configuration; \<open>client\<close> adds the files the
  configurations are stored in (plain: theory PeerConfigs shows that the encryption on the way is
  undone by a load), and \<open>client_env\<close> what the handler reads but never changes: the program's
  configuration, the defaults of a new peer, and the code outside the repository (SHA-256, the JSON
  library, the decoders of the \<open>scrap\<close> crate, the machine).
\<close>

section \<open>State\<close>

datatype password_source = PersonalAb string | SharedAb string | Undefined

record hash_challenge =
  h_salt :: string
  h_challenge :: string

record conn_token =
  ct_password :: string
  ct_password_source :: password_source
  ct_session_id :: u64

record login_config =
  l_id :: string
  l_conn_type :: conn_type
  l_is_terminal_admin :: bool
  l_hash :: hash_challenge
  l_password :: string
  l_remember :: bool
  l_config :: peer_config
  l_port_forward :: "string \<times> int"
  l_version :: int
  l_features :: "bool option"
  l_session_id :: u64
  l_supported_encoding :: supported_encoding
  l_restarting_remote_device :: bool
  l_force_relay :: bool
  l_direct :: "bool option"
  l_received :: bool
  l_switch_uuid :: "string option"
  l_other_server :: "(string \<times> string \<times> string) option"
  l_custom_fps :: "nat option"
  l_last_auto_fps :: "nat option"
  l_adapter_luid :: "int option"
  l_mark_unsupported :: "string list"
  l_selected_windows_session_id :: "nat option"
  l_peer_info :: "peer_info option"
  l_password_source :: password_source
  l_shared_password :: "string option"
  l_enable_trusted_devices :: bool
  l_record_state :: bool
  l_record_permission :: bool

text \<open>The address book: \<open>AbPeer\<close>, \<open>AbEntry\<close> and \<open>Ab\<close> of \<open>config.rs\<close>, the fields the login reads.\<close>

record ab_peer =
  ab_id :: string
  ab_hash :: string

record ab_entry =
  ab_name :: string
  ab_peers :: "ab_peer list"

record ab =
  ab_access_token :: string
  ab_entries :: "ab_entry list"

record client_env =
  ce_config :: config_state
  ce_socks :: bool
  ce_parse_f64 :: "string \<Rightarrow> rat option"
  ce_user_default :: "string \<Rightarrow> string"
  ce_sha256 :: "string \<Rightarrow> string"
  ce_base64_decode :: "string \<Rightarrow> string option"
  ce_parse_token :: "string \<Rightarrow> conn_token option"
  ce_write_token :: "conn_token \<Rightarrow> string option"
  ce_parse_map :: "string \<Rightarrow> strmap option"
  ce_write_map :: "strmap \<Rightarrow> string option"
  ce_decodings :: "string option \<Rightarrow> int option \<Rightarrow> string list \<Rightarrow> supported_decoding"
  ce_terminal_admin_var :: "string option"
  ce_ab :: ab
  ce_my_id :: string
  ce_my_platform :: string
  ce_hwid :: string
  ce_program_version :: string

record client =
  cl_lc :: login_config
  cl_peers :: peer_files

definition no_encoding :: supported_encoding where
  "no_encoding = \<lparr>se_h264 = False, se_h265 = False, se_vp8 = False, se_av1 = False\<rparr>"

section \<open>Who sent the password\<close>

definition password_hash :: "client_env \<Rightarrow> string \<Rightarrow> hash_challenge \<Rightarrow> string" where
  "password_hash e password hash = ce_sha256 e (password @ h_salt hash)"

definition is_personal_ab :: "password_source \<Rightarrow> string \<Rightarrow> bool" where
  "is_personal_ab src password \<longleftrightarrow>
     (if password = [] then False
      else case src of PersonalAb p \<Rightarrow> p = password | _ \<Rightarrow> False)"

definition is_shared_ab :: "client_env \<Rightarrow> password_source \<Rightarrow> string \<Rightarrow> hash_challenge \<Rightarrow> bool" where
  "is_shared_ab e src password hash \<longleftrightarrow>
     (if password = [] then False
      else case src of SharedAb p \<Rightarrow> password = password_hash e p hash | _ \<Rightarrow> False)"

section \<open>Configuration of the peer\<close>

definition load_config :: "client_env \<Rightarrow> client \<Rightarrow> peer_config" where
  "load_config e c =
     (case cl_peers c (l_id (cl_lc c)) of
        None \<Rightarrow> peer_config_default (ce_parse_f64 e) (ce_user_default e)
      | Some file \<Rightarrow> validate_peer (ce_parse_f64 e) (ce_user_default e) file)"

definition save_config :: "peer_config \<Rightarrow> client \<Rightarrow> client" where
  "save_config cfg c =
     c\<lparr>cl_peers := (cl_peers c)(l_id (cl_lc c) \<mapsto> cfg), cl_lc := (cl_lc c)\<lparr>l_config := cfg\<rparr>\<rparr>"

text \<open>The pattern of the setters: load, change, save.\<close>

definition update_config :: "client_env \<Rightarrow> (peer_config \<Rightarrow> peer_config) \<Rightarrow> client \<Rightarrow> client" where
  "update_config e f c = save_config (f (load_config e c)) c"

definition lc_get_option :: "login_config \<Rightarrow> string \<Rightarrow> string" where
  "lc_get_option lc k = unwrap_or_default (p_options (l_config lc) k)"

definition lc_set_option :: "client_env \<Rightarrow> string \<Rightarrow> string \<Rightarrow> client \<Rightarrow> client" where
  "lc_set_option e k v c =
     (let config = load_config e c
      in if v = lc_get_option (cl_lc c) k then c
         else save_config (config\<lparr>p_options := (p_options config)(k \<mapsto> v)\<rparr>) c)"

definition save_view_style :: "client_env \<Rightarrow> string \<Rightarrow> client \<Rightarrow> client" where
  "save_view_style e v = update_config e (\<lambda>cfg. cfg\<lparr>p_view_style := v\<rparr>)"

definition save_keyboard_mode :: "client_env \<Rightarrow> string \<Rightarrow> client \<Rightarrow> client" where
  "save_keyboard_mode e v = update_config e (\<lambda>cfg. cfg\<lparr>p_keyboard_mode := v\<rparr>)"

definition save_reverse_mouse_wheel :: "client_env \<Rightarrow> string \<Rightarrow> client \<Rightarrow> client" where
  "save_reverse_mouse_wheel e v = update_config e (\<lambda>cfg. cfg\<lparr>p_reverse_mouse_wheel := v\<rparr>)"

definition save_displays_as_individual_windows :: "client_env \<Rightarrow> string \<Rightarrow> client \<Rightarrow> client" where
  "save_displays_as_individual_windows e v =
     update_config e (\<lambda>cfg. cfg\<lparr>p_displays_as_individual_windows := v\<rparr>)"

definition save_use_all_my_displays :: "client_env \<Rightarrow> string \<Rightarrow> client \<Rightarrow> client" where
  "save_use_all_my_displays e v = update_config e (\<lambda>cfg. cfg\<lparr>p_use_all_my_displays := v\<rparr>)"

definition save_scroll_style :: "client_env \<Rightarrow> string \<Rightarrow> client \<Rightarrow> client" where
  "save_scroll_style e v = update_config e (\<lambda>cfg. cfg\<lparr>p_scroll_style := v\<rparr>)"

definition save_edge_scroll_edge_thickness :: "client_env \<Rightarrow> int \<Rightarrow> client \<Rightarrow> client" where
  "save_edge_scroll_edge_thickness e v =
     update_config e (\<lambda>cfg. cfg\<lparr>p_edge_scroll_edge_thickness := v\<rparr>)"

definition save_ui_flutter :: "client_env \<Rightarrow> string \<Rightarrow> string \<Rightarrow> client \<Rightarrow> client" where
  "save_ui_flutter e k v =
     update_config e (\<lambda>cfg. cfg\<lparr>p_ui_flutter :=
       (if v = [] then (p_ui_flutter cfg)(k := None) else (p_ui_flutter cfg)(k \<mapsto> v))\<rparr>)"

definition set_direct_failure :: "client_env \<Rightarrow> int \<Rightarrow> client \<Rightarrow> client" where
  "set_direct_failure e v = update_config e (\<lambda>cfg. cfg\<lparr>p_direct_failures := v\<rparr>)"

definition get_ui_flutter :: "login_config \<Rightarrow> string \<Rightarrow> string" where
  "get_ui_flutter lc k = unwrap_or_default (p_ui_flutter (l_config lc) k)"

definition should_auto_login :: "login_config \<Rightarrow> string" where
  "should_auto_login lc =
     (let l = p_lock_after_session_end (l_config lc);
          a = (lc_get_option lc ''auto-login'' \<noteq> []);
          p = lc_get_option lc ''os-password''
      in if p \<noteq> [] \<and> l \<and> a then p else [])"

section \<open>Toggles\<close>

definition get_toggle_option :: "login_config \<Rightarrow> string \<Rightarrow> bool" where
  "get_toggle_option lc name =
     (let config = l_config lc in
      if name = ''show-remote-cursor'' then p_show_remote_cursor config
      else if name = ''lock-after-session-end'' then p_lock_after_session_end config
      else if name = ''terminal-persistent'' then p_terminal_persistent config
      else if name = ''privacy-mode'' then p_privacy_mode config
      else if name = ''enable-file-copy-paste'' then p_enable_file_copy_paste config
      else if name = ''disable-audio'' then p_disable_audio config
      else if name = ''disable-clipboard'' then p_disable_clipboard config
      else if name = ''show-quality-monitor'' then p_show_quality_monitor config
      else if name = ''allow_swap_key'' then p_allow_swap_key config
      else if name = ''view-only'' then p_view_only config
      else if name = ''show-my-cursor'' then p_show_my_cursor config
      else if name = ''follow-remote-cursor'' then p_follow_remote_cursor config
      else if name = ''follow-remote-window'' then p_follow_remote_window config
      else lc_get_option lc name \<noteq> [])"

text \<open>The branches of \<open>toggle_option\<close> for the names it knows: the changed configuration and the message
  to the peer.\<close>

definition toggle_fields ::
    "login_config \<Rightarrow> string \<Rightarrow> peer_config \<Rightarrow> (peer_config \<times> option_message) option" where
  "toggle_fields lc name config =
     (let option = empty_option in
      if name = ''show-remote-cursor'' then
        let v = \<not> p_show_remote_cursor config
        in Some (config\<lparr>p_show_remote_cursor := v\<rparr>, option\<lparr>om_show_remote_cursor := bool_option v\<rparr>)
      else if name = ''follow-remote-cursor'' then
        let v = \<not> p_follow_remote_cursor config
        in Some (config\<lparr>p_follow_remote_cursor := v\<rparr>, option\<lparr>om_follow_remote_cursor := bool_option v\<rparr>)
      else if name = ''follow-remote-window'' then
        let v = \<not> p_follow_remote_window config
        in Some (config\<lparr>p_follow_remote_window := v\<rparr>, option\<lparr>om_follow_remote_window := bool_option v\<rparr>)
      else if name = ''disable-audio'' then
        let v = \<not> p_disable_audio config
        in Some (config\<lparr>p_disable_audio := v\<rparr>, option\<lparr>om_disable_audio := bool_option v\<rparr>)
      else if name = ''disable-clipboard'' then
        let v = \<not> p_disable_clipboard config
        in Some (config\<lparr>p_disable_clipboard := v\<rparr>, option\<lparr>om_disable_clipboard := bool_option v\<rparr>)
      else if name = ''lock-after-session-end'' then
        let v = \<not> p_lock_after_session_end config
        in Some (config\<lparr>p_lock_after_session_end := v\<rparr>,
                 option\<lparr>om_lock_after_session_end := bool_option v\<rparr>)
      else if name = ''terminal-persistent'' then
        let v = \<not> p_terminal_persistent config
        in Some (config\<lparr>p_terminal_persistent := v\<rparr>, option\<lparr>om_terminal_persistent := bool_option v\<rparr>)
      else if name = ''privacy-mode'' then
        Some (config, option\<lparr>om_privacy_mode := if p_privacy_mode config then BoolNo else BoolYes\<rparr>)
      else if name = ''enable-file-copy-paste'' then
        let v = \<not> p_enable_file_copy_paste config
        in Some (config\<lparr>p_enable_file_copy_paste := v\<rparr>, option\<lparr>om_enable_file_transfer := bool_option v\<rparr>)
      else if name = ''block-input'' then Some (config, option\<lparr>om_block_input := BoolYes\<rparr>)
      else if name = ''unblock-input'' then Some (config, option\<lparr>om_block_input := BoolNo\<rparr>)
      else if name = ''show-quality-monitor'' then
        Some (config\<lparr>p_show_quality_monitor := \<not> p_show_quality_monitor config\<rparr>, option)
      else if name = ''allow_swap_key'' then
        Some (config\<lparr>p_allow_swap_key := \<not> p_allow_swap_key config\<rparr>, option)
      else if name = ''view-only'' then
        let v = \<not> p_view_only config; config = config\<lparr>p_view_only := v\<rparr>
        in if v then
             Some (config,
               option\<lparr>om_disable_keyboard := bool_option True, om_disable_clipboard := bool_option True,
                 om_show_remote_cursor := bool_option True, om_enable_file_transfer := bool_option False,
                 om_lock_after_session_end := bool_option False\<rparr>)
           else
             let option = option\<lparr>om_disable_keyboard := bool_option False,
                   om_disable_clipboard := bool_option (get_toggle_option lc ''disable-clipboard''),
                   om_show_remote_cursor := bool_option (get_toggle_option lc ''show-remote-cursor''),
                   om_enable_file_transfer := bool_option (p_enable_file_copy_paste (l_config lc)),
                   om_lock_after_session_end := bool_option (p_lock_after_session_end (l_config lc))\<rparr>
             in if p_show_my_cursor config
                then Some (config\<lparr>p_show_my_cursor := False\<rparr>, option\<lparr>om_show_my_cursor := BoolNo\<rparr>)
                else Some (config, option)
      else if name = ''show-my-cursor'' then
        let v = \<not> p_show_my_cursor config
        in Some (config\<lparr>p_show_my_cursor := v\<rparr>, option\<lparr>om_show_my_cursor := bool_option v\<rparr>)
      else None)"

definition toggle_option :: "client_env \<Rightarrow> string \<Rightarrow> client \<Rightarrow> client \<times> message option" where
  "toggle_option e name c =
     (case toggle_fields (cl_lc c) name (load_config e c) of
        Some (config, option) \<Rightarrow>
          (if \<not> str_contains name ''block-input'' then save_config config c else c,
           Some (Msg_option option))
      | None \<Rightarrow>
          (let config = l_config (cl_lc c);
               is_set = (case p_options config name of Some o' \<Rightarrow> o' \<noteq> [] | None \<Rightarrow> False);
               opts = (if is_set then (p_options config)(name := None)
                       else (p_options config)(name \<mapsto> ''Y''))
           in (save_config (config\<lparr>p_options := opts\<rparr>) c, None)))"

definition is_privacy_mode_supported :: "login_config \<Rightarrow> bool" where
  "is_privacy_mode_supported lc = (case l_features lc of Some privacy_mode \<Rightarrow> privacy_mode | None \<Rightarrow> False)"

section \<open>Options sent to the peer\<close>

definition get_image_quality_enum :: "string \<Rightarrow> bool \<Rightarrow> image_quality option" where
  "get_image_quality_enum q ignore_default =
     (if q = ''low'' then Some QualityLow
      else if q = ''best'' then Some QualityBest
      else if q = ''balanced'' then (if ignore_default then None else Some QualityBalanced)
      else None)"

definition using_public_server :: "config_state \<Rightarrow> bool" where
  "using_public_server s \<longleftrightarrow>
     get_option s ''custom-rendezvous-server'' = [] \<and> prod_rendezvous_server s = []"

definition get_supported_decoding :: "client_env \<Rightarrow> login_config \<Rightarrow> supported_decoding" where
  "get_supported_decoding e lc = ce_decodings e (Some (l_id lc)) (l_adapter_luid lc) (l_mark_unsupported lc)"

text \<open>The quality part of \<open>get_option_message\<close>.\<close>

definition quality_option :: "client_env \<Rightarrow> client \<Rightarrow> bool \<Rightarrow> option_message \<Rightarrow> option_message" where
  "quality_option e c ignore_default msg =
     (let lc = cl_lc c; q = p_image_quality (l_config lc)
      in case get_image_quality_enum q ignore_default of
           Some q' \<Rightarrow> msg\<lparr>om_image_quality := q'\<rparr>
         | None \<Rightarrow>
             if q = ''custom'' then
               let config = load_config e c;
                   allow_more = (\<not> using_public_server (ce_config e) \<or> l_direct lc = Some True);
                   quality =
                     (case p_custom_image_quality config of
                        [] \<Rightarrow> 50
                      | q0 # _ \<Rightarrow> if \<not> allow_more \<and> q0 > 100 then 50 else q0)
               in msg\<lparr>om_custom_image_quality := as_i32 (quality * 2 ^ 8)\<rparr>
             else msg)"

definition get_option_message :: "client_env \<Rightarrow> client \<Rightarrow> bool \<Rightarrow> option_message option" where
  "get_option_message e c ignore_default =
     (let lc = cl_lc c in
      if l_conn_type lc = PORT_FORWARD \<or> l_conn_type lc = RDP \<or> l_conn_type lc = FILE_TRANSFER then None
      else if l_conn_type lc = TERMINAL then
        (if get_toggle_option lc ''terminal-persistent''
         then Some (empty_option\<lparr>om_terminal_persistent := BoolYes\<rparr>) else None)
      else
        let yes = (\<lambda>b v. if b then BoolYes else v);
            msg = quality_option e c ignore_default empty_option;
            view_only = get_toggle_option lc ''view-only''
        in Some (msg\<lparr>
             om_disable_keyboard := yes view_only (om_disable_keyboard msg),
             om_show_remote_cursor :=
               yes (view_only \<or> get_toggle_option lc ''show-remote-cursor'') (om_show_remote_cursor msg),
             om_show_my_cursor :=
               yes (view_only \<and> get_toggle_option lc ''show-my-cursor'') (om_show_my_cursor msg),
             om_follow_remote_cursor :=
               yes (get_toggle_option lc ''follow-remote-cursor'') (om_follow_remote_cursor msg),
             om_follow_remote_window :=
               yes (get_toggle_option lc ''follow-remote-window'') (om_follow_remote_window msg),
             om_lock_after_session_end :=
               yes (\<not> view_only \<and> get_toggle_option lc ''lock-after-session-end'')
                 (om_lock_after_session_end msg),
             om_disable_audio := yes (get_toggle_option lc ''disable-audio'') (om_disable_audio msg),
             om_enable_file_transfer :=
               yes (\<not> view_only \<and> get_toggle_option lc ''enable-file-copy-paste'')
                 (om_enable_file_transfer msg),
             om_disable_clipboard :=
               yes (view_only \<or> get_toggle_option lc ''disable-clipboard'') (om_disable_clipboard msg),
             om_supported_decoding := Some (get_supported_decoding e lc)\<rparr>))"

definition refresh :: message where "refresh = Msg_refresh_video True"

definition save_custom_image_quality :: "client_env \<Rightarrow> int \<Rightarrow> client \<Rightarrow> client \<times> message" where
  "save_custom_image_quality e q c =
     (update_config e (\<lambda>cfg. cfg\<lparr>p_image_quality := ''custom'', p_custom_image_quality := [q]\<rparr>) c,
      Msg_option (empty_option\<lparr>om_custom_image_quality := as_i32 (q * 2 ^ 8)\<rparr>))"

definition save_image_quality :: "client_env \<Rightarrow> string \<Rightarrow> client \<Rightarrow> client \<times> message option" where
  "save_image_quality e v c =
     (update_config e (\<lambda>cfg. cfg\<lparr>p_image_quality := v\<rparr>) c,
      map_option (\<lambda>q. Msg_option (empty_option\<lparr>om_image_quality := q\<rparr>)) (get_image_quality_enum v False))"

definition save_trackpad_speed :: "client_env \<Rightarrow> int \<Rightarrow> client \<Rightarrow> client" where
  "save_trackpad_speed e v = update_config e (\<lambda>cfg. cfg\<lparr>p_trackpad_speed := v\<rparr>)"

text \<open>\<open>fps as usize\<close> of an \<open>i32\<close> extends the sign.\<close>

definition set_custom_fps :: "client_env \<Rightarrow> int \<Rightarrow> bool \<Rightarrow> client \<Rightarrow> client \<times> message" where
  "set_custom_fps e fps save c =
     (let c1 = (if save
                then update_config e
                       (\<lambda>cfg. cfg\<lparr>p_options := (p_options cfg)(''custom-fps'' \<mapsto> dec_int fps)\<rparr>) c
                else c)
      in (c1\<lparr>cl_lc := (cl_lc c1)\<lparr>l_custom_fps := Some (nat (fps mod 2 ^ 64))\<rparr>\<rparr>,
          Msg_option (empty_option\<lparr>om_custom_fps := fps\<rparr>)))"

definition get_custom_resolution :: "login_config \<Rightarrow> int \<Rightarrow> (int \<times> int) option" where
  "get_custom_resolution lc display = p_custom_resolutions (l_config lc) (dec_int display)"

definition set_custom_resolution :: "client_env \<Rightarrow> int \<Rightarrow> (int \<times> int) option \<Rightarrow> client \<Rightarrow> client" where
  "set_custom_resolution e display wh =
     update_config e (\<lambda>cfg. cfg\<lparr>p_custom_resolutions :=
       (case wh of
          Some r \<Rightarrow> (p_custom_resolutions cfg)(dec_int display \<mapsto> r)
        | None \<Rightarrow> (p_custom_resolutions cfg)(dec_int display := None))\<rparr>)"

definition get_username :: "login_config \<Rightarrow> peer_info \<Rightarrow> string" where
  "get_username lc info =
     (if pi_user info = [] then pi_username (p_info (l_config lc)) else pi_user info)"

definition get_remote_dir :: "client_env \<Rightarrow> login_config \<Rightarrow> string" where
  "get_remote_dir e lc =
     unwrap_or_default
       ((case ce_parse_map e (lc_get_option lc ''remote_dir'') of Some m \<Rightarrow> m | None \<Rightarrow> Map.empty)
          (pi_username (p_info (l_config lc))))"

definition get_all_remote_dir :: "client_env \<Rightarrow> login_config \<Rightarrow> string \<Rightarrow> string" where
  "get_all_remote_dir e lc path =
     (let d = lc_get_option lc ''remote_dir''; user = pi_username (p_info (l_config lc));
          x = (case ce_parse_map e d of Some m \<Rightarrow> m | None \<Rightarrow> Map.empty);
          x = (if path = [] then x(user := None) else x(user \<mapsto> path))
      in unwrap_or_default (ce_write_map e x))"

definition update_supported_decodings :: "client_env \<Rightarrow> login_config \<Rightarrow> message" where
  "update_supported_decodings e lc =
     Msg_option (empty_option\<lparr>om_supported_decoding :=
       Some (ce_decodings e (Some (l_id lc)) (l_adapter_luid lc) (l_mark_unsupported lc))\<rparr>)"

definition restart_remote_device :: message where
  "restart_remote_device = Msg_restart_remote_device True"

definition get_conn_token :: "client_env \<Rightarrow> login_config \<Rightarrow> string option" where
  "get_conn_token e lc =
     (if l_password lc = [] then None
      else ce_write_token e
        \<lparr>ct_password = l_password lc, ct_password_source = l_password_source lc,
         ct_session_id = l_session_id lc\<rparr>)"

definition get_key_terminal_service_id :: "login_config \<Rightarrow> string" where
  "get_key_terminal_service_id lc =
     (if l_is_terminal_admin lc then ''terminal-admin-service-id'' else ''terminal-service-id'')"

section \<open>Starting a session\<close>

definition PUBLIC_SERVER :: string where "PUBLIC_SERVER = ''public''"

definition RS_PUB_KEY :: string where
  "RS_PUB_KEY = ''OeVuKk5nlHiXp+APNn0Y3pC1Iwpwn44JGqrQCsWqmBw=''"

text \<open>The bridge's \<open>handle_relay_id\<close> returns the id it is given.\<close>

definition handle_relay_id :: "string \<Rightarrow> string" where "handle_relay_id i = i"

text \<open>The value of the argument \<open>key\<close> in \<open>a=b&key=...\<close>: the last one given, names in any case.\<close>

definition args_key :: "string \<Rightarrow> string" where
  "args_key args =
     unwrap_or_default
       (foldl (\<lambda>m arg.
                 if CHR ''='' \<in> set arg
                 then m(to_lowercase (takeWhile (\<lambda>x. x \<noteq> CHR ''='') arg) \<mapsto>
                        tl (dropWhile (\<lambda>x. x \<noteq> CHR ''='') arg))
                 else m)
              Map.empty (str_split (CHR ''&'') args) ''key'')"

text \<open>The id to connect to, whether it forces a relay, and the other server it names.\<close>

definition resolve_peer_id ::
    "string \<Rightarrow> bool \<Rightarrow> string \<times> bool \<times> (string \<times> string \<times> string) option" where
  "resolve_peer_id id0 force_relay =
     (if CHR ''@'' \<in> set id0 then
        let v = str_split (CHR ''@'') id0;
            raw_id = hd v;
            server_key = str_split (CHR ''?'') (case tl v of [] \<Rightarrow> [] | x # _ \<Rightarrow> x);
            server = hd server_key;
            args = (case tl server_key of [] \<Rightarrow> [] | x # _ \<Rightarrow> x);
            key = (if server = PUBLIC_SERVER then RS_PUB_KEY else args_key args);
            real_id = handle_relay_id raw_id
        in (real_id @ ''@'' @ server, force_relay \<or> real_id \<noteq> raw_id, Some (real_id, server, key))
      else
        let real_id = handle_relay_id id0
        in (real_id, force_relay \<or> real_id \<noteq> id0, None))"

definition is_proxy :: "client_env \<Rightarrow> bool" where
  "is_proxy e \<longleftrightarrow>
     overwrite_settings (ce_config e) ''proxy-url'' \<noteq> None \<or> ce_socks e \<or>
     default_settings (ce_config e) ''proxy-url'' \<noteq> None"

text \<open>The steps of \<open>initialize\<close>: the other server the id names, the configuration, the session id and
  the password a connection token carries (\<open>sid\<close> is the random number drawn when there is none), the
  relay, the key of the other server, and the fields that are reset.\<close>

definition with_other_server :: "(string \<times> string \<times> string) option \<Rightarrow> login_config \<Rightarrow> login_config" where
  "with_other_server other lc = (case other of Some x \<Rightarrow> lc\<lparr>l_other_server := Some x\<rparr> | None \<Rightarrow> lc)"

definition with_token :: "u64 \<Rightarrow> conn_token option \<Rightarrow> login_config \<Rightarrow> login_config" where
  "with_token sid token lc =
     (let sid0 = (case token of Some t \<Rightarrow> ct_session_id t | None \<Rightarrow> 0);
          session = (if sid0 = 0 then (if sid = 0 then 1 else sid) else sid0)
      in (case token of
            Some t \<Rightarrow> lc\<lparr>l_password := ct_password t, l_password_source := ct_password_source t\<rparr>
          | None \<Rightarrow> lc)\<lparr>l_session_id := session\<rparr>)"

definition with_server_key :: "login_config \<Rightarrow> login_config" where
  "with_server_key lc =
     (case l_other_server lc of
        None \<Rightarrow> lc
      | Some (real_id, server, key) \<Rightarrow>
          (let other_server_key = lc_get_option lc ''other-server-key''
           in if other_server_key \<noteq> [] \<and> key = []
              then lc\<lparr>l_other_server := Some (real_id, server, other_server_key)\<rparr> else lc))"

definition initialize ::
    "client_env \<Rightarrow> u64 \<Rightarrow> string \<Rightarrow> conn_type \<Rightarrow> string option \<Rightarrow> bool \<Rightarrow> int option \<Rightarrow> string option \<Rightarrow>
     string option \<Rightarrow> client \<Rightarrow> client" where
  "initialize e sid id0 conn_type switch_uuid force_relay adapter_luid shared_password conn_token c =
     (let (peer, relay, other) = resolve_peer_id id0 force_relay;
          lc = with_other_server other ((cl_lc c)\<lparr>l_id := peer, l_conn_type := conn_type\<rparr>);
          config = load_config e (c\<lparr>cl_lc := lc\<rparr>);
          lc = lc\<lparr>l_remember := p_password config \<noteq> [], l_config := config\<rparr>;
          token = (case conn_token of None \<Rightarrow> None | Some x \<Rightarrow> ce_parse_token e x);
          lc = with_token sid token lc;
          lc = lc\<lparr>l_supported_encoding := no_encoding, l_restarting_remote_device := False,
                  l_force_relay :=
                    option2bool ''force-always-relay'' (lc_get_option lc ''force-always-relay'') \<or>
                    relay \<or> use_ws (ce_config e) \<or> is_proxy e\<rparr>;
          lc = with_server_key lc;
          lc = lc\<lparr>l_direct := None, l_received := False, l_switch_uuid := switch_uuid,
                  l_adapter_luid := adapter_luid, l_selected_windows_session_id := None,
                  l_shared_password := shared_password, l_record_state := False,
                  l_record_permission := True,
                  l_is_terminal_admin :=
                    (conn_type = TERMINAL \<and> ce_terminal_admin_var e = Some ''Y'')\<rparr>
      in c\<lparr>cl_lc := lc\<rparr>)"

section \<open>Logging in\<close>

type_synonym msgbox = "string \<times> string \<times> string \<times> string"

definition get_builtin_option :: "config_state \<Rightarrow> string \<Rightarrow> string" where
  "get_builtin_option s k = unwrap_or_default (builtin_settings s k)"

text \<open>The name sent to the peer and the account asked for.\<close>

definition login_ids :: "client_env \<Rightarrow> login_config \<Rightarrow> string \<times> string" where
  "login_ids e lc =
     (case l_other_server lc of
        Some (i, _, _) \<Rightarrow> (ce_my_id e @ ''@'' @ get_rendezvous_server (ce_config e), i)
      | None \<Rightarrow> (ce_my_id e, l_id lc))"

definition create_login_msg :: "client_env \<Rightarrow> client \<Rightarrow> string \<Rightarrow> string \<Rightarrow> string \<Rightarrow> message" where
  "create_login_msg e c os_username os_password password =
     (let lc = cl_lc c; (my_id, pure_id) = login_ids e lc
      in Msg_login_request
        \<lparr>lr_username = pure_id, lr_password = password, lr_my_id = my_id,
         lr_my_platform = ce_my_platform e, lr_option = get_option_message e c True,
         lr_session_id = l_session_id lc, lr_version = ce_program_version e,
         lr_os_username = os_username, lr_os_password = os_password,
         lr_hwid = (if lc_get_option lc ''trust-this-device'' = ''Y'' then ce_hwid e else []),
         lr_kind =
           (case l_conn_type lc of
              FILE_TRANSFER \<Rightarrow>
                Login_file_transfer (get_remote_dir e lc) (lc_get_option lc ''remote_show_hidden'' \<noteq> [])
            | VIEW_CAMERA \<Rightarrow> Login_view_camera
            | PORT_FORWARD \<Rightarrow> Login_port_forward (fst (l_port_forward lc)) (snd (l_port_forward lc))
            | RDP \<Rightarrow> Login_port_forward (fst (l_port_forward lc)) (snd (l_port_forward lc))
            | TERMINAL \<Rightarrow> Login_terminal (lc_get_option lc (get_key_terminal_service_id lc))
            | DEFAULT_CONN \<Rightarrow> Login_default)\<rparr>)"

definition personal :: "ab_entry \<Rightarrow> bool" where
  "personal a \<longleftrightarrow> ab_name a = ''My address book'' \<or> ab_name a = ''Legacy address book''"

definition try_get_password_from_personal_ab ::
    "client_env \<Rightarrow> login_config \<times> string \<Rightarrow> login_config \<times> string" where
  "try_get_password_from_personal_ab e lp =
     (let (lc, password) = lp;
          access_token = local_get_option (ce_config e) ''access_token''
      in if access_token \<noteq> [] \<and> access_token = ab_access_token (ce_ab e) then
           (case find personal (ab_entries (ce_ab e)) of
              None \<Rightarrow> lp
            | Some a \<Rightarrow>
                (case find (\<lambda>p. ab_id p = l_id lc) (ab_peers a) of
                   None \<Rightarrow> lp
                 | Some p \<Rightarrow>
                     (case ce_base64_decode e (ab_hash p) of
                        None \<Rightarrow> lp
                      | Some h \<Rightarrow>
                          if h \<noteq> [] then (lc\<lparr>l_password_source := PersonalAb h\<rparr>, h) else lp)))
         else lp)"

text \<open>The sources \<open>handle_hash\<close> tries for the password, in the order of the code: each takes and returns the
  handler and the password found so far.\<close>

definition try_preset :: "client_env \<Rightarrow> string \<Rightarrow> hash_challenge \<Rightarrow> login_config \<times> string \<Rightarrow> login_config \<times> string"
  where
  "try_preset e password_preset hash lp =
     (case lp of (lc, password) \<Rightarrow>
        if password = [] \<and> password_preset \<noteq> []
        then (lc\<lparr>l_password_source := Undefined\<rparr>, password_hash e password_preset hash)
        else (lc, password))"

definition try_shared :: "client_env \<Rightarrow> hash_challenge \<Rightarrow> login_config \<times> string \<Rightarrow> login_config \<times> string" where
  "try_shared e hash lp =
     (case lp of (lc, password) \<Rightarrow>
        let shared_password = l_shared_password lc; lc = lc\<lparr>l_shared_password := None\<rparr>
        in case shared_password of
             Some p \<Rightarrow> if p \<noteq> [] then (lc\<lparr>l_password_source := SharedAb p\<rparr>, password_hash e p hash)
                       else (lc, password)
           | None \<Rightarrow> (lc, password))"

definition try_remembered :: "login_config \<times> string \<Rightarrow> login_config \<times> string" where
  "try_remembered lp =
     (case lp of (lc, password) \<Rightarrow>
        if password = [] then
          let p = p_password (l_config lc)
          in (if p \<noteq> [] then lc\<lparr>l_password_source := Undefined\<rparr> else lc, p)
        else (lc, password))"

definition try_builtin :: "client_env \<Rightarrow> hash_challenge \<Rightarrow> login_config \<times> string \<Rightarrow> login_config \<times> string" where
  "try_builtin e hash lp =
     (case lp of (lc, password) \<Rightarrow>
        if password = [] then
          let p = get_builtin_option (ce_config e) ''default-connect-password''
          in if p \<noteq> [] then (lc\<lparr>l_password_source := SharedAb p\<rparr>, password_hash e p hash)
             else (lc, password)
        else (lc, password))"

definition choose_password ::
    "client_env \<Rightarrow> string \<Rightarrow> hash_challenge \<Rightarrow> login_config \<Rightarrow> login_config \<times> string" where
  "choose_password e password_preset hash lc =
     (let lp = try_remembered (try_shared e hash (try_preset e password_preset hash (lc, l_password lc)));
          lp = (if snd lp = [] then try_get_password_from_personal_ab e lp else lp)
      in try_builtin e hash lp)"

text \<open>\<open>handle_hash\<close>: the client afterwards, the boxes shown and the login request, if one is sent.\<close>

definition handle_hash ::
    "client_env \<Rightarrow> string \<Rightarrow> hash_challenge \<Rightarrow> client \<Rightarrow> client \<times> msgbox list \<times> message option" where
  "handle_hash e password_preset hash c =
     (let lc = (cl_lc c)\<lparr>l_hash := hash\<rparr>;
          (lc, password) = choose_password e password_preset hash lc;
          lc = lc\<lparr>l_password := password\<rparr>;
          c1 = c\<lparr>cl_lc := lc\<rparr>
      in if l_conn_type lc = TERMINAL \<and> l_is_terminal_admin lc then
           (c1, [(if password = [] then ''terminal-admin-login-password'' else ''terminal-admin-login'',
                  [], [], [])], None)
         else
           let (boxes, password') =
                 (if password = [] then ([(''input-password'', ''Password Required'', [], [])], [])
                  else ([], ce_sha256 e (password @ h_challenge hash)));
               (os_username, os_password) =
                 (if l_conn_type lc = TERMINAL then ([], [])
                  else (lc_get_option lc ''os-username'', lc_get_option lc ''os-password''))
           in (c1, boxes, Some (create_login_msg e c1 os_username os_password password')))"

definition handle_login_from_ui ::
    "client_env \<Rightarrow> string \<Rightarrow> string \<Rightarrow> string \<Rightarrow> bool \<Rightarrow> client \<Rightarrow> client \<times> message" where
  "handle_login_from_ui e os_username os_password password remember c =
     (let lc = cl_lc c;
          (lc, hash_password) =
            (if password = [] then
               (if l_password lc = [] then
                  let p = p_password (l_config lc)
                  in (if p \<noteq> [] then lc\<lparr>l_password_source := Undefined\<rparr> else lc, p)
                else (lc, l_password lc))
             else (lc\<lparr>l_password_source := Undefined, l_remember := remember\<rparr>,
                   password_hash e password (l_hash lc)));
          c1 = c\<lparr>cl_lc := lc\<lparr>l_password := hash_password\<rparr>\<rparr>
      in (c1, create_login_msg e c1 os_username os_password
                (ce_sha256 e (hash_password @ h_challenge (l_hash lc)))))"

section \<open>After the login\<close>

text \<open>The keyboard mode \<open>handle_peer_info\<close> settles on.\<close>

definition choose_keyboard_mode :: "string \<Rightarrow> string \<Rightarrow> string \<Rightarrow> string" where
  "choose_keyboard_mode version platform keyboard_mode =
     (if keyboard_mode = [] then
        (if is_keyboard_mode_supported KM_Map (get_version_number version) platform
         then keyboard_mode_to_string KM_Map else keyboard_mode_to_string KM_Legacy)
      else
        let keyboard_modes = get_supported_keyboard_modes (get_version_number version) platform;
            current_mode =
              (case keyboard_mode_from_str keyboard_mode of Some m \<Rightarrow> m | None \<Rightarrow> KM_Legacy)
        in if current_mode \<notin> set keyboard_modes then keyboard_mode_to_string KM_Legacy
           else keyboard_mode)"

text \<open>The password \<open>handle_peer_info\<close> remembers.\<close>

definition remembered_password :: "client_env \<Rightarrow> login_config \<Rightarrow> string \<Rightarrow> string" where
  "remembered_password e lc password0 =
     (let password = l_password lc in
      if l_remember lc then
        (if password \<noteq> [] \<and> password \<noteq> password0 \<and>
            \<not> is_shared_ab e (l_password_source lc) password (l_hash lc)
         then password else password0)
      else if is_personal_ab (l_password_source lc) password then password
      else if password0 \<noteq> [] then []
      else password0)"

text \<open>The configuration \<open>handle_peer_info\<close> saves.\<close>

definition peer_info_config :: "client_env \<Rightarrow> login_config \<Rightarrow> peer_info \<Rightarrow> peer_config \<Rightarrow> peer_config" where
  "peer_info_config e lc info config =
     (let config = config\<lparr>p_info := \<lparr>pi_username = pi_user info, pi_hostname = pi_host info,
                                   pi_platform = pi_os info\<rparr>,
                          p_password := remembered_password e lc (p_password config)\<rparr>;
          config = (case l_other_server lc of
                      None \<Rightarrow> config
                    | Some (_, b, k) \<Rightarrow>
                        if b \<noteq> PUBLIC_SERVER
                        then config\<lparr>p_options := (p_options config)(''other-server-key'' \<mapsto> k)\<rparr>
                        else config);
          config = (if l_force_relay lc
                    then config\<lparr>p_options := (p_options config)(''force-always-relay'' \<mapsto> ''Y'')\<rparr>
                    else config)
      in config\<lparr>p_keyboard_mode :=
           choose_keyboard_mode (pi_version info) (pi_os info) (p_keyboard_mode config)\<rparr>)"

definition lc_handle_peer_info :: "client_env \<Rightarrow> peer_info \<Rightarrow> client \<Rightarrow> client" where
  "lc_handle_peer_info e info c =
     (let lc = cl_lc c;
          version = (if pi_version info \<noteq> [] then get_version_number (pi_version info) else l_version lc);
          lc = lc\<lparr>l_version := version, l_features := pi_features info\<rparr>;
          c = save_config (peer_info_config e lc info (load_config e c)) (c\<lparr>cl_lc := lc\<rparr>)
      in c\<lparr>cl_lc := (cl_lc c)\<lparr>l_supported_encoding :=
           (case pi_encoding info of Some enc \<Rightarrow> enc | None \<Rightarrow> no_encoding)\<rparr>\<rparr>)"

section \<open>Login errors\<close>

record login_error_msg_box =
  lb_msgtype :: string
  lb_title :: string
  lb_text :: string
  lb_link :: string
  lb_try_again :: bool

definition LINK_HEADLESS_LINUX_SUPPORT :: string where
  "LINK_HEADLESS_LINUX_SUPPORT =
     ''https://github.com/rustdesk/rustdesk/wiki/Headless-Linux-Support''"

definition LOGIN_ERROR_MAP :: "(string \<times> login_error_msg_box) list" where
  "LOGIN_ERROR_MAP =
     [(''Wayland login screen is not supported'',
       \<lparr>lb_msgtype = ''error'', lb_title = ''Login Error'',
        lb_text = ''Login screen using Wayland is not supported'',
        lb_link = ''https://rustdesk.com/docs/en/manual/linux/#login-screen'', lb_try_again = True\<rparr>),
      (''Desktop session not ready'',
       \<lparr>lb_msgtype = ''session-login'', lb_title = [], lb_text = [], lb_link = [], lb_try_again = True\<rparr>),
      (''Desktop xsession failed'',
       \<lparr>lb_msgtype = ''session-re-login'', lb_title = [], lb_text = [], lb_link = [],
        lb_try_again = True\<rparr>),
      (''Desktop session another user login'',
       \<lparr>lb_msgtype = ''info-nocancel'', lb_title = ''another_user_login_title_tip'',
        lb_text = ''another_user_login_text_tip'', lb_link = [], lb_try_again = False\<rparr>),
      (''Desktop xorg not found'',
       \<lparr>lb_msgtype = ''info-nocancel'', lb_title = ''xorg_not_found_title_tip'',
        lb_text = ''xorg_not_found_text_tip'', lb_link = LINK_HEADLESS_LINUX_SUPPORT,
        lb_try_again = True\<rparr>),
      (''Desktop none'',
       \<lparr>lb_msgtype = ''info-nocancel'', lb_title = ''no_desktop_title_tip'',
        lb_text = ''no_desktop_text_tip'', lb_link = LINK_HEADLESS_LINUX_SUPPORT,
        lb_try_again = True\<rparr>),
      (''Desktop session not ready, password empty'',
       \<lparr>lb_msgtype = ''session-login-password'', lb_title = [], lb_text = [], lb_link = [],
        lb_try_again = True\<rparr>),
      (''Desktop session not ready, password wrong'',
       \<lparr>lb_msgtype = ''session-login-re-password'', lb_title = [], lb_text = [], lb_link = [],
        lb_try_again = True\<rparr>),
      (''No Password Access'',
       \<lparr>lb_msgtype = ''wait-remote-accept-nook'', lb_title = ''Prompt'',
        lb_text = ''Please wait for the remote side to accept your session request...'',
        lb_link = [], lb_try_again = True\<rparr>)]"

text \<open>\<open>handle_login_error\<close>: the client, the box shown, and whether the user may try again.\<close>

definition handle_login_error :: "client_env \<Rightarrow> string \<Rightarrow> client \<Rightarrow> client \<times> msgbox \<times> bool" where
  "handle_login_error e err c =
     (if err = ''Empty Password'' then
        (c\<lparr>cl_lc := (cl_lc c)\<lparr>l_password := []\<rparr>\<rparr>,
         (''input-password'', ''Password Required'', [], []), True)
      else if err = ''Wrong Password'' then
        (c\<lparr>cl_lc := (cl_lc c)\<lparr>l_password := []\<rparr>\<rparr>,
         (''re-input-password'', err, ''Do you want to enter again?'', []), True)
      else if err = ''Wrong 2FA Code'' \<or> err = ''2FA Required'' then
        let enabled = (lc_get_option (cl_lc c) ''trust-this-device'' = ''Y'')
        in (if enabled then lc_set_option e ''trust-this-device'' [] c else c,
            (''input-2fa'', err, [], []), True)
      else
        case map_of LOGIN_ERROR_MAP err of
          Some b \<Rightarrow> (c, (lb_msgtype b, lb_title b, lb_text b, lb_link b), lb_try_again b)
        | None \<Rightarrow>
            (if str_contains err ''x11 expected''
             then (c, (''error'', ''Login Error'', err,
                       ''https://rustdesk.com/docs/en/manual/linux/#x11-required''), False)
             else (c, (''error'', ''Login Error'', err, []), False)))"

text \<open>\<open>Interface::on_establish_connection_error\<close> in a build without the \<open>flutter\<close> feature, and whether a
  failed connection is tried again.\<close>

definition on_establish_connection_error :: "string \<Rightarrow> msgbox" where
  "on_establish_connection_error err = (''error'', ''Connection Error'', err, [])"

definition check_if_retry ::
    "config_state \<Rightarrow> string \<Rightarrow> string \<Rightarrow> string \<Rightarrow> bool \<Rightarrow> bool" where
  "check_if_retry s msgtype title txt retry_for_relay \<longleftrightarrow>
     (let has = str_contains (to_lowercase txt) in
      msgtype = ''error'' \<and> title = ''Connection Error'' \<and>
      ((str_contains txt ''10054'' \<or> str_contains txt ''104'') \<and> retry_for_relay \<or>
       \<not> has ''offline'' \<and> \<not> has ''not exist'' \<and>
       (\<not> has ''handshake'' \<or>
        has ''connection reset without closing handshake'' \<and> use_ws s) \<and>
       \<not> has ''failed'' \<and> \<not> has ''resolve'' \<and> \<not> has ''mismatch'' \<and> \<not> has ''manually'' \<and>
       \<not> has ''restricted'' \<and> \<not> has ''not allowed''))"

section \<open>The configuration in memory and on disk\<close>

text \<open>What a load would give is what the handler holds, up to the range checks of a load.\<close>

definition synced :: "client_env \<Rightarrow> client \<Rightarrow> bool" where
  "synced e c \<longleftrightarrow>
     load_config e c = validate_peer (ce_parse_f64 e) (ce_user_default e) (l_config (cl_lc c))"

lemma save_config_simps [simp]:
  "l_config (cl_lc (save_config cfg c)) = cfg"
  "l_id (cl_lc (save_config cfg c)) = l_id (cl_lc c)"
  "cl_peers (save_config cfg c) = (cl_peers c)(l_id (cl_lc c) \<mapsto> cfg)"
  "synced e (save_config cfg c)"
  by (simp_all add: save_config_def synced_def load_config_def)

lemma update_config_simps [simp]:
  "l_config (cl_lc (update_config e f c)) = f (load_config e c)"
  "l_id (cl_lc (update_config e f c)) = l_id (cl_lc c)"
  "cl_peers (update_config e f c) = (cl_peers c)(l_id (cl_lc c) \<mapsto> f (load_config e c))"
  "synced e (update_config e f c)"
  by (simp_all add: update_config_def)

text \<open>Operations that leave the id, the configuration and the files alone.\<close>

definition same_config :: "client \<Rightarrow> client \<Rightarrow> bool" where
  "same_config c c' \<longleftrightarrow>
     l_id (cl_lc c') = l_id (cl_lc c) \<and> l_config (cl_lc c') = l_config (cl_lc c) \<and>
     cl_peers c' = cl_peers c"

lemma load_config_cong:
  "l_id (cl_lc c') = l_id (cl_lc c) \<Longrightarrow> cl_peers c' = cl_peers c \<Longrightarrow> load_config e c' = load_config e c"
  by (simp add: load_config_def)

lemma same_config_synced: "same_config c c' \<Longrightarrow> synced e c \<Longrightarrow> synced e c'"
  by (auto simp: same_config_def synced_def cong: load_config_cong)

lemma validate_load_config [simp]:
  "validate_peer (ce_parse_f64 e) (ce_user_default e) (load_config e c) = load_config e c"
  by (simp add: load_config_def split: option.split)

lemma validate_peer_fields [simp]:
  "p_options (validate_peer f u cfg) = p_options cfg"
  "p_password (validate_peer f u cfg) = p_password cfg"
  "p_show_remote_cursor (validate_peer f u cfg) = p_show_remote_cursor cfg"
  "p_lock_after_session_end (validate_peer f u cfg) = p_lock_after_session_end cfg"
  "p_terminal_persistent (validate_peer f u cfg) = p_terminal_persistent cfg"
  "p_privacy_mode (validate_peer f u cfg) = p_privacy_mode cfg"
  "p_enable_file_copy_paste (validate_peer f u cfg) = p_enable_file_copy_paste cfg"
  "p_disable_audio (validate_peer f u cfg) = p_disable_audio cfg"
  "p_disable_clipboard (validate_peer f u cfg) = p_disable_clipboard cfg"
  "p_show_quality_monitor (validate_peer f u cfg) = p_show_quality_monitor cfg"
  "p_allow_swap_key (validate_peer f u cfg) = p_allow_swap_key cfg"
  "p_view_only (validate_peer f u cfg) = p_view_only cfg"
  "p_show_my_cursor (validate_peer f u cfg) = p_show_my_cursor cfg"
  "p_follow_remote_cursor (validate_peer f u cfg) = p_follow_remote_cursor cfg"
  "p_follow_remote_window (validate_peer f u cfg) = p_follow_remote_window cfg"
  by (simp_all add: validate_peer_def)

definition same_peer :: "login_config \<Rightarrow> login_config \<Rightarrow> bool" where
  "same_peer lc lc' \<longleftrightarrow>
     l_id lc' = l_id lc \<and> l_config lc' = l_config lc \<and> l_remember lc' = l_remember lc \<and>
     l_hash lc' = l_hash lc \<and> l_conn_type lc' = l_conn_type lc \<and>
     l_is_terminal_admin lc' = l_is_terminal_admin lc"

lemma same_peer_trans: "same_peer a b \<Longrightarrow> same_peer b c \<Longrightarrow> same_peer a c"
  by (simp add: same_peer_def)

lemma try_same_peer:
  "same_peer (fst lp) (fst (try_preset e preset hash lp))"
  "same_peer (fst lp) (fst (try_shared e hash lp))"
  "same_peer (fst lp) (fst (try_remembered lp))"
  "same_peer (fst lp) (fst (try_get_password_from_personal_ab e lp))"
  "same_peer (fst lp) (fst (try_builtin e hash lp))"
  by (simp_all add: same_peer_def try_preset_def try_shared_def try_remembered_def try_builtin_def
      try_get_password_from_personal_ab_def Let_def case_prod_beta split: option.split)

lemma choose_password_same_peer: "same_peer lc (fst (choose_password e preset hash lc))"
proof -
  let ?a = "try_remembered (try_shared e hash (try_preset e preset hash (lc, l_password lc)))"
  have "same_peer (fst (lc, l_password lc)) (fst ?a)"
    by (rule same_peer_trans [OF same_peer_trans [OF try_same_peer(1) try_same_peer(2)] try_same_peer(3)])
  then have a: "same_peer lc (fst ?a)" by simp
  show ?thesis
    unfolding choose_password_def Let_def
    by (cases "snd ?a = []") (simp_all add: a same_peer_trans [OF _ try_same_peer(5)]
        same_peer_trans [OF same_peer_trans [OF a try_same_peer(4)] try_same_peer(5)])
qed

text \<open>The operations of a session on its handler.\<close>

datatype client_op =
    Cl_initialize u64 string conn_type "string option" bool "int option" "string option" "string option"
  | Cl_set_option string string
  | Cl_update "peer_config \<Rightarrow> peer_config"
  | Cl_toggle_option string
  | Cl_save_custom_image_quality int
  | Cl_save_image_quality string
  | Cl_set_custom_fps int bool
  | Cl_set_custom_resolution int "(int \<times> int) option"
  | Cl_handle_hash string hash_challenge
  | Cl_handle_login_from_ui string string string bool
  | Cl_handle_peer_info peer_info
  | Cl_handle_login_error string

fun client_step :: "client_env \<Rightarrow> client_op \<Rightarrow> client \<Rightarrow> client" where
  "client_step e (Cl_initialize sid i t u r l s k) c = initialize e sid i t u r l s k c"
| "client_step e (Cl_set_option k v) c = lc_set_option e k v c"
| "client_step e (Cl_update f) c = update_config e f c"
| "client_step e (Cl_toggle_option n) c = fst (toggle_option e n c)"
| "client_step e (Cl_save_custom_image_quality q) c = fst (save_custom_image_quality e q c)"
| "client_step e (Cl_save_image_quality v) c = fst (save_image_quality e v c)"
| "client_step e (Cl_set_custom_fps n b) c = fst (set_custom_fps e n b c)"
| "client_step e (Cl_set_custom_resolution d wh) c = set_custom_resolution e d wh c"
| "client_step e (Cl_handle_hash p h) c = fst (handle_hash e p h c)"
| "client_step e (Cl_handle_login_from_ui u p w r) c = fst (handle_login_from_ui e u p w r c)"
| "client_step e (Cl_handle_peer_info i) c = lc_handle_peer_info e i c"
| "client_step e (Cl_handle_login_error m) c = fst (handle_login_error e m c)"

fun is_initialize :: "client_op \<Rightarrow> bool" where
  "is_initialize (Cl_initialize _ _ _ _ _ _ _ _) = True"
| "is_initialize _ = False"

lemma synced_lc_set_option: "synced e c \<Longrightarrow> synced e (lc_set_option e k v c)"
  by (simp add: lc_set_option_def Let_def)

lemma synced_toggle_option: "synced e c \<Longrightarrow> synced e (fst (toggle_option e n c))"
  by (auto simp: toggle_option_def Let_def split: option.split)

lemma synced_set_custom_fps: "synced e c \<Longrightarrow> synced e (fst (set_custom_fps e n b c))"
proof -
  assume s: "synced e c"
  have "synced e (c\<lparr>cl_lc := (cl_lc c)\<lparr>l_custom_fps := v\<rparr>\<rparr>)" if "synced e c" for v and c
    using that by (rule same_config_synced [rotated]) (simp add: same_config_def)
  with s show ?thesis by (simp add: set_custom_fps_def Let_def)
qed

lemma with_simps [simp]:
  "l_id (with_other_server o' lc) = l_id lc" "l_config (with_other_server o' lc) = l_config lc"
  "l_id (with_token sid t lc) = l_id lc" "l_config (with_token sid t lc) = l_config lc"
  "l_id (with_server_key lc) = l_id lc" "l_config (with_server_key lc) = l_config lc"
  by (simp_all add: with_other_server_def with_token_def with_server_key_def Let_def split: option.split)

lemma initialize_simps [simp]:
  "l_id (cl_lc (initialize e sid i t u r l s k c)) = fst (resolve_peer_id i r)"
  "cl_peers (initialize e sid i t u r l s k c) = cl_peers c"
  "l_config (cl_lc (initialize e sid i t u r l s k c)) =
     load_config e (c\<lparr>cl_lc := (cl_lc c)\<lparr>l_id := fst (resolve_peer_id i r)\<rparr>\<rparr>)"
  by (simp_all add: initialize_def Let_def case_prod_beta load_config_def)

lemma synced_initialize: "synced e (initialize e sid i t u r l s k c)"
proof -
  have "load_config e (initialize e sid i t u r l s k c) =
      load_config e (c\<lparr>cl_lc := (cl_lc c)\<lparr>l_id := fst (resolve_peer_id i r)\<rparr>\<rparr>)"
    by (rule load_config_cong) simp_all
  then show ?thesis by (simp add: synced_def)
qed

lemma same_config_handle_hash: "same_config c (fst (handle_hash e p h c))"
  using choose_password_same_peer [of "(cl_lc c)\<lparr>l_hash := h\<rparr>" e p h]
  by (simp add: same_config_def same_peer_def handle_hash_def Let_def case_prod_beta)

lemma same_config_login_from_ui: "same_config c (fst (handle_login_from_ui e u p w r c))"
  by (cases "w = []"; cases "l_password (cl_lc c) = []")
    (simp_all add: same_config_def handle_login_from_ui_def Let_def)

lemma handle_peer_info_same:
  "\<exists>cfg c1. same_config (save_config cfg c1) (lc_handle_peer_info e i c) \<and>
     l_id (cl_lc c1) = l_id (cl_lc c) \<and> cl_peers c1 = cl_peers c"
  unfolding lc_handle_peer_info_def Let_def
  by (intro exI conjI, unfold same_config_def) simp_all

lemma synced_handle_peer_info: "synced e (lc_handle_peer_info e i c)"
  using handle_peer_info_same [of e i c] same_config_synced by force

lemma synced_handle_login_error: "synced e c \<Longrightarrow> synced e (fst (handle_login_error e m c))"
proof -
  assume s: "synced e c"
  then have "synced e (c\<lparr>cl_lc := (cl_lc c)\<lparr>l_password := []\<rparr>\<rparr>)"
    by (rule same_config_synced [rotated]) (simp add: same_config_def)
  with s show ?thesis
    by (simp add: handle_login_error_def Let_def synced_lc_set_option split: option.split)
qed

lemma client_step_synced:
  assumes "synced e c" shows "synced e (client_step e op c)"
proof (cases op)
  case (Cl_handle_hash p h)
  then show ?thesis using same_config_synced [OF same_config_handle_hash assms] by simp
next
  case (Cl_handle_login_from_ui u p w r)
  then show ?thesis using same_config_synced [OF same_config_login_from_ui assms] by simp
qed (use assms in \<open>simp_all add: synced_initialize synced_lc_set_option synced_toggle_option
    save_custom_image_quality_def save_image_quality_def synced_set_custom_fps
    set_custom_resolution_def synced_handle_peer_info synced_handle_login_error\<close>)

text \<open>Only the file of the peer the session is about changes.\<close>

lemma client_step_peers:
  "\<not> is_initialize op \<Longrightarrow>
   l_id (cl_lc (client_step e op c)) = l_id (cl_lc c) \<and>
   (j = l_id (cl_lc c) \<or> cl_peers (client_step e op c) j = cl_peers c j)"
proof (cases op)
  case (Cl_handle_hash p h)
  then show ?thesis using same_config_handle_hash [of c e p h] by (simp add: same_config_def)
next
  case (Cl_handle_login_from_ui u p w r)
  then show ?thesis using same_config_login_from_ui [of c e u p w r] by (simp add: same_config_def)
next
  case (Cl_handle_peer_info i)
  then show ?thesis using handle_peer_info_same [of e i c] by (auto simp: same_config_def split: if_splits)
qed (simp_all add: lc_set_option_def toggle_option_def save_custom_image_quality_def
    save_image_quality_def set_custom_fps_def set_custom_resolution_def
    handle_login_error_def Let_def split: option.split)

section \<open>A concrete client\<close>

definition demo_env :: client_env where
  "demo_env =
     \<lparr>ce_config = blank_config, ce_socks = False, ce_parse_f64 = (\<lambda>_. None), ce_user_default = (\<lambda>_. []),
      ce_sha256 = (\<lambda>s. take 32 (s @ replicate 32 (CHR ''0''))), ce_base64_decode = (\<lambda>_. None),
      ce_parse_token = (\<lambda>_. None), ce_write_token = (\<lambda>_. None), ce_parse_map = (\<lambda>_. None),
      ce_write_map = (\<lambda>_. None),
      ce_decodings = (\<lambda>_ _ _. \<lparr>sd_vp9 = 1, sd_vp8 = 0, sd_av1 = 0, sd_h264 = 0, sd_h265 = 0, sd_prefer = []\<rparr>),
      ce_terminal_admin_var = None, ce_ab = \<lparr>ab_access_token = [], ab_entries = []\<rparr>,
      ce_my_id = ''1'', ce_my_platform = ''OHOS'', ce_hwid = [], ce_program_version = ''1.4.7''\<rparr>"

definition blank_client :: client where
  "blank_client =
     \<lparr>cl_lc = \<lparr>l_id = [], l_conn_type = DEFAULT_CONN, l_is_terminal_admin = False,
         l_hash = \<lparr>h_salt = [], h_challenge = []\<rparr>, l_password = [], l_remember = False,
         l_config = peer_config_default (\<lambda>_. None) (\<lambda>_. []), l_port_forward = ([], 0), l_version = 0,
         l_features = None, l_session_id = 0, l_supported_encoding = no_encoding,
         l_restarting_remote_device = False, l_force_relay = False, l_direct = None, l_received = False,
         l_switch_uuid = None, l_other_server = None, l_custom_fps = None, l_last_auto_fps = None,
         l_adapter_luid = None, l_mark_unsupported = [], l_selected_windows_session_id = None,
         l_peer_info = None, l_password_source = Undefined, l_shared_password = None,
         l_enable_trusted_devices = False, l_record_state = False, l_record_permission = False\<rparr>,
      cl_peers = Map.empty\<rparr>"

definition demo_client :: client where
  "demo_client = initialize demo_env 7 ''42'' DEFAULT_CONN None False None None None blank_client"

lemma demo_client_synced: "synced demo_env demo_client"
  by (simp add: demo_client_def synced_initialize)

lemma demo_client_simps [simp]:
  "l_id (cl_lc demo_client) = ''42''"
  "l_config (cl_lc demo_client) = peer_config_default (\<lambda>_. None) (\<lambda>_. [])"
  "l_conn_type (cl_lc demo_client) = DEFAULT_CONN"
  "l_password (cl_lc demo_client) = []"
  "l_shared_password (cl_lc demo_client) = None"
  "load_config demo_env demo_client = peer_config_default (\<lambda>_. None) (\<lambda>_. [])"
proof -
  show [simp]: "l_id (cl_lc demo_client) = ''42''"
    by (simp add: demo_client_def resolve_peer_id_def handle_relay_id_def)
  have [simp]: "cl_peers demo_client = Map.empty"
    by (simp add: demo_client_def blank_client_def)
  show "load_config demo_env demo_client = peer_config_default (\<lambda>_. None) (\<lambda>_. [])"
    by (simp add: load_config_def demo_env_def)
  show "l_config (cl_lc demo_client) = peer_config_default (\<lambda>_. None) (\<lambda>_. [])"
    by (simp add: demo_client_def load_config_def blank_client_def demo_env_def)
  show "l_conn_type (cl_lc demo_client) = DEFAULT_CONN" "l_password (cl_lc demo_client) = []"
    "l_shared_password (cl_lc demo_client) = None"
    by (simp_all add: demo_client_def initialize_def with_server_key_def with_token_def with_other_server_def
        resolve_peer_id_def blank_client_def Let_def)
qed

end
