(* ===== verification/LoginToggles.thy ===== *)
theory LoginToggles
  imports LoginConfig
begin

text \<open>
  What the toggles of a session do: theory LoginConfig models \<open>LoginConfigHandler::toggle_option\<close> and
  \<open>get_toggle_option\<close> of \<open>src/client.rs\<close>; here each toggle is shown to flip its own field only, and the
  message it sends to agree with the one of a new login.
\<close>

section \<open>Toggles flip\<close>

lemmas toggle_simps = toggle_option_def toggle_fields_def get_toggle_option_def lc_get_option_def
  unwrap_or_default_def Let_def

definition known_toggles :: "string list" where
  "known_toggles =
     [''show-remote-cursor'', ''follow-remote-cursor'', ''follow-remote-window'', ''disable-audio'',
      ''disable-clipboard'', ''lock-after-session-end'', ''terminal-persistent'',
      ''enable-file-copy-paste'', ''show-quality-monitor'', ''allow_swap_key'', ''view-only'',
      ''show-my-cursor'']"

lemma contains_length: "length s < length p \<Longrightarrow> \<not> str_contains s p"
  using sublist_length_le by (fastforce simp: str_contains_def)

lemma known_toggles_not_block:
  "list_all (\<lambda>n. \<not> str_contains n ''block-input'') known_toggles"
  by (simp add: known_toggles_def str_contains_def sublist_code)

lemma get_toggle_option_validated:
  assumes "synced e c"
  shows "get_toggle_option ((cl_lc c)\<lparr>l_config := load_config e c\<rparr>) name = get_toggle_option (cl_lc c) name"
  using assms by (simp add: synced_def get_toggle_option_def lc_get_option_def Let_def)

text \<open>Writing the field of a toggle changes that toggle only.\<close>

lemma get_toggle_option_update:
  "get_toggle_option (lc\<lparr>l_config := cfg\<lparr>p_show_remote_cursor := v\<rparr>\<rparr>) n =
     (if n = ''show-remote-cursor'' then v else get_toggle_option (lc\<lparr>l_config := cfg\<rparr>) n)"
  "get_toggle_option (lc\<lparr>l_config := cfg\<lparr>p_follow_remote_cursor := v\<rparr>\<rparr>) n =
     (if n = ''follow-remote-cursor'' then v else get_toggle_option (lc\<lparr>l_config := cfg\<rparr>) n)"
  "get_toggle_option (lc\<lparr>l_config := cfg\<lparr>p_follow_remote_window := v\<rparr>\<rparr>) n =
     (if n = ''follow-remote-window'' then v else get_toggle_option (lc\<lparr>l_config := cfg\<rparr>) n)"
  "get_toggle_option (lc\<lparr>l_config := cfg\<lparr>p_disable_audio := v\<rparr>\<rparr>) n =
     (if n = ''disable-audio'' then v else get_toggle_option (lc\<lparr>l_config := cfg\<rparr>) n)"
  "get_toggle_option (lc\<lparr>l_config := cfg\<lparr>p_disable_clipboard := v\<rparr>\<rparr>) n =
     (if n = ''disable-clipboard'' then v else get_toggle_option (lc\<lparr>l_config := cfg\<rparr>) n)"
  "get_toggle_option (lc\<lparr>l_config := cfg\<lparr>p_lock_after_session_end := v\<rparr>\<rparr>) n =
     (if n = ''lock-after-session-end'' then v else get_toggle_option (lc\<lparr>l_config := cfg\<rparr>) n)"
  "get_toggle_option (lc\<lparr>l_config := cfg\<lparr>p_terminal_persistent := v\<rparr>\<rparr>) n =
     (if n = ''terminal-persistent'' then v else get_toggle_option (lc\<lparr>l_config := cfg\<rparr>) n)"
  "get_toggle_option (lc\<lparr>l_config := cfg\<lparr>p_enable_file_copy_paste := v\<rparr>\<rparr>) n =
     (if n = ''enable-file-copy-paste'' then v else get_toggle_option (lc\<lparr>l_config := cfg\<rparr>) n)"
  "get_toggle_option (lc\<lparr>l_config := cfg\<lparr>p_show_quality_monitor := v\<rparr>\<rparr>) n =
     (if n = ''show-quality-monitor'' then v else get_toggle_option (lc\<lparr>l_config := cfg\<rparr>) n)"
  "get_toggle_option (lc\<lparr>l_config := cfg\<lparr>p_allow_swap_key := v\<rparr>\<rparr>) n =
     (if n = ''allow_swap_key'' then v else get_toggle_option (lc\<lparr>l_config := cfg\<rparr>) n)"
  "get_toggle_option (lc\<lparr>l_config := cfg\<lparr>p_view_only := v\<rparr>\<rparr>) n =
     (if n = ''view-only'' then v else get_toggle_option (lc\<lparr>l_config := cfg\<rparr>) n)"
  "get_toggle_option (lc\<lparr>l_config := cfg\<lparr>p_show_my_cursor := v\<rparr>\<rparr>) n =
     (if n = ''show-my-cursor'' then v else get_toggle_option (lc\<lparr>l_config := cfg\<rparr>) n)"
  by (simp_all add: get_toggle_option_def lc_get_option_def Let_def)

lemma get_toggle_option_field:
  "get_toggle_option (lc\<lparr>l_config := cfg\<rparr>) ''show-remote-cursor'' = p_show_remote_cursor cfg"
  "get_toggle_option (lc\<lparr>l_config := cfg\<rparr>) ''follow-remote-cursor'' = p_follow_remote_cursor cfg"
  "get_toggle_option (lc\<lparr>l_config := cfg\<rparr>) ''follow-remote-window'' = p_follow_remote_window cfg"
  "get_toggle_option (lc\<lparr>l_config := cfg\<rparr>) ''disable-audio'' = p_disable_audio cfg"
  "get_toggle_option (lc\<lparr>l_config := cfg\<rparr>) ''disable-clipboard'' = p_disable_clipboard cfg"
  "get_toggle_option (lc\<lparr>l_config := cfg\<rparr>) ''lock-after-session-end'' = p_lock_after_session_end cfg"
  "get_toggle_option (lc\<lparr>l_config := cfg\<rparr>) ''terminal-persistent'' = p_terminal_persistent cfg"
  "get_toggle_option (lc\<lparr>l_config := cfg\<rparr>) ''enable-file-copy-paste'' = p_enable_file_copy_paste cfg"
  "get_toggle_option (lc\<lparr>l_config := cfg\<rparr>) ''show-quality-monitor'' = p_show_quality_monitor cfg"
  "get_toggle_option (lc\<lparr>l_config := cfg\<rparr>) ''allow_swap_key'' = p_allow_swap_key cfg"
  "get_toggle_option (lc\<lparr>l_config := cfg\<rparr>) ''view-only'' = p_view_only cfg"
  "get_toggle_option (lc\<lparr>l_config := cfg\<rparr>) ''show-my-cursor'' = p_show_my_cursor cfg"
  by (simp_all add: get_toggle_option_def)

text \<open>A known toggle flips its own field of the configuration it is given.\<close>

lemma toggle_fields_flip:
  assumes "name \<in> set known_toggles"
  obtains cfg' o' where "toggle_fields lc name cfg = Some (cfg', o')"
    "get_toggle_option (lc\<lparr>l_config := cfg'\<rparr>) name = (\<not> get_toggle_option (lc\<lparr>l_config := cfg\<rparr>) name)"
    "\<And>n. n \<noteq> name \<Longrightarrow> name \<noteq> ''view-only'' \<or> n \<noteq> ''show-my-cursor'' \<Longrightarrow>
       get_toggle_option (lc\<lparr>l_config := cfg'\<rparr>) n = get_toggle_option (lc\<lparr>l_config := cfg\<rparr>) n"
proof -
  let ?P = "\<lambda>x. case x of None \<Rightarrow> False | Some (cfg', o') \<Rightarrow>
      get_toggle_option (lc\<lparr>l_config := cfg'\<rparr>) name = (\<not> get_toggle_option (lc\<lparr>l_config := cfg\<rparr>) name) \<and>
      (\<forall>n. n \<noteq> name \<longrightarrow> name \<noteq> ''view-only'' \<or> n \<noteq> ''show-my-cursor'' \<longrightarrow>
        get_toggle_option (lc\<lparr>l_config := cfg'\<rparr>) n = get_toggle_option (lc\<lparr>l_config := cfg\<rparr>) n)"
  have "?P (toggle_fields lc name cfg)"
    using assms unfolding known_toggles_def set_simps insert_iff empty_iff
    by (elim disjE FalseE, simp_all add: toggle_fields_def Let_def get_toggle_option_update
        get_toggle_option_field)
  then show ?thesis by (auto split: option.splits intro: that)
qed

lemma toggle_option_known:
  assumes "synced e c" "name \<in> set known_toggles"
  shows "get_toggle_option (cl_lc (fst (toggle_option e name c))) name = (\<not> get_toggle_option (cl_lc c) name)"
    and "n \<noteq> name \<Longrightarrow> name \<noteq> ''view-only'' \<or> n \<noteq> ''show-my-cursor'' \<Longrightarrow>
      get_toggle_option (cl_lc (fst (toggle_option e name c))) n = get_toggle_option (cl_lc c) n"
proof -
  obtain cfg' o' where t: "toggle_fields (cl_lc c) name (load_config e c) = Some (cfg', o')"
    and f: "get_toggle_option ((cl_lc c)\<lparr>l_config := cfg'\<rparr>) name =
      (\<not> get_toggle_option ((cl_lc c)\<lparr>l_config := load_config e c\<rparr>) name)"
    and u: "\<And>n. n \<noteq> name \<Longrightarrow> name \<noteq> ''view-only'' \<or> n \<noteq> ''show-my-cursor'' \<Longrightarrow>
      get_toggle_option ((cl_lc c)\<lparr>l_config := cfg'\<rparr>) n =
      get_toggle_option ((cl_lc c)\<lparr>l_config := load_config e c\<rparr>) n"
    using toggle_fields_flip [OF assms(2), of "cl_lc c" "load_config e c"] by blast
  have "\<not> str_contains name ''block-input''"
    using known_toggles_not_block assms(2) by (simp add: list_all_iff)
  then have "cl_lc (fst (toggle_option e name c)) = (cl_lc c)\<lparr>l_config := cfg'\<rparr>"
    using t by (simp add: toggle_option_def save_config_def)
  then show "get_toggle_option (cl_lc (fst (toggle_option e name c))) name = (\<not> get_toggle_option (cl_lc c) name)"
    "n \<noteq> name \<Longrightarrow> name \<noteq> ''view-only'' \<or> n \<noteq> ''show-my-cursor'' \<Longrightarrow>
      get_toggle_option (cl_lc (fst (toggle_option e name c))) n = get_toggle_option (cl_lc c) n"
    using f u [of n] get_toggle_option_validated [OF assms(1)] by simp_all
qed

lemma toggle_option_unknown:
  assumes "name \<notin> set known_toggles" "name \<notin> {''privacy-mode'', ''block-input'', ''unblock-input''}"
  shows "get_toggle_option (cl_lc (fst (toggle_option e name c))) name = (\<not> get_toggle_option (cl_lc c) name)"
    and "n \<noteq> name \<Longrightarrow>
      get_toggle_option (cl_lc (fst (toggle_option e name c))) n = get_toggle_option (cl_lc c) n"
proof -
  have t: "toggle_fields (cl_lc c) name (load_config e c) = None"
    using assms by (simp add: toggle_fields_def known_toggles_def)
  have k: "get_toggle_option lc name = (lc_get_option lc name \<noteq> [])" for lc
    using assms by (simp add: get_toggle_option_def known_toggles_def)
  show "get_toggle_option (cl_lc (fst (toggle_option e name c))) name = (\<not> get_toggle_option (cl_lc c) name)"
    by (auto simp: k toggle_option_def t lc_get_option_def unwrap_or_default_def Let_def split: option.split)
  show "get_toggle_option (cl_lc (fst (toggle_option e name c))) n = get_toggle_option (cl_lc c) n" if "n \<noteq> name"
    using that by (simp add: get_toggle_option_def lc_get_option_def toggle_option_def t Let_def)
qed

lemma toggle_fields_request:
  "toggle_fields lc ''privacy-mode'' cfg =
     Some (cfg, empty_option\<lparr>om_privacy_mode := if p_privacy_mode cfg then BoolNo else BoolYes\<rparr>)"
  "toggle_fields lc ''block-input'' cfg = Some (cfg, empty_option\<lparr>om_block_input := BoolYes\<rparr>)"
  "toggle_fields lc ''unblock-input'' cfg = Some (cfg, empty_option\<lparr>om_block_input := BoolNo\<rparr>)"
  by (simp_all add: toggle_fields_def)

text \<open>The toggles that only ask the peer change nothing here.\<close>

lemma toggle_option_request:
  assumes "synced e c" "name \<in> {''privacy-mode'', ''block-input'', ''unblock-input''}"
  shows "get_toggle_option (cl_lc (fst (toggle_option e name c))) n = get_toggle_option (cl_lc c) n"
proof -
  obtain o' where "toggle_fields (cl_lc c) name (load_config e c) = Some (load_config e c, o')"
    using assms(2) toggle_fields_request [of "cl_lc c" "load_config e c"] by blast
  then have "cl_lc (fst (toggle_option e name c)) \<in> {cl_lc c, (cl_lc c)\<lparr>l_config := load_config e c\<rparr>}"
    by (simp add: toggle_option_def save_config_def)
  then show ?thesis using get_toggle_option_validated [OF assms(1), of n] by auto
qed

lemma get_toggle_option_own:
  "get_toggle_option lc ''disable-clipboard'' = p_disable_clipboard (l_config lc)"
  "get_toggle_option lc ''show-remote-cursor'' = p_show_remote_cursor (l_config lc)"
  "get_toggle_option lc ''view-only'' = p_view_only (l_config lc)"
  "get_toggle_option lc ''lock-after-session-end'' = p_lock_after_session_end (l_config lc)"
  "get_toggle_option lc ''enable-file-copy-paste'' = p_enable_file_copy_paste (l_config lc)"
  by (simp_all add: get_toggle_option_def)

lemma toggle_view_only_on:
  "\<not> p_view_only cfg \<Longrightarrow> toggle_fields lc ''view-only'' cfg =
     Some (cfg\<lparr>p_view_only := True\<rparr>,
       empty_option\<lparr>om_disable_keyboard := BoolYes, om_disable_clipboard := BoolYes,
         om_show_remote_cursor := BoolYes, om_enable_file_transfer := BoolNo,
         om_lock_after_session_end := BoolNo\<rparr>)"
  by (simp add: toggle_fields_def bool_option_def)

lemma toggle_view_only_off:
  "p_view_only cfg \<Longrightarrow> toggle_fields lc ''view-only'' cfg =
     Some (if p_show_my_cursor cfg then cfg\<lparr>p_view_only := False, p_show_my_cursor := False\<rparr>
           else cfg\<lparr>p_view_only := False\<rparr>,
       empty_option\<lparr>om_disable_keyboard := BoolNo,
         om_disable_clipboard := bool_option (p_disable_clipboard (l_config lc)),
         om_show_remote_cursor := bool_option (p_show_remote_cursor (l_config lc)),
         om_enable_file_transfer := bool_option (p_enable_file_copy_paste (l_config lc)),
         om_lock_after_session_end := bool_option (p_lock_after_session_end (l_config lc)),
         om_show_my_cursor := if p_show_my_cursor cfg then BoolNo else BoolNotSet\<rparr>)"
  by (simp add: toggle_fields_def bool_option_def get_toggle_option_own Let_def empty_option_def)

lemma quality_option_fields:
  "om_disable_keyboard (quality_option e c b empty_option) = BoolNotSet"
  "om_disable_clipboard (quality_option e c b empty_option) = BoolNotSet"
  "om_show_remote_cursor (quality_option e c b empty_option) = BoolNotSet"
  "om_enable_file_transfer (quality_option e c b empty_option) = BoolNotSet"
  "om_lock_after_session_end (quality_option e c b empty_option) = BoolNotSet"
  by (simp_all add: quality_option_def empty_option_def Let_def split: option.split)

lemma option_message_fields:
  fixes c :: client and e :: client_env and b :: bool
  assumes "l_conn_type (cl_lc c) \<in> {DEFAULT_CONN, VIEW_CAMERA}"
  defines "m \<equiv> the (get_option_message e c b)" and "on \<equiv> get_toggle_option (cl_lc c)"
  shows "om_disable_keyboard m = (if on ''view-only'' then BoolYes else BoolNotSet)"
    "om_disable_clipboard m = (if on ''view-only'' \<or> on ''disable-clipboard'' then BoolYes else BoolNotSet)"
    "om_show_remote_cursor m = (if on ''view-only'' \<or> on ''show-remote-cursor'' then BoolYes else BoolNotSet)"
    "om_enable_file_transfer m =
       (if \<not> on ''view-only'' \<and> on ''enable-file-copy-paste'' then BoolYes else BoolNotSet)"
    "om_lock_after_session_end m =
       (if \<not> on ''view-only'' \<and> on ''lock-after-session-end'' then BoolYes else BoolNotSet)"
proof -
  have "l_conn_type (cl_lc c) \<noteq> PORT_FORWARD" "l_conn_type (cl_lc c) \<noteq> RDP"
    "l_conn_type (cl_lc c) \<noteq> FILE_TRANSFER" "l_conn_type (cl_lc c) \<noteq> TERMINAL"
    using assms(1) by auto
  note [simp] = this
  show "om_disable_keyboard m = (if on ''view-only'' then BoolYes else BoolNotSet)"
    "om_disable_clipboard m = (if on ''view-only'' \<or> on ''disable-clipboard'' then BoolYes else BoolNotSet)"
    "om_show_remote_cursor m = (if on ''view-only'' \<or> on ''show-remote-cursor'' then BoolYes else BoolNotSet)"
    "om_enable_file_transfer m =
       (if \<not> on ''view-only'' \<and> on ''enable-file-copy-paste'' then BoolYes else BoolNotSet)"
    "om_lock_after_session_end m =
       (if \<not> on ''view-only'' \<and> on ''lock-after-session-end'' then BoolYes else BoolNotSet)"
    by (simp_all add: m_def on_def get_option_message_def Let_def quality_option_fields)
qed

section \<open>Properties\<close>


text \<open>toggling an option flips exactly that option, in memory and in the peer's file; only
  privacy mode and input blocking, which wait for the peer's answer, stay as they are, and leaving
  view-only mode may also switch off one's own cursor.\<close>

theorem toggle_flips_one_option:
  assumes "synced e c"
  shows "(name \<in> {''privacy-mode'', ''block-input'', ''unblock-input''} \<or>
          get_toggle_option (cl_lc (fst (toggle_option e name c))) name =
            (\<not> get_toggle_option (cl_lc c) name)) \<and>
         (n = name \<or> name = ''view-only'' \<and> n = ''show-my-cursor'' \<or>
          get_toggle_option (cl_lc (fst (toggle_option e name c))) n = get_toggle_option (cl_lc c) n) \<and>
         synced e (fst (toggle_option e name c))"
proof (intro conjI)
  have p: "get_toggle_option (cl_lc (fst (toggle_option e name c))) n = get_toggle_option (cl_lc c) n"
    if "name \<in> {''privacy-mode'', ''block-input'', ''unblock-input''}" for n
    using that by (rule toggle_option_request [OF assms])
  show "name \<in> {''privacy-mode'', ''block-input'', ''unblock-input''} \<or>
      get_toggle_option (cl_lc (fst (toggle_option e name c))) name = (\<not> get_toggle_option (cl_lc c) name)"
    using toggle_option_known(1) [OF assms] toggle_option_unknown(1) by blast
  show "n = name \<or> name = ''view-only'' \<and> n = ''show-my-cursor'' \<or>
      get_toggle_option (cl_lc (fst (toggle_option e name c))) n = get_toggle_option (cl_lc c) n"
    using toggle_option_known(2) [OF assms] toggle_option_unknown(2) p by blast
  show "synced e (fst (toggle_option e name c))" using assms by (rule synced_toggle_option)
qed

theorem toggle_flips_one_option_witness:
  "get_toggle_option (cl_lc (fst (toggle_option demo_env ''view-only'' demo_client))) ''view-only''"
  using toggle_flips_one_option [OF demo_client_synced, of "''view-only''"]
  by (simp add: get_toggle_option_own peer_config_default_def default_bool_def)

text \<open>C26: switching view-only on or off tells the peer what a new login with the changed
  configuration would: keyboard, clipboard, cursor, file transfer and the lock at the end agree.\<close>

theorem view_only_toggle_matches_login:
  assumes "synced e c" "l_conn_type (cl_lc c) \<in> {DEFAULT_CONN, VIEW_CAMERA}"
    and "toggle_option e ''view-only'' c = (c', Some (Msg_option o'))"
    and "get_option_message e c' True = Some m"
  shows "om_disable_keyboard o' = bool_option (om_disable_keyboard m = BoolYes) \<and>
         om_disable_clipboard o' = bool_option (om_disable_clipboard m = BoolYes) \<and>
         om_show_remote_cursor o' = bool_option (om_show_remote_cursor m = BoolYes) \<and>
         om_enable_file_transfer o' = bool_option (om_enable_file_transfer m = BoolYes) \<and>
         om_lock_after_session_end o' = bool_option (om_lock_after_session_end m = BoolYes)"
proof -
  let ?mem = "l_config (cl_lc c)" and ?disk = "load_config e c"
  have known: "''view-only'' \<in> set known_toggles" by (simp add: known_toggles_def)
  then have "\<not> str_contains ''view-only'' ''block-input''"
    using known_toggles_not_block by (simp add: list_all_iff)
  moreover obtain cfg where t: "toggle_fields (cl_lc c) ''view-only'' ?disk = Some (cfg, o')"
    using assms(3) by (auto simp: toggle_option_def Let_def split: option.splits if_splits)
  ultimately have c': "c' = save_config cfg c"
    using assms(3) by (simp add: toggle_option_def)
  have same: "p_disable_clipboard ?disk = p_disable_clipboard ?mem" "p_show_remote_cursor ?disk = p_show_remote_cursor ?mem"
    "p_enable_file_copy_paste ?disk = p_enable_file_copy_paste ?mem"
    "p_lock_after_session_end ?disk = p_lock_after_session_end ?mem"
    using assms(1) by (simp_all add: synced_def)
  have cfg: "l_config (cl_lc c') = cfg" by (simp add: c')
  have "l_conn_type (cl_lc c') = l_conn_type (cl_lc c)" by (simp add: c' save_config_def)
  with assms(2) have "m = the (get_option_message e c' True)" "l_conn_type (cl_lc c') \<in> {DEFAULT_CONN, VIEW_CAMERA}"
    using assms(4) by simp_all
  then have m: "om_disable_keyboard m = (if p_view_only cfg then BoolYes else BoolNotSet)"
      "om_disable_clipboard m = (if p_view_only cfg \<or> p_disable_clipboard cfg then BoolYes else BoolNotSet)"
      "om_show_remote_cursor m = (if p_view_only cfg \<or> p_show_remote_cursor cfg then BoolYes else BoolNotSet)"
      "om_enable_file_transfer m = (if \<not> p_view_only cfg \<and> p_enable_file_copy_paste cfg then BoolYes else BoolNotSet)"
      "om_lock_after_session_end m = (if \<not> p_view_only cfg \<and> p_lock_after_session_end cfg then BoolYes else BoolNotSet)"
    using option_message_fields [of c' e True] by (simp_all only: get_toggle_option_own cfg)
  show ?thesis
  proof (cases "p_view_only ?disk")
    case True
    with t have "o' = snd (the (toggle_fields (cl_lc c) ''view-only'' ?disk))" "\<not> p_view_only cfg"
      "p_disable_clipboard cfg = p_disable_clipboard ?disk" "p_show_remote_cursor cfg = p_show_remote_cursor ?disk"
      "p_enable_file_copy_paste cfg = p_enable_file_copy_paste ?disk"
      "p_lock_after_session_end cfg = p_lock_after_session_end ?disk"
      by (auto simp: toggle_view_only_off split: if_splits)
    with True same m show ?thesis by (simp add: toggle_view_only_off bool_option_def)
  next
    case False
    with t have "o' = snd (the (toggle_fields (cl_lc c) ''view-only'' ?disk))" "p_view_only cfg"
      by (auto simp: toggle_view_only_on)
    with False m show ?thesis by (simp add: toggle_view_only_on bool_option_def)
  qed
qed

theorem view_only_toggle_matches_login_witness:
  "om_disable_keyboard (the (get_option_message demo_env
     (fst (toggle_option demo_env ''view-only'' demo_client)) True)) = BoolYes"
proof -
  let ?c = "fst (toggle_option demo_env ''view-only'' demo_client)"
  let ?o = "empty_option\<lparr>om_disable_keyboard := BoolYes, om_disable_clipboard := BoolYes,
    om_show_remote_cursor := BoolYes, om_enable_file_transfer := BoolNo, om_lock_after_session_end := BoolNo\<rparr>"
  have n: "\<not> str_contains ''view-only'' ''block-input''" by (rule contains_length) simp
  have "toggle_fields (cl_lc demo_client) ''view-only'' (load_config demo_env demo_client) =
      Some ((load_config demo_env demo_client)\<lparr>p_view_only := True\<rparr>, ?o)"
    by (rule toggle_view_only_on) (simp add: peer_config_default_def default_bool_def)
  with n have "toggle_option demo_env ''view-only'' demo_client = (?c, Some (Msg_option ?o))"
    "l_conn_type (cl_lc ?c) = DEFAULT_CONN"
    by (simp_all add: toggle_option_def save_config_def)
  moreover from this(2) obtain m where "get_option_message demo_env ?c True = Some m"
    by (simp add: get_option_message_def Let_def)
  ultimately show ?thesis
    using view_only_toggle_matches_login [of demo_env demo_client ?c ?o m] demo_client_synced
    by (simp add: bool_option_def split: if_splits)
qed

end
