(* ===== verification/LoginPasswords.thy ===== *)
theory LoginPasswords
  imports LoginConfig
begin

text \<open>
  The passwords of a session: theory LoginConfig models \<open>handle_hash\<close>, \<open>handle_login_from_ui\<close> and
  \<open>LoginConfigHandler::handle_peer_info\<close> of \<open>src/client.rs\<close>; here the source of the password is settled,
  what is remembered of it, and which id and keyboard mode a session ends up with.
\<close>

section \<open>The order of the sources\<close>

definition digest_ok :: "client_env \<Rightarrow> bool" where
  "digest_ok e \<longleftrightarrow> (\<forall>x. length (ce_sha256 e x) = 32)"

lemma password_hash_nonempty [simp]: "digest_ok e \<Longrightarrow> password_hash e p hash \<noteq> []"
  by (metis digest_ok_def list.size(3) password_hash_def zero_neq_numeral)

definition hash_if_given :: "client_env \<Rightarrow> hash_challenge \<Rightarrow> string \<Rightarrow> string" where
  "hash_if_given e hash p = (if p = [] then [] else password_hash e p hash)"

definition address_book_password :: "client_env \<Rightarrow> login_config \<Rightarrow> string" where
  "address_book_password e lc = snd (try_get_password_from_personal_ab e (lc, []))"

text \<open>The candidates, the one that wins first: the password shared with the session, the last one
  sent, the preset one, the remembered one, the one in the personal address book, the built-in one.\<close>

definition password_candidates :: "client_env \<Rightarrow> string \<Rightarrow> hash_challenge \<Rightarrow> login_config \<Rightarrow> string list" where
  "password_candidates e preset hash lc =
     [hash_if_given e hash (unwrap_or_default (l_shared_password lc)), l_password lc,
      hash_if_given e hash preset, p_password (l_config lc), address_book_password e lc,
      hash_if_given e hash (get_builtin_option (ce_config e) ''default-connect-password'')]"

fun first_given :: "string list \<Rightarrow> string" where
  "first_given [] = []"
| "first_given (p # ps) = (if p = [] then first_given ps else p)"

lemma address_book_password_cong:
  "l_id lc' = l_id lc \<Longrightarrow> snd (try_get_password_from_personal_ab e (lc', [])) = address_book_password e lc"
  by (simp add: address_book_password_def try_get_password_from_personal_ab_def Let_def split: option.split)

lemma try_preset_password:
  "digest_ok e \<Longrightarrow> snd (try_preset e preset hash (lc, p)) = first_given [p, hash_if_given e hash preset]"
  "l_shared_password (fst (try_preset e preset hash lp)) = l_shared_password (fst lp)"
  by (simp_all add: try_preset_def hash_if_given_def case_prod_beta)

lemma try_shared_password:
  "digest_ok e \<Longrightarrow> snd (try_shared e hash lp) =
     first_given [hash_if_given e hash (unwrap_or_default (l_shared_password (fst lp))), snd lp]"
  by (auto simp: try_shared_def hash_if_given_def unwrap_or_default_def case_prod_beta Let_def split: option.split)

lemma try_remembered_password:
  "snd (try_remembered lp) = first_given [snd lp, p_password (l_config (fst lp))]"
  by (simp add: try_remembered_def case_prod_beta Let_def)

lemma try_builtin_password:
  "snd (try_builtin e hash lp) = first_given [snd lp,
     hash_if_given e hash (get_builtin_option (ce_config e) ''default-connect-password'')]"
  by (simp add: try_builtin_def hash_if_given_def case_prod_beta Let_def)

lemma choose_password_first:
  assumes "digest_ok e"
  shows "snd (choose_password e preset hash lc) = first_given (password_candidates e preset hash lc)"
proof -
  let ?a = "try_preset e preset hash (lc, l_password lc)"
  let ?b = "try_shared e hash ?a"
  let ?r = "try_remembered ?b"
  have "same_peer lc (fst ?b)"
    using same_peer_trans [OF try_same_peer(1) try_same_peer(2), of "(lc, l_password lc)"] by simp
  then have cfg: "l_config (fst ?b) = l_config lc" and r: "same_peer lc (fst ?r)"
    using same_peer_trans [OF _ try_same_peer(3)] by (simp_all add: same_peer_def)
  have ab: "snd (try_get_password_from_personal_ab e ?r) = address_book_password e lc" if "snd ?r = []"
    using that r address_book_password_cong [of "fst ?r" lc e] by (cases ?r) (simp add: same_peer_def)
  have b: "snd ?r = first_given [hash_if_given e hash (unwrap_or_default (l_shared_password lc)), l_password lc,
      hash_if_given e hash preset, p_password (l_config lc)]"
    unfolding try_remembered_password try_shared_password [OF assms] try_preset_password(2) cfg
    using try_preset_password(1) [OF assms, of preset hash lc "l_password lc"] by simp
  show ?thesis
    unfolding choose_password_def Let_def try_builtin_password
    using ab b by (auto simp: password_candidates_def split: if_splits)
qed

section \<open>What is remembered\<close>

lemma handle_peer_info_password:
  "p_password (l_config (cl_lc (lc_handle_peer_info e info c))) =
     remembered_password e (cl_lc c) (p_password (load_config e c))"
proof -
  have r: "remembered_password e (lc\<lparr>l_version := v, l_features := f\<rparr>) p = remembered_password e lc p" for lc v f p
    by (simp add: remembered_password_def Let_def)
  show ?thesis
    unfolding lc_handle_peer_info_def Let_def
    by (simp add: peer_info_config_def Let_def r split: option.split)
qed

lemma try_remembered_given: "snd lp \<noteq> [] \<Longrightarrow> try_remembered lp = lp"
  by (cases lp) (simp add: try_remembered_def)

text \<open>A password that came from a shared address book or from the build is marked as such.\<close>

lemma choose_password_shared:
  assumes "l_shared_password lc = Some p" "p \<noteq> []" "digest_ok e"
  shows "l_password_source (fst (choose_password e preset hash lc)) = SharedAb p"
    and "snd (choose_password e preset hash lc) = password_hash e p hash"
proof -
  let ?a = "try_preset e preset hash (lc, l_password lc)"
  have "l_shared_password (fst ?a) = Some p" using assms(1) by (simp add: try_preset_password)
  then have b: "snd (try_shared e hash ?a) = password_hash e p hash"
    "l_password_source (fst (try_shared e hash ?a)) = SharedAb p"
    using assms(2) by (simp_all add: try_shared_def case_prod_beta Let_def)
  then have "try_remembered (try_shared e hash ?a) = try_shared e hash ?a"
    using assms(3) by (intro try_remembered_given) simp
  with b show "l_password_source (fst (choose_password e preset hash lc)) = SharedAb p"
    "snd (choose_password e preset hash lc) = password_hash e p hash"
    using assms(3) by (simp_all add: choose_password_def try_builtin_def case_prod_beta Let_def)
qed

lemma handle_hash_lc:
  "cl_lc (fst (handle_hash e preset hash c)) =
     (fst (choose_password e preset hash ((cl_lc c)\<lparr>l_hash := hash\<rparr>)))
       \<lparr>l_password := snd (choose_password e preset hash ((cl_lc c)\<lparr>l_hash := hash\<rparr>))\<rparr>"
  by (simp add: handle_hash_def Let_def case_prod_beta)

section \<open>Splitting a connection string\<close>

lemma resolve_peer_id_simple:
  "CHR ''@'' \<notin> set raw \<Longrightarrow> CHR ''@'' \<notin> set server \<Longrightarrow> CHR ''?'' \<notin> set server \<Longrightarrow>
   fst (resolve_peer_id (raw @ CHR ''@'' # server) force) = raw @ CHR ''@'' # server"
  by (simp add: resolve_peer_id_def handle_relay_id_def str_split_append Let_def)

definition demo_challenge :: hash_challenge where
  "demo_challenge = \<lparr>h_salt = ''s'', h_challenge = ''c''\<rparr>"

definition demo_peer_info :: peer_info where
  "demo_peer_info =
     \<lparr>pi_user = ''u'', pi_host = ''h'', pi_os = ''Linux'', pi_displays = [], pi_current_display = 0,
      pi_version = ''1.4.7'', pi_features = None, pi_encoding = None, pi_sessions = [], pi_current_sid = 0\<rparr>"

lemma demo_digest_ok: "digest_ok demo_env"
  by (auto simp: digest_ok_def demo_env_def min_def)

lemma takeWhile_server:
  assumes "CHR ''@'' \<notin> set server" "CHR ''?'' \<notin> set server"
  shows "takeWhile (\<lambda>x. x \<noteq> CHR ''?'') (takeWhile (\<lambda>x. x \<noteq> CHR ''@'') (server @ CHR ''?'' # args)) = server"
proof -
  have "takeWhile (\<lambda>x. x \<noteq> CHR ''@'') (server @ CHR ''?'' # args) =
      server @ CHR ''?'' # takeWhile (\<lambda>x. x \<noteq> CHR ''@'') args"
    using assms(1) by (subst takeWhile_append2) auto
  moreover have "takeWhile (\<lambda>x. x \<noteq> CHR ''?'') (server @ CHR ''?'' # t) = server" for t
    using assms(2) by (subst takeWhile_append2) auto
  ultimately show ?thesis by simp
qed

section \<open>Properties\<close>

text \<open>C27: the password sent to the peer is the first one given of: the one shared with the session,
  the last one sent, the preset one, the remembered one, the one in the personal address book, the
  built-in one; and it is sent hashed with the peer's challenge, or empty with a request for input.\<close>

theorem login_password_order:
  assumes "digest_ok e" "\<not> (l_conn_type (cl_lc c) = TERMINAL \<and> l_is_terminal_admin (cl_lc c))"
  shows "let lc = (cl_lc c)\<lparr>l_hash := hash\<rparr>; p = first_given (password_candidates e preset hash lc)
         in l_password (cl_lc (fst (handle_hash e preset hash c))) = p \<and>
            (case snd (handle_hash e preset hash c) of
               (boxes, Some (Msg_login_request m)) \<Rightarrow>
                 lr_password m = (if p = [] then [] else ce_sha256 e (p @ h_challenge hash)) \<and>
                 (boxes = []) = (p \<noteq> [])
             | _ \<Rightarrow> False)"
proof -
  let ?lc = "(cl_lc c)\<lparr>l_hash := hash\<rparr>"
  let ?r = "choose_password e preset hash ?lc"
  have p: "snd ?r = first_given (password_candidates e preset hash ?lc)"
    by (rule choose_password_first [OF assms(1)])
  have "same_peer ?lc (fst ?r)" by (rule choose_password_same_peer)
  with assms(2) have "\<not> (l_conn_type (fst ?r) = TERMINAL \<and> l_is_terminal_admin (fst ?r))"
    by (simp add: same_peer_def)
  then show ?thesis
    by (auto simp: handle_hash_def create_login_msg_def case_prod_beta Let_def p)
qed

theorem login_password_order_witness:
  "l_password (cl_lc (fst (handle_hash demo_env ''pw'' demo_challenge demo_client))) =
   password_hash demo_env ''pw'' demo_challenge"
proof -
  have "\<not> (l_conn_type (cl_lc demo_client) = TERMINAL \<and> l_is_terminal_admin (cl_lc demo_client))" by simp
  from login_password_order [OF demo_digest_ok this, of demo_challenge "''pw''"]
  show ?thesis
    by (simp add: password_candidates_def hash_if_given_def unwrap_or_default_def demo_digest_ok Let_def)
qed

text \<open>C28: a password that was shared with the session is never remembered: after the peer has
  accepted it, the peer's file holds the password it held before, or none.\<close>

theorem shared_password_not_remembered:
  assumes "digest_ok e" "l_shared_password (cl_lc c) = Some p" "p \<noteq> []"
  shows "p_password (l_config (cl_lc (lc_handle_peer_info e info (fst (handle_hash e preset hash c))))) =
         (if l_remember (cl_lc c) then p_password (load_config e c) else [])"
proof -
  let ?lc = "(cl_lc c)\<lparr>l_hash := hash\<rparr>" and ?c = "fst (handle_hash e preset hash c)"
  have s: "l_password_source (cl_lc ?c) = SharedAb p" "l_password (cl_lc ?c) = password_hash e p hash"
    using choose_password_shared [of ?lc p e preset hash] assms by (simp_all add: handle_hash_lc)
  have "same_peer ?lc (fst (choose_password e preset hash ?lc))" by (rule choose_password_same_peer)
  then have r: "l_remember (cl_lc ?c) = l_remember (cl_lc c)" "l_hash (cl_lc ?c) = hash"
    by (simp_all add: handle_hash_lc same_peer_def)
  have "load_config e ?c = load_config e c"
    using same_config_handle_hash [of c e preset hash] by (intro load_config_cong) (simp_all add: same_config_def)
  then show ?thesis
    by (simp add: handle_peer_info_password remembered_password_def s r is_shared_ab_def is_personal_ab_def
        Let_def)
qed

theorem shared_password_not_remembered_witness:
  "p_password (l_config (cl_lc (lc_handle_peer_info demo_env demo_peer_info
     (fst (handle_hash demo_env [] demo_challenge
       (demo_client\<lparr>cl_lc := (cl_lc demo_client)\<lparr>l_shared_password := Some ''team''\<rparr>\<rparr>)))))) = []"
proof -
  let ?c = "demo_client\<lparr>cl_lc := (cl_lc demo_client)\<lparr>l_shared_password := Some ''team''\<rparr>\<rparr>"
  have "load_config demo_env ?c = load_config demo_env demo_client"
    by (rule load_config_cong) simp_all
  then show ?thesis
    using shared_password_not_remembered [OF demo_digest_ok, of ?c "''team''" demo_peer_info "[]" demo_challenge]
    by (simp add: peer_config_default_def split: if_splits)
qed

text \<open>The password the user types is remembered exactly when the user asks for it, and an older
  remembered one is forgotten otherwise.\<close>

theorem typed_password_remembered_iff_asked:
  assumes "digest_ok e" "password \<noteq> []"
  shows "p_password (l_config (cl_lc (lc_handle_peer_info e info
           (fst (handle_login_from_ui e os_user os_password password remember c))))) =
         (if remember then password_hash e password (l_hash (cl_lc c)) else [])"
proof -
  define c1 where "c1 = fst (handle_login_from_ui e os_user os_password password remember c)"
  then have "l_password (cl_lc c1) = password_hash e password (l_hash (cl_lc c))" "l_remember (cl_lc c1) = remember"
    "l_password_source (cl_lc c1) = Undefined"
    using assms(2) by (simp_all add: handle_login_from_ui_def Let_def)
  then show ?thesis
    unfolding c1_def [symmetric]
    using assms(1)
    by (simp add: handle_peer_info_password remembered_password_def is_shared_ab_def is_personal_ab_def
        Let_def)
qed

theorem typed_password_remembered_iff_asked_witness:
  "p_password (l_config (cl_lc (lc_handle_peer_info demo_env demo_peer_info
     (fst (handle_login_from_ui demo_env [] [] ''pw'' False demo_client))))) = []"
  using typed_password_remembered_iff_asked [OF demo_digest_ok, of "''pw''" demo_peer_info "[]" "[]" False demo_client]
  by simp

text \<open>the id a session stores its peer under is stable: resolving it again gives it back, and the
  key in the connection string has no part in it.\<close>

theorem peer_id_canonical:
  "fst (resolve_peer_id (fst (resolve_peer_id i force)) force') = fst (resolve_peer_id i force) \<and>
   (CHR ''@'' \<in> set (raw @ server) \<or> CHR ''?'' \<in> set server \<or>
    fst (resolve_peer_id (raw @ ''@'' @ server @ ''?'' @ args) force) = raw @ ''@'' @ server)"
proof
  show "fst (resolve_peer_id (fst (resolve_peer_id i force)) force') = fst (resolve_peer_id i force)"
  proof (cases "CHR ''@'' \<in> set i")
    case True
    then have i: "fst (resolve_peer_id i force) = hd (str_split (CHR ''@'') i) @ ''@'' @
        hd (str_split (CHR ''?'') (hd (tl (str_split (CHR ''@'') i))))"
      using str_split_tl [OF True]
      by (auto simp: resolve_peer_id_def handle_relay_id_def Let_def split: list.split)
    have "CHR ''@'' \<notin> set (hd (str_split (CHR ''?'') (hd (tl (str_split (CHR ''@'') i)))))"
      using str_split_tl [OF True] str_split_pieces [of _ "CHR ''@''" i]
      by (metis hd_in_set hd_str_split_subset in_mono list.set_sel(2) str_split_nonempty)
    moreover have "CHR ''@'' \<notin> set (hd (str_split (CHR ''@'') i))"
      "CHR ''?'' \<notin> set (hd (str_split (CHR ''?'') (hd (tl (str_split (CHR ''@'') i)))))"
      using str_split_pieces by (metis hd_in_set str_split_nonempty)+
    ultimately show ?thesis
      unfolding i by (simp add: resolve_peer_id_simple)
  qed (simp add: resolve_peer_id_def handle_relay_id_def)
  show "CHR ''@'' \<in> set (raw @ server) \<or> CHR ''?'' \<in> set server \<or>
    fst (resolve_peer_id (raw @ ''@'' @ server @ ''?'' @ args) force) = raw @ ''@'' @ server"
    by (auto simp: resolve_peer_id_def handle_relay_id_def str_split_append case_str_split
        hd_str_split [of "CHR ''?''"] Let_def dest: takeWhile_server)
qed

end
