(* ===== verification/ClientKeys.thy ===== *)
theory ClientKeys
  imports Messages
begin

text \<open>
  Keyboard and mouse input of the client: the key table \<open>KEY_MAP\<close>, the mouse events and the OS-password
  typing of \<open>src/client.rs\<close>, the frame-rate meter of its video thread, and the HarmonyOS build's
  \<open>src/harmony_bridge/keyboard_ohos.rs\<close>. The key codes of the \<open>rdev\<close> crate are a parameter.
\<close>

section \<open>Keys\<close>

datatype key = KeyControl control_key | KeyChr nat | KeyRaw nat

definition KEY_MAP :: "(string \<times> key) list" where
  "KEY_MAP =
     [(''VK_A'', KeyChr 0x61), (''VK_B'', KeyChr 0x62), (''VK_C'', KeyChr 0x63),
      (''VK_D'', KeyChr 0x64), (''VK_E'', KeyChr 0x65), (''VK_F'', KeyChr 0x66),
      (''VK_G'', KeyChr 0x67), (''VK_H'', KeyChr 0x68), (''VK_I'', KeyChr 0x69),
      (''VK_J'', KeyChr 0x6A), (''VK_K'', KeyChr 0x6B), (''VK_L'', KeyChr 0x6C),
      (''VK_M'', KeyChr 0x6D), (''VK_N'', KeyChr 0x6E), (''VK_O'', KeyChr 0x6F),
      (''VK_P'', KeyChr 0x70), (''VK_Q'', KeyChr 0x71), (''VK_R'', KeyChr 0x72),
      (''VK_S'', KeyChr 0x73), (''VK_T'', KeyChr 0x74), (''VK_U'', KeyChr 0x75),
      (''VK_V'', KeyChr 0x76), (''VK_W'', KeyChr 0x77), (''VK_X'', KeyChr 0x78),
      (''VK_Y'', KeyChr 0x79), (''VK_Z'', KeyChr 0x7A), (''VK_0'', KeyChr 0x30),
      (''VK_1'', KeyChr 0x31), (''VK_2'', KeyChr 0x32), (''VK_3'', KeyChr 0x33),
      (''VK_4'', KeyChr 0x34), (''VK_5'', KeyChr 0x35), (''VK_6'', KeyChr 0x36),
      (''VK_7'', KeyChr 0x37), (''VK_8'', KeyChr 0x38), (''VK_9'', KeyChr 0x39),
      (''VK_COMMA'', KeyChr 0x2C), (''VK_SLASH'', KeyChr 0x2F), (''VK_SEMICOLON'', KeyChr 0x3B),
      (''VK_QUOTE'', KeyChr 0x27), (''VK_LBRACKET'', KeyChr 0x5B), (''VK_RBRACKET'', KeyChr 0x5D),
      (''VK_BACKSLASH'', KeyChr 0x5C), (''VK_MINUS'', KeyChr 0x2D), (''VK_PLUS'', KeyChr 0x3D),
      (''VK_DIVIDE'', KeyControl ''Divide''), (''VK_MULTIPLY'', KeyControl ''Multiply''),
      (''VK_SUBTRACT'', KeyControl ''Subtract''), (''VK_ADD'', KeyControl ''Add''),
      (''VK_DECIMAL'', KeyControl ''Decimal''), (''VK_F1'', KeyControl ''F1''),
      (''VK_F2'', KeyControl ''F2''), (''VK_F3'', KeyControl ''F3''),
      (''VK_F4'', KeyControl ''F4''), (''VK_F5'', KeyControl ''F5''),
      (''VK_F6'', KeyControl ''F6''), (''VK_F7'', KeyControl ''F7''),
      (''VK_F8'', KeyControl ''F8''), (''VK_F9'', KeyControl ''F9''),
      (''VK_F10'', KeyControl ''F10''), (''VK_F11'', KeyControl ''F11''),
      (''VK_F12'', KeyControl ''F12''), (''VK_ENTER'', KeyControl ''Return''),
      (''VK_CANCEL'', KeyControl ''Cancel''), (''VK_BACK'', KeyControl ''Backspace''),
      (''VK_TAB'', KeyControl ''Tab''), (''VK_CLEAR'', KeyControl ''Clear''),
      (''VK_RETURN'', KeyControl ''Return''), (''VK_SHIFT'', KeyControl ''Shift''),
      (''VK_CONTROL'', KeyControl ''Control''), (''VK_MENU'', KeyControl ''Alt''),
      (''VK_PAUSE'', KeyControl ''Pause''), (''VK_CAPITAL'', KeyControl ''CapsLock''),
      (''VK_KANA'', KeyControl ''Kana''), (''VK_HANGUL'', KeyControl ''Hangul''),
      (''VK_JUNJA'', KeyControl ''Junja''), (''VK_FINAL'', KeyControl ''Final''),
      (''VK_HANJA'', KeyControl ''Hanja''), (''VK_KANJI'', KeyControl ''Kanji''),
      (''VK_ESCAPE'', KeyControl ''Escape''), (''VK_CONVERT'', KeyControl ''Convert''),
      (''VK_SPACE'', KeyControl ''Space''), (''VK_PRIOR'', KeyControl ''PageUp''),
      (''VK_NEXT'', KeyControl ''PageDown''), (''VK_END'', KeyControl ''End''),
      (''VK_HOME'', KeyControl ''Home''), (''VK_LEFT'', KeyControl ''LeftArrow''),
      (''VK_UP'', KeyControl ''UpArrow''), (''VK_RIGHT'', KeyControl ''RightArrow''),
      (''VK_DOWN'', KeyControl ''DownArrow''), (''VK_SELECT'', KeyControl ''Select''),
      (''VK_PRINT'', KeyControl ''Print''), (''VK_EXECUTE'', KeyControl ''Execute''),
      (''VK_SNAPSHOT'', KeyControl ''Snapshot''), (''VK_SCROLL'', KeyControl ''Scroll''),
      (''VK_INSERT'', KeyControl ''Insert''), (''VK_DELETE'', KeyControl ''Delete''),
      (''VK_HELP'', KeyControl ''Help''), (''VK_SLEEP'', KeyControl ''Sleep''),
      (''VK_SEPARATOR'', KeyControl ''Separator''), (''VK_NUMPAD0'', KeyControl ''Numpad0''),
      (''VK_NUMPAD1'', KeyControl ''Numpad1''), (''VK_NUMPAD2'', KeyControl ''Numpad2''),
      (''VK_NUMPAD3'', KeyControl ''Numpad3''), (''VK_NUMPAD4'', KeyControl ''Numpad4''),
      (''VK_NUMPAD5'', KeyControl ''Numpad5''), (''VK_NUMPAD6'', KeyControl ''Numpad6''),
      (''VK_NUMPAD7'', KeyControl ''Numpad7''), (''VK_NUMPAD8'', KeyControl ''Numpad8''),
      (''VK_NUMPAD9'', KeyControl ''Numpad9''), (''Apps'', KeyControl ''Apps''),
      (''Meta'', KeyControl ''Meta''), (''RAlt'', KeyControl ''RAlt''),
      (''RWin'', KeyControl ''RWin''), (''RControl'', KeyControl ''RControl''),
      (''RShift'', KeyControl ''RShift''), (''CTRL_ALT_DEL'', KeyControl ''CtrlAltDel''),
      (''LOCK_SCREEN'', KeyControl ''LockScreen'')]"

text \<open>The code point of a string that is one UTF-8 character.\<close>

definition utf8_value :: "string \<Rightarrow> nat" where
  "utf8_value s =
     (case map of_char s of
        [a] \<Rightarrow> a
      | [a, b] \<Rightarrow> (a mod 32) * 64 + b mod 64
      | [a, b, c] \<Rightarrow> (a mod 16) * 4096 + (b mod 64) * 64 + c mod 64
      | [a, b, c, d] \<Rightarrow> (a mod 8) * 262144 + (b mod 64) * 4096 + (c mod 64) * 64 + d mod 64
      | _ \<Rightarrow> 0)"

text \<open>The key a name stands for: a single character stands for itself.\<close>

definition key_of_name :: "string \<Rightarrow> key option" where
  "key_of_name name =
     (if utf8_chars name = 1 then Some (KeyRaw (utf8_value name)) else map_of KEY_MAP name)"

section \<open>Modifiers\<close>

definition legacy_modifiers :: "key_event \<Rightarrow> bool \<Rightarrow> bool \<Rightarrow> bool \<Rightarrow> bool \<Rightarrow> key_event" where
  "legacy_modifiers k alt ctrl shift command =
     k\<lparr>ke_modifiers := ke_modifiers k
         @ (if alt then [''Alt''] else []) @ (if ctrl then [''Control''] else [])
         @ (if shift then [''Shift''] else []) @ (if command then [''Meta''] else [])\<rparr>"

definition event_lock_screen :: key_event where
  "event_lock_screen =
     key_event_new\<lparr>ke_union := KU_ControlKey ''LockScreen'', ke_down := True, ke_mode := KM_Legacy\<rparr>"

definition event_ctrl_alt_del :: key_event where
  "event_ctrl_alt_del =
     key_event_new\<lparr>ke_union := KU_ControlKey ''CtrlAltDel'', ke_down := True, ke_mode := KM_Legacy\<rparr>"

definition input_key_event :: "key \<Rightarrow> bool \<Rightarrow> bool \<Rightarrow> bool \<Rightarrow> bool \<Rightarrow> bool \<Rightarrow> bool \<Rightarrow> key_event" where
  "input_key_event k down press alt ctrl shift command =
     (let v = (if press then 3 else if down then 1 else 0 :: nat);
          u = (case k of KeyChr c \<Rightarrow> KU_Chr c | KeyControl c \<Rightarrow> KU_ControlKey c | KeyRaw r \<Rightarrow> KU_Chr r);
          ev = key_event_new\<lparr>ke_union := u\<rparr>;
          ev = (if v = 1 then ev\<lparr>ke_down := True\<rparr> else if v = 3 then ev\<lparr>ke_press := True\<rparr> else ev)
      in (legacy_modifiers ev alt ctrl shift command)\<lparr>ke_mode := KM_Legacy\<rparr>)"

text \<open>The exchange of Control and Meta.\<close>

definition swap_control_key :: "control_key \<Rightarrow> control_key" where
  "swap_control_key ck =
     (if ck = ''Control'' then ''Meta''
      else if ck = ''Meta'' then ''Control''
      else if ck = ''RControl'' then ''Meta''
      else if ck = ''RWin'' then ''Control''
      else ck)"

text \<open>Key names and codes of the platforms, from the \<open>rdev\<close> crate.\<close>

record key_tables =
  win_key_from_scancode :: "nat \<Rightarrow> string"
  win_scancode_from_key :: "string \<Rightarrow> nat option"
  macos_key_from_code :: "nat \<Rightarrow> string"
  macos_keycode_from_key :: "string \<Rightarrow> nat option"
  linux_key_from_code :: "nat \<Rightarrow> string"
  linux_keycode_from_key :: "string \<Rightarrow> nat option"

definition swap_rdev_key :: "string \<Rightarrow> string" where
  "swap_rdev_key k =
     (if k = ''ControlLeft'' then ''MetaLeft''
      else if k = ''MetaLeft'' then ''ControlLeft''
      else if k = ''ControlRight'' then ''MetaLeft''
      else if k = ''MetaRight'' then ''ControlLeft''
      else k)"

text \<open>\<open>retain(|c| !c.is_whitespace())\<close>.\<close>

function without_whitespace :: "string \<Rightarrow> string" where
  "without_whitespace s =
     (case s of
        [] \<Rightarrow> []
      | c # t \<Rightarrow>
          (case find (\<lambda>w. w \<noteq> [] \<and> prefix w s) utf8_whitespace of
             Some w \<Rightarrow> without_whitespace (drop (length w) s)
           | None \<Rightarrow> c # without_whitespace t))"
  by pat_completeness auto
termination
  by (relation "measure length") (auto simp: find_Some_iff prefix_def)

declare without_whitespace.simps [simp del]

definition swap_key_code :: "key_tables \<Rightarrow> string \<Rightarrow> nat \<Rightarrow> nat" where
  "swap_key_code kt platform code =
     (let peer = without_whitespace (to_lowercase platform);
          r = (if peer = ''windows'' then
                 win_scancode_from_key kt (swap_rdev_key (win_key_from_scancode kt code))
               else if peer = ''macos'' then
                 macos_keycode_from_key kt (swap_rdev_key (macos_key_from_code kt code))
               else linux_keycode_from_key kt (swap_rdev_key (linux_key_from_code kt code)))
      in case r of Some c \<Rightarrow> c | None \<Rightarrow> 0)"

text \<open>\<open>swap_modifier_key\<close> when the option is on.\<close>

definition swap_key_event :: "key_tables \<Rightarrow> string \<Rightarrow> key_event \<Rightarrow> key_event" where
  "swap_key_event kt platform msg =
     (let msg = (case ke_union msg of
                   KU_ControlKey ck \<Rightarrow> msg\<lparr>ke_union := KU_ControlKey (swap_control_key ck)\<rparr>
                 | _ \<Rightarrow> msg);
          msg = msg\<lparr>ke_modifiers := map swap_control_key (ke_modifiers msg)\<rparr>;
          code = (case ke_union msg of KU_Chr c \<Rightarrow> c | _ \<Rightarrow> 0)
      in if code \<noteq> 0 then msg\<lparr>ke_union := KU_Chr (swap_key_code kt platform code)\<rparr> else msg)"

section \<open>Mouse\<close>

definition MOUSE_TYPE_DOWN :: int where "MOUSE_TYPE_DOWN = 1"
definition MOUSE_TYPE_UP :: int where "MOUSE_TYPE_UP = 2"
definition MOUSE_TYPE_WHEEL :: int where "MOUSE_TYPE_WHEEL = 3"
definition MOUSE_TYPE_TRACKPAD :: int where "MOUSE_TYPE_TRACKPAD = 4"
definition MOUSE_TYPE_MASK :: int where "MOUSE_TYPE_MASK = 7"
definition MOUSE_BUTTON_LEFT :: int where "MOUSE_BUTTON_LEFT = 1"
definition MOUSE_BUTTON_RIGHT :: int where "MOUSE_BUTTON_RIGHT = 2"

unbundle bit_operations_syntax

text \<open>The button part of \<open>Session::send_mouse\<close>: left and right change places.\<close>

definition swap_mouse_buttons :: "int \<Rightarrow> int" where
  "swap_mouse_buttons bits =
     (let left = push_bit 3 MOUSE_BUTTON_LEFT; right = push_bit 3 MOUSE_BUTTON_RIGHT;
          is_left = (bits AND left > 0); is_right = (bits AND right > 0)
      in if is_left \<noteq> is_right then
           (if is_left then (bits AND NOT left) OR right else (bits AND NOT right) OR left)
         else bits)"

definition mouse_event_of :: "int \<Rightarrow> int \<Rightarrow> int \<Rightarrow> bool \<Rightarrow> bool \<Rightarrow> bool \<Rightarrow> bool \<Rightarrow> mouse_event" where
  "mouse_event_of bits x y alt ctrl shift command =
     \<lparr>me_mask = bits, me_x = x, me_y = y,
      me_modifiers = (if alt then [''Alt''] else []) @ (if shift then [''Shift''] else [])
        @ (if ctrl then [''Control''] else []) @ (if command then [''Meta''] else [])\<rparr>"

definition pointer_modifiers :: "bool \<Rightarrow> bool \<Rightarrow> bool \<Rightarrow> bool \<Rightarrow> control_key list" where
  "pointer_modifiers alt ctrl shift command =
     (if alt then [''Alt''] else []) @ (if shift then [''Shift''] else [])
     @ (if ctrl then [''Control''] else []) @ (if command then [''Meta''] else [])"

text \<open>The mouse events of \<open>activate_os\<close>.\<close>

definition activate_os :: "bool \<Rightarrow> mouse_event list" where
  "activate_os send_left_click =
     (let left_down = push_bit 3 MOUSE_BUTTON_LEFT OR MOUSE_TYPE_DOWN;
          left_up = push_bit 3 MOUSE_BUTTON_LEFT OR MOUSE_TYPE_UP;
          right_down = push_bit 3 MOUSE_BUTTON_RIGHT OR MOUSE_TYPE_DOWN;
          right_up = push_bit 3 MOUSE_BUTTON_RIGHT OR MOUSE_TYPE_UP;
          m = (\<lambda>bits x y. mouse_event_of bits x y False False False False);
          (click_down, click_up) =
            (if send_left_click then (left_down, left_up) else (right_down, right_up))
      in [m left_up 0 0, m 0 0 0, m 0 3 3, m click_down 0 0, m click_up 0 0])"

text \<open>The key events of \<open>_input_os_password\<close>.\<close>

definition os_password_keys :: "string \<Rightarrow> key_event list" where
  "os_password_keys p =
     (if p = [] then []
      else
        let ev = key_event_new\<lparr>ke_mode := KM_Legacy, ke_press := True, ke_union := KU_Seq p\<rparr>
        in [ev, ev\<lparr>ke_union := KU_ControlKey ''Return''\<rparr>])"

section \<open>Frame rate\<close>

record fps_meter =
  skip_beginning :: nat
  fm_fps :: "nat option"
  fm_count :: nat
  fm_duration :: nat

text \<open>\<open>fps_calculate\<close>; durations are in nanoseconds.\<close>

definition fps_calculate :: "bool \<Rightarrow> nat \<Rightarrow> fps_meter \<Rightarrow> fps_meter" where
  "fps_calculate format_changed elapsed m =
     (let m = (if format_changed then m\<lparr>fm_count := 0, fm_duration := 0, skip_beginning := 0\<rparr> else m)
      in if skip_beginning m < 3 then m\<lparr>skip_beginning := skip_beginning m + 1\<rparr>
         else
           let m = m\<lparr>fm_duration := fm_duration m + elapsed, fm_count := fm_count m + 1\<rparr>;
               ms = fm_duration m div 10 ^ 6;
               m = (if fm_count m mod 10 = 0 \<and> ms > 0
                    then m\<lparr>fm_fps := Some (fm_count m * 1000 div ms)\<rparr> else m)
           in if fm_count m \<ge> 30 then m\<lparr>fm_count := 0, fm_duration := 0\<rparr> else m)"

section \<open>Lemmas\<close>

lemma swap_mouse_buttons_left: "swap_mouse_buttons (push_bit 3 1 OR t) = push_bit 3 2 OR t"
  if "t \<in> {0, 1, 2, 3, 4, 5, 6, 7}"
  using that by (auto simp: swap_mouse_buttons_def MOUSE_BUTTON_LEFT_def MOUSE_BUTTON_RIGHT_def)

lemma fps_calculate_count:
  "fm_count m < 30 \<Longrightarrow> fm_count (fps_calculate b t m) < 30"
  by (simp add: fps_calculate_def Let_def)

end
