(* ===== verification/Sessions.thy ===== *)
theory Sessions
  imports LoginConfig ClientKeys
begin

text \<open>
  \<open>Session\<close> of \<open>src/ui_session_interface.rs\<close> with the file commands of \<open>src/client/file_trait.rs\<close>: the
  object every front end drives. The channel to the connection thread is the list of commands sent
  (a command is lost when no channel is open), the user interface the list of its callbacks, the
  threads the rounds their \<open>io_loop\<close> runs for. The build is the one of the HarmonyOS bridge: no
  \<open>flutter\<close> feature, no texture rendering. \<open>now\<close> is the clock in milliseconds.
\<close>

section \<open>State\<close>

datatype connection_state = Connecting | Connected | Disconnected

record round_state =
  rs_round :: u32
  rs_state :: connection_state

record change_display_record =
  cr_time :: int
  cr_display :: int
  cr_width :: int
  cr_height :: int

record session =
  s_client :: client
  s_sender :: bool
  s_outbox :: "data list"
  s_ui :: "ui_call list"
  s_thread :: bool
  s_spawned :: "u32 list"
  s_keyboard_enabled :: bool
  s_file_enabled :: bool
  s_clipboard_enabled :: bool
  s_last_change :: change_display_record
  s_round :: round_state
  s_printer_names :: "int \<Rightarrow> string option"
  s_reconnect_count :: nat
  s_last_audit_note :: string
  s_audit_guid :: string
  s_password :: string

section \<open>Rounds of connections\<close>

definition new_round :: "round_state \<Rightarrow> round_state" where
  "new_round r = \<lparr>rs_round = rs_round r + 1, rs_state = Connecting\<rparr>"

definition set_connected :: "round_state \<Rightarrow> round_state" where
  "set_connected r = r\<lparr>rs_state := Connected\<rparr>"

definition is_round_gt :: "round_state \<Rightarrow> u32 \<Rightarrow> bool" where
  "is_round_gt r n \<longleftrightarrow> (if n = - 1 \<and> rs_round r = 0 then True else n < rs_round r)"

definition set_disconnected :: "u32 \<Rightarrow> round_state \<Rightarrow> round_state \<times> bool" where
  "set_disconnected n r =
     (if is_round_gt r n then (r, False) else (r\<lparr>rs_state := Disconnected\<rparr>, True))"

definition default_round :: round_state where
  "default_round = \<lparr>rs_round = 0, rs_state = Connecting\<rparr>"

definition CHANGE_RESOLUTION_VALID_TIMEOUT_SECS :: int where
  "CHANGE_RESOLUTION_VALID_TIMEOUT_SECS = 15"

definition default_change_record :: "int \<Rightarrow> change_display_record" where
  "default_change_record now =
     \<lparr>cr_time = now - (CHANGE_RESOLUTION_VALID_TIMEOUT_SECS + 1) * 1000,
      cr_display = 0, cr_width = 0, cr_height = 0\<rparr>"

definition is_the_same_record :: "int \<Rightarrow> change_display_record \<Rightarrow> int \<Rightarrow> int \<Rightarrow> int \<Rightarrow> bool" where
  "is_the_same_record now r display width height \<longleftrightarrow>
     (now - cr_time r) div 1000 < CHANGE_RESOLUTION_VALID_TIMEOUT_SECS \<and> cr_display r = display \<and>
     cr_width r = width \<and> cr_height r = height"

section \<open>Sending and showing\<close>

definition send :: "data \<Rightarrow> session \<Rightarrow> session" where
  "send d s = (if s_sender s then s\<lparr>s_outbox := s_outbox s @ [d]\<rparr> else s)"

definition send_msg :: "message \<Rightarrow> session \<Rightarrow> session" where
  "send_msg m = send (Message m)"

definition ui :: "ui_call \<Rightarrow> session \<Rightarrow> session" where
  "ui c s = s\<lparr>s_ui := s_ui s @ [c]\<rparr>"

definition on_client :: "(client \<Rightarrow> client) \<Rightarrow> session \<Rightarrow> session" where
  "on_client f s = s\<lparr>s_client := f (s_client s)\<rparr>"

definition on_lc :: "(login_config \<Rightarrow> login_config) \<Rightarrow> session \<Rightarrow> session" where
  "on_lc f = on_client (\<lambda>c. c\<lparr>cl_lc := f (cl_lc c)\<rparr>)"

abbreviation s_lc :: "session \<Rightarrow> login_config" where
  "s_lc s \<equiv> cl_lc (s_client s)"

definition ss_msgbox :: "client_env \<Rightarrow> string \<Rightarrow> string \<Rightarrow> string \<Rightarrow> string \<Rightarrow> session \<Rightarrow> session" where
  "ss_msgbox e msgtype title txt link s =
     (let direct = l_direct (s_lc s); received = l_received (s_lc s);
          retry_for_relay = (direct = Some True \<and> \<not> received);
          retry = check_if_retry (ce_config e) msgtype title txt retry_for_relay
      in ui (Ui_msgbox msgtype title txt link retry) s)"

definition ss_on_error :: "client_env \<Rightarrow> string \<Rightarrow> session \<Rightarrow> session" where
  "ss_on_error e err = ss_msgbox e ''error'' ''Error'' err []"

text \<open>Send what a handler operation returns.\<close>

definition send_result :: "(client \<Rightarrow> client \<times> message) \<Rightarrow> session \<Rightarrow> session" where
  "send_result f s =
     (let (c, m) = f (s_client s) in send_msg m (s\<lparr>s_client := c\<rparr>))"

definition send_option_result :: "(client \<Rightarrow> client \<times> message option) \<Rightarrow> session \<Rightarrow> session" where
  "send_option_result f s =
     (let (c, m) = f (s_client s); s = s\<lparr>s_client := c\<rparr>
      in case m of Some m \<Rightarrow> send_msg m s | None \<Rightarrow> s)"

section \<open>What kind of session\<close>

definition is_file_transfer :: "session \<Rightarrow> bool" where
  "is_file_transfer s \<longleftrightarrow> l_conn_type (s_lc s) = FILE_TRANSFER"

definition is_default :: "session \<Rightarrow> bool" where
  "is_default s \<longleftrightarrow> l_conn_type (s_lc s) = DEFAULT_CONN"

definition is_view_camera :: "session \<Rightarrow> bool" where
  "is_view_camera s \<longleftrightarrow> l_conn_type (s_lc s) = VIEW_CAMERA"

definition is_terminal :: "session \<Rightarrow> bool" where
  "is_terminal s \<longleftrightarrow> l_conn_type (s_lc s) = TERMINAL"

definition is_port_forward :: "session \<Rightarrow> bool" where
  "is_port_forward s \<longleftrightarrow> l_conn_type (s_lc s) = PORT_FORWARD \<or> l_conn_type (s_lc s) = RDP"

definition is_rdp :: "session \<Rightarrow> bool" where
  "is_rdp s \<longleftrightarrow> l_conn_type (s_lc s) = RDP"

section \<open>Reading the handler\<close>

definition ss_get_view_style :: "session \<Rightarrow> string" where
  "ss_get_view_style s = p_view_style (l_config (s_lc s))"

definition ss_get_scroll_style :: "session \<Rightarrow> string" where
  "ss_get_scroll_style s = p_scroll_style (l_config (s_lc s))"

definition ss_get_edge_scroll_edge_thickness :: "session \<Rightarrow> int" where
  "ss_get_edge_scroll_edge_thickness s = p_edge_scroll_edge_thickness (l_config (s_lc s))"

definition ss_get_image_quality :: "session \<Rightarrow> string" where
  "ss_get_image_quality s = p_image_quality (l_config (s_lc s))"

definition ss_get_custom_image_quality :: "session \<Rightarrow> int list" where
  "ss_get_custom_image_quality s = p_custom_image_quality (l_config (s_lc s))"

definition ss_get_peer_version :: "session \<Rightarrow> int" where
  "ss_get_peer_version s = l_version (s_lc s)"

definition ss_get_trackpad_speed :: "session \<Rightarrow> int" where
  "ss_get_trackpad_speed s = p_trackpad_speed (l_config (s_lc s))"

definition peer_platform :: "session \<Rightarrow> string" where
  "peer_platform s = pi_platform (p_info (l_config (s_lc s)))"

definition fallback_keyboard_mode :: "session \<Rightarrow> string" where
  "fallback_keyboard_mode s =
     (case get_supported_keyboard_modes (ss_get_peer_version s) (peer_platform s) of
        m # _ \<Rightarrow> keyboard_mode_to_string m
      | [] \<Rightarrow> if ss_get_peer_version s \<ge> get_version_number ''1.2.0''
              then keyboard_mode_to_string KM_Map else keyboard_mode_to_string KM_Legacy)"

definition ss_get_keyboard_mode :: "session \<Rightarrow> string" where
  "ss_get_keyboard_mode s =
     (case keyboard_mode_from_str (p_keyboard_mode (l_config (s_lc s))) of
        Some m \<Rightarrow>
          if is_keyboard_mode_supported m (ss_get_peer_version s) (peer_platform s)
          then keyboard_mode_to_string m else fallback_keyboard_mode s
      | None \<Rightarrow> fallback_keyboard_mode s)"

definition ss_is_keyboard_mode_supported :: "string \<Rightarrow> session \<Rightarrow> bool" where
  "ss_is_keyboard_mode_supported mode s =
     (case keyboard_mode_from_str mode of
        Some m \<Rightarrow> is_keyboard_mode_supported m (ss_get_peer_version s) (peer_platform s)
      | None \<Rightarrow> False)"

definition ss_get_reverse_mouse_wheel :: "session \<Rightarrow> string" where
  "ss_get_reverse_mouse_wheel s = p_reverse_mouse_wheel (l_config (s_lc s))"

definition ss_get_displays_as_individual_windows :: "session \<Rightarrow> string" where
  "ss_get_displays_as_individual_windows s = p_displays_as_individual_windows (l_config (s_lc s))"

definition ss_get_use_all_my_displays :: "session \<Rightarrow> string" where
  "ss_get_use_all_my_displays s = p_use_all_my_displays (l_config (s_lc s))"

definition is_text_clipboard_required :: "session \<Rightarrow> bool" where
  "is_text_clipboard_required s \<longleftrightarrow>
     s_clipboard_enabled s \<and> s_keyboard_enabled s \<and> \<not> p_disable_clipboard (l_config (s_lc s))"

definition is_screenshot_supported :: "session \<Rightarrow> bool" where
  "is_screenshot_supported s \<longleftrightarrow> l_version (s_lc s) \<ge> get_version_number ''1.4.0''"

definition is_support_multi_ui_session_num :: "int \<Rightarrow> bool" where
  "is_support_multi_ui_session_num v \<longleftrightarrow> v \<ge> get_version_number ''1.2.4''"

definition is_recording :: "session \<Rightarrow> bool" where
  "is_recording s = l_record_state (s_lc s)"

definition alternative_codecs :: "client_env \<Rightarrow> session \<Rightarrow> bool \<times> bool \<times> bool \<times> bool" where
  "alternative_codecs e s =
     (let decoder = ce_decodings e None (l_adapter_luid (s_lc s)) (l_mark_unsupported (s_lc s));
          enc = l_supported_encoding (s_lc s)
      in (sd_vp8 decoder > 0 \<and> se_vp8 enc, sd_av1 decoder > 0 \<and> se_av1 enc,
          sd_h264 decoder > 0 \<and> se_h264 enc, sd_h265 decoder > 0 \<and> se_h265 enc))"

definition get_path_sep :: "client_env \<Rightarrow> bool \<Rightarrow> session \<Rightarrow> string" where
  "get_path_sep e is_remote s =
     (if (if is_remote then peer_platform s else ce_my_platform e) = ''Windows'' then [CHR 0x5C] else ''/'')"

section \<open>Saving\<close>

definition ss_save_keyboard_mode :: "client_env \<Rightarrow> string \<Rightarrow> session \<Rightarrow> session" where
  "ss_save_keyboard_mode e v = on_client (save_keyboard_mode e v)"

definition ss_save_reverse_mouse_wheel :: "client_env \<Rightarrow> string \<Rightarrow> session \<Rightarrow> session" where
  "ss_save_reverse_mouse_wheel e v = on_client (save_reverse_mouse_wheel e v)"

definition ss_save_displays_as_individual_windows :: "client_env \<Rightarrow> string \<Rightarrow> session \<Rightarrow> session" where
  "ss_save_displays_as_individual_windows e v = on_client (save_displays_as_individual_windows e v)"

definition ss_save_use_all_my_displays :: "client_env \<Rightarrow> string \<Rightarrow> session \<Rightarrow> session" where
  "ss_save_use_all_my_displays e v = on_client (save_use_all_my_displays e v)"

definition ss_save_view_style :: "client_env \<Rightarrow> string \<Rightarrow> session \<Rightarrow> session" where
  "ss_save_view_style e v = on_client (save_view_style e v)"

definition ss_save_scroll_style :: "client_env \<Rightarrow> string \<Rightarrow> session \<Rightarrow> session" where
  "ss_save_scroll_style e v = on_client (save_scroll_style e v)"

definition ss_save_edge_scroll_edge_thickness :: "client_env \<Rightarrow> int \<Rightarrow> session \<Rightarrow> session" where
  "ss_save_edge_scroll_edge_thickness e v = on_client (save_edge_scroll_edge_thickness e v)"

definition save_flutter_option :: "client_env \<Rightarrow> string \<Rightarrow> string \<Rightarrow> session \<Rightarrow> session" where
  "save_flutter_option e k v = on_client (save_ui_flutter e k v)"

definition ss_save_trackpad_speed :: "client_env \<Rightarrow> int \<Rightarrow> session \<Rightarrow> session" where
  "ss_save_trackpad_speed e v = on_client (save_trackpad_speed e v)"

definition ss_toggle_option :: "client_env \<Rightarrow> string \<Rightarrow> session \<Rightarrow> session" where
  "ss_toggle_option e name = send_option_result (toggle_option e name)"

definition toggle_privacy_mode :: "string \<Rightarrow> bool \<Rightarrow> session \<Rightarrow> session" where
  "toggle_privacy_mode impl_key on = send_msg (Msg_toggle_privacy_mode impl_key on)"

definition toggle_virtual_display :: "int \<Rightarrow> bool \<Rightarrow> session \<Rightarrow> session" where
  "toggle_virtual_display index on = send_msg (Msg_toggle_virtual_display index on)"

definition refresh_video :: "int \<Rightarrow> session \<Rightarrow> session" where
  "refresh_video display = send_msg refresh"

definition record_screen :: "bool \<Rightarrow> session \<Rightarrow> session" where
  "record_screen start = send (RecordScreen start)"

definition take_screenshot :: "int \<Rightarrow> string \<Rightarrow> session \<Rightarrow> session" where
  "take_screenshot display sid = send (TakeScreenshot display sid)"

definition ss_save_custom_image_quality :: "client_env \<Rightarrow> int \<Rightarrow> session \<Rightarrow> session" where
  "ss_save_custom_image_quality e q = send_result (save_custom_image_quality e q)"

definition ss_save_image_quality :: "client_env \<Rightarrow> string \<Rightarrow> session \<Rightarrow> session" where
  "ss_save_image_quality e v s =
     (let s = send_option_result (save_image_quality e v) s
      in if v \<noteq> ''custom'' \<and>
            (case l_last_auto_fps (s_lc s) of Some f \<Rightarrow> f | None \<Rightarrow> usize_max) \<ge> 30
         then send_result (set_custom_fps e 30 False) s else s)"

definition ss_set_custom_fps :: "client_env \<Rightarrow> int \<Rightarrow> session \<Rightarrow> session" where
  "ss_set_custom_fps e fps = send_result (set_custom_fps e fps True)"

definition ss_update_supported_decodings :: "client_env \<Rightarrow> session \<Rightarrow> session" where
  "ss_update_supported_decodings e s = send_msg (update_supported_decodings e (s_lc s)) s"

definition use_texture_render_changed :: "client_env \<Rightarrow> session \<Rightarrow> session" where
  "use_texture_render_changed e s =
     send_msg refresh (ss_update_supported_decodings e (send (ResetDecoder None) s))"

definition ss_restart_remote_device :: "session \<Rightarrow> session" where
  "ss_restart_remote_device s =
     send_msg restart_remote_device (on_lc (\<lambda>lc. lc\<lparr>l_restarting_remote_device := True\<rparr>) s)"

definition remove_port_forward :: "client_env \<Rightarrow> int \<Rightarrow> session \<Rightarrow> session" where
  "remove_port_forward e port s =
     send (RemovePortForward port)
       (on_client (update_config e (\<lambda>cfg. cfg\<lparr>p_port_forwards :=
          filter (\<lambda>x. fst x \<noteq> port) (p_port_forwards cfg)\<rparr>)) s)"

definition add_port_forward :: "client_env \<Rightarrow> int \<Rightarrow> string \<Rightarrow> int \<Rightarrow> session \<Rightarrow> session" where
  "add_port_forward e port remote_host remote_port s =
     (let config = load_config e (s_client s)
      in if \<exists>x\<in>set (p_port_forwards config). fst x = port then s
         else
           send (AddPortForward port remote_host remote_port)
             (on_client (save_config (config\<lparr>p_port_forwards :=
                p_port_forwards config @ [(port, remote_host, remote_port)]\<rparr>)) s))"

definition ss_get_option :: "client_env \<Rightarrow> string \<Rightarrow> session \<Rightarrow> string" where
  "ss_get_option e k s =
     (if k = ''remote_dir'' then get_remote_dir e (s_lc s) else lc_get_option (s_lc s) k)"

definition ss_set_option :: "client_env \<Rightarrow> string \<Rightarrow> string \<Rightarrow> session \<Rightarrow> session" where
  "ss_set_option e k v s =
     (let v = (if k = ''remote_dir'' then get_all_remote_dir e (s_lc s) v else v)
      in on_client (lc_set_option e k v) s)"

section \<open>Keyboard, mouse and touch\<close>

definition swap_modifier_key :: "key_tables \<Rightarrow> session \<Rightarrow> key_event \<Rightarrow> key_event" where
  "swap_modifier_key kt s msg =
     (if get_toggle_option (s_lc s) ''allow_swap_key'' then swap_key_event kt (peer_platform s) msg else msg)"

definition send_key_event :: "key_tables \<Rightarrow> key_event \<Rightarrow> session \<Rightarrow> session" where
  "send_key_event kt evt s = send_msg (Msg_key_event (swap_modifier_key kt s evt)) s"

definition input_key ::
    "key_tables \<Rightarrow> string \<Rightarrow> bool \<Rightarrow> bool \<Rightarrow> bool \<Rightarrow> bool \<Rightarrow> bool \<Rightarrow> bool \<Rightarrow> session \<Rightarrow> session" where
  "input_key kt name down press alt ctrl shift command s =
     (case key_of_name name of
        Some k \<Rightarrow> send_key_event kt (input_key_event k down press alt ctrl shift command) s
      | None \<Rightarrow> s)"

definition input_string :: "string \<Rightarrow> session \<Rightarrow> session" where
  "input_string v = send_msg (Msg_key_event (key_event_new\<lparr>ke_union := KU_Seq v\<rparr>))"

definition handle_key_flutter_simulation :: "key_tables \<Rightarrow> int \<Rightarrow> bool \<Rightarrow> session \<Rightarrow> session" where
  "handle_key_flutter_simulation kt platform_code down_or_up s =
     (case map_of [(0x7f :: int, ''VolumeMute''), (0x80, ''VolumeUp''), (0x81, ''VolumeDown''),
                   (0x66, ''Power'')] platform_code of
        None \<Rightarrow> s
      | Some k \<Rightarrow>
          send_key_event kt (key_event_new\<lparr>ke_mode := KM_Translate, ke_down := down_or_up,
                                           ke_union := KU_ControlKey k\<rparr>) s)"

definition lock_screen :: "key_tables \<Rightarrow> session \<Rightarrow> session" where
  "lock_screen kt = send_key_event kt event_lock_screen"

definition ctrl_alt_del :: "key_tables \<Rightarrow> session \<Rightarrow> session" where
  "ctrl_alt_del kt = send_key_event kt event_ctrl_alt_del"

definition swap_modifier_mouse :: "session \<Rightarrow> mouse_event \<Rightarrow> mouse_event" where
  "swap_modifier_mouse s msg =
     (if get_toggle_option (s_lc s) ''allow_swap_key''
      then msg\<lparr>me_modifiers := map swap_control_key (me_modifiers msg)\<rparr> else msg)"

definition send_mouse_event :: "mouse_event \<Rightarrow> session \<Rightarrow> session" where
  "send_mouse_event ev s = send_msg (Msg_mouse_event (swap_modifier_mouse s ev)) s"

definition get_scroll_xy :: "session \<Rightarrow> int \<times> int \<Rightarrow> int \<times> int" where
  "get_scroll_xy s xy =
     (if p_reverse_mouse_wheel (l_config (s_lc s)) = ''Y''
      then (as_i32 (- fst xy), as_i32 (- snd xy)) else xy)"

definition ss_send_mouse ::
    "int \<Rightarrow> int \<Rightarrow> int \<Rightarrow> bool \<Rightarrow> bool \<Rightarrow> bool \<Rightarrow> bool \<Rightarrow> session \<Rightarrow> session" where
  "ss_send_mouse bits x y alt ctrl shift command s =
     (let event_type = bits AND MOUSE_TYPE_MASK;
          (x, y) = (if event_type = MOUSE_TYPE_WHEEL \<or> event_type = MOUSE_TYPE_TRACKPAD
                    then get_scroll_xy s (x, y) else (x, y));
          bits = (if get_toggle_option (s_lc s) ''swap-left-right-mouse'' then swap_mouse_buttons bits else bits)
      in send_mouse_event (mouse_event_of bits x y alt ctrl shift command) s)"

definition send_touch_scale :: "int \<Rightarrow> bool \<Rightarrow> bool \<Rightarrow> bool \<Rightarrow> bool \<Rightarrow> session \<Rightarrow> session" where
  "send_touch_scale scale alt ctrl shift command =
     send_msg (Msg_pointer_device_event (Touch_scale scale) (pointer_modifiers alt ctrl shift command))"

definition send_touch_pan_event ::
    "string \<Rightarrow> int \<Rightarrow> int \<Rightarrow> bool \<Rightarrow> bool \<Rightarrow> bool \<Rightarrow> bool \<Rightarrow> session \<Rightarrow> session" where
  "send_touch_pan_event event x y alt ctrl shift command s =
     (let touch =
            (if event = ''pan_start'' then Some (Touch_pan_start x y)
             else if event = ''pan_update'' then
               (let (x, y) = get_scroll_xy s (x, y) in Some (Touch_pan_update x y))
             else if event = ''pan_end'' then Some (Touch_pan_end x y)
             else None)
      in case touch of
           None \<Rightarrow> s
         | Some t \<Rightarrow> send_msg (Msg_pointer_device_event t (pointer_modifiers alt ctrl shift command)) s)"

text \<open>\<open>input_os_password\<close>: what its thread sends.\<close>

definition ss_input_os_password :: "string \<Rightarrow> bool \<Rightarrow> session \<Rightarrow> session" where
  "ss_input_os_password p activate s =
     (let s = (if activate then fold send_mouse_event (activate_os (p \<noteq> [])) s else s)
      in fold (\<lambda>k. send_msg (Msg_key_event k)) (os_password_keys p) s)"

section \<open>Chat, terminal and displays\<close>

definition send_chat :: "string \<Rightarrow> session \<Rightarrow> session" where
  "send_chat t = send_msg (Msg_chat t)"

definition open_terminal :: "int \<Rightarrow> nat \<Rightarrow> nat \<Rightarrow> session \<Rightarrow> session" where
  "open_terminal i rows cols = send_msg (Msg_terminal_open i rows cols)"

definition send_terminal_input :: "int \<Rightarrow> string \<Rightarrow> session \<Rightarrow> session" where
  "send_terminal_input i d = send_msg (Msg_terminal_data i d)"

definition resize_terminal :: "int \<Rightarrow> nat \<Rightarrow> nat \<Rightarrow> session \<Rightarrow> session" where
  "resize_terminal i rows cols = send_msg (Msg_terminal_resize i rows cols)"

definition close_terminal :: "int \<Rightarrow> session \<Rightarrow> session" where
  "close_terminal i = send_msg (Msg_terminal_close i)"

definition capture_displays :: "int list \<Rightarrow> int list \<Rightarrow> int list \<Rightarrow> session \<Rightarrow> session" where
  "capture_displays a b c = send_msg (Msg_capture_displays a b c)"

definition ss_switch_display :: "int \<Rightarrow> session \<Rightarrow> session" where
  "ss_switch_display display s =
     (let (w, h) = (case get_custom_resolution (s_lc s) display of Some wh \<Rightarrow> wh | None \<Rightarrow> (0, 0))
      in capture_displays [] [] [display] (send_msg (Msg_switch_display display w h) s))"

definition ss_set_custom_resolution :: "client_env \<Rightarrow> int \<Rightarrow> switch_display \<Rightarrow> session \<Rightarrow> session" where
  "ss_set_custom_resolution e now d s =
     (if (sw_width d, sw_height d) = sw_original d
      then on_client (set_custom_resolution e (sw_display d) None) s
      else if cr_display (s_last_change s) = sw_display d then
        let wh = (if is_the_same_record now (s_last_change s) (sw_display d) (sw_width d) (sw_height d)
                  then Some (sw_width d, sw_height d) else None)
        in on_client (set_custom_resolution e (sw_display d) wh) s
      else s)"

definition handle_peer_switch_display :: "client_env \<Rightarrow> int \<Rightarrow> switch_display \<Rightarrow> session \<Rightarrow> session" where
  "handle_peer_switch_display e now d s = ss_set_custom_resolution e now d (ui (Ui_switch_display d) s)"

definition do_change_resolution :: "int \<Rightarrow> int \<Rightarrow> int \<Rightarrow> session \<Rightarrow> session" where
  "do_change_resolution display width height s =
     send_msg (if is_support_multi_ui_session_num (l_version (s_lc s))
               then Msg_change_display_resolution display width height
               else Msg_change_resolution width height) s"

definition change_resolution :: "int \<Rightarrow> int \<Rightarrow> int \<Rightarrow> int \<Rightarrow> session \<Rightarrow> session" where
  "change_resolution now display width height s =
     do_change_resolution display width height
       (s\<lparr>s_last_change := \<lparr>cr_time = now, cr_display = display, cr_width = width, cr_height = height\<rparr>\<rparr>)"

definition try_change_init_resolution :: "int \<Rightarrow> int \<Rightarrow> session \<Rightarrow> session" where
  "try_change_init_resolution now display s =
     (case get_custom_resolution (s_lc s) display of
        None \<Rightarrow> s
      | Some (w, h) \<Rightarrow> change_resolution now display w h s)"

definition request_init_msgs :: "nat \<Rightarrow> session \<Rightarrow> session" where
  "request_init_msgs display = send_msg (Msg_message_query (as_i32 (int display)))"

section \<open>Connecting and logging in\<close>

definition ss_reconnect :: "bool \<Rightarrow> session \<Rightarrow> session" where
  "ss_reconnect force_relay s =
     (let s = (if s_thread s \<and> rs_state (s_round s) \<noteq> Disconnected then send Close s else s);
          r = new_round (s_round s);
          s = s\<lparr>s_round := r\<rparr>;
          s = (if force_relay then on_lc (\<lambda>lc. lc\<lparr>l_force_relay := True\<rparr>) s else s);
          s = on_lc (\<lambda>lc. lc\<lparr>l_peer_info := None\<rparr>) s
      in s\<lparr>s_reconnect_count := s_reconnect_count s + 1, s_thread := True,
           s_spawned := s_spawned s @ [rs_round r]\<rparr>)"

definition ss_login :: "string \<Rightarrow> string \<Rightarrow> string \<Rightarrow> bool \<Rightarrow> session \<Rightarrow> session" where
  "ss_login os_username os_password password remember =
     send (Login os_username os_password password remember)"

definition send2fa :: "client_env \<Rightarrow> string \<Rightarrow> bool \<Rightarrow> session \<Rightarrow> session" where
  "send2fa e code trust_this_device s =
     (let hwid = (if trust_this_device then ce_hwid e else []);
          s = on_client (lc_set_option e ''trust-this-device'' (if trust_this_device then ''Y'' else [])) s
      in send_msg (Msg_auth_2fa code hwid) s)"

definition new_rdp :: "session \<Rightarrow> session" where "new_rdp = send NewRDP"

definition ss_close :: "session \<Rightarrow> session" where "ss_close = send Close"

definition elevate_direct :: "session \<Rightarrow> session" where "elevate_direct = send ElevateDirect"

definition elevate_with_logon :: "string \<Rightarrow> string \<Rightarrow> session \<Rightarrow> session" where
  "elevate_with_logon username password = send (ElevateWithLogon username password)"

definition request_voice_call :: "session \<Rightarrow> session" where "request_voice_call = send NewVoiceCall"

definition close_voice_call :: "session \<Rightarrow> session" where "close_voice_call = send CloseVoiceCall"

definition try_auto_start_job_str :: "bool \<Rightarrow> string \<Rightarrow> string option" where
  "try_auto_start_job_str is_reconnected job_str =
     (if is_reconnected then
        let j = str_trim job_str
        in if j \<noteq> [] \<and> last j = CHR ''}''
           then Some (butlast j @ '','' @ [CHR 0x22] @ ''auto_start'' @ [CHR 0x22] @ '': true}'') else Some j
      else None)"

text \<open>The jobs of one list, with the number of the next one.\<close>

definition load_jobs :: "bool \<Rightarrow> string list \<Rightarrow> int \<times> session \<Rightarrow> int \<times> session" where
  "load_jobs is_reconnected jobs cs =
     fold (\<lambda>job (cnt, s).
             if job \<noteq> [] then
               (cnt + 1, ui (Ui_load_last_job cnt
                  (case try_auto_start_job_str is_reconnected job of Some j \<Rightarrow> j | None \<Rightarrow> job)
                  is_reconnected) s)
             else (cnt, s)) jobs cs"

definition load_last_jobs :: "client_env \<Rightarrow> session \<Rightarrow> session" where
  "load_last_jobs e s =
     (let s = ui Ui_clear_all_jobs s; tr = p_transfer (load_config e (s_client s))
      in if write_jobs tr = [] \<and> read_jobs tr = [] then s
         else
           let is_reconnected = (s_reconnect_count s > 1);
               cs = load_jobs is_reconnected (write_jobs tr)
                      (load_jobs is_reconnected (read_jobs tr) (1, s))
           in ui Ui_update_transfer_list (snd cs))"

section \<open>File commands\<close>

definition cancel_job :: "int \<Rightarrow> session \<Rightarrow> session" where
  "cancel_job i = send (CancelJob i)"

definition read_empty_dirs :: "string \<Rightarrow> bool \<Rightarrow> session \<Rightarrow> session" where
  "read_empty_dirs path include_hidden = send_msg (Msg_read_empty_dirs path include_hidden)"

definition read_remote_dir :: "string \<Rightarrow> bool \<Rightarrow> session \<Rightarrow> session" where
  "read_remote_dir path include_hidden = send_msg (Msg_read_dir path include_hidden)"

definition remove_file :: "int \<Rightarrow> string \<Rightarrow> int \<Rightarrow> bool \<Rightarrow> session \<Rightarrow> session" where
  "remove_file i path file_num is_remote = send (RemoveFile i path file_num is_remote)"

definition remove_dir_all :: "int \<Rightarrow> string \<Rightarrow> bool \<Rightarrow> bool \<Rightarrow> session \<Rightarrow> session" where
  "remove_dir_all i path is_remote include_hidden = send (RemoveDirAll i path is_remote include_hidden)"

definition confirm_delete_files :: "int \<Rightarrow> int \<Rightarrow> session \<Rightarrow> session" where
  "confirm_delete_files i file_num = send (ConfirmDeleteFiles i file_num)"

definition set_no_confirm :: "int \<Rightarrow> session \<Rightarrow> session" where
  "set_no_confirm i = send (SetNoConfirm i)"

text \<open>Removing a local directory is left to the file system.\<close>

definition remove_dir :: "int \<Rightarrow> string \<Rightarrow> bool \<Rightarrow> session \<Rightarrow> session" where
  "remove_dir i path is_remote s = (if is_remote then send (RemoveDir i path) s else s)"

definition create_dir :: "int \<Rightarrow> string \<Rightarrow> bool \<Rightarrow> session \<Rightarrow> session" where
  "create_dir i path is_remote = send (CreateDir i path is_remote)"

definition job_type_of :: "int \<Rightarrow> int" where
  "job_type_of v = (if v = 0 then 0 else if v = 1 then 1 else 0)"

definition send_files :: "int \<Rightarrow> int \<Rightarrow> string \<Rightarrow> string \<Rightarrow> int \<Rightarrow> bool \<Rightarrow> bool \<Rightarrow> session \<Rightarrow> session" where
  "send_files i ty path to file_num include_hidden is_remote =
     send (SendFiles i (job_type_of ty) path to file_num include_hidden is_remote)"

definition add_job :: "int \<Rightarrow> int \<Rightarrow> string \<Rightarrow> string \<Rightarrow> int \<Rightarrow> bool \<Rightarrow> bool \<Rightarrow> session \<Rightarrow> session" where
  "add_job i ty path to file_num include_hidden is_remote =
     send (AddJob i (job_type_of ty) path to file_num include_hidden is_remote)"

definition resume_job :: "int \<Rightarrow> bool \<Rightarrow> session \<Rightarrow> session" where
  "resume_job i is_remote = send (ResumeJob i is_remote)"

definition set_confirm_override_file :: "int \<Rightarrow> int \<Rightarrow> bool \<Rightarrow> bool \<Rightarrow> bool \<Rightarrow> session \<Rightarrow> session" where
  "set_confirm_override_file i file_num need_override remember is_upload =
     send (SetConfirmOverrideFile i file_num need_override remember is_upload)"

definition rename_file :: "int \<Rightarrow> string \<Rightarrow> string \<Rightarrow> bool \<Rightarrow> session \<Rightarrow> session" where
  "rename_file act_id path new_name is_remote = send (RenameFile act_id path new_name is_remote)"

definition printer_response :: "string \<Rightarrow> int \<Rightarrow> string \<Rightarrow> string \<Rightarrow> session \<Rightarrow> session" where
  "printer_response temp_dir i path printer_name s =
     send (SendFiles i 1 path (temp_dir @ ''/rustdesk_printer_'' @ dec_int i) 0 False True)
       (s\<lparr>s_printer_names := (s_printer_names s)(i \<mapsto> printer_name)\<rparr>)"

section \<open>What the peer says about itself\<close>

definition send_selected_session_id :: "client_env \<Rightarrow> string \<Rightarrow> session \<Rightarrow> session" where
  "send_selected_session_id e sid s =
     (case parse_u32 sid of
        None \<Rightarrow> s
      | Some n \<Rightarrow>
          (let s = on_lc (\<lambda>lc. lc\<lparr>l_selected_windows_session_id := Some n\<rparr>) s;
               s = send_msg (Msg_selected_sid n) s
           in case l_peer_info (s_lc s) of
                None \<Rightarrow> s
              | Some info \<Rightarrow>
                  if pi_current_sid info = n then
                    (if is_file_transfer s then
                       (if pi_user info = [] then
                          ss_on_error e
                            ''No active console user logged on, please connect and logon first.'' s
                        else
                          read_remote_dir (ss_get_option e ''remote_dir'' s)
                            (ss_get_option e ''remote_show_hidden'' s \<noteq> []) s)
                     else if \<not> is_terminal s then
                       ss_msgbox e ''success'' ''Successful'' ''Connected, waiting for image...'' [] s
                     else s)
                  else s))"

definition fix_display :: "peer_info \<Rightarrow> peer_info" where
  "fix_display info =
     (if pi_current_display info < 0 \<or> int (length (pi_displays info)) \<le> pi_current_display info
      then info\<lparr>pi_current_display := 0\<rparr> else info)"

text \<open>The end of \<open>handle_peer_info\<close>, when the session goes on.\<close>

definition peer_info_accepted :: "client_env \<Rightarrow> peer_info \<Rightarrow> session \<Rightarrow> session" where
  "peer_info_accepted e info s =
     (let s = ui Ui_update_privacy_mode s;
          s = s\<lparr>s_audit_guid := [], s_last_audit_note := []\<rparr>;
          s = on_client (lc_handle_peer_info e info) s;
          s = ui (Ui_set_peer_info info) s;
          s = (if is_file_transfer s then ui Ui_close_success s
               else if \<not> is_port_forward s \<and> \<not> is_terminal s then
                 ss_msgbox e ''success'' ''Successful'' ''Connected, waiting for image...'' [] s
               else s);
          s = ui (Ui_on_connected (l_conn_type (s_lc s))) s
      in if pi_sessions info \<noteq> [] then
           (if l_selected_windows_session_id (s_lc s) = Some (pi_current_sid info)
            then send_selected_session_id e (dec_nat (pi_current_sid info)) s
            else ui (Ui_set_multiple_windows_session (pi_sessions info)) s)
         else s)"

definition ss_handle_peer_info :: "client_env \<Rightarrow> int \<Rightarrow> peer_info \<Rightarrow> session \<Rightarrow> session" where
  "ss_handle_peer_info e now info s =
     (let s = on_lc (\<lambda>lc. lc\<lparr>l_peer_info := Some info\<rparr>) s;
          info = fix_display info;
          s = (if get_version_number (pi_version info) < get_version_number ''1.1.10''
               then ui (Ui_set_permission ''restart'' False) s else s)
      in if is_file_transfer s then
           (if pi_user info = [] \<and> pi_sessions info = []
            then ss_on_error e ''No active console user logged on, please connect and logon first.'' s
            else peer_info_accepted e info s)
         else if \<not> is_port_forward s \<and> \<not> is_terminal s then
           (if pi_displays info = [] then
              let s = ui Ui_update_privacy_mode (on_client (lc_handle_peer_info e info) s)
              in ss_msgbox e ''error'' ''Error''
                   (if is_view_camera s then ''No cameras'' else ''No displays'') [] s
            else
              let s = try_change_init_resolution now (pi_current_display info) s;
                  p = should_auto_login (s_lc s);
                  s = (if p \<noteq> [] then ss_input_os_password p True s else s);
                  current = pi_displays info ! nat (pi_current_display info);
                  s = ui (Ui_set_display (di_x current) (di_y current) (di_width current)
                           (di_height current) (di_cursor_embedded current) (di_scale current)) s
              in peer_info_accepted e info s)
         else peer_info_accepted e info s)"

definition ss_handle_login_error :: "client_env \<Rightarrow> string \<Rightarrow> session \<Rightarrow> session \<times> bool" where
  "ss_handle_login_error e err s =
     (let (c, (msgtype, title, txt, link), again) = handle_login_error e err (s_client s)
      in (ss_msgbox e msgtype title txt link (s\<lparr>s_client := c\<rparr>), again))"

definition ss_on_establish_connection_error :: "client_env \<Rightarrow> string \<Rightarrow> session \<Rightarrow> session" where
  "ss_on_establish_connection_error e err s =
     (let (msgtype, title, txt, link) = on_establish_connection_error err
      in ss_msgbox e msgtype title txt link s)"

end
