(* ===== verification/SessionProps.thy ===== *)
theory SessionProps
  imports Sessions
begin

text \<open>
  Properties of the sessions of theory Sessions: the rounds of connections as a step relation with its
  reachable states, the mouse buttons bit by bit, the keyboard mode, and the restored transfer jobs.
\<close>

section \<open>Rounds\<close>

text \<open>The states of \<open>ConnectionRoundState\<close> a session can reach, with the rounds whose \<open>io_loop\<close> is still
  running and the number of rounds started. A loop that connects calls \<open>set_connected\<close>, whatever its
  round; one that ends calls \<open>set_disconnected\<close> with its own.\<close>

inductive rounds :: "round_state \<Rightarrow> u32 list \<Rightarrow> nat \<Rightarrow> bool" where
  rounds_start: "rounds default_round [] 0"
| rounds_reconnect: "rounds r run n \<Longrightarrow> rounds (new_round r) (rs_round (new_round r) # run) (Suc n)"
| rounds_connected: "rounds r run n \<Longrightarrow> k \<in> set run \<Longrightarrow> rounds (set_connected r) run n"
| rounds_finished: "rounds r run n \<Longrightarrow> k \<in> set run \<Longrightarrow>
    rounds (fst (set_disconnected k r)) (remove1 k run) n"

lemmas round_simps = new_round_def set_connected_def set_disconnected_def default_round_def

lemma unat_of_nat_u32: "n < 2 ^ 32 \<Longrightarrow> unat (of_nat n :: u32) = n"
  by (simp add: unat_of_nat take_bit_nat_eq_self)

text \<open>Below the wrap-around, the current round is the number of rounds started, no running loop belongs
  to a later one, no two to the same, and while the loop of the current round runs the state is not
  \<open>Disconnected\<close>.\<close>

lemma rounds_invariant:
  assumes "rounds r run n" "n < 2 ^ 32"
  shows "rs_round r = of_nat n \<and> (\<forall>k\<in>set run. 0 < unat k \<and> unat k \<le> n) \<and> distinct run \<and>
         (rs_round r \<in> set run \<longrightarrow> rs_state r \<noteq> Disconnected)"
  using assms
proof (induction rule: rounds.induct)
  case (rounds_reconnect r run n)
  then have IH: "rs_round r = of_nat n" "\<forall>k\<in>set run. 0 < unat k \<and> unat k \<le> n" "distinct run" by simp_all
  have "(of_nat (Suc n) :: u32) \<notin> set run"
    using IH(2) unat_of_nat_u32 [OF rounds_reconnect.prems] by fastforce
  then show ?case
    using IH unat_of_nat_u32 [OF rounds_reconnect.prems] by (auto simp: round_simps add.commute le_SucI)
next
  case (rounds_finished r run n k)
  then have IH: "rs_round r = of_nat n" "\<forall>j\<in>set run. 0 < unat j \<and> unat j \<le> n" "distinct run"
    "rs_round r \<in> set run \<longrightarrow> rs_state r \<noteq> Disconnected" by simp_all
  show ?case
  proof (cases "k = rs_round r")
    case True
    then show ?thesis using IH by (auto simp: round_simps set_remove1_eq is_round_gt_def split: if_splits)
  next
    case False
    then have "unat k < n"
      using IH(1,2) rounds_finished.hyps(2) unat_of_nat_u32 [OF rounds_finished.prems]
      by (metis le_neq_implies_less word_unat_eq_iff)
    then have "is_round_gt r k"
      using IH(1) unat_of_nat_u32 [OF rounds_finished.prems] by (simp add: is_round_gt_def word_less_nat_alt)
    then show ?thesis using IH by (auto simp: round_simps set_remove1_eq)
  qed
qed (auto simp: round_simps)

section \<open>Mouse buttons\<close>

lemma swap_mouse_buttons_bits:
  "bit (swap_mouse_buttons m) k = (if k = 3 then bit m 4 else if k = 4 then bit m 3 else bit m k)"
proof -
  have l: "(m AND push_bit 3 1 > 0) = bit m 3" and r: "(m AND push_bit 4 1 > 0) = bit m 4"
    using bit_iff_and_push_bit_not_eq_0 [of m 3] bit_iff_and_push_bit_not_eq_0 [of m 4]
      and_nonnegative_int_iff [of m "push_bit 3 1"] and_nonnegative_int_iff [of m "push_bit 4 1"]
    by (auto simp: order_less_le)
  have right: "push_bit 3 MOUSE_BUTTON_RIGHT = push_bit 4 1" by (simp add: MOUSE_BUTTON_RIGHT_def)
  have b: "bit (push_bit j 1 :: int) i \<longleftrightarrow> i = j" for i j
    by (auto simp: bit_exp_iff)
  show ?thesis
    unfolding swap_mouse_buttons_def Let_def right MOUSE_BUTTON_LEFT_def l r
    by (auto simp: bit_or_int_iff bit_and_int_iff bit_not_int_iff b simp del: push_bit_of_1)
qed

section \<open>Restored jobs\<close>

definition job_call :: "bool \<Rightarrow> nat \<times> string \<Rightarrow> ui_call" where
  "job_call again nj =
     Ui_load_last_job (int (fst nj))
       (case try_auto_start_job_str again (snd nj) of Some j \<Rightarrow> j | None \<Rightarrow> snd nj) again"

lemma load_jobs_calls:
  "load_jobs again jobs (int cnt, s) =
     (int (cnt + length (filter (\<lambda>j. j \<noteq> []) jobs)),
      s\<lparr>s_ui := s_ui s @ map (job_call again) (enumerate cnt (filter (\<lambda>j. j \<noteq> []) jobs))\<rparr>)"
proof (induction jobs arbitrary: cnt s)
  case Nil
  then show ?case by (simp add: load_jobs_def)
next
  case (Cons j js)
  have step: "load_jobs again (j # js) cs =
      load_jobs again js (if j \<noteq> [] then (fst cs + 1, ui (Ui_load_last_job (fst cs)
        (case try_auto_start_job_str again j of Some j \<Rightarrow> j | None \<Rightarrow> j) again) (snd cs)) else cs)" for cs
    by (simp add: load_jobs_def case_prod_beta)
  show ?case
    using Cons.IH [of "Suc cnt"] Cons.IH [of cnt s]
    by (simp add: step ui_def job_call_def add.commute split: option.split)
qed

section \<open>Keyboard modes\<close>

lemma legacy_supported [simp]: "is_keyboard_mode_supported KM_Legacy v p"
  by (simp add: is_keyboard_mode_supported_def)

lemma fallback_is_legacy: "fallback_keyboard_mode s = keyboard_mode_to_string KM_Legacy"
  by (simp add: fallback_keyboard_mode_def get_supported_keyboard_modes_def KEYBOARD_MODES_def)

definition demo_session :: session where
  "demo_session =
     \<lparr>s_client = demo_client, s_sender = True, s_outbox = [], s_ui = [], s_thread = False, s_spawned = [],
      s_keyboard_enabled = True, s_file_enabled = True, s_clipboard_enabled = True,
      s_last_change = default_change_record 0, s_round = default_round, s_printer_names = Map.empty,
      s_reconnect_count = 0, s_last_audit_note = [], s_audit_guid = [], s_password = []\<rparr>"

section \<open>Properties\<close>



text \<open>Exchanging the mouse buttons moves the left button's bit to the right one's and back, keeps
  every other bit of the event and the order of its two parts, and done twice changes nothing.\<close>

theorem swap_buttons_is_an_exchange:
  "bit (swap_mouse_buttons m) k = bit m (if k = 3 then 4 else if k = 4 then 3 else k) \<and>
   swap_mouse_buttons (swap_mouse_buttons m) = m \<and>
   swap_mouse_buttons m AND MOUSE_TYPE_MASK = m AND MOUSE_TYPE_MASK"
proof (intro conjI)
  show "bit (swap_mouse_buttons m) k = bit m (if k = 3 then 4 else if k = 4 then 3 else k)"
    by (simp add: swap_mouse_buttons_bits)
  show "swap_mouse_buttons (swap_mouse_buttons m) = m"
    by (rule bit_eqI) (simp add: swap_mouse_buttons_bits)
  have "bit MOUSE_TYPE_MASK j \<longleftrightarrow> j < 3" for j
    using bit_mask_iff [where 'a = int, of 3 j] by (simp add: MOUSE_TYPE_MASK_def mask_eq_exp_minus_1)
  then show "swap_mouse_buttons m AND MOUSE_TYPE_MASK = m AND MOUSE_TYPE_MASK"
    by (intro bit_eqI) (auto simp: bit_and_int_iff swap_mouse_buttons_bits)
qed

text \<open>The keyboard mode a session uses is one the peer's version and platform support, whatever
  mode was saved, and the saved one when that is supported.\<close>

theorem keyboard_mode_is_supported:
  "ss_is_keyboard_mode_supported (ss_get_keyboard_mode s) s \<and>
   ss_get_keyboard_mode s =
     (if ss_is_keyboard_mode_supported (p_keyboard_mode (l_config (s_lc s))) s
      then p_keyboard_mode (l_config (s_lc s)) else ''legacy'')"
proof -
  have k: "keyboard_mode_from_str m = Some x \<Longrightarrow> keyboard_mode_to_string x = m" for m x
    by (auto simp: keyboard_mode_from_str_def keyboard_mode_to_string_def split: if_splits)
  show ?thesis
    using k [of "p_keyboard_mode (l_config (s_lc s))"]
    by (auto simp: ss_is_keyboard_mode_supported_def ss_get_keyboard_mode_def fallback_is_legacy
        split: option.split) (simp_all add: keyboard_mode_to_string_def)
qed

text \<open>restoring the last transfers clears the list, then shows the saved jobs that are not empty,
  the ones to read first, numbered from one without a gap.\<close>

theorem restored_jobs_are_numbered:
  "s_ui (load_last_jobs e s) =
     (let tr = p_transfer (load_config e (s_client s))
      in s_ui s @ Ui_clear_all_jobs #
         (if write_jobs tr = [] \<and> read_jobs tr = [] then []
          else map (job_call (s_reconnect_count s > 1))
                 (enumerate 1 (filter (\<lambda>j. j \<noteq> []) (read_jobs tr @ write_jobs tr)))
               @ [Ui_update_transfer_list]))"
proof -
  have one: "load_jobs again jobs (1, t) = load_jobs again jobs (int 1, t)" for again jobs t by simp
  show ?thesis
    unfolding load_last_jobs_def Let_def one load_jobs_calls
    by (simp add: enumerate_append_eq ui_def)
qed

end
