(* ===== verification/HarmonyState.thy ===== *)
theory HarmonyState
  imports BridgeState Sessions
begin

text \<open>
  The state of the HarmonyOS bridge, \<open>src/harmony_bridge/core.rs\<close>: the status and event queue the
  application polls, its option store, the video frames it copies out, the screen frames it hands in
  (with \<open>libs/scrap/src/common/harmony_bridge/ohos.rs\<close>, which passes them to the encoder), and the two
  sessions, each with the handler its connection threads call back. The static cells are the fields of
  \<open>bridge\<close>. The peer files are shared by both sessions. \<open>bridge_env\<close> is what lies outside: the
  client's environment, the clock, the JSON printer, the printing of floating-point numbers, zstd and
  base64.
\<close>

section \<open>State\<close>

datatype json =
    J_null
  | J_bool bool
  | J_int int
  | J_float f64
  | J_string string
  | J_array "json list"
  | J_object "(string \<times> json) list"

record bridge_env =
  be_client :: client_env
  be_keys :: key_tables
  be_now :: int
  be_session_id :: u64
  be_fingerprint :: string
  be_json :: "json \<Rightarrow> string"
  be_show_f64 :: "f64 \<Rightarrow> string"
  be_decompress :: "u8 list \<Rightarrow> u8 list"
  be_base64 :: "u8 list \<Rightarrow> string"

record connect_state =
  cs_stage :: string
  cs_peer :: string
  cs_summary :: string
  cs_detail :: string
  cs_error :: string
  cs_events :: "string list"

record video_frame =
  vf_id :: u64
  vf_display :: int
  vf_width :: nat
  vf_height :: nat
  vf_stride :: nat
  vf_bytes :: "u8 list"
  vf_timestamp :: int
  vf_format :: string

record incoming_screen_frame =
  in_id :: u64
  in_width :: nat
  in_height :: nat
  in_stride :: nat
  in_data_length :: nat
  in_bytes :: "u8 list"
  in_timestamp :: int
  in_format :: string
  in_frames_seen :: u64

datatype pixfmt = BGRA | RGBA

text \<open>The frame kept by the capture library.\<close>

record incoming_frame =
  if_id :: u64
  if_width :: nat
  if_height :: nat
  if_stride :: nat
  if_bytes :: "u8 list"
  if_pixfmt :: pixfmt

record harmony_handler =
  hh_generation :: u64
  hh_file_transfer :: bool

record bridge =
  b_connect :: connect_state
  b_local_options :: strmap
  b_video :: "video_frame option"
  b_incoming :: "incoming_screen_frame option"
  b_capture :: "incoming_frame option"
  b_active :: "(harmony_handler \<times> session) option"
  b_file :: "(harmony_handler \<times> session) option"
  b_password :: string
  b_pending :: "(string \<times> bool) option"
  b_started :: bool
  b_requested :: bool
  b_generation :: u64
  b_file_generation :: u64
  b_config :: config_state
  b_temporary_password :: string
  b_app_dir :: string
  b_peers :: peer_files
  b_server_starts :: nat
  b_server_running :: bool
  b_mediator_restarts :: nat

text \<open>What the cells hold before their first use.\<close>

definition initial_bridge :: "config_state \<Rightarrow> string \<Rightarrow> peer_files \<Rightarrow> string \<Rightarrow> bridge" where
  "initial_bridge c w fs dir =
     \<lparr>b_connect = \<lparr>cs_stage = [], cs_peer = [], cs_summary = [], cs_detail = [], cs_error = [], cs_events = []\<rparr>,
      b_local_options = Map.empty, b_video = None, b_incoming = None, b_capture = None, b_active = None,
      b_file = None, b_password = [], b_pending = None, b_started = False, b_requested = False,
      b_generation = 0, b_file_generation = 0, b_config = c, b_temporary_password = w,
      b_app_dir = dir, b_peers = fs, b_server_starts = 0, b_server_running = False,
      b_mediator_restarts = 0\<rparr>"

definition key_value :: "string \<Rightarrow> string \<Rightarrow> string" where
  "key_value k v = k @ ''='' @ v"

section \<open>Status and events\<close>

definition update_connect_state ::
    "string \<Rightarrow> string \<Rightarrow> string \<Rightarrow> string \<Rightarrow> string \<Rightarrow> bridge \<Rightarrow> bridge" where
  "update_connect_state stage peer_id summary detail err b =
     b\<lparr>b_connect := (b_connect b)\<lparr>cs_stage := stage, cs_peer := peer_id, cs_summary := summary,
        cs_detail := detail, cs_error := err\<rparr>\<rparr>"

definition queue_event :: "bridge_env \<Rightarrow> string \<Rightarrow> string \<Rightarrow> string \<Rightarrow> bridge \<Rightarrow> bridge" where
  "queue_event E kind detail peer_id b =
     b\<lparr>b_connect := (b_connect b)\<lparr>cs_events :=
        queue_session_event (be_now E) kind detail peer_id (cs_events (b_connect b))\<rparr>\<rparr>"

abbreviation active_peer :: "bridge \<Rightarrow> string" where
  "active_peer b \<equiv> cs_peer (b_connect b)"

definition clear_connect_events :: "bridge \<Rightarrow> bridge" where
  "clear_connect_events b = b\<lparr>b_connect := (b_connect b)\<lparr>cs_events := []\<rparr>\<rparr>"

definition drain_connect_events_json :: "bridge \<Rightarrow> string \<times> bridge" where
  "drain_connect_events_json b =
     (''['' @ str_join '','' (cs_events (b_connect b)) @ '']'', clear_connect_events b)"

text \<open>\<open>current_timestamp_millis() & 0x7fff_ffff\<close>.\<close>

definition next_bridge_job_id :: "bridge_env \<Rightarrow> int" where
  "next_bridge_job_id E = take_bit 31 (be_now E)"

definition set_incoming_service_started :: "bridge_env \<Rightarrow> bool \<Rightarrow> bridge \<Rightarrow> bridge" where
  "set_incoming_service_started E started b =
     (let b = b\<lparr>b_started := started\<rparr>
      in if started then queue_event E ''incoming-service-ready''
           ''OHOS incoming service is now ready (video source active)'' [] b
         else b)"

definition frame_payload_ready :: "incoming_screen_frame option \<Rightarrow> bool" where
  "frame_payload_ready f =
     (case f of Some f \<Rightarrow> in_bytes f \<noteq> [] \<and> in_width f > 0 \<and> in_height f > 0 | None \<Rightarrow> False)"

definition get_core_snapshot_json :: "bridge_env \<Rightarrow> string \<Rightarrow> bridge \<Rightarrow> string" where
  "get_core_snapshot_json E srv b =
     (let cs = b_connect b; f = b_incoming b; ready = frame_payload_ready f;
          status = (if str_trim (cs_summary cs) \<noteq> [] then cs_summary cs
                    else if b_started b then ''Incoming service ready''
                    else if b_requested b then ''Incoming service starting''
                    else ''Official Harmony bridge ready'');
          detail = (if str_trim (cs_detail cs) \<noteq> [] then cs_detail cs
                    else if b_started b then
                      ''OHOS incoming service is active. Video source is encoding frames for connected peers.''
                    else if b_requested b \<and> ready then
                      ''Harmony native screen frames are cached in core. Desktop server subscription is still disabled on Harmony.''
                    else if b_requested b then
                      ''Harmony incoming service requested. Waiting for native screen recording to provide the first live frame.''
                    else ''Official Harmony bridge is initialized.'')
      in be_json E (J_object
           [(''adapter'', J_string ''official-native''), (''coreReady'', J_bool True),
            (''incomingReady'', J_bool (b_started b)),
            (''displayId'', J_string (config_id (b_config b))),
            (''fingerprint'', J_string (be_fingerprint E)),
            (''directAddress'', J_string []), (''server'', J_string srv),
            (''captureRequired'', J_bool (b_requested b \<and> \<not> b_started b)),
            (''incomingFramePayloadReady'', J_bool ready),
            (''incomingFrameId'', J_int (case f of Some f \<Rightarrow> uint (in_id f) | None \<Rightarrow> 0)),
            (''incomingFrameBytes'', J_int (case f of Some f \<Rightarrow> int (in_data_length f) | None \<Rightarrow> 0)),
            (''incomingFramesSeen'', J_int (case f of Some f \<Rightarrow> uint (in_frames_seen f) | None \<Rightarrow> 0)),
            (''statusSummary'', J_string status), (''detailMessage'', J_string detail),
            (''lastError'', J_string (cs_error cs)), (''sessionStage'', J_string (cs_stage cs)),
            (''activePeerId'', J_string (cs_peer cs))]))"

section \<open>Options of the application\<close>

definition HARMONY_SESSION_DEFAULT_OPTIONS :: "string list" where
  "HARMONY_SESSION_DEFAULT_OPTIONS =
     [''image-quality'', ''custom-image-quality'', ''custom-fps'', ''keyboard-mode'', ''codec-preference'',
      ''view-only'', ''show-remote-cursor'', ''show-quality-monitor'', ''disable-audio'',
      ''disable-clipboard'', ''lock-after-session-end'', ''reverse-scroll'', ''swap-left-right-mouse'',
      ''terminal-persistent'']"

definition WIRE_TOGGLE_OPTIONS :: "string list" where
  "WIRE_TOGGLE_OPTIONS =
     [''view-only'', ''show-remote-cursor'', ''show-quality-monitor'', ''disable-audio'',
      ''disable-clipboard'', ''lock-after-session-end'', ''terminal-persistent'']"

definition is_harmony_persistent_option :: "string \<Rightarrow> bool" where
  "is_harmony_persistent_option k \<longleftrightarrow>
     k \<in> set HARMONY_SESSION_DEFAULT_OPTIONS \<or> k = ''display-scale-mode'' \<or> k = ''custom-zoom-percent'' \<or>
     k = ''direct-server'' \<or> k = ''direct-access-port''"

definition is_account_option :: "string \<Rightarrow> bool" where
  "is_account_option k \<longleftrightarrow> k = ''access_token'' \<or> k = ''user_info'' \<or> k = ''lang''"

definition main_get_local_option :: "bridge \<Rightarrow> string \<Rightarrow> string" where
  "main_get_local_option b k =
     (let saved = local_get_option (b_config b) k; v = unwrap_or_default (b_local_options b k)
      in if is_account_option k \<and> str_trim saved \<noteq> [] then saved
         else if v = [] \<and> is_harmony_persistent_option k then get_option (b_config b) k
         else v)"

definition main_set_local_option :: "string \<Rightarrow> string \<Rightarrow> bridge \<Rightarrow> bridge" where
  "main_set_local_option k v b =
     (let b = b\<lparr>b_local_options := (b_local_options b)(k \<mapsto> v)\<rparr> in
      if is_harmony_persistent_option k then b\<lparr>b_config := set_option k v (b_config b)\<rparr>
      else if is_account_option k then b\<lparr>b_config := local_set_option k v (b_config b)\<rparr>
      else if k = ''temporary-password'' then b\<lparr>b_temporary_password := v\<rparr>
      else if k = ''enable-lan-discovery'' \<or> k = ''verification-method'' \<or> k = ''approve-mode'' \<or>
              starts_with k ''custom-'' \<or> k = ''rendezvous-servers''
      then b\<lparr>b_config := set_option k v (b_config b)\<rparr>
      else b)"

definition option_is_enabled :: "string \<Rightarrow> bool" where
  "option_is_enabled v =
     (let n = to_ascii_lowercase (str_trim v)
      in n = ''y'' \<or> n = ''yes'' \<or> n = ''true'' \<or> n = ''1'')"

definition apply_server_options :: "string \<Rightarrow> string \<Rightarrow> string \<Rightarrow> string \<Rightarrow> bridge \<Rightarrow> bridge" where
  "apply_server_options srv relay_server api_server key b =
     b\<lparr>b_config :=
        set_option ''key'' (str_trim key)
          (set_option ''api-server'' (str_trim api_server)
            (set_option ''relay-server'' (str_trim relay_server)
              (set_option ''custom-rendezvous-server'' (str_trim srv) (b_config b))))\<rparr>"

definition initialize_runtime :: "bridge_env \<Rightarrow> string \<Rightarrow> bridge \<Rightarrow> string \<times> bridge" where
  "initialize_runtime E app_dir b =
     (let b = main_set_local_option ''app_dir'' app_dir b;
          b = (if str_trim app_dir \<noteq> [] then b\<lparr>b_app_dir := str_trim app_dir\<rparr> else b)
      in (be_json E (J_object [(''id'', J_string (config_id (b_config b))),
                               (''fingerprint'', J_string (be_fingerprint E))]), b))"

section \<open>Video frames of the remote screen\<close>

definition publish_real_video_frame :: "bridge_env \<Rightarrow> int \<Rightarrow> image_rgb \<Rightarrow> bridge \<Rightarrow> bridge" where
  "publish_real_video_frame E display rgba b =
     (if im_w rgba = 0 \<or> im_h rgba = 0 \<or> im_raw rgba = [] then b
      else
        b\<lparr>b_video := Some
           \<lparr>vf_id = (case b_video b of Some f \<Rightarrow> vf_id f + 1 | None \<Rightarrow> 1),
            vf_display = display, vf_width = im_w rgba, vf_height = im_h rgba,
            vf_stride = (if im_align rgba > 0 then im_align rgba else im_w rgba * 4),
            vf_bytes = im_raw rgba, vf_timestamp = be_now E,
            vf_format = (case im_fmt rgba of ABGR \<Rightarrow> ''abgr'' | ARGB \<Rightarrow> ''argb'' | Raw \<Rightarrow> ''bgra'')\<rparr>\<rparr>)"

definition get_latest_video_frame_metadata_json :: "bridge_env \<Rightarrow> u64 \<Rightarrow> bridge \<Rightarrow> string" where
  "get_latest_video_frame_metadata_json E since b =
     (case b_video b of
        None \<Rightarrow> ''{}''
      | Some f \<Rightarrow>
          if vf_id f \<le> since then ''{}''
          else be_json E (J_object
            [(''frameId'', J_int (uint (vf_id f))), (''display'', J_int (vf_display f)),
             (''width'', J_int (int (vf_width f))), (''height'', J_int (int (vf_height f))),
             (''stride'', J_int (int (vf_stride f))), (''bytes'', J_int (int (length (vf_bytes f)))),
             (''timestamp'', J_int (vf_timestamp f)), (''format'', J_string (vf_format f))]))"

text \<open>The number of bytes written, and the buffer afterwards.\<close>

definition copy_frame :: "u8 list \<Rightarrow> u8 list \<Rightarrow> int \<times> u8 list" where
  "copy_frame bytes buffer =
     (if length buffer < length bytes then (0, buffer)
      else (as_i32 (int (length bytes)), bytes @ drop (length bytes) buffer))"

definition copy_latest_video_frame :: "u64 \<Rightarrow> u8 list \<Rightarrow> bridge \<Rightarrow> int \<times> u8 list" where
  "copy_latest_video_frame frame_id buffer b =
     (case b_video b of
        None \<Rightarrow> (0, buffer)
      | Some f \<Rightarrow> if vf_id f \<noteq> frame_id then (0, buffer) else copy_frame (vf_bytes f) buffer)"

section \<open>Frames of the own screen\<close>

definition get_incoming_screen_frame_metadata_json :: "bridge_env \<Rightarrow> u64 \<Rightarrow> bridge \<Rightarrow> string" where
  "get_incoming_screen_frame_metadata_json E since b =
     (case b_incoming b of
        None \<Rightarrow> ''{}''
      | Some f \<Rightarrow>
          if in_id f \<le> since then ''{}''
          else be_json E (J_object
            [(''frameId'', J_int (uint (in_id f))), (''width'', J_int (int (in_width f))),
             (''height'', J_int (int (in_height f))), (''stride'', J_int (int (in_stride f))),
             (''bytes'', J_int (int (in_data_length f))),
             (''payloadBytes'', J_int (int (length (in_bytes f)))),
             (''hasPayload'', J_bool (in_bytes f \<noteq> [])), (''timestamp'', J_int (in_timestamp f)),
             (''format'', J_string (in_format f)), (''framesSeen'', J_int (uint (in_frames_seen f)))]))"

definition copy_incoming_screen_frame :: "u64 \<Rightarrow> u8 list \<Rightarrow> bridge \<Rightarrow> int \<times> u8 list" where
  "copy_incoming_screen_frame frame_id buffer b =
     (case b_incoming b of
        None \<Rightarrow> (0, buffer)
      | Some f \<Rightarrow>
          if in_id f \<noteq> frame_id \<or> in_bytes f = [] then (0, buffer) else copy_frame (in_bytes f) buffer)"

definition clear_incoming_screen_frame :: "bridge \<Rightarrow> bridge" where
  "clear_incoming_screen_frame b = b\<lparr>b_incoming := None, b_capture := None\<rparr>"

definition ascii_upper :: "char \<Rightarrow> char" where
  "ascii_upper c =
     (let k = (of_char c :: nat) in if 97 \<le> k \<and> k \<le> 122 then char_of (k - 32) else c)"

definition to_ascii_uppercase :: "string \<Rightarrow> string" where
  "to_ascii_uppercase s = map ascii_upper s"

definition pixfmt_of :: "string \<Rightarrow> pixfmt" where
  "pixfmt_of format =
     (let f = to_ascii_uppercase (str_trim format) in if f = ''BGRA'' \<or> f = ''BGRA_8888'' then BGRA else RGBA)"

definition update_ohos_incoming_frame ::
    "u64 \<Rightarrow> nat \<Rightarrow> nat \<Rightarrow> nat \<Rightarrow> string \<Rightarrow> u8 list \<Rightarrow> incoming_frame option" where
  "update_ohos_incoming_frame frame_id width height stride format bytes =
     (let expected = saturating_mul_usize stride height in
      if frame_id = 0 \<or> width = 0 \<or> height = 0 \<or> stride < saturating_mul_usize width 4 then None
      else if expected = 0 \<or> length bytes < expected then None
      else Some \<lparr>if_id = frame_id, if_width = width, if_height = height, if_stride = stride,
                 if_bytes = take expected bytes, if_pixfmt = pixfmt_of format\<rparr>)"

definition update_incoming_screen_frame ::
    "bridge_env \<Rightarrow> int \<Rightarrow> int \<Rightarrow> int \<Rightarrow> int \<Rightarrow> string \<Rightarrow> u8 list \<Rightarrow> bridge \<Rightarrow> bool \<times> bridge" where
  "update_incoming_screen_frame E width height stride timestamp format bytes b =
     (if width \<le> 0 \<or> height \<le> 0 \<or> stride \<le> 0 \<or> bytes = [] then (False, b)
      else
        let w = nat width; h = nat height; s = nat stride; min_len = saturating_mul_usize s h in
        if min_len = 0 \<or> length bytes < min_len then (False, b)
        else
          let format = (if str_trim format = [] then ''RGBA'' else str_trim format);
              (frame_id, frames_seen) =
                (case b_incoming b of
                   Some f \<Rightarrow> (saturating_add_u64 (in_id f) 1, saturating_add_u64 (in_frames_seen f) 1)
                 | None \<Rightarrow> (1, 1));
              next_frame = \<lparr>in_id = frame_id, in_width = w, in_height = h, in_stride = s,
                in_data_length = min_len, in_bytes = take min_len bytes, in_timestamp = timestamp,
                in_format = format, in_frames_seen = frames_seen\<rparr>
          in (case update_ohos_incoming_frame frame_id w h s format (in_bytes next_frame) of
                None \<Rightarrow> (False, b)
              | Some captured \<Rightarrow>
                  (let first_frame = (b_incoming b = None);
                       b = b\<lparr>b_capture := Some captured, b_incoming := Some next_frame\<rparr>
                   in (True,
                       if first_frame then
                         queue_event E ''incoming-video-source-active''
                           (''width='' @ dec_nat w @ '';height='' @ dec_nat h @ '';stride='' @ dec_nat s @
                            '';bytes='' @ dec_nat min_len) [] b
                       else b))))"

section \<open>The capturer that feeds the encoder\<close>

record capturer =
  cap_width :: nat
  cap_height :: nat
  cap_last_frame_id :: u64
  cap_buffer :: "u8 list"
  cap_pixfmt :: pixfmt
  cap_stride :: nat

definition display_primary :: "bridge \<Rightarrow> nat \<times> nat" where
  "display_primary b = (case b_capture b of Some f \<Rightarrow> (if_width f, if_height f) | None \<Rightarrow> (720, 1280))"

definition capturer_new :: "nat \<times> nat \<Rightarrow> capturer" where
  "capturer_new d = \<lparr>cap_width = fst d, cap_height = snd d, cap_last_frame_id = 0, cap_buffer = [],
     cap_pixfmt = RGBA, cap_stride = 0\<rparr>"

text \<open>One look at the shared frame: a frame not seen yet is taken over.\<close>

definition capturer_look :: "incoming_frame option \<Rightarrow> capturer \<Rightarrow> capturer option" where
  "capturer_look shared c =
     (case shared of
        None \<Rightarrow> None
      | Some f \<Rightarrow>
          if if_id f \<noteq> cap_last_frame_id c then
            Some \<lparr>cap_width = if_width f, cap_height = if_height f, cap_last_frame_id = if_id f,
                  cap_buffer = if_bytes f, cap_pixfmt = if_pixfmt f, cap_stride = if_stride f\<rparr>
          else None)"

text \<open>The loop of \<open>frame\<close>: look, give up once the timeout has passed, sleep. \<open>looks\<close> gives what is
  shared and the milliseconds elapsed at each round; the fuel bounds the rounds.\<close>

fun capturer_frame ::
    "nat \<Rightarrow> (nat \<Rightarrow> incoming_frame option \<times> int) \<Rightarrow> nat \<Rightarrow> int \<Rightarrow> capturer \<Rightarrow> capturer option option" where
  "capturer_frame 0 looks n timeout c = None"
| "capturer_frame (Suc fuel) looks n timeout c =
     (case capturer_look (fst (looks n)) c of
        Some c' \<Rightarrow> Some (Some c')
      | None \<Rightarrow> if snd (looks n) \<ge> timeout then Some None else capturer_frame fuel looks (n + 1) timeout c)"

end
