(* ===== verification/OhosService.thy ===== *)
theory OhosService
  imports HarmonyState
begin

text \<open>
  The services of the HarmonyOS controlled side, \<open>src/harmony_bridge/server_ohos.rs\<close>: \<open>ServiceTmpl\<close>
  with its subscribers, the snapshot that moves waiting subscribers to the active ones, the options, and
  the channels \<open>ConnInner::send\<close> writes to. A \<open>ConnInner\<close> is its connection's id; its two channels are
  looked up under the id. The locale \<open>subscriptions\<close> is what the server uses of the trait \<open>Service\<close>.
\<close>

section \<open>Messages to the controlling side\<close>

record encoded_frame =
  ef_data :: "u8 list"
  ef_key :: bool
  ef_pts :: int

record video_msg =
  vm_display :: int
  vm_vp9s :: "encoded_frame list"

record test_delay =
  td_time :: int
  td_from_client :: bool
  td_last_delay :: int
  td_target_bitrate :: int

datatype out_msg =
    Out_hash hash_challenge
  | Out_login_error string
  | Out_login_ok peer_info
  | Out_test_delay test_delay
  | Out_video video_msg
  | Out_switch_display int
  | Out_stop_service bool
  | Out_close_reason string

record channels =
  ch_main :: "out_msg list"
  ch_video :: "out_msg list"

definition no_channels :: channels where
  "no_channels = \<lparr>ch_main = [], ch_video = []\<rparr>"

definition tx_by_video :: "out_msg \<Rightarrow> bool" where
  "tx_by_video m = (case m of Out_video _ \<Rightarrow> True | Out_switch_display _ \<Rightarrow> True | _ \<Rightarrow> False)"

definition conn_send :: "out_msg \<Rightarrow> channels \<Rightarrow> channels" where
  "conn_send m ch =
     (if tx_by_video m then ch\<lparr>ch_video := ch_video ch @ [m]\<rparr> else ch\<lparr>ch_main := ch_main ch @ [m]\<rparr>)"

definition send_each :: "int set \<Rightarrow> out_msg \<Rightarrow> (int \<Rightarrow> channels) \<Rightarrow> int \<Rightarrow> channels" where
  "send_each ids m q = (\<lambda>i. if i \<in> ids then conn_send m (q i) else q i)"

section \<open>A service\<close>

record service =
  sv_name :: string
  sv_subscribes :: "int set"
  sv_new_subscribes :: "int set"
  sv_active :: bool
  sv_need_snapshot :: bool
  sv_options :: strmap

definition HIBERNATE_TIMEOUT :: nat where "HIBERNATE_TIMEOUT = 30"
definition MAX_ERROR_TIMEOUT :: nat where "MAX_ERROR_TIMEOUT = 1000"
definition SERVICE_OPTION_VALUE_TRUE :: string where "SERVICE_OPTION_VALUE_TRUE = ''1''"
definition SERVICE_OPTION_VALUE_FALSE :: string where "SERVICE_OPTION_VALUE_FALSE = ''0''"

definition service_new :: "string \<Rightarrow> bool \<Rightarrow> service" where
  "service_new name need_snapshot =
     \<lparr>sv_name = name, sv_subscribes = {}, sv_new_subscribes = {}, sv_active = True,
      sv_need_snapshot = need_snapshot, sv_options = Map.empty\<rparr>"

definition has_subscribes :: "service \<Rightarrow> bool" where
  "has_subscribes s \<longleftrightarrow> sv_subscribes s \<noteq> {} \<or> sv_new_subscribes s \<noteq> {}"

definition is_subed :: "service \<Rightarrow> int \<Rightarrow> bool" where
  "is_subed s i \<longleftrightarrow> i \<in> sv_subscribes s \<or> i \<in> sv_new_subscribes s"

definition on_subscribe :: "int \<Rightarrow> service \<Rightarrow> service" where
  "on_subscribe i s =
     (if i \<in> sv_subscribes s then s
      else if sv_need_snapshot s then s\<lparr>sv_new_subscribes := insert i (sv_new_subscribes s)\<rparr>
      else s\<lparr>sv_subscribes := insert i (sv_subscribes s)\<rparr>)"

definition on_unsubscribe :: "int \<Rightarrow> service \<Rightarrow> service" where
  "on_unsubscribe i s =
     (if i \<in> sv_subscribes s then s\<lparr>sv_subscribes := sv_subscribes s - {i}\<rparr>
      else s\<lparr>sv_new_subscribes := sv_new_subscribes s - {i}\<rparr>)"

text \<open>\<open>join\<close> also waits for the service's thread.\<close>

definition sv_join :: "service \<Rightarrow> service" where
  "sv_join s = s\<lparr>sv_active := False\<rparr>"

definition sv_ok :: "service \<Rightarrow> bool" where
  "sv_ok s \<longleftrightarrow> sv_active s \<and> has_subscribes s"

definition sv_get_option :: "service \<Rightarrow> string \<Rightarrow> string option" where
  "sv_get_option s k = sv_options s k"

definition sv_set_option :: "string \<Rightarrow> string \<Rightarrow> service \<Rightarrow> service" where
  "sv_set_option k v s = s\<lparr>sv_options := (sv_options s)(k \<mapsto> v)\<rparr>"

definition is_option_true :: "service \<Rightarrow> string \<Rightarrow> bool" where
  "is_option_true s k =
     (case sv_get_option s k of None \<Rightarrow> False | Some v \<Rightarrow> v = SERVICE_OPTION_VALUE_TRUE)"

definition set_option_bool :: "string \<Rightarrow> bool \<Rightarrow> service \<Rightarrow> service" where
  "set_option_bool k v s =
     (if v then sv_set_option k SERVICE_OPTION_VALUE_TRUE s
      else sv_set_option k SERVICE_OPTION_VALUE_FALSE s)"

definition swap_new_subscribes :: "service \<Rightarrow> service" where
  "swap_new_subscribes s =
     s\<lparr>sv_subscribes := sv_subscribes s \<union> sv_new_subscribes s, sv_new_subscribes := {}\<rparr>"

text \<open>The callback of a snapshot sees the service (\<open>ServiceSwap\<close>) and gives an error or nothing; whatever
  it gives, dropping the \<open>ServiceSwap\<close> moves the waiting subscribers. The locks taken by the test, the
  callback and the swap are one step here.\<close>

definition snapshot :: "(service \<Rightarrow> string + unit) \<Rightarrow> service \<Rightarrow> (string + unit) \<times> service" where
  "snapshot callback s =
     (if sv_new_subscribes s \<noteq> {} then (callback s, swap_new_subscribes s) else (Inr (), s))"

definition send_shared :: "service \<Rightarrow> out_msg \<Rightarrow> (int \<Rightarrow> channels) \<Rightarrow> int \<Rightarrow> channels" where
  "send_shared s m q = send_each (sv_subscribes s) m q"

definition send_new_subscribes :: "service \<Rightarrow> out_msg \<Rightarrow> (int \<Rightarrow> channels) \<Rightarrow> int \<Rightarrow> channels" where
  "send_new_subscribes s m q = send_each (sv_new_subscribes s) m q"

definition send_to :: "service \<Rightarrow> out_msg \<Rightarrow> int \<Rightarrow> (int \<Rightarrow> channels) \<Rightarrow> int \<Rightarrow> channels" where
  "send_to s m i q = send_each (sv_subscribes s \<inter> {i}) m q"

definition send_video_frame ::
    "service \<Rightarrow> out_msg \<Rightarrow> (int \<Rightarrow> channels) \<Rightarrow> int set \<times> (int \<Rightarrow> channels)" where
  "send_video_frame s m q = (sv_subscribes s, send_each (sv_subscribes s) m q)"

text \<open>The pause after a failed run of a service: doubled, up to a second, and short again after a run that
  lasted more than a second.\<close>

definition next_error_timeout :: "int \<Rightarrow> nat \<Rightarrow> nat" where
  "next_error_timeout elapsed_ms t =
     (let t = (if elapsed_ms > int MAX_ERROR_TIMEOUT then HIBERNATE_TIMEOUT else t * 2)
      in if t > MAX_ERROR_TIMEOUT then MAX_ERROR_TIMEOUT else t)"

section \<open>Subscriptions as a set\<close>

definition service_inv :: "service \<Rightarrow> bool" where
  "service_inv s \<longleftrightarrow>
     sv_subscribes s \<inter> sv_new_subscribes s = {} \<and>
     (\<not> sv_need_snapshot s \<longrightarrow> sv_new_subscribes s = {})"

definition subscribed :: "service \<Rightarrow> int set" where
  "subscribed s = sv_subscribes s \<union> sv_new_subscribes s"

lemma is_subed_subscribed: "is_subed s i \<longleftrightarrow> i \<in> subscribed s"
  by (simp add: is_subed_def subscribed_def)

lemma has_subscribes_subscribed: "has_subscribes s \<longleftrightarrow> subscribed s \<noteq> {}"
  by (auto simp: has_subscribes_def subscribed_def)

locale subscriptions =
  fixes sub :: "int \<Rightarrow> 's \<Rightarrow> 's"
    and unsub :: "int \<Rightarrow> 's \<Rightarrow> 's"
    and subed :: "'s \<Rightarrow> int \<Rightarrow> bool"
    and good :: "'s \<Rightarrow> bool"
  assumes good_sub: "good s \<Longrightarrow> good (sub i s)"
    and good_unsub: "good s \<Longrightarrow> good (unsub i s)"
    and subed_sub: "good s \<Longrightarrow> subed (sub i s) j \<longleftrightarrow> j = i \<or> subed s j"
    and subed_unsub: "good s \<Longrightarrow> subed (unsub i s) j \<longleftrightarrow> j \<noteq> i \<and> subed s j"
begin

text \<open>\<open>Server::subscribe\<close> on one service.\<close>

definition change :: "int \<Rightarrow> bool \<Rightarrow> 's \<Rightarrow> 's" where
  "change i on s = (if subed s i = on then s else if on then sub i s else unsub i s)"

lemma change_subed:
  assumes "good s"
  shows "good (change i on s)" "subed (change i on s) j \<longleftrightarrow> (if j = i then on else subed s j)"
  using assms by (auto simp: change_def good_sub good_unsub subed_sub subed_unsub)

lemma runs_refine_a_set:
  assumes "good s"
  defines "run \<equiv> fold (\<lambda>(on, i). if on then sub i else unsub i)"
  shows "good (run ops s) \<and>
    Collect (subed (run ops s)) = fold (\<lambda>(on, i) X. if on then insert i X else X - {i}) ops (Collect (subed s))"
  using assms(1) unfolding run_def
proof (induction ops arbitrary: s)
  case (Cons p ops)
  obtain on i where p: "p = (on, i)" by (cases p)
  let ?s = "if on then sub i s else unsub i s"
  have "good ?s" "Collect (subed ?s) = (if on then insert i (Collect (subed s)) else Collect (subed s) - {i})"
    using Cons.prems by (auto simp: good_sub good_unsub subed_sub subed_unsub)
  then show ?case using Cons.IH [of ?s] by (auto simp: p)
qed simp

end

lemma service_inv_new [simp]: "service_inv (service_new n b)"
  by (simp add: service_inv_def service_new_def)

lemma service_inv_swap [simp]: "service_inv (swap_new_subscribes s)"
  by (simp add: service_inv_def swap_new_subscribes_def)

lemma subscribed_simps [simp]:
  "subscribed (service_new n b) = {}" "subscribed (swap_new_subscribes s) = subscribed s"
  "subscribed (on_subscribe i s) = insert i (subscribed s)" "subscribed (sv_join s) = subscribed s"
  "subscribed (sv_set_option k v s) = subscribed s" "subscribed (set_option_bool k on s) = subscribed s"
  by (auto simp: subscribed_def service_new_def swap_new_subscribes_def on_subscribe_def sv_join_def
      sv_set_option_def set_option_bool_def)

lemma subscribed_snapshot [simp]: "subscribed (snd (snapshot f s)) = subscribed s"
  by (simp add: snapshot_def)

lemma subscribed_unsubscribe [simp]: "service_inv s \<Longrightarrow> subscribed (on_unsubscribe i s) = subscribed s - {i}"
  by (auto simp: service_inv_def subscribed_def on_unsubscribe_def)

lemma service_inv_ops [simp]:
  "service_inv s \<Longrightarrow> service_inv (on_subscribe i s)"
  "service_inv s \<Longrightarrow> service_inv (on_unsubscribe i s)"
  "service_inv s \<Longrightarrow> service_inv (snd (snapshot f s))"
  "service_inv s \<Longrightarrow> service_inv (set_option_bool k on s)"
  "service_inv s \<Longrightarrow> service_inv (sv_join s)"
  by (auto simp: service_inv_def on_subscribe_def on_unsubscribe_def snapshot_def swap_new_subscribes_def
      set_option_bool_def sv_set_option_def sv_join_def)

interpretation subs: subscriptions on_subscribe on_unsubscribe is_subed service_inv
  by unfold_locales (simp_all add: is_subed_subscribed conj_commute)

lemma kept_fields [simp]:
  "sv_name (on_subscribe i s) = sv_name s" "sv_name (on_unsubscribe i s) = sv_name s"
  "sv_name (snd (snapshot f s)) = sv_name s" "sv_name (set_option_bool k on s) = sv_name s"
  "sv_name (sv_join s) = sv_name s" "sv_name (service_new n b) = n"
  "sv_active (on_subscribe i s) = sv_active s" "sv_active (on_unsubscribe i s) = sv_active s"
  "sv_active (snd (snapshot f s)) = sv_active s" "sv_active (set_option_bool k on s) = sv_active s"
  "sv_options (on_subscribe i s) = sv_options s" "sv_options (on_unsubscribe i s) = sv_options s"
  "sv_options (snd (snapshot f s)) = sv_options s"
  by (simp_all add: on_subscribe_def on_unsubscribe_def snapshot_def swap_new_subscribes_def
      set_option_bool_def sv_set_option_def sv_join_def service_new_def)

lemma error_timeout_range: "15 \<le> t \<Longrightarrow> 30 \<le> next_error_timeout e t \<and> next_error_timeout e t \<le> 1000"
  by (simp add: next_error_timeout_def Let_def HIBERNATE_TIMEOUT_def MAX_ERROR_TIMEOUT_def)

lemma error_timeout_quick: "e \<le> 1000 \<Longrightarrow> next_error_timeout e t = min 1000 (t * 2)"
  by (simp add: next_error_timeout_def Let_def MAX_ERROR_TIMEOUT_def)

lemma error_timeouts_double:
  "list_all (\<lambda>e. e \<le> 1000) es \<Longrightarrow>
   fold next_error_timeout es 30 = min 1000 (30 * 2 ^ length es)"
proof (induction es rule: rev_induct)
  case (snoc e es)
  then have "fold next_error_timeout (es @ [e]) 30 = min 1000 (min 1000 (30 * 2 ^ length es) * 2)"
    by (simp add: error_timeout_quick)
  also have "\<dots> = min 1000 (30 * 2 ^ length (es @ [e]))" by (simp add: min_def)
  finally show ?case .
qed simp

section \<open>All that happens to a service\<close>

datatype service_op =
    Sv_subscribe int
  | Sv_unsubscribe int
  | Sv_change int bool
  | Sv_snapshot "service \<Rightarrow> string + unit"
  | Sv_option string bool
  | Sv_join

text \<open>\<open>Server::subscribe\<close>, for a service that exists.\<close>

definition change_subscription :: "int \<Rightarrow> bool \<Rightarrow> service \<Rightarrow> service" where
  "change_subscription i on s =
     (if is_subed s i = on then s else if on then on_subscribe i s else on_unsubscribe i s)"

fun service_step :: "service_op \<Rightarrow> service \<Rightarrow> service" where
  "service_step (Sv_subscribe i) s = on_subscribe i s"
| "service_step (Sv_unsubscribe i) s = on_unsubscribe i s"
| "service_step (Sv_change i on) s = change_subscription i on s"
| "service_step (Sv_snapshot f) s = snd (snapshot f s)"
| "service_step (Sv_option k v) s = set_option_bool k v s"
| "service_step Sv_join s = sv_join s"

fun set_step :: "service_op \<Rightarrow> int set \<Rightarrow> int set" where
  "set_step (Sv_subscribe i) X = insert i X"
| "set_step (Sv_unsubscribe i) X = X - {i}"
| "set_step (Sv_change i on) X = (if on then insert i X else X - {i})"
| "set_step (Sv_snapshot f) X = X"
| "set_step (Sv_option k v) X = X"
| "set_step Sv_join X = X"

lemma change_subscription_locale: "change_subscription i on s = subs.change i on s"
  by (simp add: change_subscription_def subs.change_def)

lemma change_subscription_simps [simp]:
  assumes "service_inv s"
  shows "service_inv (change_subscription i on s)"
    "subscribed (change_subscription i on s) = (if on then insert i (subscribed s) else subscribed s - {i})"
proof -
  have "j \<in> subscribed (change_subscription i on s) \<longleftrightarrow> (if j = i then on else j \<in> subscribed s)" for j
    using subs.change_subed(2) [OF assms, of i on j]
    by (simp add: change_subscription_locale flip: is_subed_subscribed)
  then show "subscribed (change_subscription i on s) = (if on then insert i (subscribed s) else subscribed s - {i})"
    by (auto split: if_splits)
qed (simp add: change_subscription_locale subs.change_subed(1) [OF assms])

lemma service_step_refines:
  "service_inv s \<Longrightarrow> service_inv (service_step op s) \<and> subscribed (service_step op s) = set_step op (subscribed s)"
  by (cases op) simp_all

text \<open>C39: Whatever subscriptions, departures, snapshots and options a service goes through, its subscribers
  are those of a plain set under the same operations: none is lost or duplicated when a snapshot moves
  the waiting ones, and none waits and is active at once.\<close>

theorem subscriptions_refine_a_set:
  "let s = fold service_step ops (service_new n b) in
   subscribed s = fold set_step ops {} \<and> sv_subscribes s \<inter> sv_new_subscribes s = {}"
proof -
  have "service_inv s \<Longrightarrow> service_inv (fold service_step ops s) \<and>
      subscribed (fold service_step ops s) = fold set_step ops (subscribed s)" for s
    by (induction ops arbitrary: s) (simp_all add: service_step_refines)
  from this [of "service_new n b"] show ?thesis
    by (simp add: service_inv_def Let_def service_new_def subscribed_def)
qed

end
