(* ===== verification/OhosVideo.thy ===== *)
theory OhosVideo
  imports OhosService
begin

text \<open>
  The video service of the HarmonyOS controlled side: \<open>video_service\<close> and \<open>ServiceTmpl::run\<close> of
  \<open>src/harmony_bridge/server_ohos.rs\<close>, with the encoder of \<open>libs/scrap/src/common/vpxcodec.rs\<close> and
  \<open>codec_ohos.rs\<close> and the conversion of \<open>convert.rs\<close>. libvpx and libyuv are parameters, in the record
  \<open>vpx\<close>. The thread is a state machine: one step from one lock of the shared state to the next, so that
  subscriptions may change between any two of its steps.
\<close>

section \<open>The encoder\<close>

record yuv_format =
  yf_w :: nat
  yf_h :: nat
  yf_stride :: "nat list"
  yf_u :: nat
  yf_v :: nat

text \<open>What libvpx and libyuv do: create a context for a size, encode an image into the packets of one
  call, flush, the layout of an I420 image, and the conversion (its result code and the buffer).\<close>

record 'e vpx =
  vpx_init :: "nat \<Rightarrow> nat \<Rightarrow> string + 'e"
  vpx_encode :: "'e \<Rightarrow> u8 list \<Rightarrow> int \<Rightarrow> (string + encoded_frame list) \<times> 'e"
  vpx_flush :: "'e \<Rightarrow> (string + encoded_frame list) \<times> 'e"
  vpx_layout :: "nat \<Rightarrow> nat \<Rightarrow> yuv_format"
  yuv_convert :: "capturer \<Rightarrow> yuv_format \<Rightarrow> u8 list \<Rightarrow> int \<times> u8 list"

record 'e encoder =
  en_ctx :: 'e
  en_width :: nat
  en_height :: nat
  en_yuvfmt :: yuv_format

definition encoder_new :: "'e vpx \<Rightarrow> nat \<Rightarrow> nat \<Rightarrow> string + 'e encoder" where
  "encoder_new v w h =
     (case vpx_init v w h of
        Inl e \<Rightarrow> Inl e
      | Inr ctx \<Rightarrow> Inr \<lparr>en_ctx = ctx, en_width = w, en_height = h, en_yuvfmt = vpx_layout v w h\<rparr>)"

definition latency_free :: bool where "latency_free = True"

text \<open>The encoder is VP9 in I420: twelve bits for a pixel.\<close>

definition vpx_encode_image ::
    "'e vpx \<Rightarrow> 'e encoder \<Rightarrow> int \<Rightarrow> u8 list \<Rightarrow> (string + encoded_frame list) \<times> 'e encoder" where
  "vpx_encode_image v en pts data =
     (let bpp = 12 in
      if length data < en_width en * en_height en * bpp div 8 then (Inl ''len not enough'', en)
      else let (r, ctx) = vpx_encode v (en_ctx en) data pts in (r, en\<lparr>en_ctx := ctx\<rparr>))"

definition vpx_flush_image :: "'e vpx \<Rightarrow> 'e encoder \<Rightarrow> (string + encoded_frame list) \<times> 'e encoder" where
  "vpx_flush_image v en = (let (r, ctx) = vpx_flush v (en_ctx en) in (r, en\<lparr>en_ctx := ctx\<rparr>))"

definition encode_to_message ::
    "'e vpx \<Rightarrow> 'e encoder \<Rightarrow> u8 list \<Rightarrow> int \<Rightarrow> (string + video_msg) \<times> 'e encoder" where
  "encode_to_message v en data ms =
     (case vpx_encode_image v en ms data of
        (Inl e, en) \<Rightarrow> (Inl ''Failed to encode'', en)
      | (Inr fs, en) \<Rightarrow>
          (case vpx_flush_image v en of
             (Inl e, en) \<Rightarrow> (Inl ''Failed to flush'', en)
           | (Inr gs, en) \<Rightarrow>
               (if fs @ gs \<noteq> [] then Inr \<lparr>vm_display = 0, vm_vp9s = fs @ gs\<rparr>
                else Inl ''no valid frame'', en)))"

section \<open>The captured frame\<close>

text \<open>A captured frame is the capturer's buffer, of four bytes for a pixel.\<close>

definition frame_valid :: "capturer \<Rightarrow> bool" where
  "frame_valid c \<longleftrightarrow> cap_buffer c \<noteq> []"

text \<open>\<open>Vec::resize\<close> with zeros.\<close>

definition vec_resize :: "nat \<Rightarrow> u8 list \<Rightarrow> u8 list" where
  "vec_resize n xs = take n xs @ replicate (n - length xs) 0"

definition convert_to_yuv :: "'e vpx \<Rightarrow> capturer \<Rightarrow> yuv_format \<Rightarrow> u8 list \<Rightarrow> string + u8 list" where
  "convert_to_yuv v c fmt dst =
     (if cap_width c > yf_w fmt \<or> cap_height c > yf_h fmt then Inl ''src rect > dst rect''
      else if cap_stride c < cap_width c * 4 then Inl ''src_stride too small''
      else if length (cap_buffer c) < cap_stride c * cap_height c then Inl ''wrong src len''
      else
        let dst = vec_resize (yf_h fmt * (yf_stride fmt ! 0) * 2) dst;
            (r, dst) = yuv_convert v c fmt dst
        in if r \<noteq> 0 then Inl ''libyuv'' else Inr dst)"

section \<open>The run of the video service\<close>

record 'e video_run =
  vr_encoder :: "'e encoder"
  vr_capturer :: capturer
  vr_yuv :: "u8 list"
  vr_first_frame :: bool
  vr_repeat_counter :: nat
  vr_fail_counter :: nat

text \<open>Where the thread is: at the top of the service loop, at the test of the run's loop, before the
  snapshot with the image to encode, before the encoding, or at its end.\<close>

datatype 'e video_phase =
    Vp_idle
  | Vp_loop "'e video_run"
  | Vp_snapshot "'e video_run" "u8 list"
  | Vp_encode "'e video_run" "u8 list"
  | Vp_exited

record 'e video_thread =
  vt_phase :: "'e video_phase"
  vt_error_timeout :: nat
  vt_pauses :: "nat list"

record 'e video_env =
  ve_bridge :: bridge_env
  ve_vpx :: "'e vpx"
  ve_ms :: int
  ve_elapsed :: int

record 'e video_world =
  vw_thread :: "'e video_thread"
  vw_service :: service
  vw_bridge :: bridge
  vw_channels :: "int \<Rightarrow> channels"

definition OPTION_REFRESH :: string where "OPTION_REFRESH = ''refresh''"

definition video_thread_new :: "'e video_thread" where
  "video_thread_new = \<lparr>vt_phase = Vp_idle, vt_error_timeout = HIBERNATE_TIMEOUT, vt_pauses = []\<rparr>"

definition put_phase :: "'e video_phase \<Rightarrow> 'e video_world \<Rightarrow> 'e video_world" where
  "put_phase ph w = w\<lparr>vw_thread := (vw_thread w)\<lparr>vt_phase := ph\<rparr>\<rparr>"

text \<open>The callback gave an error: pause, then back to the top of the service loop.\<close>

definition run_failed :: "'e video_env \<Rightarrow> 'e video_world \<Rightarrow> 'e video_world" where
  "run_failed E w =
     (let t = next_error_timeout (ve_elapsed E) (vt_error_timeout (vw_thread w))
      in w\<lparr>vw_thread := \<lparr>vt_phase = Vp_idle, vt_error_timeout = t,
             vt_pauses = vt_pauses (vw_thread w) @ [t]\<rparr>\<rparr>)"

definition run_start :: "'e video_env \<Rightarrow> 'e video_world \<Rightarrow> 'e video_world" where
  "run_start E w =
     (let c = capturer_new (display_primary (vw_bridge w)) in
      case encoder_new (ve_vpx E) (cap_width c) (cap_height c) of
        Inl e \<Rightarrow> run_failed E w
      | Inr en \<Rightarrow>
          put_phase (Vp_loop \<lparr>vr_encoder = en, vr_capturer = c, vr_yuv = [], vr_first_frame = True,
                       vr_repeat_counter = 0, vr_fail_counter = 0\<rparr>)
            (if is_option_true (vw_service w) OPTION_REFRESH
             then w\<lparr>vw_service := set_option_bool OPTION_REFRESH False (vw_service w)\<rparr> else w))"

text \<open>One round of the run's loop up to the snapshot. The wait for a frame is its last look at the shared
  frame: the earlier ones change nothing.\<close>

definition run_round :: "'e video_env \<Rightarrow> 'e video_run \<Rightarrow> 'e video_world \<Rightarrow> 'e video_world" where
  "run_round E r w =
     (let s = vw_service w in
      if \<not> sv_ok s then put_phase Vp_idle w
      else if is_option_true s OPTION_REFRESH then run_failed E w
      else (case capturer_look (b_capture (vw_bridge w)) (vr_capturer r) of
        Some c \<Rightarrow>
          let r = r\<lparr>vr_capturer := c, vr_repeat_counter := 0\<rparr> in
          if frame_valid c then
            (case convert_to_yuv (ve_vpx E) c (en_yuvfmt (vr_encoder r)) (vr_yuv r) of
               Inl e \<Rightarrow> run_failed E w
             | Inr yuv \<Rightarrow> put_phase (Vp_snapshot (r\<lparr>vr_yuv := yuv\<rparr>) yuv) w)
          else put_phase (Vp_loop r) w
      | None \<Rightarrow>
          if \<not> latency_free \<and> vr_yuv r \<noteq> [] \<and> vr_repeat_counter r < 10 then
            put_phase (Vp_snapshot (r\<lparr>vr_repeat_counter := vr_repeat_counter r + 1\<rparr>) (vr_yuv r)) w
          else put_phase (Vp_loop r) w))"

text \<open>\<open>handle_one_frame\<close>: the snapshot, then the encoding and the sending.\<close>

definition frame_snapshot ::
    "'e video_env \<Rightarrow> 'e video_run \<Rightarrow> u8 list \<Rightarrow> 'e video_world \<Rightarrow> 'e video_world" where
  "frame_snapshot E r yuv w =
     (case snapshot (\<lambda>s. if sv_subscribes s \<noteq> {} then Inl ''SWITCH'' else Inr ()) (vw_service w) of
        (Inl e, s) \<Rightarrow> run_failed E (w\<lparr>vw_service := s\<rparr>)
      | (Inr _, s) \<Rightarrow> put_phase (Vp_encode r yuv) (w\<lparr>vw_service := s\<rparr>))"

definition frame_encode ::
    "'e video_env \<Rightarrow> 'e video_run \<Rightarrow> u8 list \<Rightarrow> 'e video_world \<Rightarrow> 'e video_world" where
  "frame_encode E r yuv w =
     (case encode_to_message (ve_vpx E) (vr_encoder r) yuv (ve_ms E) of
        (Inr vf, en) \<Rightarrow>
          let vf = vf\<lparr>vm_display := 0\<rparr>;
              w = (if vr_first_frame r
                   then w\<lparr>vw_bridge := set_incoming_service_started (ve_bridge E) True (vw_bridge w)\<rparr> else w);
              (ids, q) = send_video_frame (vw_service w) (Out_video vf) (vw_channels w)
          in put_phase (Vp_loop (r\<lparr>vr_encoder := en, vr_fail_counter := 0, vr_first_frame := False\<rparr>))
               (w\<lparr>vw_channels := q\<rparr>)
      | (Inl e, en) \<Rightarrow>
          let n = vr_fail_counter r + 1; n = (if n > 10 then 0 else n)
          in put_phase (Vp_loop (r\<lparr>vr_encoder := en, vr_fail_counter := n\<rparr>)) w)"

definition video_step :: "'e video_env \<Rightarrow> 'e video_world \<Rightarrow> 'e video_world" where
  "video_step E w =
     (case vt_phase (vw_thread w) of
        Vp_idle \<Rightarrow>
          if \<not> sv_active (vw_service w) then put_phase Vp_exited w
          else if has_subscribes (vw_service w) then run_start E w
          else w
      | Vp_loop r \<Rightarrow> run_round E r w
      | Vp_snapshot r yuv \<Rightarrow> frame_snapshot E r yuv w
      | Vp_encode r yuv \<Rightarrow> frame_encode E r yuv w
      | Vp_exited \<Rightarrow> w)"

end
