(* ===== verification/OhosLogin.thy ===== *)
theory OhosLogin
  imports PasswordSecurity LoginConfig
begin

text \<open>
  How the HarmonyOS controlled side checks a login, \<open>validate_password\<close> of
  \<open>src/harmony_bridge/server_ohos.rs\<close>, and how it settles on an encrypted stream
  (\<open>create_tcp_connection\<close>). SHA-256 is a parameter (\<open>crypto\<close>); the password in the request is the
  digest of a first digest and the challenge of this connection.
\<close>

section \<open>Checking the password\<close>

definition byte_of :: "char \<Rightarrow> u8" where
  "byte_of ch = word_of_nat (of_char ch)"

definition constant_time_eq :: "string \<Rightarrow> string \<Rightarrow> bool" where
  "constant_time_eq a b =
     (if length a \<noteq> length b then False
      else fold (\<lambda>i x. x OR (byte_of (a ! i) XOR byte_of (b ! i))) [0..<length a] 0 = 0)"

definition verify_h1 :: "crypto \<Rightarrow> hash_challenge \<Rightarrow> login_request \<Rightarrow> string \<Rightarrow> bool" where
  "verify_h1 c hash lr h1 =
     (if length (lr_password lr) < 32 then False
      else constant_time_eq (sha256 c (h1 @ h_challenge hash)) (take 32 (lr_password lr)))"

definition validate_password_plain :: "crypto \<Rightarrow> hash_challenge \<Rightarrow> login_request \<Rightarrow> string \<Rightarrow> bool" where
  "validate_password_plain c hash lr password =
     (if password = [] then False else verify_h1 c hash lr (sha256 c (password @ h_salt hash)))"

definition validate_password_storage :: "crypto \<Rightarrow> hash_challenge \<Rightarrow> login_request \<Rightarrow> string \<Rightarrow> bool" where
  "validate_password_storage c hash lr storage =
     (if storage = [] then False
      else (case decode_h1_from_storage c storage of
              Some h1 \<Rightarrow> verify_h1 c hash lr h1
            | None \<Rightarrow> validate_password_plain c hash lr storage))"

definition validate_preset_password_storage ::
    "crypto \<Rightarrow> hash_challenge \<Rightarrow> login_request \<Rightarrow> string \<Rightarrow> string \<Rightarrow> bool" where
  "validate_preset_password_storage c hash lr storage salt =
     (if salt = [] then validate_password_plain c hash lr storage
      else (case decode_preset_h1_from_storage c storage of
              None \<Rightarrow> False
            | Some h1 \<Rightarrow> verify_h1 c hash lr h1))"

definition validate_password :: "crypto \<Rightarrow> auth_state \<Rightarrow> hash_challenge \<Rightarrow> login_request \<Rightarrow> bool" where
  "validate_password c s hash lr =
     (if temporary_enabled s \<and> validate_password_plain c hash lr (temporary_password s) then True
      else if permanent_enabled s \<and>
        (let (local_storage, local_salt) = get_local_storage_and_salt s in
         if local_storage \<noteq> [] then
           local_storage_is_usable_for_auth c local_storage local_salt \<and>
           validate_password_storage c hash lr local_storage
         else
           let (hard, salt) = get_preset_storage_and_salt s in
           preset_storage_is_usable_for_auth c hard salt \<and>
           validate_preset_password_storage c hash lr hard salt) then True
      else approve_mode s = Approve_Click \<and> lr_password lr = [] \<and>
        get_option (base s) ''permanent-password'' = [])"

section \<open>Settling on a key\<close>

datatype handshake_reply =
    Reply_timeout
  | Reply_closed
  | Reply_broken string
  | Reply_other
  | Reply_public_key string string

definition SIGN_PUBLICKEYBYTES :: nat where "SIGN_PUBLICKEYBYTES = 32"
definition SIGN_SECRETKEYBYTES :: nat where "SIGN_SECRETKEYBYTES = 64"
definition BOX_PUBLICKEYBYTES :: nat where "BOX_PUBLICKEYBYTES = 32"

text \<open>\<open>Config::set_key_confirmed\<close>.\<close>

definition config_set_key_confirmed :: "crypto \<Rightarrow> draws \<Rightarrow> bool \<Rightarrow> auth_state \<Rightarrow> auth_state" where
  "config_set_key_confirmed c r v s =
     (let (cfg, changed) = set_key_confirmed v (conf s); s = s\<lparr>conf := cfg\<rparr>
      in if changed then store_conf c r s else s)"

text \<open>The handshake of an incoming stream, from the reply to the signed identity: an error, or the key of
  the stream, or no key. \<open>decode\<close> opens the symmetric key the peer sent.\<close>

definition secure_handshake ::
    "crypto \<Rightarrow> draws \<Rightarrow> (string \<Rightarrow> string \<Rightarrow> string + string) \<Rightarrow> bool \<Rightarrow> string \<times> string \<Rightarrow> handshake_reply \<Rightarrow>
      auth_state \<Rightarrow> (string + string option) \<times> auth_state" where
  "secure_handshake c r decode secure key_pair reply s =
     (let (sk, pk) = key_pair in
      if \<not> secure then (Inr None, s)
      else if \<not> (length pk = SIGN_PUBLICKEYBYTES \<and> length sk = SIGN_SECRETKEYBYTES) then (Inr None, s)
      else (case reply of
              Reply_timeout \<Rightarrow> (Inl ''deadline has elapsed'', s)
            | Reply_closed \<Rightarrow> (Inl ''Failed to receive public key'', s)
            | Reply_broken e \<Rightarrow> (Inl e, s)
            | Reply_other \<Rightarrow> (Inr None, s)
            | Reply_public_key asymmetric symmetric \<Rightarrow>
                if length asymmetric = BOX_PUBLICKEYBYTES then
                  (case decode symmetric asymmetric of Inl e \<Rightarrow> (Inl e, s) | Inr key \<Rightarrow> (Inr (Some key), s))
                else if asymmetric = [] then (Inr None, config_set_key_confirmed c r False s)
                else (Inl ''Handshake failed: invalid public sign key length from peer'', s)))"

section \<open>Lemmas\<close>

lemma byte_of_inject: "byte_of x = byte_of y \<longleftrightarrow> x = y"
proof
  assume "byte_of x = byte_of y"
  then have "unat (byte_of x) = unat (byte_of y)" by simp
  moreover have "unat (byte_of ch) = of_char ch" for ch
    using nat_of_char_less_256 [of ch] by (simp add: byte_of_def unat_of_nat)
  ultimately show "x = y" by simp
qed simp

lemma xor_zero: "a XOR b = 0 \<longleftrightarrow> a = (b :: u8)"
  by (auto simp: bit_eq_iff bit_xor_iff)

lemma or_zero: "a OR b = 0 \<longleftrightarrow> a = 0 \<and> b = (0 :: u8)"
  by (auto simp: bit_eq_iff bit_or_iff)

lemma fold_or_xor:
  "fold (\<lambda>i x. x OR (f i XOR g i)) ns acc = 0 \<longleftrightarrow> acc = 0 \<and> (\<forall>i\<in>set ns. f i = (g i :: u8))"
  by (induction ns arbitrary: acc) (auto simp: or_zero xor_zero)

lemma constant_time_eq_is_eq: "constant_time_eq a b \<longleftrightarrow> a = b"
  by (cases "length a = length b")
    (auto simp: constant_time_eq_def fold_or_xor byte_of_inject intro: nth_equalityI)

lemma verify_h1_iff:
  "verify_h1 c hash lr h1 \<longleftrightarrow>
     32 \<le> length (lr_password lr) \<and> take 32 (lr_password lr) = sha256 c (h1 @ h_challenge hash)"
  by (auto simp: verify_h1_def constant_time_eq_is_eq)

text \<open>The first digests a connection accepts.\<close>

definition temporary_h1 :: "crypto \<Rightarrow> auth_state \<Rightarrow> hash_challenge \<Rightarrow> string list" where
  "temporary_h1 c s hash =
     (if temporary_enabled s \<and> temporary_password s \<noteq> [] then [sha256 c (temporary_password s @ h_salt hash)] else [])"

definition permanent_h1 :: "crypto \<Rightarrow> auth_state \<Rightarrow> hash_challenge \<Rightarrow> string list" where
  "permanent_h1 c s hash =
     (if \<not> permanent_enabled s then []
      else if mc_password (conf s) \<noteq> [] then
        (if local_storage_is_usable_for_auth c (mc_password (conf s)) (mc_salt (conf s)) then
           [case decode_h1_from_storage c (mc_password (conf s)) of
              Some h1 \<Rightarrow> h1 | None \<Rightarrow> sha256 c (mc_password (conf s) @ h_salt hash)]
         else [])
      else
        let (hard, salt) = get_preset_storage_and_salt s in
        if hard = [] then []
        else if salt = [] then [sha256 c (hard @ h_salt hash)]
        else (case decode_preset_h1_from_storage c hard of Some h1 \<Rightarrow> [h1] | None \<Rightarrow> []))"

lemma login_is_accepted:
  "validate_password c s hash lr \<longleftrightarrow>
     (\<exists>h1\<in>set (temporary_h1 c s hash @ permanent_h1 c s hash).
        32 \<le> length (lr_password lr) \<and> take 32 (lr_password lr) = sha256 c (h1 @ h_challenge hash)) \<or>
     approve_mode s = Approve_Click \<and> lr_password lr = [] \<and> get_option (base s) ''permanent-password'' = []"
proof -
  define fits where "fits h1 \<longleftrightarrow> 32 \<le> length (lr_password lr) \<and>
    take 32 (lr_password lr) = sha256 c (h1 @ h_challenge hash)" for h1
  have v: "verify_h1 c hash lr h1 \<longleftrightarrow> fits h1" for h1 by (simp add: verify_h1_iff fits_def)
  have t: "temporary_enabled s \<and> validate_password_plain c hash lr (temporary_password s) \<longleftrightarrow>
      (\<exists>h1\<in>set (temporary_h1 c s hash). fits h1)"
    by (simp add: temporary_h1_def validate_password_plain_def v)
  have stored: "validate_password_storage c hash lr (mc_password (conf s)) \<longleftrightarrow>
      fits (case decode_h1_from_storage c (mc_password (conf s)) of
              Some h1 \<Rightarrow> h1 | None \<Rightarrow> sha256 c (mc_password (conf s) @ h_salt hash))"
    if "mc_password (conf s) \<noteq> []"
    using that by (cases "decode_h1_from_storage c (mc_password (conf s))")
      (simp_all add: validate_password_storage_def validate_password_plain_def v)
  obtain hard salt where p: "get_preset_storage_and_salt s = (hard, salt)" by fastforce
  have preset: "preset_storage_is_usable_for_auth c hard salt \<and>
      validate_preset_password_storage c hash lr hard salt \<longleftrightarrow>
      hard \<noteq> [] \<and> (if salt = [] then fits (sha256 c (hard @ h_salt hash))
        else (case decode_preset_h1_from_storage c hard of Some h1 \<Rightarrow> fits h1 | None \<Rightarrow> False))"
    by (cases "decode_preset_h1_from_storage c hard") (simp_all add: preset_storage_is_usable_for_auth_def
        validate_preset_password_storage_def validate_password_plain_def v)
  have q: "permanent_enabled s \<and>
      (let (local_storage, local_salt) = get_local_storage_and_salt s in
         if local_storage \<noteq> [] then
           local_storage_is_usable_for_auth c local_storage local_salt \<and>
           validate_password_storage c hash lr local_storage
         else
           let (hard, salt) = get_preset_storage_and_salt s in
           preset_storage_is_usable_for_auth c hard salt \<and>
           validate_preset_password_storage c hash lr hard salt) \<longleftrightarrow>
      (\<exists>h1\<in>set (permanent_h1 c s hash). fits h1)"
  proof (cases "mc_password (conf s) = []")
    case True
    then show ?thesis
      by (simp add: permanent_h1_def get_local_storage_and_salt_def p preset split: option.split)
  next
    case False
    then show ?thesis
      using stored [OF False] by (simp add: permanent_h1_def get_local_storage_and_salt_def)
  qed
  show ?thesis
    unfolding validate_password_def t q fits_def [symmetric] by auto
qed

text \<open>C35: A login is accepted exactly when its password starts with the digest of an accepted first digest
  and the challenge of this connection (one of at most two: the temporary password's and the permanent
  one's), or, in the mode that waits for a click, when it has no password and no option
  \<open>permanent-password\<close> is set.\<close>

theorem login_is_accepted_exactly:
  "validate_password c s hash lr \<longleftrightarrow>
     (\<exists>h1\<in>set (temporary_h1 c s hash @ permanent_h1 c s hash).
        32 \<le> length (lr_password lr) \<and> take 32 (lr_password lr) = sha256 c (h1 @ h_challenge hash)) \<or>
     approve_mode s = Approve_Click \<and> lr_password lr = [] \<and> get_option (base s) ''permanent-password'' = []"
  by (rule login_is_accepted)

text \<open>A password the peer knows.\<close>

definition opens :: "crypto \<Rightarrow> auth_state \<Rightarrow> string \<Rightarrow> bool" where
  "opens c s password \<longleftrightarrow>
     password \<noteq> [] \<and>
     (temporary_enabled s \<and> password = temporary_password s \<or>
      permanent_enabled s \<and> mc_salt (conf s) \<noteq> [] \<and>
      decode_h1_from_storage c (mc_password (conf s)) =
        Some (compute_permanent_password_h1 c password (mc_salt (conf s))))"

text \<open>The challenge \<open>Connection::start\<close> sends.\<close>

definition connection_hash :: "crypto \<Rightarrow> draws \<Rightarrow> nat list \<Rightarrow> auth_state \<Rightarrow> hash_challenge \<times> auth_state" where
  "connection_hash c r rng s =
     (let (salt, s) = get_effective_permanent_password_salt c r s
      in (\<lparr>h_salt = salt, h_challenge = get_auto_password rng\<rparr>, s))"

lemma decode_h1_nonempty: "decode_h1_from_storage c st \<noteq> None \<Longrightarrow> st \<noteq> []"
  by (auto simp: decode_h1_from_storage_def starts_with_def PERMANENT_PASSWORD_ENC_VERSION_def)

lemma accepted_permanent:
  assumes "crypto_ok c" "decode_h1_from_storage c (mc_password (conf s)) =
      Some (compute_permanent_password_h1 c password (mc_salt (conf s)))"
    "permanent_enabled s" "mc_salt (conf s) \<noteq> []"
  shows "fst (get_effective_permanent_password_salt c r s) = mc_salt (conf s)"
    "sha256 c (password @ mc_salt (conf s)) \<in> set (permanent_h1 c s hash)"
proof -
  have ne: "mc_password (conf s) \<noteq> []" using assms(2) decode_h1_nonempty by auto
  then have usable: "local_storage_is_usable_for_auth c (mc_password (conf s)) (mc_salt (conf s))"
    using assms(2,4) by (simp add: local_storage_is_usable_for_auth_def)
  then show "fst (get_effective_permanent_password_salt c r s) = mc_salt (conf s)"
    using ne assms(4)
    by (simp add: get_effective_permanent_password_salt_def get_local_storage_and_salt_def get_salt_def)
  have "compute_permanent_password_h1 c password (mc_salt (conf s)) = sha256 c (password @ mc_salt (conf s))"
    by (simp add: compute_permanent_password_h1_def PERMANENT_PASSWORD_H1_LEN_def crypto_okD(7) [OF assms(1)])
  then show "sha256 c (password @ mc_salt (conf s)) \<in> set (permanent_h1 c s hash)"
    using ne usable assms(2,3) by (simp add: permanent_h1_def)
qed

lemma login_password_sent:
  assumes "handle_login_from_ui e u w password remember cl = (cl', Msg_login_request lr)" "password \<noteq> []"
  shows "lr_password lr = ce_sha256 e (ce_sha256 e (password @ h_salt (l_hash (cl_lc cl))) @ h_challenge (l_hash (cl_lc cl)))"
  using assms
  by (auto simp: handle_login_from_ui_def create_login_msg_def password_hash_def Let_def split: prod.splits)

text \<open>C36: A controlling client that is given the salt and challenge of a connection and the right password
  (the temporary one, or the permanent one whose digest is stored) gets in: the two sides compute the
  same proof.\<close>

theorem right_password_opens_the_peer:
  assumes "crypto_ok c" "ce_sha256 e = sha256 c" "opens c s password"
    "l_hash (cl_lc cl) = fst (connection_hash c r rng s)"
    "handle_login_from_ui e u w password remember cl = (cl', Msg_login_request lr)"
  shows "validate_password c s (fst (connection_hash c r rng s)) lr"
proof -
  let ?hash = "fst (connection_hash c r rng s)"
  let ?h1 = "sha256 c (password @ h_salt ?hash)"
  have "lr_password lr = sha256 c (?h1 @ h_challenge ?hash)"
    using login_password_sent [OF assms(5)] assms(2-4) by (simp add: opens_def)
  moreover have "?h1 \<in> set (temporary_h1 c s ?hash @ permanent_h1 c s ?hash)"
  proof (cases "temporary_enabled s \<and> password = temporary_password s")
    case True
    then show ?thesis using assms(3) by (auto simp: temporary_h1_def opens_def)
  next
    case False
    then have "permanent_enabled s" "mc_salt (conf s) \<noteq> []" "decode_h1_from_storage c (mc_password (conf s)) =
        Some (compute_permanent_password_h1 c password (mc_salt (conf s)))"
      using assms(3) by (auto simp: opens_def)
    note p = accepted_permanent [OF assms(1) this(3,1,2)]
    have "h_salt ?hash = mc_salt (conf s)" by (simp add: connection_hash_def p(1) split_def)
    with p(2) show ?thesis by simp
  qed
  ultimately show ?thesis
    unfolding login_is_accepted by (metis crypto_okD(7) [OF assms(1)] order_refl take_all)
qed

lemma hashed_auth_opens: "opens (toy_crypto []) hashed_auth ''pw''"
proof -
  have "permanent_enabled hashed_auth"
    by (simp add: permanent_enabled_def verification_method_def hashed_auth_def blank_auth_def blank_config_def
        get_option_def get_or_def unwrap_or_default_def)
  moreover have "mc_salt (conf hashed_auth) \<noteq> []" by (simp add: hashed_auth_def)
  ultimately show ?thesis using hashed_auth_decodes by (simp add: opens_def)
qed

definition demo_login :: "hash_challenge \<Rightarrow> client" where
  "demo_login hash = demo_client\<lparr>cl_lc := (cl_lc demo_client)\<lparr>l_hash := hash\<rparr>\<rparr>"

theorem right_password_opens_the_peer_witness:
  "\<exists>lr. validate_password (toy_crypto []) hashed_auth
     (fst (connection_hash (toy_crypto []) zero_draws [0, 1, 2, 3, 4, 5] hashed_auth)) lr"
proof -
  let ?hash = "fst (connection_hash (toy_crypto []) zero_draws [0, 1, 2, 3, 4, 5] hashed_auth)"
  let ?e = "demo_env\<lparr>ce_sha256 := sha256 (toy_crypto [])\<rparr>"
  obtain cl' lr where "handle_login_from_ui ?e [] [] ''pw'' False (demo_login ?hash) = (cl', Msg_login_request lr)"
    by (simp add: handle_login_from_ui_def create_login_msg_def Let_def split_def)
  from right_password_opens_the_peer [OF toy_crypto_ok _ hashed_auth_opens _ this]
  show ?thesis by (auto simp: demo_login_def)
qed

end
