(* ===== verification/HarmonyHandler.thy ===== *)
theory HarmonyHandler
  imports HarmonyState
begin

text \<open>
  \<open>HarmonyHandler\<close> of \<open>src/harmony_bridge/core.rs\<close>, the \<open>InvokeUiSession\<close> of both sessions: every
  callback of the connection threads, with the check of the session's generation. A session operation
  collects the callbacks it makes; \<open>on_active\<close> and \<open>on_file\<close> run it on the shared peer files and
  then hand the callbacks to the handler.
\<close>

section \<open>The handler\<close>

definition is_current :: "harmony_handler \<Rightarrow> bridge \<Rightarrow> bool" where
  "is_current h b \<longleftrightarrow>
     (let current = (if hh_file_transfer h then b_file_generation b else b_generation b)
      in hh_generation h \<noteq> 0 \<and> hh_generation h = current)"

definition handler_event :: "bridge_env \<Rightarrow> harmony_handler \<Rightarrow> string \<Rightarrow> string \<Rightarrow> bridge \<Rightarrow> bridge" where
  "handler_event E h kind detail b =
     (if is_current h b then queue_event E kind detail (active_peer b) b else b)"

definition env_of :: "bridge_env \<Rightarrow> bridge \<Rightarrow> client_env" where
  "env_of E b = (be_client E)\<lparr>ce_config := b_config b\<rparr>"

text \<open>A session sees the peer files the other one may have written.\<close>

definition with_files :: "bridge \<Rightarrow> session \<Rightarrow> session" where
  "with_files b s = s\<lparr>s_client := (s_client s)\<lparr>cl_peers := b_peers b\<rparr>\<rparr>"

definition get_session :: "bool \<Rightarrow> bridge \<Rightarrow> (harmony_handler \<times> session) option" where
  "get_session file b = (if file then b_file b else b_active b)"

definition put_session :: "bool \<Rightarrow> harmony_handler \<times> session \<Rightarrow> bridge \<Rightarrow> bridge" where
  "put_session file hs b =
     (if file then b\<lparr>b_file := Some hs, b_peers := cl_peers (s_client (snd hs))\<rparr>
      else b\<lparr>b_active := Some hs, b_peers := cl_peers (s_client (snd hs))\<rparr>)"

text \<open>A session operation that makes no callback.\<close>

definition quietly :: "bool \<Rightarrow> (session \<Rightarrow> session) \<Rightarrow> bridge \<Rightarrow> bridge" where
  "quietly file f b =
     (case get_session file b of
        None \<Rightarrow> b
      | Some (h, s) \<Rightarrow> put_session file (h, f (with_files b s)) b)"

section \<open>Callbacks\<close>

definition f64_positive :: "f64 \<Rightarrow> bool" where
  "f64_positive x \<longleftrightarrow> 0 < x \<and> x \<le> 0x7FF0000000000000"

definition f64_one :: f64 where "f64_one = 0x3FF0000000000000"

definition handler_set_display ::
    "bridge_env \<Rightarrow> harmony_handler \<Rightarrow> int \<Rightarrow> int \<Rightarrow> int \<Rightarrow> int \<Rightarrow> bool \<Rightarrow> f64 \<Rightarrow> bridge \<Rightarrow> bridge" where
  "handler_set_display E h x y w height cursor_embedded scale b =
     (if hh_file_transfer h then b
      else handler_event E h ''display''
        (''x='' @ dec_int x @ '';y='' @ dec_int y @ '';width='' @ dec_int w @ '';height='' @ dec_int height @
         '';cursorEmbedded='' @ dec_bool cursor_embedded @ '';scale='' @
         be_show_f64 E (if f64_positive scale then scale else f64_one)) b)"

definition json_resolution :: "int \<times> int \<Rightarrow> json" where
  "json_resolution r = J_object [(''width'', J_int (fst r)), (''height'', J_int (snd r))]"

definition handler_switch_display ::
    "bridge_env \<Rightarrow> harmony_handler \<Rightarrow> switch_display \<Rightarrow> bridge \<Rightarrow> bridge" where
  "handler_switch_display E h d b =
     (if hh_file_transfer h then b
      else
        handler_set_display E h (sw_x d) (sw_y d) (sw_width d) (sw_height d) (sw_cursor_embedded d) f64_one
          (handler_event E h ''switch-display''
            (''display='' @ dec_int (sw_display d) @ '';x='' @ dec_int (sw_x d) @ '';y='' @ dec_int (sw_y d) @
             '';width='' @ dec_int (sw_width d) @ '';height='' @ dec_int (sw_height d) @
             '';cursorEmbedded='' @ dec_bool (sw_cursor_embedded d) @
             '';originalWidth='' @ dec_int (fst (sw_original d)) @
             '';originalHeight='' @ dec_int (snd (sw_original d)) @
             '';resolutions='' @ be_json E (J_array (map json_resolution (sw_resolutions d)))) b))"

definition visible_cursor :: "u8 list \<Rightarrow> u8 list" where
  "visible_cursor colors =
     (if length colors \<ge> 4 \<and> list_all (\<lambda>v. v = 0) colors then colors[3 := 1] else colors)"

definition handler_set_cursor_data ::
    "bridge_env \<Rightarrow> harmony_handler \<Rightarrow> cursor_data \<Rightarrow> bridge \<Rightarrow> bridge" where
  "handler_set_cursor_data E h cd b =
     (if hh_file_transfer h then b
      else handler_event E h ''cursor_data'' (be_json E (J_object
        [(''id'', J_string (dec_nat (unat (cd_id cd)))), (''hotx'', J_int (cd_hotx cd)),
         (''hoty'', J_int (cd_hoty cd)), (''width'', J_int (cd_width cd)), (''height'', J_int (cd_height cd)),
         (''colors'', J_array (map (\<lambda>v. J_int (uint v)) (visible_cursor (be_decompress E (cd_colors cd)))))])) b)"

definition handler_set_peer_info ::
    "bridge_env \<Rightarrow> harmony_handler \<Rightarrow> peer_info \<Rightarrow> bridge \<Rightarrow> bridge" where
  "handler_set_peer_info E h info b =
     (if \<not> is_current h b then b
      else
        let b = quietly (hh_file_transfer h) (on_client (lc_handle_peer_info (env_of E b) info)) b
        in if hh_file_transfer h then
             handler_event E h ''file-transfer-peer-info''
               (''hostname='' @ pi_host info @ '';username='' @ pi_user info @ '';platform='' @ pi_os info @
                '';version='' @ pi_version info) b
           else
             handler_event E h ''peer-info''
               (''hostname='' @ pi_host info @ ''; username='' @ pi_user info @ ''; platform='' @ pi_os info @
                ''; version='' @ pi_version info) b)"

definition json_display :: "display_info \<Rightarrow> json" where
  "json_display d =
     (let (w, h) = (case di_original d of Some r \<Rightarrow> r | None \<Rightarrow> (0, 0))
      in J_object
           [(''x'', J_int (di_x d)), (''y'', J_int (di_y d)), (''width'', J_int (di_width d)),
            (''height'', J_int (di_height d)), (''name'', J_string (di_name d)),
            (''online'', J_bool (di_online d)), (''cursorEmbedded'', J_bool (di_cursor_embedded d)),
            (''originalWidth'', J_int w), (''originalHeight'', J_int h), (''scale'', J_float (di_scale d))])"

definition handler_on_connected :: "bridge_env \<Rightarrow> harmony_handler \<Rightarrow> conn_type \<Rightarrow> bridge \<Rightarrow> bridge" where
  "handler_on_connected E h conn b =
     (if \<not> is_current h b then b
      else if hh_file_transfer h then
        handler_event E h ''file-transfer-connected'' (''connType='' @ conn_type_debug conn) b
      else
        let detail = ''Connected; connType='' @ conn_type_debug conn;
            b = update_connect_state ''connected'' (active_peer b) ''Connected'' detail [] b;
            b = handler_event E h ''session-connected'' detail b
        in quietly False (refresh_video 0 \<circ> request_init_msgs 0) b)"

definition handler_update_privacy_mode :: "bridge_env \<Rightarrow> harmony_handler \<Rightarrow> bridge \<Rightarrow> bridge" where
  "handler_update_privacy_mode E h b =
     (if hh_file_transfer h then b
      else
        let enabled = (case b_active b of
              Some (_, s) \<Rightarrow> get_toggle_option (s_lc s) ''privacy-mode'' | None \<Rightarrow> False)
        in handler_event E h ''privacy-mode-state'' (if enabled then ''on=true'' else ''on=false'') b)"

definition handler_close_success :: "bridge_env \<Rightarrow> harmony_handler \<Rightarrow> bridge \<Rightarrow> bridge" where
  "handler_close_success E h b =
     (if \<not> is_current h b then b
      else if hh_file_transfer h then
        let b = handler_event E h ''file-transfer-ready'' ''ready=true'' b
        in (case b_pending b of
              None \<Rightarrow> b
            | Some (path, include_hidden) \<Rightarrow>
                let b = b\<lparr>b_pending := None\<rparr>
                in if path \<noteq> [] then quietly True (read_remote_dir path include_hidden) b else b)
      else
        handler_event E h ''connection-ready'' ''Connection handshake completed''
          (update_connect_state ''connected'' (active_peer b) ''Connected''
            ''Connection handshake completed'' [] b))"

definition json_optional :: "('a \<Rightarrow> json) \<Rightarrow> 'a option \<Rightarrow> json" where
  "json_optional f v = (case v of Some x \<Rightarrow> f x | None \<Rightarrow> J_null)"

definition handler_update_quality_status ::
    "bridge_env \<Rightarrow> harmony_handler \<Rightarrow> quality_status \<Rightarrow> bridge \<Rightarrow> bridge" where
  "handler_update_quality_status E h qs b =
     (if \<not> is_current h b \<or> hh_file_transfer h then b
      else handler_event E h ''quality-status'' (be_json E (J_object
        [(''speed'', json_optional J_string (qs_speed qs)),
         (''fps'', J_object (map (\<lambda>(k, v). (dec_nat k, J_int v)) (qs_fps qs))),
         (''delay'', json_optional J_int (qs_delay qs)),
         (''target_bitrate'', json_optional J_int (qs_target_bitrate qs)),
         (''codec_format'', json_optional J_string (qs_codec_format qs)),
         (''chroma'', json_optional J_string (qs_chroma qs))])) b)"

definition handler_set_connection_type ::
    "bridge_env \<Rightarrow> harmony_handler \<Rightarrow> bool \<Rightarrow> bool \<Rightarrow> string \<Rightarrow> bridge \<Rightarrow> bridge" where
  "handler_set_connection_type E h is_secured direct stream_type b =
     (if \<not> is_current h b then b
      else if hh_file_transfer h then
        handler_event E h ''file-transfer-connection-type''
          (''secured='' @ dec_bool is_secured @ '';direct='' @ dec_bool direct @ '';stream='' @ stream_type) b
      else
        handler_event E h ''connection-type''
          (''secured='' @ dec_bool is_secured @ ''; direct='' @ dec_bool direct @ ''; stream='' @ stream_type) b)"

text \<open>\<open>make_fd_to_json\<close> of \<open>src/common.rs\<close>.\<close>

definition make_fd_to_json :: "bridge_env \<Rightarrow> int \<Rightarrow> string \<Rightarrow> file_entry list \<Rightarrow> string" where
  "make_fd_to_json E i path entries =
     be_json E (J_object
       [(''id'', J_int i), (''path'', J_string path),
        (''entries'', J_array (map (\<lambda>e. J_object
           [(''entry_type'', J_int (fe_type e)), (''name'', J_string (fe_name e)),
            (''size'', J_int (int (fe_size e))), (''modified_time'', J_int (int (fe_time e)))]) entries))])"

definition handler_update_folder_files ::
    "bridge_env \<Rightarrow> harmony_handler \<Rightarrow> int \<Rightarrow> file_entry list \<Rightarrow> string \<Rightarrow> bool \<Rightarrow> bool \<Rightarrow> bridge \<Rightarrow> bridge" where
  "handler_update_folder_files E h i entries path is_local only_count b =
     (let detail =
            (if only_count then be_json E (J_object
               [(''id'', J_int i), (''path'', J_string path), (''is_local'', J_bool is_local),
                (''only_count'', J_bool only_count), (''count'', J_int (int (length entries))),
                (''total_size'', J_int (int (sum_list (map fe_size entries) mod 2 ^ 64)))])
             else make_fd_to_json E i path entries)
      in handler_event E h ''update-folder-files'' detail (handler_event E h ''folder-files'' detail b))"

definition handler_on_rgba ::
    "bridge_env \<Rightarrow> harmony_handler \<Rightarrow> nat \<Rightarrow> image_rgb \<Rightarrow> bridge \<Rightarrow> bridge" where
  "handler_on_rgba E h display rgba b =
     (if \<not> is_current h b \<or> hh_file_transfer h then b
      else handler_event E h ''video-frame'' ''Remote video frame received''
             (publish_real_video_frame E (as_i32 (int display)) rgba b))"

definition handler_msgbox ::
    "bridge_env \<Rightarrow> harmony_handler \<Rightarrow> string \<Rightarrow> string \<Rightarrow> string \<Rightarrow> string \<Rightarrow> bool \<Rightarrow> bridge \<Rightarrow> bridge" where
  "handler_msgbox E h msgtype title txt link retry b =
     (if \<not> is_current h b then b
      else if hh_file_transfer h then
        handler_event E h ''file-transfer-error'' (be_json E (J_object
          [(''type'', J_string msgtype), (''title'', J_string title), (''text'', J_string txt),
           (''link'', J_string link), (''retry'', J_bool retry)])) b
      else
        let detail = ''type='' @ msgtype @ ''; title='' @ title @ ''; text='' @ txt @ ''; link='' @ link @
              ''; retry='' @ dec_bool retry
        in if msgtype = ''error'' then
             let b = update_connect_state ''error'' (active_peer b) title detail txt b;
                 b = handler_event E h ''session-error'' detail b
             in if retry then handler_event E h ''msgbox'' detail b else b
           else handler_event E h ''msgbox'' detail b)"

definition handler_terminal_response ::
    "bridge_env \<Rightarrow> harmony_handler \<Rightarrow> terminal_response \<Rightarrow> bridge \<Rightarrow> bridge" where
  "handler_terminal_response E h response b =
     (let both = (\<lambda>kind detail. handler_event E h kind detail (handler_event E h ''terminal-response'' detail b))
      in case response of
           Term_opened i success msg pid service_id persistent replay \<Rightarrow>
             both (if success then ''terminal-opened'' else ''terminal-error'') (be_json E (J_object
               [(''type'', J_string ''opened''), (''terminal_id'', J_int i), (''success'', J_bool success),
                (''message'', J_string msg), (''pid'', J_int (int pid)), (''service_id'', J_string service_id),
                (''persistent_sessions'', J_array (map J_int persistent)),
                (''replay_terminal_output'', J_bool replay)]))
         | Term_data i bytes compressed \<Rightarrow>
             both ''terminal-output'' (be_json E (J_object
               [(''type'', J_string ''data''), (''terminal_id'', J_int i),
                (''dataBase64'', J_string (be_base64 E (if compressed then be_decompress E bytes else bytes))),
                (''compressed'', J_bool False)]))
         | Term_closed i exit_code \<Rightarrow>
             both ''terminal-closed'' (be_json E (J_object
               [(''type'', J_string ''closed''), (''terminal_id'', J_int i), (''exit_code'', J_int exit_code)]))
         | Term_error i msg \<Rightarrow>
             both ''terminal-error'' (be_json E (J_object
               [(''type'', J_string ''error''), (''terminal_id'', J_int i), (''message'', J_string msg)]))
         | Term_none \<Rightarrow> b
         | Term_other \<Rightarrow>
             handler_event E h ''terminal-error''
               (''{'' @ json_key ''type'' @ json_quoted ''unknown'' @ ''}'') b)"

fun handler_call :: "bridge_env \<Rightarrow> harmony_handler \<Rightarrow> ui_call \<Rightarrow> bridge \<Rightarrow> bridge" where
  "handler_call E h (Ui_set_cursor_data cd) b = handler_set_cursor_data E h cd b"
| "handler_call E h (Ui_set_cursor_id i) b =
     (if hh_file_transfer h then b else handler_event E h ''cursor_id'' (''id='' @ i) b)"
| "handler_call E h (Ui_set_cursor_position x y) b =
     (if hh_file_transfer h then b
      else handler_event E h ''cursor_position'' (''x='' @ dec_int x @ '';y='' @ dec_int y) b)"
| "handler_call E h (Ui_set_display x y w ht c s) b = handler_set_display E h x y w ht c s b"
| "handler_call E h (Ui_switch_display d) b = handler_switch_display E h d b"
| "handler_call E h (Ui_set_peer_info p) b = handler_set_peer_info E h p b"
| "handler_call E h (Ui_set_displays ds) b =
     (if hh_file_transfer h then b
      else handler_event E h ''displays'' (be_json E (J_array (map json_display ds))) b)"
| "handler_call E h (Ui_set_platform_additions d) b = b"
| "handler_call E h (Ui_on_connected t) b = handler_on_connected E h t b"
| "handler_call E h Ui_update_privacy_mode b = handler_update_privacy_mode E h b"
| "handler_call E h (Ui_set_permission n v) b = b"
| "handler_call E h Ui_close_success b = handler_close_success E h b"
| "handler_call E h (Ui_update_quality_status qs) b = handler_update_quality_status E h qs b"
| "handler_call E h (Ui_set_connection_type s d t) b = handler_set_connection_type E h s d t b"
| "handler_call E h (Ui_set_fingerprint f) b = handler_event E h ''fingerprint'' f b"
| "handler_call E h (Ui_job_error i err n) b =
     handler_event E h ''job-error'' (be_json E (J_object
       [(''id'', J_int i), (''error'', J_string err), (''file_num'', J_int n)])) b"
| "handler_call E h (Ui_job_done i n) b =
     handler_event E h ''job-done'' (be_json E (J_object [(''id'', J_int i), (''file_num'', J_int n)])) b"
| "handler_call E h (Ui_job_progress i n speed finished) b =
     handler_event E h ''job-progress'' (be_json E (J_object
       [(''id'', J_int i), (''file_num'', J_int n), (''speed'', J_float speed),
        (''finished_size'', J_float finished)])) b"
| "handler_call E h Ui_clear_all_jobs b = handler_event E h ''clear-all-jobs'' ''{}'' b"
| "handler_call E h (Ui_new_message m) b = handler_event E h ''chat-message'' m b"
| "handler_call E h Ui_update_transfer_list b = handler_event E h ''update-transfer-list'' ''{}'' b"
| "handler_call E h (Ui_load_last_job cnt job auto_start) b =
     handler_event E h ''load-last-job'' (be_json E (J_object
       [(''cnt'', J_int cnt), (''job'', J_string job), (''auto_start'', J_bool auto_start)])) b"
| "handler_call E h (Ui_update_folder_files i es path is_local only_count) b =
     handler_update_folder_files E h i es path is_local only_count b"
| "handler_call E h (Ui_confirm_delete_files i n name) b =
     handler_event E h ''confirm-delete-files'' (be_json E (J_object
       [(''id'', J_int i), (''index'', J_int n), (''name'', J_string name)])) b"
| "handler_call E h (Ui_override_file_confirm i n to is_upload is_identical) b =
     handler_event E h ''override-file-confirm'' (be_json E (J_object
       [(''id'', J_int i), (''file_num'', J_int n), (''to'', J_string to), (''is_upload'', J_bool is_upload),
        (''is_identical'', J_bool is_identical)])) b"
| "handler_call E h (Ui_update_block_input_state on) b =
     (if hh_file_transfer h then b
      else handler_event E h ''block-input-state'' (if on then ''on=true'' else ''on=false'') b)"
| "handler_call E h Ui_adapt_size b = b"
| "handler_call E h (Ui_on_rgba d rgba) b = handler_on_rgba E h d rgba b"
| "handler_call E h (Ui_msgbox ty title txt link retry) b = handler_msgbox E h ty title txt link retry b"
| "handler_call E h (Ui_cancel_msgbox tag) b = handler_event E h ''cancel-msgbox'' tag b"
| "handler_call E h (Ui_switch_back i) b = b"
| "handler_call E h (Ui_portable_service_running r) b = b"
| "handler_call E h Ui_on_voice_call_started b = handler_event E h ''voice-call-started'' [] b"
| "handler_call E h (Ui_on_voice_call_closed r) b = handler_event E h ''voice-call-closed'' r b"
| "handler_call E h Ui_on_voice_call_waiting b = handler_event E h ''voice-call-waiting'' [] b"
| "handler_call E h Ui_on_voice_call_incoming b = handler_event E h ''voice-call-incoming'' [] b"
| "handler_call E h (Ui_next_rgba d) b = b"
| "handler_call E h (Ui_set_multiple_windows_session ss) b = b"
| "handler_call E h (Ui_set_current_display d) b =
     (if hh_file_transfer h then b else handler_event E h ''current-display'' (''display='' @ dec_int d) b)"
| "handler_call E h (Ui_update_record_status start) b =
     handler_event E h ''record-status'' (if start then ''start=true'' else ''start=false'') b"
| "handler_call E h (Ui_printer_request i path) b = b"
| "handler_call E h (Ui_handle_screenshot_resp sid msg) b =
     handler_event E h ''screenshot-response'' (''sid='' @ sid @ '';msg='' @ msg) b"
| "handler_call E h (Ui_handle_terminal_response r) b = handler_terminal_response E h r b"

section \<open>Running a session operation\<close>

definition deliver :: "bridge_env \<Rightarrow> harmony_handler \<Rightarrow> ui_call list \<Rightarrow> bridge \<Rightarrow> bridge" where
  "deliver E h calls b = fold (handler_call E h) calls b"

definition run_session :: "bridge_env \<Rightarrow> bool \<Rightarrow> (session \<Rightarrow> session) \<Rightarrow> bridge \<Rightarrow> bridge" where
  "run_session E file f b =
     (case get_session file b of
        None \<Rightarrow> b
      | Some (h, s) \<Rightarrow>
          (let s = f (with_files b s)
           in deliver E h (s_ui s) (put_session file (h, s\<lparr>s_ui := []\<rparr>) b)))"

abbreviation on_active :: "bridge_env \<Rightarrow> (session \<Rightarrow> session) \<Rightarrow> bridge \<Rightarrow> bridge" where
  "on_active E \<equiv> run_session E False"

abbreviation on_file :: "bridge_env \<Rightarrow> (session \<Rightarrow> session) \<Rightarrow> bridge \<Rightarrow> bridge" where
  "on_file E \<equiv> run_session E True"

end
