(* ===== verification/HarmonyBridge.thy ===== *)
theory HarmonyBridge
  imports HarmonyHandler
begin

text \<open>
  What the application calls: sessions, input, options, files and settings of
  \<open>src/harmony_bridge/core.rs\<close>. An operation of the code that needs a session and finds none returns
  without effect, or with the event it queues; \<open>io_loop\<close> threads started are counted by the round in the
  session's \<open>s_spawned\<close>. Functions the file leaves empty for the HarmonyOS build are not listed.
\<close>

section \<open>Options of a session\<close>

definition no_session :: "bridge_env \<Rightarrow> string \<Rightarrow> bridge \<Rightarrow> bridge" where
  "no_session E command = queue_event E ''session-command'' (''failed=no-active-session; command='' @ command) []"

abbreviation event :: "bridge_env \<Rightarrow> string \<Rightarrow> string \<Rightarrow> bridge \<Rightarrow> bridge" where
  "event E kind detail b \<equiv> queue_event E kind detail (active_peer b) b"

definition set_session_toggle :: "client_env \<Rightarrow> string \<Rightarrow> bool \<Rightarrow> session \<Rightarrow> session" where
  "set_session_toggle e key enabled s =
     (if get_toggle_option (s_lc s) key \<noteq> enabled then ss_toggle_option e key s else s)"

definition normalize_image_quality :: "string \<Rightarrow> string" where
  "normalize_image_quality v = (if v = ''speed'' then ''low'' else v)"

definition is_supported_image_quality :: "string \<Rightarrow> bool" where
  "is_supported_image_quality v \<longleftrightarrow> v = ''best'' \<or> v = ''balanced'' \<or> v = ''low'' \<or> v = ''custom''"

text \<open>One saved default, put into a new session.\<close>

definition apply_default_option :: "client_env \<Rightarrow> (string \<Rightarrow> string) \<Rightarrow> string \<Rightarrow> session \<Rightarrow> session" where
  "apply_default_option e saved k s =
     (let v = saved k in
      if v = [] then s
      else if k \<in> set WIRE_TOGGLE_OPTIONS then set_session_toggle e k (option_is_enabled v) s
      else if k = ''image-quality'' then
        (let q = normalize_image_quality v
         in if is_supported_image_quality q then ss_save_image_quality e q s else s)
      else if k = ''custom-image-quality'' then
        (case parse_i32 v of Some n \<Rightarrow> ss_save_custom_image_quality e n s | None \<Rightarrow> s)
      else if k = ''custom-fps'' then
        (case parse_i32 v of Some n \<Rightarrow> ss_set_custom_fps e n s | None \<Rightarrow> s)
      else if k = ''keyboard-mode'' then ss_save_keyboard_mode e v s
      else ss_set_option e k v s)"

text \<open>\<open>session_get_toggle_option\<close>.\<close>

definition session_get_toggle_option :: "string \<Rightarrow> bridge \<Rightarrow> bool" where
  "session_get_toggle_option k b =
     (case b_active b of
        Some (_, s) \<Rightarrow> get_toggle_option (s_lc s) k
      | None \<Rightarrow> option_is_enabled (main_get_local_option b k))"

text \<open>The branches of \<open>apply_session_option\<close>: the bridge afterwards, and whether the option was applied.\<close>

definition apply_codec_preference :: "bridge_env \<Rightarrow> string \<Rightarrow> session \<Rightarrow> bridge \<Rightarrow> bridge \<times> bool" where
  "apply_codec_preference E v s b =
     (let (vp8, av1, h264, h265) = alternative_codecs (env_of E b) s;
          supported = (if v = ''auto'' \<or> v = ''vp9'' then True else if v = ''vp8'' then vp8
                       else if v = ''av1'' then av1 else if v = ''h264'' then h264
                       else if v = ''h265'' then h265 else False)
      in if \<not> supported then (b, False)
         else
           let b = main_set_local_option ''codec-preference'' v b;
               b = on_active E (ss_set_option (env_of E b) ''codec-preference'' v) b;
               b = on_active E (ss_update_supported_decodings (env_of E b)) b;
               stored = (case b_active b of
                   Some (_, s) \<Rightarrow> ss_get_option (env_of E b) ''codec-preference'' s | None \<Rightarrow> [])
           in (event E ''codec-preference''
                 (''requested='' @ v @ '';stored='' @ stored @ '';vp8='' @ dec_bool vp8 @ '';av1='' @ dec_bool av1 @
                  '';h264='' @ dec_bool h264 @ '';h265='' @ dec_bool h265) b, True))"

definition apply_option_to :: "bridge_env \<Rightarrow> string \<Rightarrow> string \<Rightarrow> session \<Rightarrow> bridge \<Rightarrow> bridge \<times> bool" where
  "apply_option_to E k v s b =
     (let e = env_of E b in
      if k = ''image-quality'' then
        (let q = normalize_image_quality v
         in if is_supported_image_quality q then (on_active E (ss_save_image_quality e q) b, True) else (b, False))
      else if k = ''custom-image-quality'' then
        (case parse_i32 v of
           Some n \<Rightarrow> (on_active E (ss_save_custom_image_quality e n) b, True) | None \<Rightarrow> (b, False))
      else if k = ''custom-fps'' then
        (case parse_i32 v of Some n \<Rightarrow> (on_active E (ss_set_custom_fps e n) b, True) | None \<Rightarrow> (b, False))
      else if k = ''keyboard-mode'' then
        (if ss_is_keyboard_mode_supported v s then (on_active E (ss_save_keyboard_mode e v) b, True)
         else (b, False))
      else if k = ''codec-preference'' then apply_codec_preference E v s b
      else if k = ''block-input'' then
        (on_active E (ss_toggle_option e (if option_is_enabled v then ''block-input'' else ''unblock-input'')) b,
         True)
      else if k = ''privacy-mode'' then
        (if is_privacy_mode_supported (s_lc s) then
           (if get_toggle_option (s_lc s) k \<noteq> option_is_enabled v
            then on_active E (toggle_privacy_mode [] (option_is_enabled v)) b else b, True)
         else (b, False))
      else if k = ''record-session'' then (on_active E (record_screen (option_is_enabled v)) b, True)
      else if k = ''take-screenshot'' then
        (on_active E (take_screenshot 0 (''harmony-'' @ dec_int (be_now E))) b, True)
      else if k = ''switch-sides'' then (b, True)
      else if k = ''session-action'' then (b, False)
      else if k \<in> set WIRE_TOGGLE_OPTIONS then
        (on_active E (set_session_toggle e k (option_is_enabled v)) b, True)
      else (on_active E (ss_set_option e k v) b, True))"

definition apply_session_option :: "bridge_env \<Rightarrow> string \<Rightarrow> string \<Rightarrow> bridge \<Rightarrow> bool \<times> bridge" where
  "apply_session_option E k v b =
     (case b_active b of
        None \<Rightarrow>
          (False, queue_event E ''session-option'' (''queued-locally;key='' @ k @ '';value='' @ v) []
                    (main_set_local_option k v b))
      | Some (_, s) \<Rightarrow>
          (let before = get_toggle_option (s_lc s) k;
               (b, applied) = apply_option_to E k v s b;
               b = (if applied then
                      event E ''session-option'' (''key='' @ k @ '';value='' @ v) (main_set_local_option k v b)
                    else event E ''session-option'' (''failed=unsupported;key='' @ k @ '';value='' @ v) b);
               b = (if k = ''disable-clipboard'' then
                      event E ''clipboard-state-diag''
                        (''phase=apply;requested='' @ v @ '';before='' @ dec_bool before @ '';after='' @
                         dec_bool (session_get_toggle_option k b) @ '';applied='' @ dec_bool applied) b
                    else b)
           in (applied, b)))"

section \<open>Starting and closing\<close>

definition default_session :: "bridge_env \<Rightarrow> bridge \<Rightarrow> session" where
  "default_session E b =
     (let e = env_of E b in
      \<lparr>s_client = blank_client\<lparr>cl_lc := (cl_lc blank_client)
          \<lparr>l_config := peer_config_default (ce_parse_f64 e) (ce_user_default e)\<rparr>, cl_peers := b_peers b\<rparr>,
       s_sender = False, s_outbox = [], s_ui = [], s_thread = False, s_spawned = [],
       s_keyboard_enabled = False, s_file_enabled = False, s_clipboard_enabled = False,
       s_last_change = default_change_record (be_now E), s_round = default_round,
       s_printer_names = Map.empty, s_reconnect_count = 0, s_last_audit_note = [], s_audit_guid = [],
       s_password = []\<rparr>)"

text \<open>\<open>new_round\<close> and the thread that runs \<open>io_loop\<close> for it.\<close>

definition spawn_round :: "session \<Rightarrow> session" where
  "spawn_round s =
     (let r = new_round (s_round s) in s\<lparr>s_round := r, s_spawned := s_spawned s @ [rs_round r]\<rparr>)"

text \<open>Its first step: \<open>io_loop\<close> opens the channel.\<close>

definition io_loop_started :: "session \<Rightarrow> session" where
  "io_loop_started s = s\<lparr>s_sender := True\<rparr>"

definition close_file_transfer_session :: "bridge_env \<Rightarrow> bridge \<Rightarrow> bridge" where
  "close_file_transfer_session E b =
     (let b = b\<lparr>b_file_generation := b_file_generation b + 1\<rparr>;
          b = on_file E (send Close) b
      in b\<lparr>b_file := None, b_pending := None\<rparr>)"

text \<open>\<open>PeerConfig::load\<close>, as the settings functions use it.\<close>

definition bridge_load_peer :: "bridge_env \<Rightarrow> bridge \<Rightarrow> string \<Rightarrow> peer_config" where
  "bridge_load_peer E b i =
     (let e = env_of E b in
      case b_peers b i of
        None \<Rightarrow> peer_config_default (ce_parse_f64 e) (ce_user_default e)
      | Some file \<Rightarrow> validate_peer (ce_parse_f64 e) (ce_user_default e) file)"

definition main_forget_password :: "bridge_env \<Rightarrow> string \<Rightarrow> bridge \<Rightarrow> bridge" where
  "main_forget_password E i b =
     b\<lparr>b_peers := (b_peers b)(i \<mapsto> (bridge_load_peer E b i)\<lparr>p_password := []\<rparr>)\<rparr>"

definition session_start ::
    "bridge_env \<Rightarrow> string \<Rightarrow> string \<Rightarrow> string \<Rightarrow> string \<Rightarrow> string \<Rightarrow> string \<Rightarrow> bridge \<Rightarrow> bridge" where
  "session_start E peer_id password srv relay_server api_server key b =
     (let b = close_file_transfer_session E b;
          generation = b_generation b + 1;
          b = b\<lparr>b_generation := generation, b_password := password\<rparr>;
          b = (clear_connect_events b)\<lparr>b_video := None\<rparr>;
          b = apply_server_options srv relay_server api_server key b;
          b = main_forget_password E peer_id b;
          b = update_connect_state ''connecting'' peer_id (''Connecting to '' @ peer_id)
                ''Connecting to remote peer'' [] b;
          b = queue_event E ''connecting''
                (''Connecting to '' @ peer_id @ ''; server='' @ srv @ ''; relay='' @ relay_server @
                 ''; api='' @ api_server) peer_id b;
          conn = (if main_get_local_option b ''harmony-session-type'' = ''terminal'' then TERMINAL
                  else DEFAULT_CONN);
          b = queue_event E ''session-type-diag'' (''connType='' @ conn_type_debug conn) peer_id b;
          e = env_of E b;
          s = (default_session E b)\<lparr>s_password := password, s_keyboard_enabled := True,
                 s_file_enabled := True, s_clipboard_enabled := True\<rparr>;
          s = on_client (initialize e (be_session_id E) peer_id conn None False None None None) s;
          s = fold (apply_default_option e (main_get_local_option b)) HARMONY_SESSION_DEFAULT_OPTIONS s;
          s = spawn_round s
      in put_session False (\<lparr>hh_generation = generation, hh_file_transfer = False\<rparr>, s) b)"

definition start_file_transfer_session :: "bridge_env \<Rightarrow> string \<Rightarrow> bool \<Rightarrow> bridge \<Rightarrow> bool \<times> bridge" where
  "start_file_transfer_session E path include_hidden b =
     (let peer_id = active_peer b in
      if str_trim peer_id = [] \<or> b_active b = None then
        (False, queue_event E ''file-transfer-error'' ''No active remote-control session'' peer_id b)
      else
        let path = str_trim path; b = b\<lparr>b_pending := Some (path, include_hidden)\<rparr>
        in if b_file b \<noteq> None then (True, on_file E (read_remote_dir path include_hidden) b)
           else
             let generation = b_file_generation b + 1;
                 b = b\<lparr>b_file_generation := generation\<rparr>;
                 s = (default_session E b)\<lparr>s_password := b_password b, s_file_enabled := True\<rparr>;
                 s = on_client (initialize (env_of E b) (be_session_id E) peer_id FILE_TRANSFER None False
                       None None None) s;
                 b = put_session True (\<lparr>hh_generation = generation, hh_file_transfer = True\<rparr>, spawn_round s) b
             in (True, queue_event E ''file-transfer-connecting'' (be_json E (J_object
                   [(''path'', J_string path), (''includeHidden'', J_bool include_hidden)])) peer_id b))"

definition session_close :: "bridge_env \<Rightarrow> bridge \<Rightarrow> bridge" where
  "session_close E b =
     (let b = b\<lparr>b_generation := b_generation b + 1\<rparr>;
          b = (close_file_transfer_session E b)\<lparr>b_password := []\<rparr>;
          peer_id = active_peer b;
          b = (on_active E (send Close) b)\<lparr>b_active := None\<rparr>;
          b = update_connect_state ''idle'' [] ''Session closed'' ''Session closed by user'' [] b
      in queue_event E ''session-closed'' ''Session closed by user'' peer_id b)"

definition session_reconnect :: "bridge_env \<Rightarrow> bool \<Rightarrow> bridge \<Rightarrow> bool \<times> bridge" where
  "session_reconnect E force_relay b =
     (let peer_id = active_peer b in
      if b_active b = None \<or> str_trim peer_id = [] then (False, b)
      else
        let detail = (if force_relay then ''Reconnecting through relay'' else ''Retrying connection'');
            b = update_connect_state ''connecting'' peer_id ''Connecting'' detail [] (b\<lparr>b_video := None\<rparr>);
            b = queue_event E (if force_relay then ''reconnect-relay'' else ''reconnect'') detail peer_id b
        in (True, on_active E (ss_reconnect force_relay) b))"

definition session_login :: "bridge_env \<Rightarrow> string \<Rightarrow> bool \<Rightarrow> bridge \<Rightarrow> bool \<times> bridge" where
  "session_login E password remember b =
     (let peer_id = active_peer b in
      if peer_id = [] \<or> password = [] then (False, b)
      else
        let b = update_connect_state ''login'' peer_id ''Password submitted; logging in''
              ''Password submitted; logging in'' [] b;
            b = queue_event E ''login'' ''Password submitted; logging in'' peer_id b
        in if b_active b = None then (False, b)
           else (True, on_active E (send (Login [] [] password remember)) (b\<lparr>b_password := password\<rparr>)))"

definition mark_session_error :: "bridge_env \<Rightarrow> string \<Rightarrow> bridge \<Rightarrow> bridge" where
  "mark_session_error E msg b =
     (let peer_id = active_peer b
      in queue_event E ''session-error'' msg peer_id (update_connect_state ''error'' peer_id msg msg msg b))"

definition peer_info_detail :: "bridge_env \<Rightarrow> bridge \<Rightarrow> string \<Rightarrow> string" where
  "peer_info_detail E b peer_id =
     (let cfg = bridge_load_peer E b peer_id; info = p_info cfg;
          alias = unwrap_or_default (p_options cfg ''alias'')
      in ''Session connected; hostname='' @ pi_hostname info @ ''; username='' @ pi_username info @
         ''; platform='' @ (if str_trim (pi_platform info) = [] then ''RustDesk'' else pi_platform info) @
         ''; alias='' @ alias)"

definition mark_session_connected :: "bridge_env \<Rightarrow> string \<Rightarrow> bridge \<Rightarrow> bridge" where
  "mark_session_connected E peer_id b =
     (let detail = peer_info_detail E b peer_id;
          b = update_connect_state ''connected'' peer_id ''Connected'' detail [] b;
          b = queue_event E ''session-connected'' detail peer_id b;
          b = queue_event E ''peer-info'' detail peer_id b
      in queue_event E ''clipboard-state-diag''
           (''phase=connected;disabled='' @ dec_bool (session_get_toggle_option ''disable-clipboard'' b)) peer_id b)"

end
