(* ===== verification/HarmonyCommands.thy ===== *)
theory HarmonyCommands
  imports HarmonyBridge
begin

text \<open>
  The commands of the application, one function of \<open>src/harmony_bridge/core.rs\<close> each: input, display,
  terminal, files, and the settings that need no session.
\<close>

section \<open>Input\<close>

definition command :: "bridge_env \<Rightarrow> string \<Rightarrow> string \<Rightarrow> (session \<Rightarrow> session) \<Rightarrow> bridge \<Rightarrow> bool \<times> bridge" where
  "command E name detail f b =
     (if b_active b = None then (False, no_session E name b)
      else (True, event E ''session-command'' (''command='' @ detail) (on_active E f b)))"

definition session_send_mouse :: "bridge_env \<Rightarrow> int \<Rightarrow> int \<Rightarrow> int \<Rightarrow> bridge \<Rightarrow> bool \<times> bridge" where
  "session_send_mouse E bits x y b =
     (if b_active b = None then (False, queue_event E ''mouse-input'' ''failed=no-active-session'' [] b)
      else (True, event E ''mouse-input''
              (''mask='' @ dec_int bits @ '';x='' @ dec_int x @ '';y='' @ dec_int y)
              (on_active E (ss_send_mouse bits x y False False False False) b)))"

definition key_names :: "(int \<times> string) list" where
  "key_names =
     [(8, ''VK_BACK''), (9, ''VK_TAB''), (13, ''VK_RETURN''), (16, ''VK_SHIFT''), (17, ''VK_CONTROL''),
      (18, ''VK_MENU''), (20, ''VK_CAPITAL''), (27, ''VK_ESCAPE''), (32, ''VK_SPACE''), (33, ''VK_PRIOR''),
      (34, ''VK_NEXT''), (35, ''VK_END''), (36, ''VK_HOME''), (37, ''VK_LEFT''), (38, ''VK_UP''),
      (39, ''VK_RIGHT''), (40, ''VK_DOWN''), (44, ''VK_SNAPSHOT''), (45, ''VK_INSERT''), (46, ''VK_DELETE''),
      (91, ''Meta''), (92, ''RWin''), (93, ''Apps''), (112, ''VK_F1''), (113, ''VK_F2''), (114, ''VK_F3''),
      (115, ''VK_F4''), (116, ''VK_F5''), (117, ''VK_F6''), (118, ''VK_F7''), (119, ''VK_F8''),
      (120, ''VK_F9''), (121, ''VK_F10''), (122, ''VK_F11''), (123, ''VK_F12'')]"

definition key_code_to_official_key_name :: "int \<Rightarrow> string option" where
  "key_code_to_official_key_name key_code =
     (case map_of key_names key_code of
        Some name \<Rightarrow> Some name
      | None \<Rightarrow>
          if 48 \<le> key_code \<and> key_code \<le> 57 then Some (''VK_'' @ [char_of (nat key_code)])
          else if 65 \<le> key_code \<and> key_code \<le> 90 then Some (''VK_'' @ [char_of (nat key_code)])
          else if 32 \<le> key_code \<and> key_code \<le> 126 then Some [char_of (nat key_code)]
          else None)"

text \<open>A capital letter under shift is sent as its character.\<close>

definition upper_case_event :: "int \<Rightarrow> bool \<Rightarrow> key_event" where
  "upper_case_event key_code is_pressed =
     key_event_new\<lparr>ke_union := KU_Chr (nat key_code), ke_down := is_pressed, ke_mode := KM_Legacy\<rparr>"

definition session_input_key :: "bridge_env \<Rightarrow> int \<Rightarrow> bool \<Rightarrow> int \<Rightarrow> bridge \<Rightarrow> bool \<times> bridge" where
  "session_input_key E key_code is_pressed modifiers b =
     (let keys = ''key='' @ dec_int key_code; down = '';down='' @ dec_bool is_pressed in
      if b_active b = None then
        (False, queue_event E ''keyboard-input'' (''failed=no-active-session;'' @ keys @ down) [] b)
      else
        let ctrl = bit modifiers 0; alt = bit modifiers 1; shift = bit modifiers 2; meta = bit modifiers 3 in
        if shift \<and> 65 \<le> key_code \<and> key_code \<le> 90 then
          (True, event E ''keyboard-input''
             (keys @ '';chr='' @ [char_of (nat key_code)] @ down @ '';shift=uppercase'')
             (on_active E (send_key_event (be_keys E) (upper_case_event key_code is_pressed)) b))
        else
          (case key_code_to_official_key_name key_code of
             None \<Rightarrow> (False, event E ''keyboard-input'' (''failed=unsupported-key;'' @ keys @ down) b)
           | Some name \<Rightarrow>
               (True, event E ''keyboard-input''
                  (keys @ '';name='' @ name @ down @ '';modifiers='' @ dec_int modifiers)
                  (on_active E (input_key (be_keys E) name is_pressed False alt ctrl shift meta) b))))"

definition session_ctrl_alt_del :: "bridge_env \<Rightarrow> bridge \<Rightarrow> bool \<times> bridge" where
  "session_ctrl_alt_del E b =
     (if b_active b = None then
        (False, queue_event E ''keyboard-input'' ''failed=no-active-session; command=ctrl-alt-del'' [] b)
      else (True, event E ''keyboard-input'' ''command=ctrl-alt-del'' (on_active E (ctrl_alt_del (be_keys E)) b)))"

definition send_clipboard_data :: "bridge_env \<Rightarrow> string \<Rightarrow> bridge \<Rightarrow> bool \<times> bridge" where
  "send_clipboard_data E content b =
     (b_active b \<noteq> None, on_active E (send (Message (Msg_clipboard content))) b)"

definition send_video_frame_metadata ::
    "bridge_env \<Rightarrow> int \<Rightarrow> int \<Rightarrow> int \<Rightarrow> int \<Rightarrow> bool \<Rightarrow> int \<Rightarrow> bridge \<Rightarrow> bool \<times> bridge" where
  "send_video_frame_metadata E codec width height timestamp key_frame data_length b =
     (if width \<le> 0 \<or> height \<le> 0 \<or> data_length \<le> 0 then (False, b)
      else (True, queue_event E ''incoming-video-frame-metadata''
        (''codec='' @ dec_int codec @ '';width='' @ dec_int width @ '';height='' @ dec_int height @
         '';timestamp='' @ dec_int timestamp @ '';keyFrame='' @ (if key_frame then ''1'' else ''0'') @
         '';bytes='' @ dec_int data_length) [] b))"

definition session_send_chat :: "bridge_env \<Rightarrow> string \<Rightarrow> bridge \<Rightarrow> bool \<times> bridge" where
  "session_send_chat E content b =
     (let normalized = str_trim content in
      if normalized = [] then (False, event E ''chat-error'' ''failed=empty-content'' b)
      else if b_active b = None then (False, queue_event E ''chat-error'' ''failed=no-active-session'' [] b)
      else (True, event E ''chat-sent'' normalized (on_active E (send_chat normalized) b)))"

definition send_file_transfer_request ::
    "bridge_env \<Rightarrow> string \<Rightarrow> string \<Rightarrow> int \<Rightarrow> string \<Rightarrow> bridge \<Rightarrow> bool \<times> bridge" where
  "send_file_transfer_request E task_id file_name total_bytes direction b =
     (b_active b \<noteq> None,
      event E ''file-transfer-request'' (be_json E (J_object
        [(''taskId'', J_string task_id), (''fileName'', J_string file_name),
         (''totalBytes'', J_int total_bytes), (''direction'', J_string direction)])) b)"

section \<open>Session commands\<close>

definition refresh_session_video :: "bridge_env \<Rightarrow> int \<Rightarrow> bridge \<Rightarrow> bool \<times> bridge" where
  "refresh_session_video E display b =
     (if b_active b = None then (False, b)
      else
        let display = max 0 display
        in (True, event E ''video-refresh-requested'' (''display='' @ dec_int display)
              (on_active E (refresh_video display \<circ> request_init_msgs (nat display)) b)))"

definition session_restart_remote_device :: "bridge_env \<Rightarrow> bridge \<Rightarrow> bool \<times> bridge" where
  "session_restart_remote_device E = command E ''restart'' ''restart'' ss_restart_remote_device"

definition session_lock_screen :: "bridge_env \<Rightarrow> bridge \<Rightarrow> bool \<times> bridge" where
  "session_lock_screen E = command E ''lock-screen'' ''lock-screen'' (lock_screen (be_keys E))"

definition session_send2fa :: "bridge_env \<Rightarrow> string \<Rightarrow> bool \<Rightarrow> bridge \<Rightarrow> bool \<times> bridge" where
  "session_send2fa E code trust b =
     command E ''send2fa'' ''send2fa'' (send2fa (env_of E b) code trust) b"

definition session_toggle_option :: "bridge_env \<Rightarrow> string \<Rightarrow> bridge \<Rightarrow> bridge" where
  "session_toggle_option E name b =
     (if b_active b = None then b
      else event E ''session-option'' (''toggle;key='' @ name) (on_active E (ss_toggle_option (env_of E b) name) b))"

definition session_toggle_privacy_mode :: "bridge_env \<Rightarrow> string \<Rightarrow> bool \<Rightarrow> bridge \<Rightarrow> bool \<times> bridge" where
  "session_toggle_privacy_mode E impl_key on =
     command E ''toggle-privacy-mode'' (''toggle-privacy-mode;on='' @ dec_bool on) (toggle_privacy_mode impl_key on)"

definition session_switch_display :: "bridge_env \<Rightarrow> int \<Rightarrow> bridge \<Rightarrow> bool \<times> bridge" where
  "session_switch_display E display =
     command E ''switch-display'' (''switch-display;display='' @ dec_int display) (ss_switch_display display)"

text \<open>Grabbing the keyboard does nothing in this build.\<close>

definition session_enter_or_leave :: "bridge_env \<Rightarrow> bridge \<Rightarrow> bool \<times> bridge" where
  "session_enter_or_leave E = command E ''enter-or-leave'' ''enter-or-leave'' (\<lambda>s. s)"

definition session_leave :: "bridge_env \<Rightarrow> bridge \<Rightarrow> bool \<times> bridge" where
  "session_leave E = command E ''leave'' ''leave'' (\<lambda>s. s)"

definition session_change_resolution :: "bridge_env \<Rightarrow> int \<Rightarrow> int \<Rightarrow> int \<Rightarrow> bridge \<Rightarrow> bridge" where
  "session_change_resolution E display width height =
     on_active E (change_resolution (be_now E) display width height)"

definition session_elevate_direct :: "bridge_env \<Rightarrow> bridge \<Rightarrow> bridge" where
  "session_elevate_direct E = on_active E elevate_direct"

definition session_elevate_with_logon :: "bridge_env \<Rightarrow> string \<Rightarrow> string \<Rightarrow> bridge \<Rightarrow> bridge" where
  "session_elevate_with_logon E username password = on_active E (elevate_with_logon username password)"

definition session_switch_sides :: "bridge_env \<Rightarrow> bridge \<Rightarrow> bool \<times> bridge" where
  "session_switch_sides E = command E ''switch-sides'' ''switch-sides'' (\<lambda>s. s)"

definition session_take_screenshot :: "bridge_env \<Rightarrow> nat \<Rightarrow> bridge \<Rightarrow> bool \<times> bridge" where
  "session_take_screenshot E display b =
     (if b_active b = None then (False, b)
      else (True, event E ''session-command'' ''command=take-screenshot''
              (on_active E (take_screenshot (as_i32 (int display)) (''harmony-'' @ dec_int (be_now E))) b)))"

definition session_record_screen :: "bridge_env \<Rightarrow> bool \<Rightarrow> bridge \<Rightarrow> bool \<times> bridge" where
  "session_record_screen E start =
     command E ''record-screen'' (''record-screen;start='' @ dec_bool start) (record_screen start)"

definition session_request_voice_call :: "bridge_env \<Rightarrow> bridge \<Rightarrow> bool \<times> bridge" where
  "session_request_voice_call E = command E ''request-voice-call'' ''request-voice-call'' request_voice_call"

definition session_close_voice_call :: "bridge_env \<Rightarrow> bridge \<Rightarrow> bool \<times> bridge" where
  "session_close_voice_call E = command E ''close-voice-call'' ''close-voice-call'' close_voice_call"

definition session_add_port_forward :: "bridge_env \<Rightarrow> int \<Rightarrow> string \<Rightarrow> int \<Rightarrow> bridge \<Rightarrow> bridge" where
  "session_add_port_forward E local_port remote_host remote_port b =
     on_active E (add_port_forward (env_of E b) local_port remote_host remote_port) b"

definition session_remove_port_forward :: "bridge_env \<Rightarrow> int \<Rightarrow> bridge \<Rightarrow> bridge" where
  "session_remove_port_forward E local_port b = on_active E (remove_port_forward (env_of E b) local_port) b"

definition session_new_rdp :: "bridge_env \<Rightarrow> bridge \<Rightarrow> bridge" where
  "session_new_rdp E = on_active E new_rdp"

definition session_input_string :: "bridge_env \<Rightarrow> string \<Rightarrow> bridge \<Rightarrow> bridge" where
  "session_input_string E v = on_active E (input_string v)"

definition session_input_os_password :: "bridge_env \<Rightarrow> string \<Rightarrow> bridge \<Rightarrow> bridge" where
  "session_input_os_password E pass = on_active E (ss_input_os_password pass True)"

definition session_load_last_transfer_jobs :: "bridge_env \<Rightarrow> bridge \<Rightarrow> bridge" where
  "session_load_last_transfer_jobs E b = on_active E (load_last_jobs (env_of E b)) b"

definition session_send_selected_session_id :: "bridge_env \<Rightarrow> string \<Rightarrow> bridge \<Rightarrow> bridge" where
  "session_send_selected_session_id E sid b = on_active E (send_selected_session_id (env_of E b) sid) b"

definition session_send_touch_scale ::
    "bridge_env \<Rightarrow> int \<Rightarrow> bool \<Rightarrow> bool \<Rightarrow> bool \<Rightarrow> bool \<Rightarrow> bridge \<Rightarrow> bridge" where
  "session_send_touch_scale E scale alt ctrl shift meta =
     on_active E (send_touch_scale scale alt ctrl shift meta)"

definition session_send_touch_pan_event ::
    "bridge_env \<Rightarrow> string \<Rightarrow> int \<Rightarrow> int \<Rightarrow> bool \<Rightarrow> bool \<Rightarrow> bool \<Rightarrow> bool \<Rightarrow> bridge \<Rightarrow> bridge" where
  "session_send_touch_pan_event E ev x y alt ctrl shift meta =
     on_active E (send_touch_pan_event ev x y alt ctrl shift meta)"

definition session_toggle_virtual_display :: "bridge_env \<Rightarrow> int \<Rightarrow> bool \<Rightarrow> bridge \<Rightarrow> bridge" where
  "session_toggle_virtual_display E index on = on_active E (toggle_virtual_display index on)"

definition session_refresh :: "bridge_env \<Rightarrow> bridge \<Rightarrow> bridge" where
  "session_refresh E = on_active E (refresh_video 0)"

section \<open>Session settings\<close>

definition read_active :: "'a \<Rightarrow> (session \<Rightarrow> 'a) \<Rightarrow> bridge \<Rightarrow> 'a" where
  "read_active v f b = (case b_active b of Some (_, s) \<Rightarrow> f (with_files b s) | None \<Rightarrow> v)"

definition session_set_view_style :: "bridge_env \<Rightarrow> string \<Rightarrow> bridge \<Rightarrow> bridge" where
  "session_set_view_style E v b = on_active E (ss_save_view_style (env_of E b) v) b"

definition session_set_scroll_style :: "bridge_env \<Rightarrow> string \<Rightarrow> bridge \<Rightarrow> bridge" where
  "session_set_scroll_style E v b = on_active E (ss_save_scroll_style (env_of E b) v) b"

definition session_set_image_quality :: "bridge_env \<Rightarrow> string \<Rightarrow> bridge \<Rightarrow> bridge" where
  "session_set_image_quality E v b = on_active E (ss_save_image_quality (env_of E b) v) b"

definition session_set_keyboard_mode :: "bridge_env \<Rightarrow> string \<Rightarrow> bridge \<Rightarrow> bridge" where
  "session_set_keyboard_mode E v b = on_active E (ss_save_keyboard_mode (env_of E b) v) b"

definition session_set_custom_image_quality :: "bridge_env \<Rightarrow> int \<Rightarrow> bridge \<Rightarrow> bridge" where
  "session_set_custom_image_quality E v b = on_active E (ss_save_custom_image_quality (env_of E b) v) b"

definition session_set_custom_fps :: "bridge_env \<Rightarrow> int \<Rightarrow> bridge \<Rightarrow> bridge" where
  "session_set_custom_fps E v b = on_active E (ss_set_custom_fps (env_of E b) v) b"

definition session_set_trackpad_speed :: "bridge_env \<Rightarrow> int \<Rightarrow> bridge \<Rightarrow> bridge" where
  "session_set_trackpad_speed E v b = on_active E (ss_save_trackpad_speed (env_of E b) v) b"

definition session_set_flutter_option :: "bridge_env \<Rightarrow> string \<Rightarrow> string \<Rightarrow> bridge \<Rightarrow> bridge" where
  "session_set_flutter_option E k v b = on_active E (save_flutter_option (env_of E b) k v) b"

definition session_set_reverse_mouse_wheel :: "bridge_env \<Rightarrow> string \<Rightarrow> bridge \<Rightarrow> bridge" where
  "session_set_reverse_mouse_wheel E v b = on_active E (ss_save_reverse_mouse_wheel (env_of E b) v) b"

definition session_set_option :: "bridge_env \<Rightarrow> string \<Rightarrow> string \<Rightarrow> bridge \<Rightarrow> bridge" where
  "session_set_option E k v b = on_active E (ss_set_option (env_of E b) k v) b"

definition session_get_option :: "bridge_env \<Rightarrow> string \<Rightarrow> bridge \<Rightarrow> string" where
  "session_get_option E k b = read_active [] (ss_get_option (env_of E b) k) b"

definition session_get_image_quality :: "bridge \<Rightarrow> string" where
  "session_get_image_quality = read_active [] ss_get_image_quality"

definition session_get_keyboard_mode :: "bridge \<Rightarrow> string" where
  "session_get_keyboard_mode = read_active [] ss_get_keyboard_mode"

definition session_get_view_style :: "bridge \<Rightarrow> string" where
  "session_get_view_style = read_active [] ss_get_view_style"

definition session_get_scroll_style :: "bridge \<Rightarrow> string" where
  "session_get_scroll_style = read_active [] ss_get_scroll_style"

definition session_get_trackpad_speed :: "bridge \<Rightarrow> int" where
  "session_get_trackpad_speed = read_active 0 ss_get_trackpad_speed"

definition session_is_keyboard_mode_supported :: "string \<Rightarrow> bridge \<Rightarrow> bool" where
  "session_is_keyboard_mode_supported m = read_active False (ss_is_keyboard_mode_supported m)"

definition session_get_is_recording :: "bridge \<Rightarrow> bool" where
  "session_get_is_recording = read_active False is_recording"

definition session_get_alternative_codecs :: "bridge_env \<Rightarrow> bridge \<Rightarrow> string" where
  "session_get_alternative_codecs E b =
     read_active [] (\<lambda>s. let (vp8, av1, h264, h265) = alternative_codecs (env_of E b) s
       in be_json E (J_object [(''vp8'', J_bool vp8), (''av1'', J_bool av1), (''h264'', J_bool h264),
                               (''h265'', J_bool h265)])) b"

definition session_change_prefer_codec :: "bridge_env \<Rightarrow> bridge \<Rightarrow> bridge" where
  "session_change_prefer_codec E b = on_active E (ss_update_supported_decodings (env_of E b)) b"

section \<open>Terminal\<close>

definition terminal_error :: "bridge_env \<Rightarrow> int \<Rightarrow> bridge \<Rightarrow> bridge" where
  "terminal_error E i = queue_event E ''terminal-error'' (be_json E (J_object
     [(''type'', J_string ''error''), (''terminal_id'', J_int i), (''message'', J_string ''no active session'')])) []"

definition terminal_size :: "int \<Rightarrow> int \<Rightarrow> nat \<times> nat" where
  "terminal_size rows cols = (if rows > 0 then nat rows else 24, if cols > 0 then nat cols else 80)"

definition session_open_terminal :: "bridge_env \<Rightarrow> int \<Rightarrow> int \<Rightarrow> int \<Rightarrow> bridge \<Rightarrow> bool \<times> bridge" where
  "session_open_terminal E i rows cols b =
     (if b_active b = None then (False, terminal_error E i b)
      else
        let (r, c) = terminal_size rows cols
        in (True, event E ''terminal-response'' (be_json E (J_object
              [(''type'', J_string ''open-requested''), (''terminal_id'', J_int i), (''rows'', J_int (int r)),
               (''cols'', J_int (int c))])) (on_active E (open_terminal i r c) b)))"

definition session_send_terminal_input :: "bridge_env \<Rightarrow> int \<Rightarrow> string \<Rightarrow> bridge \<Rightarrow> bool \<times> bridge" where
  "session_send_terminal_input E i d b =
     (if d = [] then (False, b)
      else if b_active b = None then (False, terminal_error E i b)
      else (True, on_active E (send_terminal_input i d) b))"

definition session_resize_terminal :: "bridge_env \<Rightarrow> int \<Rightarrow> int \<Rightarrow> int \<Rightarrow> bridge \<Rightarrow> bool \<times> bridge" where
  "session_resize_terminal E i rows cols b =
     (if b_active b = None then (False, terminal_error E i b)
      else let (r, c) = terminal_size rows cols in (True, on_active E (resize_terminal i r c) b))"

definition session_close_terminal :: "bridge_env \<Rightarrow> int \<Rightarrow> bridge \<Rightarrow> bool \<times> bridge" where
  "session_close_terminal E i b =
     (if b_active b = None then (False, terminal_error E i b) else (True, on_active E (close_terminal i) b))"

section \<open>Files\<close>

definition session_read_remote_dir :: "bridge_env \<Rightarrow> string \<Rightarrow> bool \<Rightarrow> bridge \<Rightarrow> bool \<times> bridge" where
  "session_read_remote_dir E path include_hidden b =
     (let normalized = str_trim path in
      if b_file b = None then start_file_transfer_session E normalized include_hidden b
      else (True, event E ''file-transfer'' (be_json E (J_object
             [(''action'', J_string ''read-dir''), (''path'', J_string normalized),
              (''includeHidden'', J_bool include_hidden)]))
             (on_file E (read_remote_dir normalized include_hidden) b)))"

definition file_failure :: "bridge_env \<Rightarrow> string \<Rightarrow> bool \<Rightarrow> bridge \<Rightarrow> bridge" where
  "file_failure E action empty_path b =
     (if empty_path then event E ''file-transfer'' (''failed=empty-path; action='' @ action) b
      else queue_event E ''file-transfer'' (''failed=no-active-session; action='' @ action) [] b)"

definition session_create_dir :: "bridge_env \<Rightarrow> string \<Rightarrow> bridge \<Rightarrow> bool \<times> bridge" where
  "session_create_dir E path b =
     (let p = str_trim path in
      if p = [] then (False, file_failure E ''create-dir'' True b)
      else if b_file b = None then (False, file_failure E ''create-dir'' False b)
      else (True, event E ''create-remote-dir'' (be_json E (J_object
             [(''action'', J_string ''create-dir''), (''path'', J_string p)]))
             (on_file E (create_dir (next_bridge_job_id E) p True) b)))"

definition delete_remote_path :: "bridge_env \<Rightarrow> string \<Rightarrow> bool \<Rightarrow> bridge \<Rightarrow> bool \<times> bridge" where
  "delete_remote_path E path is_directory b =
     (let p = str_trim path; i = next_bridge_job_id E in
      if p = [] then (False, file_failure E ''delete'' True b)
      else if b_file b = None then (False, file_failure E ''delete'' False b)
      else (True, event E ''delete-remote-path'' (be_json E (J_object
             [(''action'', J_string ''delete''), (''path'', J_string p), (''isDirectory'', J_bool is_directory)]))
             (on_file E (if is_directory then remove_dir_all i p True False else remove_file i p 0 True) b)))"

definition session_send_files :: "bridge_env \<Rightarrow> string \<Rightarrow> string \<Rightarrow> bool \<Rightarrow> bridge \<Rightarrow> bool \<times> bridge" where
  "session_send_files E path to is_remote b =
     (let p = str_trim path; t = str_trim to; i = next_bridge_job_id E in
      if p = [] \<or> t = [] then (False, file_failure E ''start'' True b)
      else if b_file b = None then (False, file_failure E ''start'' False b)
      else (True, event E ''file-transfer-start'' (be_json E (J_object
             [(''id'', J_int i), (''action'', J_string ''start''), (''path'', J_string p), (''to'', J_string t),
              (''is_remote'', J_bool is_remote)]))
             (on_file E (send_files i 0 p t 1 False is_remote) b)))"

definition session_remove_file :: "bridge_env \<Rightarrow> int \<Rightarrow> string \<Rightarrow> int \<Rightarrow> bool \<Rightarrow> bridge \<Rightarrow> bridge" where
  "session_remove_file E i path n is_remote = on_file E (remove_file i path n is_remote)"

definition session_rename_file :: "bridge_env \<Rightarrow> int \<Rightarrow> string \<Rightarrow> string \<Rightarrow> bool \<Rightarrow> bridge \<Rightarrow> bridge" where
  "session_rename_file E i path new_name is_remote = on_file E (rename_file i path new_name is_remote)"

definition session_cancel_job :: "bridge_env \<Rightarrow> int \<Rightarrow> bridge \<Rightarrow> bridge" where
  "session_cancel_job E i = on_file E (cancel_job i)"

definition session_resume_job :: "bridge_env \<Rightarrow> int \<Rightarrow> bool \<Rightarrow> bridge \<Rightarrow> bridge" where
  "session_resume_job E i is_remote = on_file E (resume_job i is_remote)"

definition session_set_confirm_override_file ::
    "bridge_env \<Rightarrow> int \<Rightarrow> int \<Rightarrow> bool \<Rightarrow> bool \<Rightarrow> bool \<Rightarrow> bridge \<Rightarrow> bridge" where
  "session_set_confirm_override_file E i n need_override remember is_upload =
     on_file E (set_confirm_override_file i n need_override remember is_upload)"

section \<open>Settings without a session\<close>

definition main_start_service ::
    "bridge_env \<Rightarrow> bool \<Rightarrow> string \<Rightarrow> string \<Rightarrow> string \<Rightarrow> string \<Rightarrow> bridge \<Rightarrow> bridge" where
  "main_start_service E enabled srv relay_server api_server key b =
     (let b = apply_server_options srv relay_server api_server key b in
      if enabled then
        let cfg = b_config b;
            cfg = (if str_trim (get_option cfg ''direct-server'') = []
                   then set_option ''direct-server'' ''Y'' cfg else cfg);
            cfg = set_option ''stop-service'' [] cfg;
            b = clear_incoming_screen_frame (b\<lparr>b_config := cfg, b_started := False, b_requested := True\<rparr>);
            b = b\<lparr>b_server_starts := b_server_starts b + 1\<rparr>
        in queue_event E ''incoming-service-requested''
             ''Harmony incoming service starting. Server thread launched, connecting to signaling servers.'' [] b
      else
        let cfg = set_option ''stop-service'' ''Y'' (set_option ''direct-server'' ''N'' (b_config b))
        in clear_incoming_screen_frame
             (b\<lparr>b_config := cfg, b_server_running := False, b_mediator_restarts := b_mediator_restarts b + 1,
                b_started := False, b_requested := False\<rparr>))"

definition main_stop_service :: "bridge \<Rightarrow> bridge" where
  "main_stop_service b = b\<lparr>b_config := set_option ''stop-service'' ''Y'' (b_config b)\<rparr>"

definition main_set_option :: "string \<Rightarrow> string \<Rightarrow> bridge \<Rightarrow> bridge" where
  "main_set_option k v b = b\<lparr>b_config := set_option k v (b_config b)\<rparr>"

definition main_get_option :: "string \<Rightarrow> bridge \<Rightarrow> string" where
  "main_get_option k b = get_option (b_config b) k"

definition main_get_peer_option :: "bridge_env \<Rightarrow> bridge \<Rightarrow> string \<Rightarrow> string \<Rightarrow> string" where
  "main_get_peer_option E b i k = unwrap_or_default (p_options (bridge_load_peer E b i) k)"

definition main_set_peer_option :: "bridge_env \<Rightarrow> string \<Rightarrow> string \<Rightarrow> string \<Rightarrow> bridge \<Rightarrow> bridge" where
  "main_set_peer_option E i k v b =
     (let c = bridge_load_peer E b i
      in b\<lparr>b_peers := (b_peers b)(i \<mapsto> c\<lparr>p_options := (p_options c)(k \<mapsto> v)\<rparr>)\<rparr>)"

definition main_set_peer_alias :: "bridge_env \<Rightarrow> string \<Rightarrow> string \<Rightarrow> bridge \<Rightarrow> bridge" where
  "main_set_peer_alias E i alias b =
     (let c = bridge_load_peer E b i
      in b\<lparr>b_peers := (b_peers b)(i \<mapsto> c\<lparr>p_options := (p_options c)(''alias'' \<mapsto> alias)\<rparr>)\<rparr>)"

definition main_peer_has_password :: "bridge_env \<Rightarrow> bridge \<Rightarrow> string \<Rightarrow> bool" where
  "main_peer_has_password E b i \<longleftrightarrow> p_password (bridge_load_peer E b i) \<noteq> []"

definition main_peer_exists :: "bridge \<Rightarrow> string \<Rightarrow> bool" where
  "main_peer_exists b i \<longleftrightarrow> b_peers b i \<noteq> None"

definition main_remove_peer :: "string \<Rightarrow> bridge \<Rightarrow> bridge" where
  "main_remove_peer i b = b\<lparr>b_peers := (b_peers b)(i := None)\<rparr>"

definition get_peer_info :: "bridge_env \<Rightarrow> bridge \<Rightarrow> string \<Rightarrow> string" where
  "get_peer_info E b i =
     (let c = bridge_load_peer E b i
      in be_json E (J_object
           [(''hostname'', J_string (pi_hostname (p_info c))), (''username'', J_string (pi_username (p_info c))),
            (''platform'', J_string (pi_platform (p_info c))),
            (''alias'', J_string (unwrap_or_default (p_options c ''alias'')))]))"

definition main_is_using_public_server :: "bridge \<Rightarrow> bool" where
  "main_is_using_public_server b = using_public_server (b_config b)"

definition main_clear_trusted_devices :: "bridge \<Rightarrow> bridge" where
  "main_clear_trusted_devices b = b\<lparr>b_config := set_option ''trusted-devices'' [] (b_config b)\<rparr>"

definition main_set_user_default_option :: "string \<Rightarrow> string \<Rightarrow> bridge \<Rightarrow> bridge" where
  "main_set_user_default_option k v b = b\<lparr>b_config := set_option k v (b_config b)\<rparr>"

definition main_get_buildin_option :: "bridge \<Rightarrow> string \<Rightarrow> string" where
  "main_get_buildin_option b k = get_builtin_option (b_config b) k"

definition main_discover :: "bridge \<Rightarrow> bridge" where
  "main_discover b = b\<lparr>b_config := set_option ''enable-lan-discovery'' ''Y'' (b_config b),
     b_mediator_restarts := b_mediator_restarts b + 1\<rparr>"

end
