(* ===== verification/HarmonyProps.thy ===== *)
theory HarmonyProps
  imports HarmonyCommands LoginToggles
begin

text \<open>
  Properties of the HarmonyOS bridge: which connection threads it listens to, its event queue, the
  frames it passes on in both directions, its keys and its options.
\<close>

section \<open>Callbacks that are too late\<close>

text \<open>A handler of another generation changes nothing, whatever it is told.\<close>

lemma stale_call: "\<not> is_current h b \<Longrightarrow> handler_call E h c b = b"
  by (cases c)
    (simp_all add: handler_event_def handler_set_cursor_data_def handler_set_display_def
      handler_switch_display_def handler_set_peer_info_def handler_on_connected_def
      handler_update_privacy_mode_def handler_close_success_def handler_update_quality_status_def
      handler_set_connection_type_def handler_update_folder_files_def handler_on_rgba_def
      handler_msgbox_def handler_terminal_response_def Let_def split: terminal_response.split)

lemma stale_deliver: "\<not> is_current h b \<Longrightarrow> deliver E h calls b = b"
  unfolding deliver_def by (induction calls) (simp_all add: stale_call)

section \<open>What operations leave alone\<close>

lemma queue_event_simps [simp]:
  "b_generation (queue_event E k d p b) = b_generation b"
  "b_file_generation (queue_event E k d p b) = b_file_generation b"
  "b_active (queue_event E k d p b) = b_active b" "b_file (queue_event E k d p b) = b_file b"
  "b_incoming (queue_event E k d p b) = b_incoming b" "b_capture (queue_event E k d p b) = b_capture b"
  "b_video (queue_event E k d p b) = b_video b" "b_peers (queue_event E k d p b) = b_peers b"
  "b_config (queue_event E k d p b) = b_config b" "b_local_options (queue_event E k d p b) = b_local_options b"
  "active_peer (queue_event E k d p b) = active_peer b"
  by (simp_all add: queue_event_def)

lemma update_connect_state_simps [simp]:
  "b_generation (update_connect_state s p m d e b) = b_generation b"
  "b_file_generation (update_connect_state s p m d e b) = b_file_generation b"
  "b_active (update_connect_state s p m d e b) = b_active b"
  "b_file (update_connect_state s p m d e b) = b_file b"
  "b_incoming (update_connect_state s p m d e b) = b_incoming b"
  "b_capture (update_connect_state s p m d e b) = b_capture b"
  "b_peers (update_connect_state s p m d e b) = b_peers b"
  "b_config (update_connect_state s p m d e b) = b_config b"
  "b_local_options (update_connect_state s p m d e b) = b_local_options b"
  "cs_events (b_connect (update_connect_state s p m d e b)) = cs_events (b_connect b)"
  by (simp_all add: update_connect_state_def)

lemma put_session_simps [simp]:
  "b_generation (put_session f hs b) = b_generation b"
  "b_file_generation (put_session f hs b) = b_file_generation b"
  "b_connect (put_session f hs b) = b_connect b" "b_config (put_session f hs b) = b_config b"
  "b_incoming (put_session f hs b) = b_incoming b" "b_capture (put_session f hs b) = b_capture b"
  "b_local_options (put_session f hs b) = b_local_options b"
  by (simp_all add: put_session_def)

section \<open>The invariant of the bridge\<close>

text \<open>A session is always run by the handler of the current generation; the queue holds at most fifty
  events; the capture library holds the frame the bridge shows, with the same payload.\<close>

definition captured :: "incoming_screen_frame \<Rightarrow> incoming_frame" where
  "captured f =
     \<lparr>if_id = in_id f, if_width = in_width f, if_height = in_height f, if_stride = in_stride f,
      if_bytes = in_bytes f, if_pixfmt = pixfmt_of (in_format f)\<rparr>"

definition frame_ok :: "incoming_screen_frame \<Rightarrow> bool" where
  "frame_ok f \<longleftrightarrow>
     in_id f \<noteq> 0 \<and> 0 < in_width f \<and> 0 < in_height f \<and> 4 * in_width f \<le> in_stride f \<and>
     length (in_bytes f) = in_data_length f \<and> in_data_length f = in_stride f * in_height f"

definition slot_ok :: "bool \<Rightarrow> u64 \<Rightarrow> (harmony_handler \<times> session) option \<Rightarrow> bool" where
  "slot_ok file g slot \<longleftrightarrow>
     (case slot of None \<Rightarrow> True
      | Some hs \<Rightarrow> hh_file_transfer (fst hs) = file \<and> hh_generation (fst hs) = g \<and> s_ui (snd hs) = [])"

lemma slot_ok_simps [simp]:
  "slot_ok ft g None"
  "slot_ok ft g (Some hs) \<longleftrightarrow> hh_file_transfer (fst hs) = ft \<and> hh_generation (fst hs) = g \<and> s_ui (snd hs) = []"
  by (simp_all add: slot_ok_def)

definition bridge_inv :: "bridge \<Rightarrow> bool" where
  "bridge_inv b \<longleftrightarrow>
     slot_ok False (b_generation b) (b_active b) \<and> slot_ok True (b_file_generation b) (b_file b) \<and>
     length (cs_events (b_connect b)) \<le> 50 \<and>
     b_capture b = map_option captured (b_incoming b) \<and> (\<forall>f. b_incoming b = Some f \<longrightarrow> frame_ok f)"

lemma bridge_inv_queue_event [simp]: "bridge_inv b \<Longrightarrow> bridge_inv (queue_event E k d p b)"
  by (simp add: bridge_inv_def) (simp add: queue_event_def queue_session_event_def)

lemma bridge_inv_update_connect_state [simp]:
  "bridge_inv (update_connect_state s p m d e b) = bridge_inv b"
  by (simp add: bridge_inv_def)

lemma bridge_inv_handler_event [simp]: "bridge_inv b \<Longrightarrow> bridge_inv (handler_event E h k d b)"
  by (simp add: handler_event_def)

text \<open>Fields the invariant does not look at.\<close>

lemma bridge_inv_fields [simp]:
  "bridge_inv (b\<lparr>b_local_options := o'\<rparr>) = bridge_inv b" "bridge_inv (b\<lparr>b_video := v\<rparr>) = bridge_inv b"
  "bridge_inv (b\<lparr>b_password := w\<rparr>) = bridge_inv b" "bridge_inv (b\<lparr>b_pending := q\<rparr>) = bridge_inv b"
  "bridge_inv (b\<lparr>b_config := c\<rparr>) = bridge_inv b" "bridge_inv (b\<lparr>b_temporary_password := w\<rparr>) = bridge_inv b"
  "bridge_inv (b\<lparr>b_peers := fs\<rparr>) = bridge_inv b" "bridge_inv (b\<lparr>b_started := t\<rparr>) = bridge_inv b"
  "bridge_inv (b\<lparr>b_requested := t\<rparr>) = bridge_inv b"
  "bridge_inv (b\<lparr>b_server_starts := n\<rparr>) = bridge_inv b" "bridge_inv (b\<lparr>b_server_running := t\<rparr>) = bridge_inv b"
  "bridge_inv (b\<lparr>b_mediator_restarts := n\<rparr>) = bridge_inv b"
  by (simp_all add: bridge_inv_def)

lemma bridge_inv_put:
  assumes "bridge_inv b" "get_session ft b = Some hs" "s_ui s = []"
  shows "bridge_inv (put_session ft (fst hs, s) b)"
  using assms by (cases ft) (simp_all add: bridge_inv_def put_session_def get_session_def)

lemma bridge_inv_get: "bridge_inv b \<Longrightarrow> get_session ft b = Some hs \<Longrightarrow> s_ui (snd hs) = []"
  by (cases ft) (auto simp: bridge_inv_def get_session_def)

lemma bridge_inv_quietly:
  assumes "bridge_inv b" "\<And>s. s_ui (f s) = s_ui s"
  shows "bridge_inv (quietly ft f b)"
proof (cases "get_session ft b")
  case (Some hs)
  have "s_ui (f (with_files b (snd hs))) = []"
    using bridge_inv_get [OF assms(1) Some] by (simp add: assms(2) with_files_def)
  from bridge_inv_put [OF assms(1) Some this] show ?thesis
    by (simp add: quietly_def Some case_prod_unfold)
qed (use assms(1) in \<open>simp add: quietly_def\<close>)

lemma s_ui_simps [simp]:
  "s_ui (on_client f s) = s_ui s" "s_ui (send d s) = s_ui s" "s_ui (send_msg m s) = s_ui s"
  by (simp_all add: on_client_def send_def send_msg_def)

text \<open>The interface of a property that the bridge's ordinary work keeps: it survives the writes a callback
  or a command makes, and a session put back after its callbacks were collected. The lemmas of the
  locale carry it over whole operations.\<close>

locale kept =
  fixes P :: "bridge \<Rightarrow> bool"
  assumes kept_event: "P b \<Longrightarrow> P (queue_event E k d p b)"
    and kept_connect: "P b \<Longrightarrow> P (update_connect_state st p m d e b)"
    and kept_video: "P b \<Longrightarrow> P (b\<lparr>b_video := v\<rparr>)"
    and kept_pending: "P b \<Longrightarrow> P (b\<lparr>b_pending := q\<rparr>)"
    and kept_password: "P b \<Longrightarrow> P (b\<lparr>b_password := w\<rparr>)"
    and kept_config: "P b \<Longrightarrow> P (b\<lparr>b_config := cfg\<rparr>)"
    and kept_local: "P b \<Longrightarrow> P (b\<lparr>b_local_options := opts\<rparr>)"
    and kept_temporary: "P b \<Longrightarrow> P (b\<lparr>b_temporary_password := w\<rparr>)"
    and kept_files: "P b \<Longrightarrow> P (b\<lparr>b_peers := fs\<rparr>)"
    and kept_put: "P b \<Longrightarrow> get_session ft b = Some hs \<Longrightarrow> s_ui s = [] \<Longrightarrow> P (put_session ft (fst hs, s) b)"
    and kept_quietly: "P b \<Longrightarrow> (\<And>s. s_ui (f s) = s_ui s) \<Longrightarrow> P (quietly ft f b)"
begin

lemmas kept_writes = kept_event kept_connect kept_video kept_pending kept_password kept_config kept_local
  kept_temporary kept_files

lemma kept_handler_event: "P b \<Longrightarrow> P (handler_event E h k d b)"
  by (simp add: handler_event_def kept_writes)

lemma kept_set_display: "P b \<Longrightarrow> P (handler_set_display E h x y w ht c s b)"
  by (simp add: handler_set_display_def kept_handler_event)

lemma kept_switch_display: "P b \<Longrightarrow> P (handler_switch_display E h d b)"
  by (simp add: handler_switch_display_def kept_handler_event kept_set_display)

lemma kept_peer_info: "P b \<Longrightarrow> P (handler_set_peer_info E h info b)"
  by (simp add: handler_set_peer_info_def Let_def kept_handler_event kept_quietly)

lemma kept_connected: "P b \<Longrightarrow> P (handler_on_connected E h t b)"
  by (simp add: handler_on_connected_def Let_def kept_handler_event kept_writes kept_quietly refresh_video_def
      request_init_msgs_def)

lemma kept_close_success: "P b \<Longrightarrow> P (handler_close_success E h b)"
proof -
  have "P (quietly True (read_remote_dir p i) c)" if "P c" for p i c
    using that by (rule kept_quietly) (simp add: read_remote_dir_def)
  then show "P b \<Longrightarrow> P (handler_close_success E h b)"
    by (simp add: handler_close_success_def Let_def kept_handler_event kept_writes split: option.split prod.split)
qed

lemma kept_rgba: "P b \<Longrightarrow> P (handler_on_rgba E h d rgba b)"
  by (simp add: handler_on_rgba_def publish_real_video_frame_def kept_handler_event kept_writes)

lemma kept_msgbox: "P b \<Longrightarrow> P (handler_msgbox E h ty ti tx l r b)"
  by (simp add: handler_msgbox_def Let_def kept_handler_event kept_writes)

lemma kept_terminal: "P b \<Longrightarrow> P (handler_terminal_response E h r b)"
  by (cases r) (simp_all add: handler_terminal_response_def Let_def kept_handler_event)

lemma kept_call: "P b \<Longrightarrow> P (handler_call E h c b)"
  by (cases c)
    (simp_all add: handler_set_cursor_data_def handler_update_privacy_mode_def
      handler_update_quality_status_def handler_set_connection_type_def handler_update_folder_files_def Let_def
      kept_handler_event kept_set_display kept_switch_display kept_peer_info kept_connected kept_close_success
      kept_rgba kept_msgbox kept_terminal)

lemma kept_deliver: "P b \<Longrightarrow> P (deliver E h calls b)"
  unfolding deliver_def by (induction calls arbitrary: b) (simp_all add: kept_call)

lemma kept_run_session:
  assumes "P b"
  shows "P (run_session E ft f b)"
proof (cases "get_session ft b")
  case (Some hs)
  have "P (put_session ft (fst hs, s\<lparr>s_ui := []\<rparr>) b)" for s
    by (rule kept_put [OF assms Some]) simp
  then show ?thesis using Some by (simp add: run_session_def Let_def case_prod_unfold kept_deliver)
qed (use assms in \<open>simp add: run_session_def\<close>)

lemma kept_set_local: "P b \<Longrightarrow> P (main_set_local_option k v b)"
  by (simp add: main_set_local_option_def Let_def kept_writes)

lemma kept_command: "P b \<Longrightarrow> P (snd (command E n d f b))"
  by (simp add: command_def no_session_def kept_run_session kept_writes)

lemma kept_server_options: "P b \<Longrightarrow> P (apply_server_options srv relay api key b)"
  by (simp add: apply_server_options_def kept_writes)

lemma kept_forget: "P b \<Longrightarrow> P (main_forget_password E i b)"
  by (simp add: main_forget_password_def kept_writes)

text \<open>Introduction rules that walk through the branches of an operation.\<close>

lemma kept_if: "P x \<Longrightarrow> P y \<Longrightarrow> P (if c then x else y)"
  by simp

lemma kept_fst_if: "P (fst x) \<Longrightarrow> P (fst y) \<Longrightarrow> P (fst (if c then x else y))"
  by simp

lemma kept_fst_option: "P (fst x) \<Longrightarrow> (\<And>n. P (fst (f n))) \<Longrightarrow> P (fst (case v of None \<Rightarrow> x | Some n \<Rightarrow> f n))"
  by (cases v) simp_all

lemma kept_fst_pair: "P x \<Longrightarrow> P (fst (x, v))"
  by simp

lemmas kept_intros = kept_fst_if kept_fst_option kept_fst_pair kept_if kept_event kept_run_session kept_set_local

lemma kept_codec_preference: "P b \<Longrightarrow> P (fst (apply_codec_preference E v s b))"
  unfolding apply_codec_preference_def Let_def case_prod_unfold by (intro kept_intros)

lemma kept_option_to: "P b \<Longrightarrow> P (fst (apply_option_to E k v s b))"
  unfolding apply_option_to_def Let_def by (intro kept_intros kept_codec_preference)

lemma kept_session_option: "P b \<Longrightarrow> P (snd (apply_session_option E k v b))"
proof (cases "b_active b")
  case (Some hs)
  assume "P b"
  then show ?thesis
    unfolding apply_session_option_def Some Let_def case_prod_unfold option.case snd_conv
    by (intro kept_intros kept_option_to)
qed (simp add: apply_session_option_def kept_set_local kept_writes)

lemma kept_reconnect: "P b \<Longrightarrow> P (snd (session_reconnect E r b))"
  by (simp add: session_reconnect_def Let_def kept_run_session kept_writes)

lemma kept_login: "P b \<Longrightarrow> P (snd (session_login E w r b))"
  by (simp add: session_login_def Let_def kept_run_session kept_writes)

lemma kept_marks: "P b \<Longrightarrow> P (mark_session_error E msg b)" "P b \<Longrightarrow> P (mark_session_connected E i b)"
  by (simp_all add: mark_session_error_def mark_session_connected_def Let_def kept_writes)

lemma kept_input:
  "P b \<Longrightarrow> P (snd (session_send_mouse E bits x y b))"
  "P b \<Longrightarrow> P (snd (session_input_key E c down mods b))"
  "P b \<Longrightarrow> P (snd (session_ctrl_alt_del E b))"
  "P b \<Longrightarrow> P (snd (send_clipboard_data E v b))"
  "P b \<Longrightarrow> P (snd (session_send_chat E v b))"
  by (simp_all add: session_send_mouse_def session_input_key_def session_ctrl_alt_del_def
      send_clipboard_data_def session_send_chat_def Let_def kept_run_session kept_writes split: option.split)

lemma kept_commands:
  "P b \<Longrightarrow> P (snd (refresh_session_video E d b))"
  "P b \<Longrightarrow> P (snd (session_lock_screen E b))"
  "P b \<Longrightarrow> P (snd (session_send2fa E code t b))"
  "P b \<Longrightarrow> P (session_toggle_option E k b)"
  "P b \<Longrightarrow> P (snd (session_toggle_privacy_mode E k on b))"
  "P b \<Longrightarrow> P (snd (session_switch_display E x b))"
  "P b \<Longrightarrow> P (snd (session_take_screenshot E n b))"
  "P b \<Longrightarrow> P (snd (session_record_screen E on b))"
  "P b \<Longrightarrow> P (snd (session_request_voice_call E b))"
  "P b \<Longrightarrow> P (snd (session_close_voice_call E b))"
  by (simp_all add: refresh_session_video_def session_lock_screen_def session_send2fa_def
      session_toggle_option_def session_toggle_privacy_mode_def session_switch_display_def
      session_take_screenshot_def session_record_screen_def session_request_voice_call_def
      session_close_voice_call_def Let_def kept_command kept_run_session kept_writes)

lemma kept_terminals:
  "P b \<Longrightarrow> P (snd (session_open_terminal E i r c b))"
  "P b \<Longrightarrow> P (snd (session_send_terminal_input E i v b))"
  by (simp_all add: session_open_terminal_def session_send_terminal_input_def terminal_error_def
      Let_def case_prod_unfold kept_run_session kept_writes)

lemma kept_file_commands:
  "P b \<Longrightarrow> P (snd (session_create_dir E p b))"
  "P b \<Longrightarrow> P (snd (delete_remote_path E p d b))"
  "P b \<Longrightarrow> P (snd (session_send_files E p to r b))"
  by (simp_all add: session_create_dir_def delete_remote_path_def session_send_files_def file_failure_def
      Let_def kept_run_session kept_writes)

end

interpretation inv: kept bridge_inv
  by unfold_locales (simp_all add: bridge_inv_put bridge_inv_quietly)

section \<open>Every operation keeps it\<close>

text \<open>An operation without callbacks needs no delivery.\<close>

lemma no_calls: "s_ui s = [] \<Longrightarrow> s\<lparr>s_ui := []\<rparr> = (s :: session)"
  by (cases s) simp

lemma run_session_quietly:
  assumes "\<And>s. s_ui (f s) = s_ui s" "\<And>hs. get_session ft b = Some hs \<Longrightarrow> s_ui (snd hs) = []"
  shows "run_session E ft f b = quietly ft f b"
proof (cases "get_session ft b")
  case (Some hs)
  have e: "s_ui (f (with_files b (snd hs))) = []" using assms Some by (simp add: with_files_def)
  then show ?thesis
    by (simp add: run_session_def quietly_def Some e case_prod_unfold Let_def deliver_def no_calls)
qed (simp add: run_session_def quietly_def)

lemma quietly_simps [simp]:
  "b_generation (quietly ft f b) = b_generation b" "b_file_generation (quietly ft f b) = b_file_generation b"
  "b_connect (quietly ft f b) = b_connect b" "b_config (quietly ft f b) = b_config b"
  "b_incoming (quietly ft f b) = b_incoming b" "b_capture (quietly ft f b) = b_capture b"
  "b_local_options (quietly ft f b) = b_local_options b"
  "b_active (quietly True f b) = b_active b" "b_file (quietly False f b) = b_file b"
  by (auto simp: quietly_def put_session_def split: option.split)

lemma close_file_simps:
  assumes "bridge_inv b"
  shows "b_file (close_file_transfer_session E b) = None"
    "b_generation (close_file_transfer_session E b) = b_generation b"
    "b_file_generation (close_file_transfer_session E b) = b_file_generation b + 1"
    "b_active (close_file_transfer_session E b) = b_active b"
    "b_connect (close_file_transfer_session E b) = b_connect b"
    "b_config (close_file_transfer_session E b) = b_config b"
    "b_incoming (close_file_transfer_session E b) = b_incoming b"
    "b_capture (close_file_transfer_session E b) = b_capture b"
    "b_local_options (close_file_transfer_session E b) = b_local_options b"
proof -
  have "run_session E True (send Close) (b\<lparr>b_file_generation := g\<rparr>) =
      quietly True (send Close) (b\<lparr>b_file_generation := g\<rparr>)" for g
    by (rule run_session_quietly) (use bridge_inv_get [OF assms, of True] in \<open>simp_all add: get_session_def\<close>)
  then show "b_file (close_file_transfer_session E b) = None"
    "b_generation (close_file_transfer_session E b) = b_generation b"
    "b_file_generation (close_file_transfer_session E b) = b_file_generation b + 1"
    "b_active (close_file_transfer_session E b) = b_active b"
    "b_connect (close_file_transfer_session E b) = b_connect b"
    "b_config (close_file_transfer_session E b) = b_config b"
    "b_incoming (close_file_transfer_session E b) = b_incoming b"
    "b_capture (close_file_transfer_session E b) = b_capture b"
    "b_local_options (close_file_transfer_session E b) = b_local_options b"
    by (simp_all add: close_file_transfer_session_def Let_def)
qed

lemma bridge_inv_close_file [simp]: "bridge_inv b \<Longrightarrow> bridge_inv (close_file_transfer_session E b)"
  using close_file_simps [of b E] by (simp add: bridge_inv_def)

text \<open>A new session: nothing has been called yet.\<close>

lemma s_ui_results [simp]:
  "s_ui (send_result f s) = s_ui s" "s_ui (send_option_result g s) = s_ui s"
  by (simp_all add: send_result_def send_option_result_def Let_def case_prod_unfold split: option.split)

lemma s_ui_setters [simp]:
  "s_ui (ss_toggle_option e k s) = s_ui s" "s_ui (set_session_toggle e k v s) = s_ui s"
  "s_ui (ss_save_image_quality e q s) = s_ui s" "s_ui (ss_save_custom_image_quality e n s) = s_ui s"
  "s_ui (ss_set_custom_fps e n s) = s_ui s" "s_ui (ss_save_keyboard_mode e q s) = s_ui s"
  "s_ui (ss_set_option e k q s) = s_ui s"
  by (simp_all add: ss_toggle_option_def set_session_toggle_def ss_save_image_quality_def
      ss_save_custom_image_quality_def ss_set_custom_fps_def ss_save_keyboard_mode_def ss_set_option_def Let_def)

lemma s_ui_default_option [simp]: "s_ui (apply_default_option e saved k s) = s_ui s"
  unfolding apply_default_option_def Let_def by (simp split: option.split)

lemma s_ui_default_options [simp]: "s_ui (fold (apply_default_option e saved) ks s) = s_ui s"
  by (induction ks arbitrary: s) simp_all

lemma s_ui_spawn [simp]: "s_ui (spawn_round s) = s_ui s"
  by (simp add: spawn_round_def Let_def)

lemma s_ui_default_session [simp]: "s_ui (default_session E b) = []"
  by (simp add: default_session_def Let_def)

lemma config_update_simps [simp]:
  "bridge_inv (apply_server_options a c d k b) = bridge_inv b" "bridge_inv (main_forget_password E i b) = bridge_inv b"
  "b_generation (apply_server_options a c d k b) = b_generation b"
  "b_generation (main_forget_password E i b) = b_generation b"
  "b_file_generation (apply_server_options a c d k b) = b_file_generation b"
  "b_file_generation (main_forget_password E i b) = b_file_generation b"
  by (simp_all add: apply_server_options_def main_forget_password_def bridge_inv_def)

lemma bridge_inv_clear_events: "bridge_inv b \<Longrightarrow> bridge_inv (clear_connect_events b)"
  by (simp add: bridge_inv_def clear_connect_events_def)

lemma clear_connect_events_simps [simp]:
  "b_generation (clear_connect_events b) = b_generation b"
  "b_file_generation (clear_connect_events b) = b_file_generation b"
  by (simp_all add: clear_connect_events_def)

text \<open>What a new generation needs: the rest of the invariant, and a session of that generation.\<close>

lemma bridge_inv_new_active:
  "bridge_inv (b\<lparr>b_active := None\<rparr>) \<Longrightarrow> hh_generation h = b_generation b \<Longrightarrow> \<not> hh_file_transfer h \<Longrightarrow>
   s_ui s = [] \<Longrightarrow> bridge_inv (put_session False (h, s) b)"
  by (simp add: bridge_inv_def put_session_def)

lemma bridge_inv_new_file:
  "bridge_inv (b\<lparr>b_file := None\<rparr>) \<Longrightarrow> hh_generation h = b_file_generation b \<Longrightarrow> hh_file_transfer h \<Longrightarrow>
   s_ui s = [] \<Longrightarrow> bridge_inv (put_session True (h, s) b)"
  by (simp add: bridge_inv_def put_session_def)

lemma bridge_inv_start:
  assumes "bridge_inv b"
  shows "bridge_inv (session_start E i w srv relay api key b)"
proof -
  define b1 where "b1 = close_file_transfer_session E b"
  have "bridge_inv ((b1\<lparr>b_generation := b_generation b1 + 1, b_password := w\<rparr>)\<lparr>b_active := None\<rparr>)"
    using bridge_inv_close_file [OF assms, of E] by (simp add: bridge_inv_def b1_def)
  then show ?thesis
    unfolding session_start_def Let_def b1_def [symmetric]
    by (intro bridge_inv_new_active)
      (simp_all add: bridge_inv_def apply_server_options_def main_forget_password_def clear_connect_events_def
        queue_event_def queue_session_event_def update_connect_state_def)
qed

lemma bridge_inv_start_file [simp]:
  assumes "bridge_inv b"
  shows "bridge_inv (snd (start_file_transfer_session E path hidden b))"
proof -
  have "bridge_inv (put_session True (\<lparr>hh_generation = g, hh_file_transfer = True\<rparr>, s)
      (c\<lparr>b_file_generation := g\<rparr>))"
    if "bridge_inv c" "s_ui s = []" for c s g
    by (rule bridge_inv_new_file) (use that in \<open>simp_all add: bridge_inv_def\<close>)
  then show ?thesis using assms by (simp add: start_file_transfer_session_def Let_def inv.kept_run_session)
qed

lemma bridge_inv_close:
  assumes "bridge_inv b"
  shows "bridge_inv (session_close E b)"
proof -
  define b1 where "b1 = (close_file_transfer_session E (b\<lparr>b_generation := b_generation b + 1\<rparr>))\<lparr>b_password := []\<rparr>"
  have [simp]: "bridge_inv (b\<lparr>b_active := None, b_generation := g\<rparr>)" for g
    using assms by (simp add: bridge_inv_def)
  have ui: "\<And>hs. b_active b = Some hs \<Longrightarrow> s_ui (snd hs) = []" "\<And>hs. b_file b = Some hs \<Longrightarrow> s_ui (snd hs) = []"
    using assms by (auto simp: bridge_inv_def)
  have q: "run_session E True (send Close) c = quietly True (send Close) c"
    if "b_file c = b_file b" for c
    by (rule run_session_quietly) (use ui that in \<open>simp_all add: get_session_def\<close>)
  have r: "run_session E False (send Close) c = quietly False (send Close) c" if "b_active c = b_active b" for c
    by (rule run_session_quietly) (use ui that in \<open>simp_all add: get_session_def\<close>)
  have "bridge_inv ((quietly False (send Close) b1)\<lparr>b_active := None\<rparr>)"
    using assms by (simp add: b1_def close_file_transfer_session_def Let_def q bridge_inv_def)
  moreover have "b_active b1 = b_active b" by (simp add: b1_def close_file_transfer_session_def Let_def q)
  ultimately show ?thesis
    unfolding session_close_def Let_def b1_def [symmetric] by (simp add: r)
qed

text \<open>What an accepted frame is; a refused one changes nothing.\<close>

definition next_frame_id :: "incoming_screen_frame option \<Rightarrow> u64" where
  "next_frame_id f = (case f of Some f \<Rightarrow> saturating_add_u64 (in_id f) 1 | None \<Rightarrow> 1)"

definition frame_accepted :: "int \<Rightarrow> int \<Rightarrow> int \<Rightarrow> u8 list \<Rightarrow> bool" where
  "frame_accepted width height stride bytes \<longleftrightarrow>
     0 < width \<and> 0 < height \<and> 4 * width \<le> stride \<and> stride * height \<le> int (length bytes)"

lemma saturating_mul_fits [simp]: "a * b \<le> n \<Longrightarrow> n < 2 ^ 63 \<Longrightarrow> saturating_mul_usize a b = a * b"
  by (simp add: saturating_mul_usize_def usize_max_def)

lemma saturating_mul_less: "n < 2 ^ 63 \<Longrightarrow> n < saturating_mul_usize a b \<longleftrightarrow> n < a * b"
  by (auto simp: saturating_mul_usize_def usize_max_def)

lemma saturating_mul_width: "nat width < 2 ^ 31 \<Longrightarrow> saturating_mul_usize (nat width) 4 = nat width * 4"
  by (simp add: saturating_mul_usize_def usize_max_def)

lemma next_frame_id_not_zero: "next_frame_id f \<noteq> 0"
proof (cases f)
  case (Some g)
  then show ?thesis
    using saturating_add_u64_mono [of 1 "in_id g"]
    by (auto simp: next_frame_id_def saturating_add_u64_def add.commute)
qed (simp add: next_frame_id_def)

lemma update_frame:
  fixes width height stride :: int
  assumes "width < 2 ^ 31" "length bytes < 2 ^ 63"
  shows "if frame_accepted width height stride bytes
    then \<exists>f d. update_incoming_screen_frame E width height stride t fmt bytes b =
        (True, (if b_incoming b = None then queue_event E ''incoming-video-source-active'' d [] else id)
          (b\<lparr>b_capture := Some (captured f), b_incoming := Some f\<rparr>)) \<and>
      frame_ok f \<and> in_id f = next_frame_id (b_incoming b) \<and> in_width f = nat width \<and> in_height f = nat height \<and>
      in_stride f = nat stride \<and> in_bytes f = take (nat (stride * height)) bytes \<and>
      in_format f = (if str_trim fmt = [] then ''RGBA'' else str_trim fmt)
    else update_incoming_screen_frame E width height stride t fmt bytes b = (False, b)"
proof (cases "frame_accepted width height stride bytes")
  case True
  then have pos: "0 < width" "0 < height" "0 < stride" and wide: "nat width * 4 \<le> nat stride"
    and fits: "nat stride * nat height \<le> length bytes"
    by (auto simp: frame_accepted_def nat_mult_distrib [symmetric] nat_le_iff)
  define n where "n = nat stride * nat height"
  have n: "0 < n" "n \<le> length bytes" using pos fits by (simp_all add: n_def)
  then have some: "bytes \<noteq> []" by auto
  have sat: "saturating_mul_usize (nat stride) (nat height) = n"
    "saturating_mul_usize (nat width) 4 = nat width * 4"
    using fits assms by (simp_all add: n_def saturating_mul_width nat_less_iff)
  have take_n: "nat (stride * height) = n" using pos by (simp add: n_def nat_mult_distrib)
  define i seen fm where "i = next_frame_id (b_incoming b)"
    and "seen = (case b_incoming b of Some f \<Rightarrow> saturating_add_u64 (in_frames_seen f) 1 | None \<Rightarrow> 1)"
    and "fm = (if str_trim fmt = [] then ''RGBA'' else str_trim fmt)"
  define f where "f = \<lparr>in_id = i, in_width = nat width, in_height = nat height, in_stride = nat stride,
    in_data_length = n, in_bytes = take n bytes, in_timestamp = t, in_format = fm, in_frames_seen = seen\<rparr>"
  have i: "i \<noteq> 0" using next_frame_id_not_zero by (simp add: i_def)
  have capture: "update_ohos_incoming_frame i (nat width) (nat height) (nat stride) fm (take n bytes) =
      Some (captured f)"
    using pos wide n i by (simp add: update_ohos_incoming_frame_def sat f_def captured_def)
  have ok: "frame_ok f"
    using pos wide n i by (simp add: frame_ok_def f_def) (simp add: n_def)
  have ids: "(case b_incoming b of
      Some f \<Rightarrow> (saturating_add_u64 (in_id f) 1, saturating_add_u64 (in_frames_seen f) 1) | None \<Rightarrow> (1, 1)) =
      (i, seen)"
    by (simp add: i_def seen_def next_frame_id_def split: option.split)
  have "\<exists>d. update_incoming_screen_frame E width height stride t fmt bytes b =
      (True, (if b_incoming b = None then queue_event E ''incoming-video-source-active'' d [] else id)
        (b\<lparr>b_capture := Some (captured f), b_incoming := Some f\<rparr>))"
    unfolding update_incoming_screen_frame_def sat Let_def ids fm_def [symmetric]
    using pos some n capture by (auto simp: f_def)
  moreover have "in_id f = next_frame_id (b_incoming b)" "in_width f = nat width" "in_height f = nat height"
      "in_stride f = nat stride" "in_bytes f = take (nat (stride * height)) bytes"
      "in_format f = (if str_trim fmt = [] then ''RGBA'' else str_trim fmt)"
    by (simp_all add: f_def i_def take_n fm_def)
  ultimately show ?thesis unfolding if_P [OF True] using ok by blast
next
  case False
  have "update_incoming_screen_frame E width height stride t fmt bytes b = (False, b)"
  proof (cases "width \<le> 0 \<or> height \<le> 0 \<or> stride \<le> 0 \<or> int (length bytes) < stride * height")
    case True
    then show ?thesis
      using assms(2)
      by (auto simp: update_incoming_screen_frame_def Let_def saturating_mul_less zless_nat_eq_int_zless
          nat_mult_distrib [symmetric])
  next
    case fits: False
    then have narrow: "nat stride < nat width * 4" using False by (auto simp: frame_accepted_def)
    have "update_ohos_incoming_frame i (nat width) (nat height) (nat stride) fm d = None" for i fm d
      using narrow assms(1) by (simp add: update_ohos_incoming_frame_def saturating_mul_width nat_less_iff)
    then show ?thesis
      by (simp add: update_incoming_screen_frame_def Let_def split: option.split)
  qed
  then show ?thesis using False by simp
qed

end
