(* ===== verification/HarmonyRuns.thy ===== *)
theory HarmonyRuns
  imports HarmonyProps
begin

text \<open>
  Runs of the HarmonyOS bridge: any sequence of application calls, screen frames and callbacks of
  connection threads, each with the environment (the clock among it) of its moment. The properties of
  the bridge are stated over these runs and over single operations.
\<close>

section \<open>Operations\<close>

datatype bridge_op =
    Callback harmony_handler ui_call
  | Session_start string string string string string string
  | Session_close
  | Session_reconnect bool
  | Session_login string bool
  | Session_option string string
  | Session_toggle string
  | Local_option string string
  | Session_error string
  | Session_connected string
  | Mouse int int int
  | Key int bool int
  | Ctrl_alt_delete
  | Clipboard string
  | Chat string
  | Video_refresh int
  | Lock_screen
  | Send_2fa string bool
  | Privacy_mode string bool
  | Display_switch int
  | Screenshot nat
  | Record bool
  | Voice_call bool
  | Open_terminal int int int
  | Terminal_input int string
  | Read_dir string bool
  | Create_dir string
  | Delete_path string bool
  | Start_files string string bool
  | Screen_frame int int int int string "u8 list"
  | Clear_frame
  | Start_service bool string string string string
  | Service_ready bool
  | Forget_password string
  | Drain_events

text \<open>The values the foreign interface can pass: 32-bit integers, and no list longer than memory.\<close>

fun op_ok :: "bridge_op \<Rightarrow> bool" where
  "op_ok (Screen_frame width height stride t fmt bytes) \<longleftrightarrow> width < 2 ^ 31 \<and> length bytes < 2 ^ 63"
| "op_ok _ \<longleftrightarrow> True"

fun bridge_step :: "bridge_env \<times> bridge_op \<Rightarrow> bridge \<Rightarrow> bridge" where
  "bridge_step (E, Callback h c) b = handler_call E h c b"
| "bridge_step (E, Session_start i w srv relay api key) b = session_start E i w srv relay api key b"
| "bridge_step (E, Session_close) b = session_close E b"
| "bridge_step (E, Session_reconnect r) b = snd (session_reconnect E r b)"
| "bridge_step (E, Session_login w r) b = snd (session_login E w r b)"
| "bridge_step (E, Session_option k v) b = snd (apply_session_option E k v b)"
| "bridge_step (E, Session_toggle k) b = session_toggle_option E k b"
| "bridge_step (E, Local_option k v) b = main_set_local_option k v b"
| "bridge_step (E, Session_error msg) b = mark_session_error E msg b"
| "bridge_step (E, Session_connected i) b = mark_session_connected E i b"
| "bridge_step (E, Mouse bits x y) b = snd (session_send_mouse E bits x y b)"
| "bridge_step (E, Key c down mods) b = snd (session_input_key E c down mods b)"
| "bridge_step (E, Ctrl_alt_delete) b = snd (session_ctrl_alt_del E b)"
| "bridge_step (E, Clipboard v) b = snd (send_clipboard_data E v b)"
| "bridge_step (E, Chat v) b = snd (session_send_chat E v b)"
| "bridge_step (E, Video_refresh d) b = snd (refresh_session_video E d b)"
| "bridge_step (E, Lock_screen) b = snd (session_lock_screen E b)"
| "bridge_step (E, Send_2fa c t) b = snd (session_send2fa E c t b)"
| "bridge_step (E, Privacy_mode k on) b = snd (session_toggle_privacy_mode E k on b)"
| "bridge_step (E, Display_switch d) b = snd (session_switch_display E d b)"
| "bridge_step (E, Screenshot d) b = snd (session_take_screenshot E d b)"
| "bridge_step (E, Record s) b = snd (session_record_screen E s b)"
| "bridge_step (E, Voice_call on) b =
     snd ((if on then session_request_voice_call else session_close_voice_call) E b)"
| "bridge_step (E, Open_terminal i r c) b = snd (session_open_terminal E i r c b)"
| "bridge_step (E, Terminal_input i v) b = snd (session_send_terminal_input E i v b)"
| "bridge_step (E, Read_dir p h) b = snd (session_read_remote_dir E p h b)"
| "bridge_step (E, Create_dir p) b = snd (session_create_dir E p b)"
| "bridge_step (E, Delete_path p d) b = snd (delete_remote_path E p d b)"
| "bridge_step (E, Start_files p to r) b = snd (session_send_files E p to r b)"
| "bridge_step (E, Screen_frame w h s t fmt bytes) b = snd (update_incoming_screen_frame E w h s t fmt bytes b)"
| "bridge_step (E, Clear_frame) b = clear_incoming_screen_frame b"
| "bridge_step (E, Start_service on srv relay api key) b = main_start_service E on srv relay api key b"
| "bridge_step (E, Service_ready on) b = set_incoming_service_started E on b"
| "bridge_step (E, Forget_password i) b = main_forget_password E i b"
| "bridge_step (E, Drain_events) b = snd (drain_connect_events_json b)"

definition bridge_run :: "(bridge_env \<times> bridge_op) list \<Rightarrow> bridge \<Rightarrow> bridge" where
  "bridge_run ops b = fold bridge_step ops b"

text \<open>Operations that neither open or close a session nor hand in a frame.\<close>

fun is_local_op :: "bridge_op \<Rightarrow> bool" where
  "is_local_op (Session_start i w srv relay api key) = False"
| "is_local_op (Session_close) = False"
| "is_local_op (Read_dir p h) = False"
| "is_local_op (Screen_frame w h s t fmt bytes) = False"
| "is_local_op (Clear_frame) = False"
| "is_local_op (Start_service on srv relay api key) = False"
| "is_local_op (Service_ready on) = False"
| "is_local_op (Drain_events) = False"
| "is_local_op _ = True"

context kept
begin

lemma kept_local_step: "P b \<Longrightarrow> is_local_op (snd p) \<Longrightarrow> P (bridge_step p b)"
  by (cases p; cases "snd p")
    (simp_all add: kept_call kept_reconnect kept_login kept_session_option kept_set_local kept_marks kept_input
      kept_commands kept_terminals kept_file_commands kept_forget)

end

section \<open>Each keeps the invariant\<close>

lemma bridge_inv_initial [simp]: "bridge_inv (initial_bridge c w fs d)"
  by (simp add: initial_bridge_def bridge_inv_def)

lemma bridge_inv_clear_frame [simp]: "bridge_inv b \<Longrightarrow> bridge_inv (clear_incoming_screen_frame b)"
  by (simp add: bridge_inv_def clear_incoming_screen_frame_def)

lemma bridge_inv_frame:
  assumes "bridge_inv b" "width < 2 ^ 31" "length bytes < 2 ^ 63"
  shows "bridge_inv (snd (update_incoming_screen_frame E width height stride t fmt bytes b))"
proof (cases "frame_accepted width height stride bytes")
  case True
  then obtain f d where f: "frame_ok f" and
    u: "update_incoming_screen_frame E width height stride t fmt bytes b =
        (True, (if b_incoming b = None then queue_event E ''incoming-video-source-active'' d [] else id)
          (b\<lparr>b_capture := Some (captured f), b_incoming := Some f\<rparr>))"
    using update_frame [OF assms(2,3), of height stride E t fmt b] by auto
  have "bridge_inv (b\<lparr>b_capture := Some (captured f), b_incoming := Some f\<rparr>)"
    using assms(1) f by (simp add: bridge_inv_def)
  then show ?thesis by (simp add: u)
next
  case False
  then show ?thesis using update_frame [OF assms(2,3), of height stride E t fmt b] assms(1) by simp
qed

lemma bridge_inv_read_dir: "bridge_inv b \<Longrightarrow> bridge_inv (snd (session_read_remote_dir E p hid b))"
  by (simp add: session_read_remote_dir_def Let_def inv.kept_run_session)

lemma bridge_inv_service [simp]:
  "bridge_inv b \<Longrightarrow> bridge_inv (main_start_service E on srv relay api key b)"
  "bridge_inv b \<Longrightarrow> bridge_inv (set_incoming_service_started E on b)"
  "bridge_inv b \<Longrightarrow> bridge_inv (snd (drain_connect_events_json b))"
  by (simp_all add: main_start_service_def set_incoming_service_started_def drain_connect_events_json_def
      bridge_inv_clear_events Let_def)

lemma bridge_inv_step: "bridge_inv b \<Longrightarrow> op_ok (snd p) \<Longrightarrow> bridge_inv (bridge_step p b)"
  by (cases "is_local_op (snd p)", erule (1) inv.kept_local_step, cases p; cases "snd p")
    (simp_all add: bridge_inv_start bridge_inv_close bridge_inv_frame bridge_inv_read_dir bridge_inv_service)

lemma bridge_inv_run:
  "bridge_inv b \<Longrightarrow> list_all (op_ok \<circ> snd) ops \<Longrightarrow> bridge_inv (bridge_run ops b)"
  unfolding bridge_run_def by (induction ops arbitrary: b) (simp_all add: bridge_inv_step)

section \<open>What only some operations touch\<close>

text \<open>The generations and the screen frame.\<close>

definition outer :: "bridge \<Rightarrow> u64 \<times> u64 \<times> incoming_frame option \<times> incoming_screen_frame option" where
  "outer b = (b_generation b, b_file_generation b, b_capture b, b_incoming b)"

lemma outer_simps [simp]:
  "outer (queue_event E k d p b) = outer b" "outer (update_connect_state s p m d e b) = outer b"
  "outer (b\<lparr>b_local_options := opts\<rparr>) = outer b" "outer (b\<lparr>b_video := f\<rparr>) = outer b"
  "outer (b\<lparr>b_password := w\<rparr>) = outer b" "outer (b\<lparr>b_pending := q\<rparr>) = outer b"
  "outer (b\<lparr>b_config := c\<rparr>) = outer b" "outer (b\<lparr>b_temporary_password := w\<rparr>) = outer b"
  "outer (b\<lparr>b_peers := fs\<rparr>) = outer b" "outer (b\<lparr>b_active := x\<rparr>) = outer b"
  "outer (b\<lparr>b_file := x\<rparr>) = outer b" "outer (b\<lparr>b_started := u\<rparr>) = outer b"
  "outer (put_session ft hs b) = outer b" "outer (quietly ft op b) = outer b"
  "outer (clear_connect_events b) = outer b" "outer (main_set_local_option k v b) = outer b"
  "outer (apply_server_options srv relay api key b) = outer b" "outer (main_forget_password E i b) = outer b"
  by (simp_all add: outer_def clear_connect_events_def main_set_local_option_def apply_server_options_def
      main_forget_password_def Let_def)

interpretation same: kept "\<lambda>b. outer b = g" for g
  by unfold_locales simp_all

lemma outer_local_step: "is_local_op (snd p) \<Longrightarrow> outer (bridge_step p b) = outer b"
  by (rule same.kept_local_step [OF refl])

lemma outer_run_session [simp]: "outer (run_session E ft f b) = outer b"
  by (rule same.kept_run_session [OF refl])

lemma outer_close_file:
  "outer (close_file_transfer_session E b) =
   (b_generation b, b_file_generation b + 1, b_capture b, b_incoming b)"
  by (simp add: close_file_transfer_session_def Let_def) (simp add: outer_def)

lemma outer_start:
  "outer (session_start E i w srv relay api key b) =
   (b_generation b + 1, b_file_generation b + 1, b_capture b, b_incoming b)"
proof -
  have "outer (c\<lparr>b_generation := g, b_password := w\<rparr>) = (g, snd (outer c))" for c g
    by (simp add: outer_def)
  moreover have "b_generation (close_file_transfer_session E b) = b_generation b"
    using outer_close_file [of E b] by (simp add: outer_def)
  ultimately show ?thesis
    unfolding session_start_def Let_def outer_simps by (simp add: outer_close_file)
qed

lemma outer_close:
  "outer (session_close E b) = (b_generation b + 1, b_file_generation b + 1, b_capture b, b_incoming b)"
  by (simp add: session_close_def Let_def outer_close_file)

lemma outer_start_file:
  "outer (snd (start_file_transfer_session E p hid b)) \<in>
   {outer b, (b_generation b, b_file_generation b + 1, b_capture b, b_incoming b)}"
proof -
  have new: "outer (c\<lparr>b_file_generation := g\<rparr>) = (b_generation c, g, b_capture c, b_incoming c)" for c g
    by (simp add: outer_def)
  show ?thesis
    unfolding start_file_transfer_session_def Let_def if_distrib [of snd] if_distrib [of outer] snd_conv
      outer_simps outer_run_session new
    by simp
qed

lemma outer_read_dir:
  "outer (snd (session_read_remote_dir E p hid b)) \<in>
   {outer b, (b_generation b, b_file_generation b + 1, b_capture b, b_incoming b)}"
  using outer_start_file [of E "str_trim p" hid b] by (simp add: session_read_remote_dir_def Let_def)

lemma read_dir_generations:
  "b_generation (snd (session_read_remote_dir E p hid b)) = b_generation b"
  "b_file_generation (snd (session_read_remote_dir E p hid b)) \<in> {b_file_generation b, b_file_generation b + 1}"
  "b_capture (snd (session_read_remote_dir E p hid b)) = b_capture b"
  using outer_read_dir [of E p hid b] by (auto simp: outer_def)

lemma outer_clear_frame: "outer (clear_incoming_screen_frame b) = (b_generation b, b_file_generation b, None, None)"
  by (simp add: clear_incoming_screen_frame_def outer_def)

lemma outer_service: "outer (main_start_service E on srv relay api key b) = (b_generation b, b_file_generation b, None, None)"
  by (simp add: main_start_service_def Let_def) (simp add: outer_def clear_incoming_screen_frame_def apply_server_options_def)

lemma outer_quiet_ops:
  "outer (set_incoming_service_started E on b) = outer b" "outer (snd (drain_connect_events_json b)) = outer b"
  by (simp_all add: set_incoming_service_started_def drain_connect_events_json_def Let_def)

lemma outer_sel [simp]:
  "fst (outer b) = b_generation b" "fst (snd (outer b)) = b_file_generation b"
  "fst (snd (snd (outer b))) = b_capture b" "snd (snd (snd (outer b))) = b_incoming b"
  by (simp_all add: outer_def)

lemma frame_generations:
  "b_generation (snd (update_incoming_screen_frame E w h s t fmt bytes b)) = b_generation b"
  "b_file_generation (snd (update_incoming_screen_frame E w h s t fmt bytes b)) = b_file_generation b"
  unfolding update_incoming_screen_frame_def Let_def by (auto split: option.split prod.split)

section \<open>Generations only go up\<close>

definition advances :: "u64 \<Rightarrow> u64 \<Rightarrow> nat \<Rightarrow> bool" where
  "advances g g' n \<longleftrightarrow> (\<exists>k\<le>n. g' = g + of_nat k)"

lemma advances_0: "advances g g n"
  unfolding advances_def by (rule exI [of _ 0]) simp

lemma advances_1: "0 < n \<Longrightarrow> advances g (g + 1) n"
  unfolding advances_def by (rule exI [of _ 1]) simp

lemma advances_trans:
  assumes "advances g g' m" "advances g' g'' n"
  shows "advances g g'' (m + n)"
proof -
  obtain i j where "i \<le> m" "g' = g + of_nat i" "j \<le> n" "g'' = g' + of_nat j"
    using assms by (auto simp: advances_def)
  then have "i + j \<le> m + n \<and> g'' = g + of_nat (i + j)" by (simp add: add.assoc)
  then show ?thesis by (auto simp: advances_def)
qed

lemma advances_differs:
  assumes "advances (g + 1) g' n" "n < 2 ^ 64 - 1"
  shows "g' \<noteq> g"
proof -
  obtain k where k: "k \<le> n" "g' = g + of_nat (Suc k)" using assms(1) by (auto simp: advances_def)
  then have "unat (of_nat (Suc k) :: u64) = Suc k"
    using assms(2) by (simp only: unat_of_nat) simp
  then show ?thesis using k(2) by auto
qed

lemma read_dir_advances:
  "advances (b_file_generation b) (b_file_generation (snd (session_read_remote_dir E p hid b))) (Suc 0)"
  using read_dir_generations(2) [of E p hid b] advances_0 [of _ "Suc 0"] advances_1 [of "Suc 0"] by auto

lemma step_advances:
  "advances (b_generation b) (b_generation (bridge_step p b)) 1"
  "advances (b_file_generation b) (b_file_generation (bridge_step p b)) 1"
proof -
  obtain E op where p: "p = (E, op)" by (cases p)
  define x where "x = outer (bridge_step p b)"
  have "advances (b_generation b) (fst x) 1 \<and> advances (b_file_generation b) (fst (snd x)) 1"
  proof (cases "is_local_op op")
    case True
    then show ?thesis by (simp add: x_def outer_local_step p advances_0)
  next
    case False
    then show ?thesis
      by (cases op)
        (auto simp: x_def p read_dir_generations(1) read_dir_advances outer_start outer_close outer_clear_frame outer_service outer_quiet_ops
          frame_generations advances_0 advances_1)
  qed
  then show "advances (b_generation b) (b_generation (bridge_step p b)) 1"
    "advances (b_file_generation b) (b_file_generation (bridge_step p b)) 1"
    by (simp_all add: x_def)
qed

lemma run_advances:
  "advances (b_generation b) (b_generation (bridge_run ops b)) (length ops)"
  "advances (b_file_generation b) (b_file_generation (bridge_run ops b)) (length ops)"
proof (induction ops arbitrary: b)
  case (Cons p ops)
  { case 1
    show ?case
      using advances_trans [OF step_advances(1) [of b p] Cons(1) [of "bridge_step p b"]]
      by (simp add: bridge_run_def) }
  { case 2
    show ?case
      using advances_trans [OF step_advances(2) [of b p] Cons(2) [of "bridge_step p b"]]
      by (simp add: bridge_run_def) }
qed (simp_all add: bridge_run_def advances_0)

section \<open>The screen frame as a mailbox\<close>

text \<open>The specification: one slot, overwritten by each accepted frame, emptied with the service.\<close>

fun frame_spec :: "bridge_op \<Rightarrow> incoming_frame option \<Rightarrow> incoming_frame option" where
  "frame_spec (Screen_frame width height stride t fmt bytes) slot =
     (if frame_accepted width height stride bytes then
        Some \<lparr>if_id = (case slot of Some f \<Rightarrow> saturating_add_u64 (if_id f) 1 | None \<Rightarrow> 1),
              if_width = nat width, if_height = nat height, if_stride = nat stride,
              if_bytes = take (nat (stride * height)) bytes,
              if_pixfmt = pixfmt_of (if str_trim fmt = [] then ''RGBA'' else str_trim fmt)\<rparr>
      else slot)"
| "frame_spec Clear_frame slot = None"
| "frame_spec (Start_service on srv relay api key) slot = None"
| "frame_spec _ slot = slot"

lemma next_frame_id_captured:
  "next_frame_id g = (case map_option captured g of Some f \<Rightarrow> saturating_add_u64 (if_id f) 1 | None \<Rightarrow> 1)"
  by (cases g) (simp_all add: next_frame_id_def captured_def)

lemma frame_step:
  assumes "bridge_inv b" "op_ok (Screen_frame width height stride t fmt bytes)"
  shows "b_capture (snd (update_incoming_screen_frame E width height stride t fmt bytes b)) =
    frame_spec (Screen_frame width height stride t fmt bytes) (b_capture b)"
proof (cases "frame_accepted width height stride bytes")
  case True
  with assms(2) obtain f d where
    u: "update_incoming_screen_frame E width height stride t fmt bytes b =
        (True, (if b_incoming b = None then queue_event E ''incoming-video-source-active'' d [] else id)
          (b\<lparr>b_capture := Some (captured f), b_incoming := Some f\<rparr>))" and
    f: "in_id f = next_frame_id (b_incoming b)" "in_width f = nat width" "in_height f = nat height"
      "in_stride f = nat stride" "in_bytes f = take (nat (stride * height)) bytes"
      "in_format f = (if str_trim fmt = [] then ''RGBA'' else str_trim fmt)"
    using update_frame [of width bytes height stride E t fmt b] by auto
  have "b_capture b = map_option captured (b_incoming b)" using assms(1) by (simp add: bridge_inv_def)
  with True show ?thesis
    by (simp add: u captured_def [of f] f next_frame_id_captured)
next
  case False
  with assms(2) show ?thesis
    using update_frame [of width bytes height stride E t fmt b] by simp
qed

lemma capture_step:
  assumes "bridge_inv b" "op_ok op"
  shows "b_capture (bridge_step (E, op) b) = frame_spec op (b_capture b)"
proof (cases "is_local_op op")
  case True
  then have "frame_spec op (b_capture b) = b_capture b" by (cases op) simp_all
  moreover have "b_capture (bridge_step (E, op) b) = b_capture b"
    using outer_local_step [of "(E, op)" b] True by (simp add: outer_def)
  ultimately show ?thesis by simp
next
  case False
  have capture: "b_capture x = s" if "outer x = (g, g', s, f)" for x g g' s f
    using that by (simp add: outer_def)
  have quiet: "b_capture x = b_capture b" if "outer x = outer b" for x
    using that by (simp add: outer_def)
  show ?thesis
  proof (cases "\<exists>w h s t fmt bytes. op = Screen_frame w h s t fmt bytes")
    case True
    then show ?thesis using frame_step [OF assms(1)] assms(2) by auto
  next
    case other: False
    then show ?thesis
      using False
      by (cases op)
        (simp_all add: capture [OF outer_start] capture [OF outer_close] capture [OF outer_clear_frame]
          capture [OF outer_service] quiet [OF outer_quiet_ops(1)] quiet [OF outer_quiet_ops(2)]
          read_dir_generations(3))
  qed
qed

end
