(* ===== verification/OhosServer.thy ===== *)
theory OhosServer
  imports OhosVideo OhosLogin HarmonyRuns
begin

text \<open>
  The controlled side of the HarmonyOS application, \<open>src/harmony_bridge/server_ohos.rs\<close>: the server with
  its services, the connections with their message handling, logins, options, input and the loop that
  sends what the services post. A running connection is its local variables; the two global tables
  \<open>ALIVE_CONNS\<close> and \<open>PEER_CONNS\<close> are fields of the server. What a loop of \<open>select!\<close> does next is an
  operation of \<open>server_op\<close>, in any order.
\<close>

section \<open>Messages from the controlling side\<close>

datatype wire_key =
    Wk_control int
  | Wk_chr u32
  | Wk_unicode u32
  | Wk_seq string
  | Wk_win2win_hotkey u32
  | Wk_none

record wire_key_event =
  wk_union :: wire_key
  wk_down :: bool
  wk_press :: bool
  wk_modifiers :: "int list"

datatype in_msg =
    In_login login_request string
  | In_mouse mouse_event
  | In_key wire_key_event
  | In_cliprdr
  | In_multi_clipboards
  | In_file_action
  | In_chat string
  | In_switch_display int
  | In_refresh_video bool
  | In_option option_message
  | In_stop_service bool
  | In_other_misc
  | In_test_delay test_delay
  | In_other

datatype injection =
    Inject_mouse int int int
  | Inject_key int u32 int int u32

section \<open>State\<close>

record connection =
  cn_hash :: hash_challenge
  cn_authorized :: bool
  cn_keyboard :: bool
  cn_clipboard :: bool
  cn_audio :: bool
  cn_login :: "login_request option"
  cn_services_subed :: bool
  cn_video_fails :: nat

record 'e ohos_server =
  os_bridge :: bridge
  os_main :: main_config
  os_main_file :: main_config
  os_devices :: "trusted_device list \<times> bool"
  os_services :: "string \<rightharpoonup> service"
  os_video :: "'e video_thread"
  os_connections :: "int set"
  os_id_count :: int
  os_alive :: "int list"
  os_peer_conns :: "string \<rightharpoonup> int"
  os_conns :: "int \<rightharpoonup> connection"
  os_channels :: "int \<Rightarrow> channels"
  os_sent :: "int \<Rightarrow> out_msg list"
  os_injected :: "injection list"

text \<open>What lies outside: the clock and the printer of the bridge, the digests, random draws, the input
  interface of the system (its result codes), the names the peer information gives.\<close>

record ohos_env =
  oe_bridge :: bridge_env
  oe_crypto :: crypto
  oe_draws :: draws
  oe_inject :: "injection \<Rightarrow> int"
  oe_username :: string
  oe_hostname :: string
  oe_version :: string

definition server_auth :: "'e ohos_server \<Rightarrow> auth_state" where
  "server_auth S =
     \<lparr>base = b_config (os_bridge S), conf = os_main S, conf_file = os_main_file S,
      devices_cache = os_devices S, temporary_password = b_temporary_password (os_bridge S)\<rparr>"

definition put_auth :: "auth_state \<Rightarrow> 'e ohos_server \<Rightarrow> 'e ohos_server" where
  "put_auth a S =
     S\<lparr>os_bridge := (os_bridge S)\<lparr>b_config := base a, b_temporary_password := temporary_password a\<rparr>,
       os_main := conf a, os_main_file := conf_file a, os_devices := devices_cache a\<rparr>"

definition os_event :: "ohos_env \<Rightarrow> string \<Rightarrow> string \<Rightarrow> string \<Rightarrow> 'e ohos_server \<Rightarrow> 'e ohos_server" where
  "os_event E kind detail peer S = S\<lparr>os_bridge := queue_event (oe_bridge E) kind detail peer (os_bridge S)\<rparr>"

definition stream_send :: "int \<Rightarrow> out_msg \<Rightarrow> 'e ohos_server \<Rightarrow> 'e ohos_server" where
  "stream_send i m S = S\<lparr>os_sent := (os_sent S)(i := os_sent S i @ [m])\<rparr>"

section \<open>The server\<close>

definition AUDIO :: string where "AUDIO = ''audio''"
definition DISPLAY_SERVICE :: string where "DISPLAY_SERVICE = ''display''"
definition CLIPBOARD :: string where "CLIPBOARD = ''clipboard''"

datatype video_source = Monitor | Camera

definition service_name_prefix :: "video_source \<Rightarrow> string" where
  "service_name_prefix s = (case s of Monitor \<Rightarrow> ''monitor'' | Camera \<Rightarrow> ''camera'')"

definition get_service_name :: "video_source \<Rightarrow> nat \<Rightarrow> string" where
  "get_service_name s idx = service_name_prefix s @ dec_nat idx"

definition is_video_service_name :: "string \<Rightarrow> bool" where
  "is_video_service_name n \<longleftrightarrow>
     starts_with n (service_name_prefix Monitor) \<or> starts_with n (service_name_prefix Camera)"

definition add_service :: "service \<Rightarrow> (string \<rightharpoonup> service) \<Rightarrow> string \<rightharpoonup> service" where
  "add_service s m = m(sv_name s \<mapsto> s)"

text \<open>\<open>new\<close>: the number drawn for the ids is the argument.\<close>

definition server_new :: "int \<Rightarrow> bridge \<Rightarrow> auth_state \<Rightarrow> 'e ohos_server" where
  "server_new draw b a =
     \<lparr>os_bridge = b, os_main = conf a, os_main_file = conf_file a, os_devices = devices_cache a,
      os_services = add_service (service_new CLIPBOARD False)
        (add_service (service_new DISPLAY_SERVICE True) (add_service (service_new AUDIO False) Map.empty)),
      os_video = video_thread_new, os_connections = {},
      os_id_count = sgn draw * (abs draw mod 1000) + 1000, os_alive = [], os_peer_conns = Map.empty, os_conns = Map.empty,
      os_channels = (\<lambda>_. no_channels), os_sent = (\<lambda>_. []), os_injected = []\<rparr>"

definition get_new_id :: "'e ohos_server \<Rightarrow> int \<times> 'e ohos_server" where
  "get_new_id S = (let i = as_i32 (os_id_count S + 1) in (i, S\<lparr>os_id_count := i\<rparr>))"

text \<open>\<open>Server::subscribe\<close>.\<close>

definition server_subscribe :: "string \<Rightarrow> int \<Rightarrow> bool \<Rightarrow> 'e ohos_server \<Rightarrow> 'e ohos_server" where
  "server_subscribe name i on S =
     (case os_services S name of
        None \<Rightarrow> S
      | Some s \<Rightarrow> S\<lparr>os_services := (os_services S)(name \<mapsto> change_subscription i on s)\<rparr>)"

definition add_connection :: "int \<Rightarrow> string list \<Rightarrow> 'e ohos_server \<Rightarrow> 'e ohos_server" where
  "add_connection i noperms S =
     (let add = (\<lambda>s. if is_video_service_name (sv_name s) \<and> sv_name s \<noteq> get_service_name Monitor 0 then s
                     else if sv_name s \<in> set noperms then s else on_subscribe i s)
      in S\<lparr>os_services := (\<lambda>n. map_option add (os_services S n)),
           os_connections := insert i (os_connections S)\<rparr>)"

definition remove_connection :: "int \<Rightarrow> 'e ohos_server \<Rightarrow> 'e ohos_server" where
  "remove_connection i S =
     S\<lparr>os_services := (\<lambda>n. map_option (on_unsubscribe i) (os_services S n)),
       os_connections := os_connections S - {i}\<rparr>"

definition close_connections :: "'e ohos_server \<Rightarrow> 'e ohos_server" where
  "close_connections S =
     S\<lparr>os_channels := send_each (os_connections S) (Out_stop_service True) (os_channels S)\<rparr>"

definition try_add_primary_video_service :: "'e ohos_server \<Rightarrow> 'e ohos_server" where
  "try_add_primary_video_service S =
     (if os_services S (get_service_name Monitor 0) = None
      then S\<lparr>os_services := add_service (service_new (get_service_name Monitor 0) True) (os_services S),
             os_video := video_thread_new\<rparr>
      else S)"

text \<open>\<open>Drop for Server\<close>.\<close>

definition server_drop :: "'e ohos_server \<Rightarrow> 'e ohos_server" where
  "server_drop S = S\<lparr>os_services := (\<lambda>n. map_option sv_join (os_services S n))\<rparr>"

section \<open>Input\<close>

definition modifier_bit :: "int \<Rightarrow> u32" where
  "modifier_bit k =
     (if k = 1 \<or> k = 75 then 1 else if k = 4 \<or> k = 74 then 2
      else if k = 29 \<or> k = 73 then 4 else if k = 23 \<or> k = 64 then 8 else 0)"

definition input_modifier_mask :: "wire_key_event \<Rightarrow> u32" where
  "input_modifier_mask ev = fold (\<lambda>k mask. mask OR modifier_bit k) (wk_modifiers ev) 0"

text \<open>\<open>value.chars()\<close> of a string: the code points of its UTF-8.\<close>

definition code_point :: "string \<Rightarrow> u32" where
  "code_point s =
     (let b = map (\<lambda>c. of_char c :: nat) s in
      word_of_nat
        (if length b = 1 then b ! 0
         else if length b = 2 then (b ! 0 - 0xC0) * 64 + (b ! 1 - 0x80)
         else if length b = 3 then (b ! 0 - 0xE0) * 4096 + (b ! 1 - 0x80) * 64 + (b ! 2 - 0x80)
         else (b ! 0 - 0xF0) * 262144 + (b ! 1 - 0x80) * 4096 + (b ! 2 - 0x80) * 64 + (b ! 3 - 0x80)))"

function str_chars :: "string \<Rightarrow> u32 list" where
  "str_chars s =
     (if s = [] then [] else let (ok, n) = utf8_step s in code_point (take n s) # str_chars (drop n s))"
  by pat_completeness auto
termination
  by (relation "measure length")
    (auto dest!: arg_cong [where f = snd] intro!: diff_less simp: utf8_step_pos)

declare str_chars.simps [simp del]

text \<open>The characters of a sequence are typed until one is refused.\<close>

fun inject_seq :: "ohos_env \<Rightarrow> u32 \<Rightarrow> u32 list \<Rightarrow> int \<times> injection list" where
  "inject_seq E modifiers [] = (0, [])"
| "inject_seq E modifiers (ch # chs) =
     (let inj = Inject_key (-1) ch 1 1 modifiers; current = oe_inject E inj in
      if current \<noteq> 0 then (current, [inj])
      else let (result, injs) = inject_seq E modifiers chs in (result, inj # injs))"

definition inject_key_event :: "ohos_env \<Rightarrow> wire_key_event \<Rightarrow> string \<times> int \<times> injection list" where
  "inject_key_event E ev =
     (let down = (if wk_down ev then 1 else 0); press = (if wk_press ev then 1 else 0);
          modifiers = input_modifier_mask ev;
          one = (\<lambda>kind inj. (kind, oe_inject E inj, [inj]))
      in case wk_union ev of
           Wk_control k \<Rightarrow> one ''control'' (Inject_key k 0 down press modifiers)
         | Wk_chr v \<Rightarrow> one ''position'' (Inject_key (-1) v down press modifiers)
         | Wk_unicode v \<Rightarrow> one ''unicode'' (Inject_key (-1) v down press modifiers)
         | Wk_seq v \<Rightarrow> (let (result, injs) = inject_seq E modifiers (str_chars v) in (''sequence'', result, injs))
         | Wk_win2win_hotkey v \<Rightarrow> one ''hotkey'' (Inject_key (-1) (v AND 0xffff) down press modifiers)
         | Wk_none \<Rightarrow> (''none'', 401, []))"

definition on_mouse :: "ohos_env \<Rightarrow> connection \<Rightarrow> mouse_event \<Rightarrow> 'e ohos_server \<Rightarrow> 'e ohos_server" where
  "on_mouse E cn me S =
     (if cn_keyboard cn then
        let inj = Inject_mouse (me_mask me) (me_x me) (me_y me); result = oe_inject E inj
        in os_event E ''mouse-input''
             (''mask='' @ dec_int (me_mask me) @ '';x='' @ dec_int (me_x me) @ '';y='' @ dec_int (me_y me) @
              '';result='' @ dec_int result) []
             (S\<lparr>os_injected := os_injected S @ [inj]\<rparr>)
      else S)"

definition on_key :: "ohos_env \<Rightarrow> connection \<Rightarrow> wire_key_event \<Rightarrow> 'e ohos_server \<Rightarrow> 'e ohos_server" where
  "on_key E cn ev S =
     (if cn_keyboard cn then
        let (control_key, unicode_value) =
              (case wk_union ev of Wk_control k \<Rightarrow> (k, 0) | Wk_chr v \<Rightarrow> (-1, v) | _ \<Rightarrow> (-1, 0));
            modifiers = input_modifier_mask ev;
            (kind, result, injs) = inject_key_event E ev
        in os_event E ''keyboard-input''
             (''kind='' @ kind @ '';control='' @ dec_int control_key @ '';unicode='' @ dec_nat (unat unicode_value) @
              '';down='' @ dec_bool (wk_down ev) @ '';press='' @ dec_bool (wk_press ev) @
              '';modifiers='' @ dec_nat (unat modifiers) @ '';result='' @ dec_int result) []
             (S\<lparr>os_injected := os_injected S @ injs\<rparr>)
      else S)"

section \<open>Login\<close>

definition LOGIN_MSG_PASSWORD_WRONG :: string where "LOGIN_MSG_PASSWORD_WRONG = ''Wrong Password''"

definition supported_encoding_ohos :: supported_encoding where
  "supported_encoding_ohos = \<lparr>se_h264 = False, se_h265 = False, se_vp8 = True, se_av1 = False\<rparr>"

definition displays_on_login :: "bridge \<Rightarrow> display_info list" where
  "displays_on_login b =
     (let (w, h) = display_primary b in
      [\<lparr>di_x = 0, di_y = 0, di_width = as_i32 (int w), di_height = as_i32 (int h), di_name = ''OHOS'',
        di_online = True, di_cursor_embedded = False, di_original = None, di_scale = 0\<rparr>])"

definition own_peer_info :: "ohos_env \<Rightarrow> bridge \<Rightarrow> peer_info" where
  "own_peer_info E b =
     \<lparr>pi_user = oe_username E, pi_host = oe_hostname E, pi_os = ''OHOS'', pi_displays = displays_on_login b,
      pi_current_display = 0, pi_version = oe_version E, pi_features = Some False,
      pi_encoding = Some supported_encoding_ohos, pi_sessions = [], pi_current_sid = 0\<rparr>"

text \<open>A later connection of the same peer replaces the earlier one.\<close>

definition replace_old_connection :: "string \<Rightarrow> int \<Rightarrow> 'e ohos_server \<Rightarrow> 'e ohos_server" where
  "replace_old_connection peer_id i S =
     (let old = os_peer_conns S peer_id; S = S\<lparr>os_peer_conns := (os_peer_conns S)(peer_id \<mapsto> i)\<rparr> in
      case old of
        None \<Rightarrow> S
      | Some old_id \<Rightarrow>
          if old_id \<noteq> i \<and> old_id \<in> set (os_alive S) then
            let S = (if old_id \<in> os_connections S
                     then S\<lparr>os_channels := send_each {old_id} (Out_close_reason ''Replaced by new connection'')
                              (os_channels S)\<rparr>
                     else S)
            in S\<lparr>os_alive := filter (\<lambda>x. x \<noteq> old_id) (os_alive S), os_connections := os_connections S - {old_id}\<rparr>
          else S)"

definition put_conn :: "int \<Rightarrow> connection \<Rightarrow> 'e ohos_server \<Rightarrow> 'e ohos_server" where
  "put_conn i cn S = S\<lparr>os_conns := (os_conns S)(i \<mapsto> cn)\<rparr>"

definition subscribe_services :: "int \<Rightarrow> connection \<Rightarrow> login_request \<Rightarrow> 'e ohos_server \<Rightarrow> 'e ohos_server" where
  "subscribe_services i cn lr S =
     (let is_file_transfer = (lr_kind lr = Login_file_transfer [] False) in
      if \<not> cn_services_subed cn \<and> \<not> is_file_transfer then
        add_connection i (if cn_audio cn then [] else [AUDIO])
          (try_add_primary_video_service (put_conn i (cn\<lparr>cn_services_subed := True\<rparr>) S))
      else S)"

text \<open>The request's \<open>my_name\<close> is a separate argument.\<close>

definition on_login ::
    "ohos_env \<Rightarrow> int \<Rightarrow> connection \<Rightarrow> login_request \<Rightarrow> string \<Rightarrow> 'e ohos_server \<Rightarrow> 'e ohos_server" where
  "on_login E i cn lr my_name S =
     (let cn = cn\<lparr>cn_login := Some lr\<rparr>; S = put_conn i cn S in
      if \<not> validate_password (oe_crypto E) (server_auth S) (cn_hash cn) lr then
        os_event E ''login-failed'' (''id='' @ lr_my_id lr @ '' wrong password'') (lr_my_id lr)
          (stream_send i (Out_login_error LOGIN_MSG_PASSWORD_WRONG) S)
      else
        let cn = cn\<lparr>cn_authorized := True\<rparr>;
            S = replace_old_connection (lr_my_id lr) i (put_conn i cn S);
            S = stream_send i (Out_login_ok (own_peer_info E (os_bridge S))) S
        in subscribe_services i cn lr
             (os_event E ''login-authorized'' (''id='' @ lr_my_id lr @ '' name='' @ my_name) (lr_my_id lr) S))"

section \<open>The other messages\<close>

definition handle_option_message ::
    "int \<Rightarrow> connection \<Rightarrow> option_message \<Rightarrow> 'e ohos_server \<Rightarrow> 'e ohos_server" where
  "handle_option_message i cn opt S =
     (let cn = (if om_disable_keyboard opt = BoolYes then cn\<lparr>cn_keyboard := False\<rparr> else cn);
          cn = (if om_disable_clipboard opt = BoolYes then cn\<lparr>cn_clipboard := False\<rparr> else cn);
          cn = (if om_disable_audio opt = BoolYes then cn\<lparr>cn_audio := False\<rparr> else cn);
          S = put_conn i cn S
      in if \<not> cn_audio cn then server_subscribe AUDIO i False S else S)"

text \<open>\<open>handle_incoming_message\<close>: whether the connection goes on, and the server.\<close>

definition handle_incoming_message ::
    "ohos_env \<Rightarrow> int \<Rightarrow> connection \<Rightarrow> in_msg \<Rightarrow> 'e ohos_server \<Rightarrow> bool \<times> 'e ohos_server" where
  "handle_incoming_message E i cn m S =
     (case m of
        In_login lr my_name \<Rightarrow> (True, on_login E i cn lr my_name S)
      | In_mouse me \<Rightarrow> (True, on_mouse E cn me S)
      | In_key ev \<Rightarrow> (True, on_key E cn ev S)
      | In_cliprdr \<Rightarrow> (True, os_event E ''clipboard'' ''clip-from-peer'' [] S)
      | In_multi_clipboards \<Rightarrow> (True, os_event E ''multi-clipboard'' ''multi-clip-from-peer'' [] S)
      | In_file_action \<Rightarrow> (True, os_event E ''file-action'' ''file-action-from-peer'' [] S)
      | In_chat text \<Rightarrow> (True, os_event E ''chat-message-incoming'' text [] S)
      | In_switch_display d \<Rightarrow> (True, os_event E ''switch-display'' (''display='' @ dec_int d) [] S)
      | In_refresh_video v \<Rightarrow> (True, server_subscribe (get_service_name Monitor 0) i True S)
      | In_option opt \<Rightarrow> (True, handle_option_message i cn opt S)
      | In_stop_service v \<Rightarrow> (False, S)
      | In_other_misc \<Rightarrow> (True, S)
      | In_test_delay td \<Rightarrow> (True, stream_send i (Out_test_delay td) S)
      | In_other \<Rightarrow> (True, S))"

section \<open>The loop of a connection\<close>

definition cleanup_connection :: "ohos_env \<Rightarrow> int \<Rightarrow> 'e ohos_server \<Rightarrow> 'e ohos_server" where
  "cleanup_connection E i S =
     os_event E ''connection-closed'' (''id='' @ dec_int i) []
       (remove_connection i
          (S\<lparr>os_alive := filter (\<lambda>x. x \<noteq> i) (os_alive S),
             os_peer_conns := (\<lambda>p. if os_peer_conns S p = Some i then None else os_peer_conns S p)\<rparr>))"

text \<open>The loop is left: its variables and channels go.\<close>

definition end_connection :: "ohos_env \<Rightarrow> int \<Rightarrow> 'e ohos_server \<Rightarrow> 'e ohos_server" where
  "end_connection E i S =
     (let S = cleanup_connection E i S
      in S\<lparr>os_conns := (os_conns S)(i := None), os_channels := (os_channels S)(i := no_channels)\<rparr>)"

definition connection_new :: "hash_challenge \<Rightarrow> connection" where
  "connection_new hash =
     \<lparr>cn_hash = hash, cn_authorized = False, cn_keyboard = True, cn_clipboard = True, cn_audio = True,
      cn_login = None, cn_services_subed = False, cn_video_fails = 0\<rparr>"

text \<open>\<open>Connection::start\<close> up to its loop; the hash may fail to be sent.\<close>

definition connection_start :: "ohos_env \<Rightarrow> int \<Rightarrow> nat list \<Rightarrow> bool \<Rightarrow> 'e ohos_server \<Rightarrow> 'e ohos_server" where
  "connection_start E i rng sent S =
     (let S = S\<lparr>os_alive := os_alive S @ [i]\<rparr>;
          (hash, a) = connection_hash (oe_crypto E) (oe_draws E) rng (server_auth S);
          S = put_auth a S
      in if sent then put_conn i (connection_new hash) (stream_send i (Out_hash hash) S)
         else cleanup_connection E i S)"

record incoming =
  ic_secure :: bool
  ic_key_pair :: "string \<times> string"
  ic_decode :: "string \<Rightarrow> string \<Rightarrow> string + string"
  ic_reply :: handshake_reply
  ic_challenge :: "nat list"
  ic_hash_sent :: bool

definition create_tcp_connection :: "ohos_env \<Rightarrow> incoming \<Rightarrow> 'e ohos_server \<Rightarrow> (string + unit) \<times> 'e ohos_server" where
  "create_tcp_connection E ic S =
     (let (i, S) = get_new_id S;
          (key, a) = secure_handshake (oe_crypto E) (oe_draws E) (ic_decode ic) (ic_secure ic) (ic_key_pair ic)
                       (ic_reply ic) (server_auth S);
          S = put_auth a S
      in case key of
           Inl e \<Rightarrow> (Inl e, S)
         | Inr k \<Rightarrow> (Inr (), connection_start E i (ic_challenge ic) (ic_hash_sent ic) S))"

text \<open>A message posted on the video channel: five failed sends in a row are tolerated.\<close>

definition send_video :: "ohos_env \<Rightarrow> int \<Rightarrow> connection \<Rightarrow> bool \<Rightarrow> 'e ohos_server \<Rightarrow> 'e ohos_server" where
  "send_video E i cn ok S =
     (case ch_video (os_channels S i) of
        [] \<Rightarrow> S
      | m # ms \<Rightarrow>
          let S = S\<lparr>os_channels := (os_channels S)(i := (os_channels S i)\<lparr>ch_video := ms\<rparr>)\<rparr> in
          if ok then put_conn i (cn\<lparr>cn_video_fails := 0\<rparr>) (stream_send i m S)
          else if cn_video_fails cn + 1 > 5 then end_connection E i S
          else put_conn i (cn\<lparr>cn_video_fails := cn_video_fails cn + 1\<rparr>) S)"

definition send_other :: "ohos_env \<Rightarrow> int \<Rightarrow> bool \<Rightarrow> 'e ohos_server \<Rightarrow> 'e ohos_server" where
  "send_other E i ok S =
     (case ch_main (os_channels S i) of
        [] \<Rightarrow> S
      | m # ms \<Rightarrow>
          let S = S\<lparr>os_channels := (os_channels S)(i := (os_channels S i)\<lparr>ch_main := ms\<rparr>)\<rparr> in
          if ok then stream_send i m S else end_connection E i S)"

definition RECV_TIMEOUT :: int where "RECV_TIMEOUT = 60"

section \<open>Everything that happens\<close>

definition video_world_of :: "'e ohos_server \<Rightarrow> service \<Rightarrow> 'e video_world" where
  "video_world_of S s =
     \<lparr>vw_thread = os_video S, vw_service = s, vw_bridge = os_bridge S, vw_channels = os_channels S\<rparr>"

definition server_video_step :: "'e video_env \<Rightarrow> 'e ohos_server \<Rightarrow> 'e ohos_server" where
  "server_video_step V S =
     (case os_services S (get_service_name Monitor 0) of
        None \<Rightarrow> S
      | Some s \<Rightarrow>
          let w = video_step V (video_world_of S s)
          in S\<lparr>os_video := vw_thread w, os_bridge := vw_bridge w, os_channels := vw_channels w,
               os_services := (os_services S)(get_service_name Monitor 0 \<mapsto> vw_service w)\<rparr>)"

text \<open>An incoming stream; on a running connection a message, a packet that is no message, the end of the
  stream, a tick of the timer (with the seconds since the last packet), a send from one of its
  channels; a step of the video thread; the server telling everybody to stop; the application.\<close>

datatype 'e server_op =
    So_incoming incoming
  | So_message int in_msg
  | So_garbage int
  | So_stream_end int
  | So_tick int int
  | So_send_video int bool
  | So_send_other int bool
  | So_video "'e video_env"
  | So_close_connections
  | So_bridge bridge_env bridge_op

definition on_conn :: "int \<Rightarrow> (connection \<Rightarrow> 'e ohos_server \<Rightarrow> 'e ohos_server) \<Rightarrow> 'e ohos_server \<Rightarrow> 'e ohos_server" where
  "on_conn i f S = (case os_conns S i of None \<Rightarrow> S | Some cn \<Rightarrow> f cn S)"

definition receive_message :: "ohos_env \<Rightarrow> int \<Rightarrow> in_msg \<Rightarrow> connection \<Rightarrow> 'e ohos_server \<Rightarrow> 'e ohos_server" where
  "receive_message E i m cn S =
     (let (go_on, S) = handle_incoming_message E i cn m S in if go_on then S else end_connection E i S)"

fun server_step :: "ohos_env \<times> 'e server_op \<Rightarrow> 'e ohos_server \<Rightarrow> 'e ohos_server" where
  "server_step (E, So_incoming ic) S = snd (create_tcp_connection E ic S)"
| "server_step (E, So_message i m) S = on_conn i (receive_message E i m) S"
| "server_step (E, So_garbage i) S = S"
| "server_step (E, So_stream_end i) S = on_conn i (\<lambda>cn. end_connection E i) S"
| "server_step (E, So_tick i secs) S =
     on_conn i (\<lambda>cn S. if secs \<ge> RECV_TIMEOUT then end_connection E i S else S) S"
| "server_step (E, So_send_video i ok) S = on_conn i (\<lambda>cn. send_video E i cn ok) S"
| "server_step (E, So_send_other i ok) S = on_conn i (\<lambda>cn. send_other E i ok) S"
| "server_step (E, So_video V) S = server_video_step V S"
| "server_step (E, So_close_connections) S = close_connections S"
| "server_step (E, So_bridge B op) S = S\<lparr>os_bridge := bridge_step (B, op) (os_bridge S)\<rparr>"

definition server_run :: "(ohos_env \<times> 'e server_op) list \<Rightarrow> 'e ohos_server \<Rightarrow> 'e ohos_server" where
  "server_run ops S = fold server_step ops S"

text \<open>\<open>start_server\<close>, up to the start of the mediator that brings the streams.\<close>

definition start_server :: "bridge_env \<Rightarrow> bool \<Rightarrow> bridge \<Rightarrow> bridge" where
  "start_server E is_server b =
     (if is_server then
        queue_event E ''server-starting'' ''OHOS incoming server starting'' []
          (b\<lparr>b_server_running := True\<rparr>)
      else b)"

end
