(* ===== verification/HarmonySpec.thy ===== *)
theory HarmonySpec
  imports HarmonyRuns SessionProps
begin

text \<open>
  What the HarmonyOS bridge guarantees: its invariant over all runs, the silence of threads of closed
  sessions, the screen frames between the application and the encoder, the keys and the session
  toggles.
\<close>

section \<open>A concrete bridge\<close>

definition demo_bridge_env :: bridge_env where
  "demo_bridge_env =
     \<lparr>be_client = demo_env,
      be_keys = \<lparr>win_key_from_scancode = (\<lambda>_. ''Unknown''), win_scancode_from_key = (\<lambda>_. None),
        macos_key_from_code = (\<lambda>_. ''Unknown''), macos_keycode_from_key = (\<lambda>_. None),
        linux_key_from_code = (\<lambda>_. ''Unknown''), linux_keycode_from_key = (\<lambda>_. None)\<rparr>,
      be_now = 1700000000000, be_session_id = 7, be_fingerprint = [], be_json = (\<lambda>_. ''{}''),
      be_show_f64 = (\<lambda>_. ''1.0''), be_decompress = (\<lambda>d. d), be_base64 = (\<lambda>_. [])\<rparr>"

definition demo_handler :: harmony_handler where
  "demo_handler = \<lparr>hh_generation = 3, hh_file_transfer = False\<rparr>"

definition demo_bridge :: bridge where
  "demo_bridge = (initial_bridge blank_config [] Map.empty [])
     \<lparr>b_generation := 3, b_active := Some (demo_handler, demo_session)\<rparr>"

lemma demo_bridge_inv: "bridge_inv demo_bridge"
  by (simp add: demo_bridge_def initial_bridge_def bridge_inv_def demo_handler_def demo_session_def)

lemma demo_bridge_current: "is_current demo_handler demo_bridge"
  by (simp add: demo_bridge_def demo_handler_def is_current_def initial_bridge_def)

section \<open>Threads of closed sessions\<close>

lemma generations_after:
  assumes "op = Session_close \<or> op = Session_start i w srv relay api key"
  shows "b_generation (bridge_step (E, op) b) = b_generation b + 1"
    "b_file_generation (bridge_step (E, op) b) = b_file_generation b + 1"
  using assms outer_close [of E b] outer_start [of E i w srv relay api key b] by (auto simp: outer_def)

lemma not_current_after:
  assumes "is_current h b" "op = Session_close \<or> op = Session_start i w srv relay api key"
    "length ops < 2 ^ 64 - 1"
  shows "\<not> is_current h (bridge_run ops (bridge_step (E, op) b))"
proof -
  let ?b = "bridge_step (E, op) b"
  have "b_generation (bridge_run ops ?b) \<noteq> b_generation b"
    using run_advances(1) [of ?b ops] generations_after(1) [OF assms(2)] by (intro advances_differs [OF _ assms(3)]) simp
  moreover have "b_file_generation (bridge_run ops ?b) \<noteq> b_file_generation b"
    using run_advances(2) [of ?b ops] generations_after(2) [OF assms(2)] by (intro advances_differs [OF _ assms(3)]) simp
  ultimately show ?thesis using assms(1) by (auto simp: is_current_def Let_def)
qed

text \<open>C8: The callbacks of a connection thread stop having any effect once its session is closed or another
  one is started, whatever the application does afterwards.\<close>

theorem closed_sessions_are_silent:
  assumes "is_current h b" "op = Session_close \<or> op = Session_start i w srv relay api key"
    "length ops < 2 ^ 64 - 1"
  shows "deliver E' h calls (bridge_run ops (bridge_step (E, op) b)) = bridge_run ops (bridge_step (E, op) b)"
  by (rule stale_deliver) (rule not_current_after [OF assms])

theorem closed_sessions_are_silent_witness:
  "deliver demo_bridge_env demo_handler [Ui_on_connected DEFAULT_CONN]
     (bridge_run [(demo_bridge_env, Drain_events)] (bridge_step (demo_bridge_env, Session_close) demo_bridge)) =
   bridge_run [(demo_bridge_env, Drain_events)] (bridge_step (demo_bridge_env, Session_close) demo_bridge)"
proof -
  have "length [(demo_bridge_env, Drain_events)] < 2 ^ 64 - 1" by simp
  from closed_sessions_are_silent [OF demo_bridge_current _ this, of Session_close] show ?thesis by blast
qed

section \<open>All runs\<close>



text \<open>C32: The shared screen frame refines a mailbox with one slot.\<close>

theorem screen_frames_refine_a_mailbox:
  assumes "list_all (op_ok \<circ> snd) ops"
  shows "b_capture (bridge_run ops (initial_bridge c w fs dir)) = fold frame_spec (map snd ops) None"
proof -
  have "bridge_inv b \<Longrightarrow> list_all (op_ok \<circ> snd) ops \<Longrightarrow>
      b_capture (bridge_run ops b) = fold frame_spec (map snd ops) (b_capture b)" for b
    unfolding bridge_run_def
  proof (induction ops arbitrary: b)
    case (Cons p ops)
    obtain E op where p: "p = (E, op)" by (cases p)
    with Cons.prems have "bridge_inv (bridge_step (E, op) b)" by (intro bridge_inv_step) simp_all
    then show ?case using Cons by (simp add: p capture_step)
  qed simp
  from this [OF bridge_inv_initial assms] show ?thesis by (simp add: initial_bridge_def)
qed

theorem screen_frames_refine_a_mailbox_witness:
  "b_capture (bridge_run [(demo_bridge_env, Screen_frame 1 1 4 0 ''BGRA'' [1, 2, 3, 4, 5])]
     (initial_bridge blank_config [] Map.empty [])) =
   fold frame_spec [Screen_frame 1 1 4 0 ''BGRA'' [1, 2, 3, 4, 5]] None"
  using screen_frames_refine_a_mailbox [of "[(demo_bridge_env, Screen_frame 1 1 4 0 ''BGRA'' [1, 2, 3, 4, 5])]"]
  by simp

section \<open>The encoder's side\<close>

text \<open>A frame that is shared and not yet taken.\<close>

definition fresh_at :: "(nat \<Rightarrow> incoming_frame option \<times> int) \<Rightarrow> capturer \<Rightarrow> nat \<Rightarrow> bool" where
  "fresh_at looks c n \<longleftrightarrow> capturer_look (fst (looks n)) c \<noteq> None"

lemma capturer_frame_result:
  assumes "capturer_frame fuel looks n timeout c = Some r"
  shows "\<exists>m\<ge>n. (\<forall>k. n \<le> k \<and> k < m \<longrightarrow> \<not> fresh_at looks c k \<and> snd (looks k) < timeout) \<and>
    r = capturer_look (fst (looks m)) c \<and> (r = None \<longrightarrow> timeout \<le> snd (looks m))"
  using assms
proof (induction fuel looks n timeout c rule: capturer_frame.induct)
  case (1 looks n timeout c)
  then show ?case by simp
next
  case (2 fuel looks n timeout c)
  show ?case
  proof (cases "capturer_look (fst (looks n)) c = None \<and> snd (looks n) < timeout")
    case True
    then obtain m where m: "m \<ge> n + 1"
      "\<forall>k. n + 1 \<le> k \<and> k < m \<longrightarrow> \<not> fresh_at looks c k \<and> snd (looks k) < timeout"
      "r = capturer_look (fst (looks m)) c" "r = None \<longrightarrow> timeout \<le> snd (looks m)"
      using 2 by auto
    have "\<not> fresh_at looks c k \<and> snd (looks k) < timeout" if "n \<le> k" "k < m" for k
      using m(2) True that by (cases "k = n") (auto simp: fresh_at_def)
    then show ?thesis using m by (intro exI [of _ m]) simp
  next
    case False
    then show ?thesis using "2.prems" by (intro exI [of _ n]) (auto split: option.splits if_splits)
  qed
qed

lemma capturer_frame_returns:
  "capturer_look (fst (looks (n + k))) c \<noteq> None \<or> timeout \<le> snd (looks (n + k)) \<Longrightarrow> k < fuel \<Longrightarrow>
   capturer_frame fuel looks n timeout c \<noteq> None"
proof (induction k arbitrary: n fuel)
  case 0
  then show ?case by (cases fuel) (auto split: option.split)
next
  case (Suc k)
  then obtain f where "fuel = Suc f" by (cases fuel) auto
  then show ?case using Suc.IH [of "n + 1" f] Suc.prems by (simp split: option.split)
qed



section \<open>Toggles of the session\<close>

lemma wire_toggles_known: "set WIRE_TOGGLE_OPTIONS \<subseteq> set known_toggles"
  by (simp add: WIRE_TOGGLE_OPTIONS_def known_toggles_def)

lemma client_send_option_result [simp]: "s_client (send_option_result f s) = fst (f (s_client s))"
  by (auto simp: send_option_result_def send_msg_def send_def Let_def case_prod_unfold split: option.split)

lemma set_session_toggle_reads_back:
  assumes "synced e (s_client s)" "k \<in> set WIRE_TOGGLE_OPTIONS"
  shows "get_toggle_option (s_lc (set_session_toggle e k v s)) k = v"
  using toggle_option_known(1) [OF assms(1)] assms(2) wire_toggles_known
  by (auto simp: set_session_toggle_def ss_toggle_option_def)

lemma active_after_quietly:
  assumes "bridge_inv b" "b_active b = Some (h, s)" "\<And>s. s_ui (f s) = s_ui s"
  shows "b_active (on_active E f b) = Some (h, f (with_files b s))"
proof -
  have "on_active E f b = quietly False f b"
    by (rule run_session_quietly) (use assms bridge_inv_get [OF assms(1)] in \<open>auto\<close>)
  then show ?thesis using assms(2) by (simp add: quietly_def get_session_def put_session_def)
qed

lemma active_set_local [simp]: "b_active (main_set_local_option k v b) = b_active b"
  by (simp add: main_set_local_option_def Let_def)

lemma wire_toggle_branch:
  assumes "k \<in> set WIRE_TOGGLE_OPTIONS"
  shows "apply_option_to E k v s b = (on_active E (set_session_toggle (env_of E b) k (option_is_enabled v)) b, True)"
proof -
  have "list_all (\<lambda>n. k \<noteq> n) [''image-quality'', ''custom-image-quality'', ''custom-fps'', ''keyboard-mode'',
      ''codec-preference'', ''block-input'', ''privacy-mode'', ''record-session'', ''take-screenshot'',
      ''switch-sides'', ''session-action'']"
    using assms by (auto simp: WIRE_TOGGLE_OPTIONS_def)
  then show ?thesis using assms by (simp add: apply_option_to_def Let_def)
qed

text \<open>A toggle the application sets is applied to the running session: read back, it is what was asked
  for, whatever it was before.\<close>

theorem session_toggles_read_back:
  assumes "bridge_inv b" "b_active b = Some (h, s)" "synced (env_of E b) (s_client (with_files b s))"
    "k \<in> set WIRE_TOGGLE_OPTIONS"
  shows "fst (apply_session_option E k v b) \<and>
    session_get_toggle_option k (snd (apply_session_option E k v b)) = option_is_enabled v"
proof -
  define b1 where "b1 = on_active E (set_session_toggle (env_of E b) k (option_is_enabled v)) b"
  have a: "b_active b1 = Some (h, set_session_toggle (env_of E b) k (option_is_enabled v) (with_files b s))"
    unfolding b1_def by (rule active_after_quietly [OF assms(1,2)]) simp
  have "get_toggle_option (s_lc (set_session_toggle (env_of E b) k (option_is_enabled v) (with_files b s))) k =
      option_is_enabled v"
    by (rule set_session_toggle_reads_back [OF assms(3,4)])
  with a show ?thesis
    unfolding apply_session_option_def assms(2) option.case prod.case Let_def
      wire_toggle_branch [OF assms(4)] b1_def [symmetric]
    by (auto simp: session_get_toggle_option_def)
qed

section \<open>Keys\<close>

lemma key_names_known: "(c, n) \<in> set key_names \<Longrightarrow> map_of KEY_MAP n \<noteq> None"
  unfolding map_of_eq_None_iff by (auto simp: key_names_def KEY_MAP_def)

lemma letters_known:
  assumes "c \<in> {48..57} \<union> {65..90}"
  shows "map_of KEY_MAP (''VK_'' @ [char_of (c :: nat)]) \<noteq> None"
proof -
  have "list_all (\<lambda>c :: nat. ''VK_'' @ [char_of c] \<in> fst ` set KEY_MAP) ([48..<58] @ [65..<91])"
    by (simp add: upt_rec KEY_MAP_def char_of_eq_iff)
  then have "\<forall>c\<in>set ([48..<58] @ [65..<91]). ''VK_'' @ [char_of (c :: nat)] \<in> fst ` set KEY_MAP"
    by (simp add: list_all_iff)
  moreover have "c \<in> set ([48..<58] @ [65..<91])" using assms unfolding set_append set_upt by auto
  ultimately show ?thesis unfolding map_of_eq_None_iff by blast
qed

lemma key_of_name_known: "map_of KEY_MAP n \<noteq> None \<Longrightarrow> key_of_name n \<noteq> None"
  by (simp add: key_of_name_def)

lemma key_of_name_char:
  assumes "32 \<le> c" "c \<le> 126"
  shows "key_of_name [char_of (c :: nat)] \<noteq> None"
  using assms by (simp add: key_of_name_def utf8_chars_def utf8_cont_def)

lemma key_names_domain:
  "fst ` set key_names = {8, 9, 13, 16, 17, 18, 20, 27} \<union> {32..40} \<union> {44, 45, 46, 91, 92, 93} \<union> {112..123}"
proof -
  have "map fst key_names = [8, 9, 13, 16, 17, 18, 20, 27] @ [32..40] @ [44, 45, 46, 91, 92, 93] @ [112..123]"
    by (simp add: key_names_def upto_rec1)
  then have "set (map fst key_names) =
      set ([8, 9, 13, 16, 17, 18, 20, 27] @ [32..40] @ [44, 45, 46, 91, 92, 93] @ [112..123])"
    by (rule arg_cong)
  then show ?thesis by (simp only: set_map set_append set_upto Un_assoc) simp
qed

text \<open>The key codes the bridge knows.\<close>

lemma key_code_known:
  "key_code_to_official_key_name c \<noteq> None \<longleftrightarrow> c \<in> {8, 9, 13, 16, 17, 18, 20, 27} \<or> 32 \<le> c \<and> c \<le> 126"
proof (cases "map_of key_names c")
  case None
  then have "c \<notin> fst ` set key_names" by (simp add: map_of_eq_None_iff)
  then have "c \<notin> {8, 9, 13, 16, 17, 18, 20, 27}" unfolding key_names_domain by blast
  moreover have "key_code_to_official_key_name c \<noteq> None \<longleftrightarrow> 32 \<le> c \<and> c \<le> 126"
    unfolding key_code_to_official_key_name_def None option.case by simp
  ultimately show ?thesis by blast
next
  case (Some n)
  then have "c \<in> fst ` set key_names" by (metis map_of_eq_None_iff option.distinct(1))
  then have "c \<in> {8, 9, 13, 16, 17, 18, 20, 27} \<or> 32 \<le> c \<and> c \<le> 126"
    unfolding key_names_domain by (elim UnE) auto
  then show ?thesis using Some by (simp add: key_code_to_official_key_name_def)
qed

lemma key_name_is_a_key:
  assumes "key_code_to_official_key_name c = Some n"
  shows "key_of_name n \<noteq> None"
proof (cases "map_of key_names c")
  case (Some m)
  then have "(c, n) \<in> set key_names"
    using assms by (auto simp: key_code_to_official_key_name_def dest: map_of_SomeD)
  then show ?thesis by (intro key_of_name_known key_names_known)
next
  case None
  have v: "key_of_name (''VK_'' @ [char_of (nat c)]) \<noteq> None" if "nat c \<in> {48..57} \<union> {65..90}"
    using that by (intro key_of_name_known letters_known)
  have w: "key_of_name [char_of (nat c)] \<noteq> None" if "32 \<le> c" "c \<le> 126"
    using that by (intro key_of_name_char) auto
  show ?thesis
    using assms None v w
    unfolding key_code_to_official_key_name_def None option.case
    by (auto simp: nat_le_iff le_nat_iff split: if_splits)
qed

lemma ke_simps [simp]:
  "ke_down (swap_modifier_key kt s ev) = ke_down ev" "ke_mode (swap_modifier_key kt s ev) = ke_mode ev"
  by (simp_all add: swap_modifier_key_def swap_key_event_def Let_def split: key_union.split)

lemma input_key_event_simps [simp]:
  "ke_down (input_key_event k down False alt ctrl shift meta) = down"
  "ke_mode (input_key_event k down press alt ctrl shift meta) = KM_Legacy"
  by (simp_all add: input_key_event_def legacy_modifiers_def key_event_new_def Let_def)

text \<open>What the key press sends: one event, for the key code and the direction asked for.\<close>

definition key_sent :: "session \<Rightarrow> session \<Rightarrow> bool \<Rightarrow> bool" where
  "key_sent s s' down \<longleftrightarrow>
     (\<exists>ev. s_outbox s' = s_outbox s @ [Message (Msg_key_event ev)] \<and> ke_down ev = down \<and> ke_mode ev = KM_Legacy)"

lemma key_sent_event:
  "s_sender s \<Longrightarrow> ke_mode ev = KM_Legacy \<Longrightarrow> key_sent s (send_key_event kt ev (with_files b s)) (ke_down ev)"
  by (simp add: key_sent_def send_key_event_def send_msg_def send_def with_files_def)

lemma key_sent_input:
  assumes "s_sender s" "key_of_name n \<noteq> None"
  shows "key_sent s (input_key kt n down False alt ctrl shift meta (with_files b s)) down"
proof -
  obtain k where "key_of_name n = Some k" using assms(2) by auto
  then show ?thesis
    using key_sent_event [OF assms(1), of "input_key_event k down False alt ctrl shift meta"]
    by (simp add: input_key_def)
qed

lemma s_ui_keys [simp]:
  "s_ui (send_key_event kt ev s) = s_ui s" "s_ui (input_key kt n down press alt ctrl shift meta s) = s_ui s"
  by (simp_all add: send_key_event_def input_key_def split: option.split)



theorem session_toggles_read_back_witness:
  "session_get_toggle_option ''view-only''
     (snd (apply_session_option demo_bridge_env ''view-only'' ''y'' demo_bridge)) = option_is_enabled ''y''"
proof -
  have a: "b_active demo_bridge = Some (demo_handler, demo_session)" by (simp add: demo_bridge_def)
  have "env_of demo_bridge_env demo_bridge = demo_env"
    by (simp add: env_of_def demo_bridge_env_def demo_bridge_def initial_bridge_def demo_env_def)
  moreover have "s_client (with_files demo_bridge demo_session) = demo_client"
    by (simp add: with_files_def demo_bridge_def initial_bridge_def demo_session_def demo_client_def blank_client_def)
  ultimately have "synced (env_of demo_bridge_env demo_bridge) (s_client (with_files demo_bridge demo_session))"
    by (simp add: demo_client_synced)
  from session_toggles_read_back [OF demo_bridge_inv a this, of "''view-only''" "''y''"]
  show ?thesis by (simp add: WIRE_TOGGLE_OPTIONS_def)
qed

section \<open>Frame numbers start again\<close>

text \<open>Stopping the service forgets the number of the last frame. A capturer that took frame number one
  before takes no notice of the first frame after.\<close>

lemma frame_after_restart_is_skipped:
  assumes "frame_accepted width height stride bytes" "cap_last_frame_id c = 1"
  shows "capturer_look (fold frame_spec
    [Screen_frame w h st t0 fmt0 bytes0, Start_service on srv relay api key,
     Screen_frame width height stride t fmt bytes] slot) c = None"
  using assms by (simp add: capturer_look_def)

section \<open>The first reconnect\<close>

definition threads :: "session \<Rightarrow> bool \<times> nat" where
  "threads s = (s_thread s, length (s_spawned s))"

lemma threads_simps [simp]:
  "threads (send d s) = threads s" "threads (on_client f s) = threads s" "threads (send_msg m s) = threads s"
  "threads (spawn_round s) = (s_thread s, length (s_spawned s) + 1)"
  by (simp_all add: threads_def send_def on_client_def send_msg_def spawn_round_def Let_def)

lemma threads_results [simp]:
  "threads (send_result g s) = threads s" "threads (send_option_result g' s) = threads s"
  by (simp_all add: send_result_def send_option_result_def Let_def case_prod_unfold threads_def send_msg_def
      send_def split: option.split)

lemma threads_setters [simp]:
  "threads (ss_toggle_option e k s) = threads s" "threads (set_session_toggle e k v s) = threads s"
  "threads (ss_save_image_quality e q s) = threads s" "threads (ss_save_custom_image_quality e n s) = threads s"
  "threads (ss_set_custom_fps e n s) = threads s" "threads (ss_save_keyboard_mode e q s) = threads s"
  "threads (ss_set_option e k q s) = threads s"
  by (simp_all add: ss_toggle_option_def set_session_toggle_def ss_save_image_quality_def
      ss_save_custom_image_quality_def ss_set_custom_fps_def ss_save_keyboard_mode_def ss_set_option_def Let_def)

lemma threads_default_options [simp]: "threads (fold (apply_default_option e saved) ks s) = threads s"
proof (induction ks arbitrary: s)
  case (Cons k ks)
  have "threads (apply_default_option e saved k s) = threads s"
    unfolding apply_default_option_def Let_def by (simp split: option.split)
  then show ?case using Cons by simp
qed simp

lemma default_session_threads [simp]: "s_thread (default_session E b) = False" "s_spawned (default_session E b) = []"
  by (simp_all add: default_session_def Let_def)

lemma session_start_shape:
  "\<exists>h e saved s0 b1. session_start E i w srv relay api key b =
     put_session False (h, spawn_round (fold (apply_default_option e saved) HARMONY_SESSION_DEFAULT_OPTIONS s0)) b1 \<and>
     threads s0 = (False, 0)"
  unfolding session_start_def Let_def
  by (intro exI conjI, rule refl) (simp add: threads_def on_client_def)

text \<open>The thread that runs the first connection is not recorded in the session, so that the first
  reconnect leaves it running beside the one it starts.\<close>

lemma first_reconnect_does_not_close:
  assumes "b_active (session_start E i w srv relay api key b) = Some (h, s)"
  shows "s_outbox (ss_reconnect r (io_loop_started s)) = s_outbox s"
    "length (s_spawned (ss_reconnect r (io_loop_started s))) = 2"
proof -
  obtain h' e saved s0 b1 where
    "session_start E i w srv relay api key b =
     put_session False (h', spawn_round (fold (apply_default_option e saved) HARMONY_SESSION_DEFAULT_OPTIONS s0)) b1"
    "threads s0 = (False, 0)"
    using session_start_shape by blast
  then have s: "s = spawn_round (fold (apply_default_option e saved) HARMONY_SESSION_DEFAULT_OPTIONS s0)"
    using assms by (simp add: put_session_def)
  have "threads s = (False, 1)"
    using threads_default_options [of e saved HARMONY_SESSION_DEFAULT_OPTIONS s0] \<open>threads s0 = _\<close>
    unfolding s threads_simps by (simp add: threads_def)
  then show "s_outbox (ss_reconnect r (io_loop_started s)) = s_outbox s"
    "length (s_spawned (ss_reconnect r (io_loop_started s))) = 2"
    by (simp_all add: ss_reconnect_def io_loop_started_def threads_def on_lc_def on_client_def Let_def)
qed

end
