(* ===== verification/OhosVideoProps.thy ===== *)
theory OhosVideoProps
  imports OhosVideo HarmonySpec
begin

text \<open>
  What the video service guarantees its subscribers: the first frame of each is a key frame, as long as
  the last active one does not leave during a run, and a waiting subscriber gets a frame within seven
  steps of the thread when the screen keeps changing; and the pauses after failures.
\<close>

section \<open>What libvpx promises\<close>

definition is_key_msg :: "out_msg \<Rightarrow> bool" where
  "is_key_msg m =
     (case m of Out_video vf \<Rightarrow> vm_vp9s vf \<noteq> [] \<and> ef_key (hd (vm_vp9s vf)) | _ \<Rightarrow> False)"

text \<open>The first packet of a new context is a key frame (\<open>P\<close> holds until it is out), and the flush of a
  context does not fail.\<close>

definition first_is_key :: "('e \<Rightarrow> bool) \<Rightarrow> (string + encoded_frame list) \<times> 'e \<Rightarrow> bool" where
  "first_is_key P out = (case out of (Inr (f # fs), e) \<Rightarrow> ef_key f | (_, e) \<Rightarrow> P e)"

definition starts_with_key :: "'e vpx \<Rightarrow> ('e \<Rightarrow> bool) \<Rightarrow> bool" where
  "starts_with_key v P \<longleftrightarrow>
     (\<forall>w h e. vpx_init v w h = Inr e \<longrightarrow> P e) \<and>
     (\<forall>e d t. P e \<longrightarrow> first_is_key P (vpx_encode v e d t)) \<and>
     (\<forall>e. P e \<longrightarrow> first_is_key P (vpx_flush v e)) \<and>
     (\<forall>e. \<exists>fs e'. vpx_flush v e = (Inr fs, e'))"

lemma encode_first_is_key:
  assumes "starts_with_key v P" "P (en_ctx en)" "encode_to_message v en d t = (r, en')"
  shows "case r of Inr vf \<Rightarrow> is_key_msg (Out_video vf) | Inl _ \<Rightarrow> P (en_ctx en')"
proof -
  have enc: "first_is_key P (vpx_encode v (en_ctx en) d t)"
    using assms(1,2) by (simp add: starts_with_key_def)
  have fl: "P e \<Longrightarrow> first_is_key P (vpx_flush v e)" "\<exists>fs e'. vpx_flush v e = (Inr fs, e')" for e
    using assms(1) by (simp_all add: starts_with_key_def)
  show ?thesis
  proof (cases "length d < en_width en * en_height en * 12 div 8")
    case True
    then show ?thesis using assms(2,3) by (auto simp: encode_to_message_def vpx_encode_image_def)
  next
    case False
    obtain out e1 where e1: "vpx_encode v (en_ctx en) d t = (out, e1)" by (cases "vpx_encode v (en_ctx en) d t")
    obtain gs e2 where e2: "vpx_flush v e1 = (Inr gs, e2)" using fl(2) by blast
    show ?thesis
      using False assms(3) enc fl(1) [of e1] e1 e2
      by (auto simp: encode_to_message_def vpx_encode_image_def vpx_flush_image_def first_is_key_def
          is_key_msg_def split: sum.splits list.splits)
  qed
qed

section \<open>Moves of the service's world\<close>

abbreviation change_service :: "(service \<Rightarrow> service) \<Rightarrow> 'e video_world \<Rightarrow> 'e video_world" where
  "change_service f w \<equiv> w\<lparr>vw_service := f (vw_service w)\<rparr>"

text \<open>Between two steps of the thread, connections subscribe and leave, other messages are posted, the
  application works on the bridge, and the refresh option may be set. \<open>leave\<close> excludes the last active
  subscriber of a run.\<close>

inductive video_move :: "'e vpx \<Rightarrow> 'e video_world \<Rightarrow> 'e video_world \<Rightarrow> bool" for v where
  thread: "ve_vpx E = v \<Longrightarrow> video_move v w (video_step E w)"
| subscribe: "video_move v w (change_service (on_subscribe i) w)"
| leave: "sv_subscribes (vw_service w) - {i} \<noteq> {} \<or> vt_phase (vw_thread w) = Vp_idle \<Longrightarrow>
    video_move v w (change_service (on_unsubscribe i) w)"
| refresh: "video_move v w (change_service (set_option_bool OPTION_REFRESH on) w)"
| stop: "video_move v w (change_service sv_join w)"
| post: "\<not> tx_by_video m \<Longrightarrow> video_move v w (w\<lparr>vw_channels := send_each ids m (vw_channels w)\<rparr>)"
| bridge: "video_move v w (w\<lparr>vw_bridge := bridge_step p (vw_bridge w)\<rparr>)"

definition video_world_new :: "service \<Rightarrow> bridge \<Rightarrow> 'e video_world" where
  "video_world_new s b =
     \<lparr>vw_thread = video_thread_new, vw_service = s, vw_bridge = b, vw_channels = (\<lambda>_. no_channels)\<rparr>"

section \<open>The first frame is a key frame\<close>

text \<open>The run of a phase.\<close>

fun phase_run :: "'e video_phase \<Rightarrow> 'e video_run option" where
  "phase_run Vp_idle = None"
| "phase_run (Vp_loop r) = Some r"
| "phase_run (Vp_snapshot r yuv) = Some r"
| "phase_run (Vp_encode r yuv) = Some r"
| "phase_run Vp_exited = None"

fun at_encode :: "'e video_phase \<Rightarrow> bool" where
  "at_encode (Vp_encode r yuv) = True"
| "at_encode ph = False"

definition starved :: "'e video_world \<Rightarrow> bool" where
  "starved w \<longleftrightarrow> (\<exists>i\<in>sv_subscribes (vw_service w). ch_video (vw_channels w i) = []) \<or>
     sv_subscribes (vw_service w) = {}"

definition keyed :: "('e \<Rightarrow> bool) \<Rightarrow> 'e video_world \<Rightarrow> bool" where
  "keyed P w \<longleftrightarrow>
     service_inv (vw_service w) \<and> sv_need_snapshot (vw_service w) \<and>
     (\<forall>i. ch_video (vw_channels w i) \<noteq> [] \<longrightarrow> is_key_msg (hd (ch_video (vw_channels w i)))) \<and>
     (\<forall>r. phase_run (vt_phase (vw_thread w)) = Some r \<longrightarrow>
        (starved w \<longrightarrow> P (en_ctx (vr_encoder r))) \<and>
        (sv_subscribes (vw_service w) = {} \<longrightarrow> sv_new_subscribes (vw_service w) \<noteq> {})) \<and>
     (at_encode (vt_phase (vw_thread w)) \<longrightarrow> sv_subscribes (vw_service w) \<noteq> {})"

lemma need_snapshot_kept [simp]:
  "sv_need_snapshot (on_subscribe i s) = sv_need_snapshot s"
  "sv_need_snapshot (on_unsubscribe i s) = sv_need_snapshot s"
  "sv_need_snapshot (snd (snapshot f s)) = sv_need_snapshot s"
  "sv_need_snapshot (swap_new_subscribes s) = sv_need_snapshot s"
  "sv_need_snapshot (set_option_bool k on s) = sv_need_snapshot s"
  "sv_need_snapshot (sv_join s) = sv_need_snapshot s"
  by (simp_all add: on_subscribe_def on_unsubscribe_def snapshot_def swap_new_subscribes_def
      set_option_bool_def sv_set_option_def sv_join_def)

lemma kept_subscribes [simp]:
  "sv_subscribes (set_option_bool k on s) = sv_subscribes s" "sv_subscribes (sv_join s) = sv_subscribes s"
  "sv_new_subscribes (set_option_bool k on s) = sv_new_subscribes s"
  "sv_new_subscribes (sv_join s) = sv_new_subscribes s"
  by (simp_all add: set_option_bool_def sv_set_option_def sv_join_def)

lemma conn_send_simps [simp]:
  "\<not> tx_by_video m \<Longrightarrow> ch_video (conn_send m c) = ch_video c"
  "ch_video (conn_send (Out_video vf) c) = ch_video c @ [Out_video vf]"
  "ch_main (conn_send (Out_video vf) c) = ch_main c"
  by (simp_all add: conn_send_def tx_by_video_def)

lemma send_each_post [simp]: "\<not> tx_by_video m \<Longrightarrow> ch_video (send_each ids m q i) = ch_video (q i)"
  by (simp add: send_each_def)

lemma keyed_failed: "keyed P w \<Longrightarrow> keyed P (run_failed E w)"
  by (simp add: keyed_def run_failed_def Let_def)

lemma keyed_idle: "keyed P w \<Longrightarrow> keyed P (put_phase Vp_idle w)" "keyed P w \<Longrightarrow> keyed P (put_phase Vp_exited w)"
  by (simp_all add: keyed_def put_phase_def)

lemma keyed_start:
  assumes "keyed P w" "starts_with_key (ve_vpx E) P" "has_subscribes (vw_service w)"
  shows "keyed P (run_start E w)"
proof (cases "encoder_new (ve_vpx E) (fst (display_primary (vw_bridge w))) (snd (display_primary (vw_bridge w)))")
  case (Inl e)
  then show ?thesis using assms(1) by (simp add: run_start_def capturer_new_def keyed_failed)
next
  case (Inr en)
  then have "P (en_ctx en)"
    using assms(2) by (auto simp: encoder_new_def starts_with_key_def split: sum.splits)
  then show ?thesis
    using assms(1,3) Inr
    by (simp add: run_start_def capturer_new_def keyed_def put_phase_def has_subscribes_def starved_def)
qed

lemma keyed_put:
  assumes "keyed P w" "phase_run (vt_phase (vw_thread w)) = Some r" "vr_encoder r' = vr_encoder r"
  shows "keyed P (put_phase (Vp_loop r') w)" "keyed P (put_phase (Vp_snapshot r' yuv) w)"
  using assms by (simp_all add: keyed_def put_phase_def starved_def)

lemma keyed_round:
  assumes "keyed P w" "vt_phase (vw_thread w) = Vp_loop r"
  shows "keyed P (run_round E r w)"
proof -
  have r: "phase_run (vt_phase (vw_thread w)) = Some r" by (simp add: assms(2))
  note put = keyed_put [OF assms(1) r]
  show ?thesis
  proof (cases "capturer_look (b_capture (vw_bridge w)) (vr_capturer r)")
    case None
    then show ?thesis
      by (simp add: run_round_def Let_def keyed_idle(1) [OF assms(1)] keyed_failed [OF assms(1)] put)
  next
    case (Some c)
    then show ?thesis
      by (cases "convert_to_yuv (ve_vpx E) c (en_yuvfmt (vr_encoder r)) (vr_yuv r)")
        (simp_all add: run_round_def Let_def keyed_idle(1) [OF assms(1)] keyed_failed [OF assms(1)] put)
  qed
qed

lemma keyed_snapshot:
  assumes "keyed P w" "vt_phase (vw_thread w) = Vp_snapshot r yuv"
  shows "keyed P (frame_snapshot E r yuv w)"
proof -
  let ?s = "vw_service w"
  have sw: "keyed P (run_failed E (w\<lparr>vw_service := swap_new_subscribes ?s\<rparr>))"
    using assms(1) by (simp add: keyed_def run_failed_def Let_def)
  show ?thesis
    using assms sw unfolding frame_snapshot_def snapshot_def
    by (auto simp: keyed_def put_phase_def starved_def swap_new_subscribes_def service_inv_def)
qed

lemma keyed_encode:
  assumes "keyed P w" "vt_phase (vw_thread w) = Vp_encode r yuv" "starts_with_key (ve_vpx E) P"
  shows "keyed P (frame_encode E r yuv w)"
proof -
  obtain out en where out: "encode_to_message (ve_vpx E) (vr_encoder r) yuv (ve_ms E) = (out, en)"
    by (cases "encode_to_message (ve_vpx E) (vr_encoder r) yuv (ve_ms E)")
  have key: "starved w \<Longrightarrow> (case out of Inr vf \<Rightarrow> is_key_msg (Out_video vf) | Inl _ \<Rightarrow> P (en_ctx en))"
    using encode_first_is_key [OF assms(3) _ out] assms(1,2) by (simp add: keyed_def)
  have ne: "sv_subscribes (vw_service w) \<noteq> {}" using assms(1,2) by (simp add: keyed_def)
  show ?thesis
  proof (cases out)
    case (Inl e)
    then show ?thesis
      using assms(1,2) key ne by (simp add: frame_encode_def out Let_def keyed_def put_phase_def starved_def)
  next
    case (Inr vf)
    have "is_key_msg (Out_video (vf\<lparr>vm_display := 0\<rparr>)) \<longleftrightarrow> is_key_msg (Out_video vf)"
      by (simp add: is_key_msg_def)
    then show ?thesis
      using assms(1) key ne Inr
      by (auto simp: frame_encode_def out Let_def keyed_def put_phase_def starved_def send_video_frame_def
          send_each_def hd_append)
  qed
qed

lemma keyed_thread:
  assumes "keyed P w" "starts_with_key (ve_vpx E) P"
  shows "keyed P (video_step E w)"
  using assms by (simp add: video_step_def keyed_idle keyed_start keyed_round keyed_snapshot keyed_encode
      split: video_phase.split)

lemma keyed_cong:
  assumes "vw_thread w' = vw_thread w" "sv_subscribes (vw_service w') = sv_subscribes (vw_service w)"
    "sv_new_subscribes (vw_service w') = sv_new_subscribes (vw_service w)"
    "sv_need_snapshot (vw_service w') = sv_need_snapshot (vw_service w)"
    "\<And>i. ch_video (vw_channels w' i) = ch_video (vw_channels w i)"
  shows "keyed P w' \<longleftrightarrow> keyed P w"
  by (simp only: keyed_def starved_def service_inv_def assms)

lemma keyed_subscribe:
  assumes "keyed P w"
  shows "keyed P (change_service (on_subscribe i) w)"
proof (cases "i \<in> sv_subscribes (vw_service w)")
  case False
  then have "on_subscribe i (vw_service w) =
      (vw_service w)\<lparr>sv_new_subscribes := insert i (sv_new_subscribes (vw_service w))\<rparr>"
    using assms by (simp add: on_subscribe_def keyed_def)
  then show ?thesis
    using assms False by (simp add: keyed_def starved_def service_inv_def)
qed (use assms in \<open>simp add: on_subscribe_def\<close>)

lemma keyed_leave:
  assumes "keyed P w" "sv_subscribes (vw_service w) - {i} \<noteq> {} \<or> vt_phase (vw_thread w) = Vp_idle"
  shows "keyed P (change_service (on_unsubscribe i) w)"
proof (cases "vt_phase (vw_thread w) = Vp_idle")
  case True
  then show ?thesis
    using assms(1) by (simp add: keyed_def)
next
  case False
  then have ne: "sv_subscribes (vw_service w) - {i} \<noteq> {}" using assms(2) by simp
  then have ne': "sv_subscribes (vw_service w) \<noteq> {}" by blast
  have s: "sv_subscribes (on_unsubscribe i (vw_service w)) = sv_subscribes (vw_service w) - {i}"
    by (simp add: on_unsubscribe_def)
  have st: "starved (change_service (on_unsubscribe i) w) \<Longrightarrow> starved w"
    using ne by (auto simp: starved_def s)
  show ?thesis
    using assms(1) ne ne' st by (simp add: keyed_def s)
qed

lemma keyed_move:
  assumes "video_move v w w'" "keyed P w" "starts_with_key v P"
  shows "keyed P w'"
  using assms(1)
proof (cases rule: video_move.cases)
  case (thread E)
  then show ?thesis using keyed_thread [OF assms(2)] assms(3) by simp
next
  case (subscribe i)
  then show ?thesis using keyed_subscribe [OF assms(2)] by simp
next
  case (leave i)
  then show ?thesis using keyed_leave [OF assms(2)] by simp
next
  case (refresh on)
  have "keyed P w' \<longleftrightarrow> keyed P w" by (rule keyed_cong) (simp_all add: refresh)
  then show ?thesis using assms(2) by simp
next
  case stop
  have "keyed P w' \<longleftrightarrow> keyed P w" by (rule keyed_cong) (simp_all add: stop)
  then show ?thesis using assms(2) by simp
next
  case (post m ids)
  have "keyed P w' \<longleftrightarrow> keyed P w" by (rule keyed_cong) (simp_all add: post)
  then show ?thesis using assms(2) by simp
next
  case (bridge p)
  have "keyed P w' \<longleftrightarrow> keyed P w" by (rule keyed_cong) (simp_all add: bridge)
  then show ?thesis using assms(2) by simp
qed

lemma keyed_new: "keyed P (video_world_new (service_new n True) b)"
  by (simp add: keyed_def video_world_new_def video_thread_new_def no_channels_def service_new_def service_inv_def)

lemma keyed_runs:
  assumes "(video_move v)\<^sup>*\<^sup>* (video_world_new (service_new n True) b) w" "starts_with_key v P"
  shows "keyed P w"
  using assms(1) by (induction rule: rtranclp_induct) (auto simp: keyed_new intro: keyed_move assms(2))

section \<open>A waiting subscriber is served\<close>

text \<open>libvpx and libyuv work: every call succeeds, every encoding gives a packet, and the layout of an
  image has room for it.\<close>

definition vpx_works :: "'e vpx \<Rightarrow> bool" where
  "vpx_works v \<longleftrightarrow>
     (\<forall>w h. \<exists>e. vpx_init v w h = Inr e) \<and>
     (\<forall>e d t. \<exists>f fs e'. vpx_encode v e d t = (Inr (f # fs), e')) \<and>
     (\<forall>e. \<exists>fs e'. vpx_flush v e = (Inr fs, e')) \<and>
     (\<forall>w h. w \<le> yf_w (vpx_layout v w h) \<and> h \<le> yf_h (vpx_layout v w h) \<and> w \<le> yf_stride (vpx_layout v w h) ! 0) \<and>
     (\<forall>c fmt d. fst (yuv_convert v c fmt d) = 0 \<and> length (snd (yuv_convert v c fmt d)) = length d)"

definition frame_fits :: "nat \<Rightarrow> nat \<Rightarrow> incoming_frame \<Rightarrow> bool" where
  "frame_fits w h f \<longleftrightarrow> if_width f = w \<and> if_height f = h \<and> w * 4 \<le> if_stride f \<and>
     if_stride f * h \<le> length (if_bytes f) \<and> if_bytes f \<noteq> []"

fun phase_image :: "'e video_phase \<Rightarrow> u8 list option" where
  "phase_image (Vp_snapshot r yuv) = Some yuv"
| "phase_image (Vp_encode r yuv) = Some yuv"
| "phase_image ph = None"

text \<open>The service is running, and its run, if there is one, encodes a screen of this size and has only
  taken frames older than the one with the given number.\<close>

definition serving :: "'e vpx \<Rightarrow> nat \<Rightarrow> nat \<Rightarrow> u64 \<Rightarrow> 'e video_world \<Rightarrow> bool" where
  "serving v w h next_id vw \<longleftrightarrow>
     sv_active (vw_service vw) \<and> \<not> is_option_true (vw_service vw) OPTION_REFRESH \<and>
     vt_phase (vw_thread vw) \<noteq> Vp_exited \<and> 0 < next_id \<and>
     (\<forall>r. phase_run (vt_phase (vw_thread vw)) = Some r \<longrightarrow>
        en_width (vr_encoder r) = w \<and> en_height (vr_encoder r) = h \<and>
        en_yuvfmt (vr_encoder r) = vpx_layout v w h \<and> cap_last_frame_id (vr_capturer r) < next_id) \<and>
     (\<forall>yuv. phase_image (vt_phase (vw_thread vw)) = Some yuv \<longrightarrow> w * h * 12 div 8 \<le> length yuv)"

text \<open>The screen shows a new frame, then the thread takes a step.\<close>

definition live_step :: "'e video_env \<times> incoming_frame \<Rightarrow> 'e video_world \<Rightarrow> 'e video_world" where
  "live_step p w = video_step (fst p) (w\<lparr>vw_bridge := (vw_bridge w)\<lparr>b_capture := Some (snd p)\<rparr>\<rparr>)"

definition frames_sent :: "'e video_world \<Rightarrow> int \<Rightarrow> nat" where
  "frames_sent w i = length (ch_video (vw_channels w i))"

text \<open>How many steps are left before subscriber \<open>i\<close> gets a frame.\<close>

definition steps_left :: "int \<Rightarrow> 'e video_world \<Rightarrow> nat" where
  "steps_left i w =
     (let s = vw_service w; switch = (sv_subscribes s \<noteq> {} \<and> sv_new_subscribes s \<noteq> {}) in
      case vt_phase (vw_thread w) of
        Vp_idle \<Rightarrow> (if switch then 7 else 4)
      | Vp_loop r \<Rightarrow> (if switch then 6 else 3)
      | Vp_snapshot r yuv \<Rightarrow> (if switch then 5 else 2)
      | Vp_encode r yuv \<Rightarrow> (if i \<in> sv_subscribes s then 1 else 7)
      | Vp_exited \<Rightarrow> 0)"

definition closer :: "int \<Rightarrow> 'e video_world \<Rightarrow> 'e video_world \<Rightarrow> bool" where
  "closer i w w' \<longleftrightarrow> frames_sent w i < frames_sent w' i \<or>
     frames_sent w' i = frames_sent w i \<and> steps_left i w' < steps_left i w"

text \<open>What one step does for subscriber \<open>i\<close>, with the screen showing frame \<open>k\<close>.\<close>

definition advances_to :: "'e vpx \<Rightarrow> nat \<Rightarrow> nat \<Rightarrow> u64 \<Rightarrow> int \<Rightarrow> 'e video_world \<Rightarrow> 'e video_world \<Rightarrow> bool" where
  "advances_to v w h k i a b \<longleftrightarrow>
     (\<forall>n. k < n \<longrightarrow> serving v w h n b) \<and> vt_phase (vw_thread b) \<noteq> Vp_exited \<and>
     i \<in> subscribed (vw_service b) \<and> closer i a b"

lemma vpx_worksD:
  assumes "vpx_works v"
  shows "\<exists>e. vpx_init v w h = Inr e" "\<exists>f fs e'. vpx_encode v e d t = (Inr (f # fs), e')"
    "\<exists>fs e'. vpx_flush v e = (Inr fs, e')"
  using assms unfolding vpx_works_def by blast+

lemma layout_room:
  assumes "vpx_works v"
  shows "w * h * 12 div 8 \<le> yf_h (vpx_layout v w h) * (yf_stride (vpx_layout v w h) ! 0) * 2"
proof -
  have "h * w \<le> yf_h (vpx_layout v w h) * (yf_stride (vpx_layout v w h) ! 0)"
    using assms by (intro mult_le_mono) (simp_all add: vpx_works_def)
  then show ?thesis by (simp add: mult.commute [of w h])
qed

lemma convert_fits:
  assumes "vpx_works v" "frame_fits w h f" "capturer_look (Some f) c0 = Some c"
  shows "\<exists>yuv. convert_to_yuv v c (vpx_layout v w h) dst = Inr yuv \<and> w * h * 12 div 8 \<le> length yuv"
    "frame_valid c" "cap_last_frame_id c = if_id f"
proof -
  have c: "cap_width c = w" "cap_height c = h" "cap_stride c = if_stride f" "cap_buffer c = if_bytes f"
    "cap_last_frame_id c = if_id f"
    using assms(2,3) by (auto simp: capturer_look_def frame_fits_def split: if_splits)
  then show "frame_valid c" "cap_last_frame_id c = if_id f"
    using assms(2) by (simp_all add: frame_valid_def frame_fits_def)
  let ?fmt = "vpx_layout v w h"
  let ?d = "vec_resize (yf_h ?fmt * (yf_stride ?fmt ! 0) * 2) dst"
  have "fst (yuv_convert v c ?fmt ?d) = 0" "length (snd (yuv_convert v c ?fmt ?d)) = length ?d"
    "w \<le> yf_w ?fmt" "h \<le> yf_h ?fmt"
    using assms(1) by (auto simp: vpx_works_def)
  moreover have "length ?d = yf_h ?fmt * (yf_stride ?fmt ! 0) * 2" by (simp add: vec_resize_def)
  ultimately show "\<exists>yuv. convert_to_yuv v c ?fmt dst = Inr yuv \<and> w * h * 12 div 8 \<le> length yuv"
    using layout_room [OF assms(1), of w h] assms(2)
    by (simp add: convert_to_yuv_def c frame_fits_def Let_def split_def)
qed

lemma encode_works:
  assumes "vpx_works v" "en_width en * en_height en * 12 div 8 \<le> length d"
  shows "\<exists>vf en'. encode_to_message v en d t = (Inr vf, en') \<and> en_width en' = en_width en \<and>
    en_height en' = en_height en \<and> en_yuvfmt en' = en_yuvfmt en"
proof -
  obtain f fs e1 where e1: "vpx_encode v (en_ctx en) d t = (Inr (f # fs), e1)"
    using vpx_worksD(2) [OF assms(1)] by blast
  obtain gs e2 where "vpx_flush v e1 = (Inr gs, e2)" using vpx_worksD(3) [OF assms(1)] by blast
  with e1 assms(2) show ?thesis
    by (simp add: encode_to_message_def vpx_encode_image_def vpx_flush_image_def)
qed

lemma encoder_new_works:
  assumes "vpx_works v"
  shows "\<exists>en. encoder_new v w h = Inr en \<and> en_width en = w \<and> en_height en = h \<and> en_yuvfmt en = vpx_layout v w h"
proof -
  obtain e where "vpx_init v w h = Inr e" using vpx_worksD(1) [OF assms] by blast
  then show ?thesis by (simp add: encoder_new_def)
qed

lemma advances_idle:
  assumes "vpx_works (ve_vpx E)" "serving (ve_vpx E) w h (if_id f) vw" "frame_fits w h f"
    "i \<in> subscribed (vw_service vw)" "vt_phase (vw_thread vw) = Vp_idle"
  shows "advances_to (ve_vpx E) w h (if_id f) i vw (live_step (E, f) vw)"
proof -
  let ?c = "capturer_new (w, h)"
  have has: "has_subscribes (vw_service vw)" using assms(4) by (auto simp: has_subscribes_subscribed)
  obtain en where en: "encoder_new (ve_vpx E) w h = Inr en" "en_width en = w" "en_height en = h"
    "en_yuvfmt en = vpx_layout (ve_vpx E) w h"
    using encoder_new_works [OF assms(1), of w h] by blast
  have d: "display_primary ((vw_bridge vw)\<lparr>b_capture := Some f\<rparr>) = (w, h)"
    using assms(3) by (simp add: display_primary_def frame_fits_def)
  let ?r = "\<lparr>vr_encoder = en, vr_capturer = ?c, vr_yuv = [], vr_first_frame = True, vr_repeat_counter = 0,
    vr_fail_counter = 0\<rparr>"
  have "live_step (E, f) vw =
      put_phase (Vp_loop ?r) (vw\<lparr>vw_bridge := (vw_bridge vw)\<lparr>b_capture := Some f\<rparr>\<rparr>)"
    using assms(2,5) has en(1) d
    by (simp add: live_step_def video_step_def run_start_def serving_def capturer_new_def)
  moreover have "0 < n" if "if_id f < n" for n :: u64
    using that by (metis word_gt_0 word_not_simps(1))
  ultimately show ?thesis
    using assms(2,4,5) en(2-4)
    by (simp add: advances_to_def serving_def put_phase_def closer_def frames_sent_def steps_left_def
        Let_def capturer_new_def)
qed

lemma advances_loop:
  assumes "vpx_works (ve_vpx E)" "serving (ve_vpx E) w h (if_id f) vw" "frame_fits w h f"
    "i \<in> subscribed (vw_service vw)" "vt_phase (vw_thread vw) = Vp_loop r"
  shows "advances_to (ve_vpx E) w h (if_id f) i vw (live_step (E, f) vw)"
proof -
  have ok: "sv_ok (vw_service vw)" using assms(2,4) by (auto simp: sv_ok_def serving_def has_subscribes_subscribed)
  have r: "en_width (vr_encoder r) = w" "en_height (vr_encoder r) = h"
    "en_yuvfmt (vr_encoder r) = vpx_layout (ve_vpx E) w h" "cap_last_frame_id (vr_capturer r) < if_id f"
    using assms(2,5) by (simp_all add: serving_def)
  then have "if_id f \<noteq> cap_last_frame_id (vr_capturer r)" by auto
  then obtain c where c: "capturer_look (Some f) (vr_capturer r) = Some c" by (simp add: capturer_look_def)
  note fits = convert_fits [OF assms(1,3) c]
  obtain yuv where yuv: "convert_to_yuv (ve_vpx E) c (vpx_layout (ve_vpx E) w h) (vr_yuv r) = Inr yuv"
    "w * h * 12 div 8 \<le> length yuv"
    using fits(1) by blast
  let ?r = "r\<lparr>vr_capturer := c, vr_repeat_counter := 0, vr_yuv := yuv\<rparr>"
  have "live_step (E, f) vw =
      put_phase (Vp_snapshot ?r yuv) (vw\<lparr>vw_bridge := (vw_bridge vw)\<lparr>b_capture := Some f\<rparr>\<rparr>)"
    using assms(2,5) ok r c fits(2) yuv(1)
    by (simp add: live_step_def video_step_def run_round_def serving_def Let_def)
  moreover have "0 < n" if "if_id f < n" for n :: u64
    using that by (metis word_gt_0 word_not_simps(1))
  ultimately show ?thesis
    using assms(2,4,5) r fits(3) yuv(2)
    by (simp add: advances_to_def serving_def put_phase_def closer_def frames_sent_def steps_left_def Let_def)
qed

lemma advances_snapshot:
  assumes "serving (ve_vpx E) w h (if_id f) vw" "i \<in> subscribed (vw_service vw)"
    "vt_phase (vw_thread vw) = Vp_snapshot r yuv"
  shows "advances_to (ve_vpx E) w h (if_id f) i vw (live_step (E, f) vw)"
proof -
  have n: "0 < n" if "if_id f < n" for n :: u64
    using that by (metis word_gt_0 word_not_simps(1))
  let ?s = "vw_service vw" let ?vw = "vw\<lparr>vw_bridge := (vw_bridge vw)\<lparr>b_capture := Some f\<rparr>\<rparr>"
  consider (switch) "sv_new_subscribes ?s \<noteq> {}" "sv_subscribes ?s \<noteq> {}"
    | (lone) "sv_new_subscribes ?s \<noteq> {}" "sv_subscribes ?s = {}"
    | (none) "sv_new_subscribes ?s = {}" by blast
  then show ?thesis
  proof cases
    case switch
    then have "live_step (E, f) vw = run_failed E (?vw\<lparr>vw_service := swap_new_subscribes ?s\<rparr>)"
      using assms(3) by (simp add: live_step_def video_step_def frame_snapshot_def snapshot_def)
    then show ?thesis
      using assms switch n
      by (simp add: advances_to_def serving_def run_failed_def closer_def frames_sent_def steps_left_def Let_def
          swap_new_subscribes_def subscribed_def is_option_true_def sv_get_option_def)
  next
    case lone
    then have "live_step (E, f) vw = put_phase (Vp_encode r yuv) (?vw\<lparr>vw_service := swap_new_subscribes ?s\<rparr>)"
      using assms(3) by (simp add: live_step_def video_step_def frame_snapshot_def snapshot_def)
    then show ?thesis
      using assms lone n
      by (auto simp: advances_to_def serving_def put_phase_def closer_def frames_sent_def steps_left_def Let_def
          swap_new_subscribes_def subscribed_def is_option_true_def sv_get_option_def)
  next
    case none
    then have "live_step (E, f) vw = put_phase (Vp_encode r yuv) ?vw"
      using assms(3) by (simp add: live_step_def video_step_def frame_snapshot_def snapshot_def)
    then show ?thesis
      using assms none n
      by (auto simp: advances_to_def serving_def put_phase_def closer_def frames_sent_def steps_left_def Let_def
          subscribed_def)
  qed
qed

lemma advances_encode:
  assumes "vpx_works (ve_vpx E)" "serving (ve_vpx E) w h (if_id f) vw" "i \<in> subscribed (vw_service vw)"
    "vt_phase (vw_thread vw) = Vp_encode r yuv"
  shows "advances_to (ve_vpx E) w h (if_id f) i vw (live_step (E, f) vw)"
proof -
  have n: "0 < n" if "if_id f < n" for n :: u64
    using that by (metis word_gt_0 word_not_simps(1))
  have r: "en_width (vr_encoder r) = w" "en_height (vr_encoder r) = h"
    "en_yuvfmt (vr_encoder r) = vpx_layout (ve_vpx E) w h" "cap_last_frame_id (vr_capturer r) < if_id f"
    "w * h * 12 div 8 \<le> length yuv"
    using assms(2,4) by (simp_all add: serving_def)
  then obtain vf en where en: "encode_to_message (ve_vpx E) (vr_encoder r) yuv (ve_ms E) = (Inr vf, en)"
    "en_width en = w" "en_height en = h" "en_yuvfmt en = vpx_layout (ve_vpx E) w h"
    using encode_works [OF assms(1), of "vr_encoder r" yuv "ve_ms E"] by auto
  show ?thesis
    using assms(2-4) r en n
    by (auto simp: advances_to_def serving_def live_step_def video_step_def frame_encode_def put_phase_def
        closer_def frames_sent_def steps_left_def Let_def send_video_frame_def send_each_def subscribed_def)
qed

lemma live_step_advances:
  assumes "vpx_works (ve_vpx E)" "serving (ve_vpx E) w h (if_id f) vw" "frame_fits w h f"
    "i \<in> subscribed (vw_service vw)"
  shows "advances_to (ve_vpx E) w h (if_id f) i vw (live_step (E, f) vw)"
  using advances_idle [OF assms] advances_loop [OF assms] advances_snapshot [OF assms(2,4)]
    advances_encode [OF assms(1,2,4)] assms(2)
  by (cases "vt_phase (vw_thread vw)") (simp_all add: serving_def)

lemma steps_left_bound: "steps_left i vw \<le> 7"
  by (simp add: steps_left_def Let_def split: video_phase.split)

text \<open>A feed: the frames the screen shows before the steps, newer and newer.\<close>

definition feed_ok :: "'e vpx \<Rightarrow> nat \<Rightarrow> nat \<Rightarrow> ('e video_env \<times> incoming_frame) list \<Rightarrow> bool" where
  "feed_ok v w h feed \<longleftrightarrow>
     sorted_wrt (<) (map (if_id \<circ> snd) feed) \<and> (\<forall>p\<in>set feed. ve_vpx (fst p) = v \<and> frame_fits w h (snd p))"

lemma steps_left_zero: "steps_left i vw = 0 \<longleftrightarrow> vt_phase (vw_thread vw) = Vp_exited"
  by (simp add: steps_left_def Let_def split: video_phase.split)

lemma frames_sent_put [simp]:
  "frames_sent (put_phase ph w) i = frames_sent w i" "frames_sent (run_failed E w) i = frames_sent w i"
  by (simp_all add: frames_sent_def put_phase_def run_failed_def Let_def)

lemma frames_sent_step: "frames_sent w i \<le> frames_sent (video_step E w) i"
proof -
  have eq: "frames_sent (change_service g x) i = frames_sent x i" "frames_sent (x\<lparr>vw_service := s\<rparr>) i = frames_sent x i"
    for g s and x :: "'a video_world"
    by (simp_all add: frames_sent_def)
  have round: "frames_sent (run_round E r w) i = frames_sent w i" for r
    unfolding run_round_def Let_def
    by (simp split: option.split sum.split)
  have start: "frames_sent (run_start E w) i = frames_sent w i"
    by (simp add: run_start_def Let_def eq split: sum.split)
  have snap: "frames_sent (frame_snapshot E r yuv w) i = frames_sent w i" for r yuv
    by (simp add: frame_snapshot_def snapshot_def eq)
  have enc: "frames_sent w i \<le> frames_sent (frame_encode E r yuv w) i" for r yuv
  proof (cases "encode_to_message (ve_vpx E) (vr_encoder r) yuv (ve_ms E)")
    case (Pair out en)
    then show ?thesis
      by (cases out) (simp_all add: frame_encode_def Let_def send_video_frame_def frames_sent_def put_phase_def
          send_each_def)
  qed
  show ?thesis
    by (simp add: video_step_def round start snap enc split: video_phase.split)
qed

lemma frames_sent_fold: "frames_sent vw i \<le> frames_sent (fold live_step feed vw) i"
proof (induction feed arbitrary: vw)
  case (Cons p feed)
  have "frames_sent vw i \<le> frames_sent (live_step p vw) i"
    using frames_sent_step [of "vw\<lparr>vw_bridge := (vw_bridge vw)\<lparr>b_capture := Some (snd p)\<rparr>\<rparr>" i "fst p"]
    by (simp add: live_step_def frames_sent_def)
  then show ?case using Cons [of "live_step p vw"] by simp
qed simp

lemma served_within:
  assumes "vpx_works v" "feed_ok v w h feed" "feed \<noteq> [] \<longrightarrow> serving v w h (if_id (snd (hd feed))) vw"
    "i \<in> subscribed (vw_service vw)" "steps_left i vw \<le> length feed" "steps_left i vw \<noteq> 0"
  shows "frames_sent vw i < frames_sent (fold live_step feed vw) i"
  using assms(2-)
proof (induction feed arbitrary: vw)
  case Nil
  then show ?case by simp
next
  case (Cons p feed)
  obtain E f where p: "p = (E, f)" by (cases p)
  let ?vw = "live_step (E, f) vw"
  have v: "ve_vpx E = v" "frame_fits w h f" "feed_ok v w h feed"
    "feed \<noteq> [] \<longrightarrow> if_id f < if_id (snd (hd feed))"
    using Cons.prems(1) by (auto simp: p feed_ok_def)
  have adv: "advances_to v w h (if_id f) i vw ?vw"
    using live_step_advances [of E w h f vw i] assms(1) v Cons.prems(2,3) by (simp add: p)
  show ?case
  proof (cases "frames_sent vw i < frames_sent ?vw i")
    case True
    then show ?thesis using frames_sent_fold [of ?vw i feed] by (simp add: p)
  next
    case False
    then have "frames_sent ?vw i = frames_sent vw i" "steps_left i ?vw < steps_left i vw"
      using adv by (simp_all add: advances_to_def closer_def)
    then show ?thesis
      using Cons.IH [OF v(3), of ?vw] adv v(4) Cons.prems(4) by (simp add: advances_to_def p steps_left_zero)
  qed
qed

section \<open>A concrete encoder\<close>

text \<open>Its context tells whether a frame is out.\<close>

definition demo_vpx :: "bool vpx" where
  "demo_vpx =
     \<lparr>vpx_init = (\<lambda>w h. Inr False),
      vpx_encode = (\<lambda>e d t. (Inr [\<lparr>ef_data = take 1 d, ef_key = \<not> e, ef_pts = t\<rparr>], True)),
      vpx_flush = (\<lambda>e. (Inr [], e)),
      vpx_layout = (\<lambda>w h. \<lparr>yf_w = w, yf_h = h, yf_stride = [w, w, w], yf_u = w * h, yf_v = w * h\<rparr>),
      yuv_convert = (\<lambda>c fmt d. (0, d))\<rparr>"

lemma demo_vpx_ok: "starts_with_key demo_vpx (\<lambda>e. \<not> e)" "vpx_works demo_vpx"
  by (simp_all add: starts_with_key_def demo_vpx_def first_is_key_def vpx_works_def ex_bool_eq)

definition demo_video_env :: "bridge_env \<Rightarrow> bool video_env" where
  "demo_video_env E = \<lparr>ve_bridge = E, ve_vpx = demo_vpx, ve_ms = 0, ve_elapsed = 0\<rparr>"

definition demo_frame :: "u64 \<Rightarrow> incoming_frame" where
  "demo_frame k = \<lparr>if_id = k, if_width = 2, if_height = 2, if_stride = 8, if_bytes = replicate 16 0, if_pixfmt = RGBA\<rparr>"

definition demo_capturer :: "u64 \<Rightarrow> capturer" where
  "demo_capturer k = \<lparr>cap_width = 2, cap_height = 2, cap_last_frame_id = k, cap_buffer = replicate 16 0,
     cap_pixfmt = RGBA, cap_stride = 8\<rparr>"

definition demo_run :: "bool \<Rightarrow> capturer \<Rightarrow> u8 list \<Rightarrow> bool \<Rightarrow> bool video_run" where
  "demo_run out c yuv first =
     \<lparr>vr_encoder = \<lparr>en_ctx = out, en_width = 2, en_height = 2, en_yuvfmt = vpx_layout demo_vpx 2 2\<rparr>,
      vr_capturer = c, vr_yuv = yuv, vr_first_frame = first, vr_repeat_counter = 0, vr_fail_counter = 0\<rparr>"

definition demo_image :: "u8 list" where "demo_image = replicate 8 0"

definition demo_msg :: "bool \<Rightarrow> out_msg" where
  "demo_msg key = Out_video \<lparr>vm_display = 0, vm_vp9s = [\<lparr>ef_data = [0], ef_key = key, ef_pts = 0\<rparr>]\<rparr>"

text \<open>A world in a given phase, showing frame \<open>k\<close>.\<close>

definition at_phase ::
    "bridge \<Rightarrow> u64 \<Rightarrow> service \<Rightarrow> (int \<Rightarrow> channels) \<Rightarrow> bool video_phase \<Rightarrow> bool video_world" where
  "at_phase b k s q ph =
     \<lparr>vw_thread = video_thread_new\<lparr>vt_phase := ph\<rparr>, vw_service = s, vw_bridge = b\<lparr>b_capture := Some (demo_frame k)\<rparr>,
      vw_channels = q\<rparr>"

definition demo_service :: "int set \<Rightarrow> int set \<Rightarrow> service" where
  "demo_service A N = (service_new ''monitor0'' True)\<lparr>sv_subscribes := A, sv_new_subscribes := N\<rparr>"

lemma demo_service_ok:
  "A \<noteq> {} \<or> N \<noteq> {} \<Longrightarrow> sv_ok (demo_service A N)" "A \<noteq> {} \<or> N \<noteq> {} \<Longrightarrow> has_subscribes (demo_service A N)"
  "sv_active (demo_service A N)" "\<not> is_option_true (demo_service A N) OPTION_REFRESH"
  "sv_subscribes (demo_service A N) = A" "sv_new_subscribes (demo_service A N) = N"
  "swap_new_subscribes (demo_service A N) = demo_service (A \<union> N) {}"
  "i \<notin> A \<Longrightarrow> on_subscribe i (demo_service A N) = demo_service A (insert i N)"
  "i \<in> A \<Longrightarrow> on_unsubscribe i (demo_service A N) = demo_service (A - {i}) N"
  by (auto simp: demo_service_def service_new_def sv_ok_def has_subscribes_def is_option_true_def
      sv_get_option_def swap_new_subscribes_def on_subscribe_def on_unsubscribe_def)

lemma demo_start:
  "N \<noteq> {} \<Longrightarrow> video_step (demo_video_env E) (at_phase b k (demo_service {} N) q Vp_idle) =
     at_phase b k (demo_service {} N) q (Vp_loop (demo_run False (capturer_new (2, 2)) [] True))"
  by (simp add: video_step_def at_phase_def demo_service_ok run_start_def put_phase_def display_primary_def
      demo_frame_def capturer_new_def demo_run_def encoder_new_def demo_video_env_def demo_vpx_def)

lemma demo_round:
  assumes "A \<noteq> {} \<or> N \<noteq> {}" "yuv = [] \<or> yuv = demo_image" "cap_last_frame_id c \<noteq> k"
  shows "video_step (demo_video_env E) (at_phase b k (demo_service A N) q (Vp_loop (demo_run out c yuv first))) =
    at_phase b k (demo_service A N) q (Vp_snapshot (demo_run out (demo_capturer k) demo_image first) demo_image)"
proof -
  have look: "capturer_look (Some (demo_frame k)) c = Some (demo_capturer k)"
    using assms(3) by (simp add: capturer_look_def demo_frame_def demo_capturer_def)
  have conv: "convert_to_yuv demo_vpx (demo_capturer k) (vpx_layout demo_vpx 2 2) yuv = Inr demo_image"
    using assms(2) by (auto simp: convert_to_yuv_def demo_capturer_def demo_vpx_def vec_resize_def demo_image_def)
  have "frame_valid (demo_capturer k)" by (simp add: frame_valid_def demo_capturer_def)
  then show ?thesis
    using assms(1) look conv
    by (simp add: video_step_def at_phase_def run_round_def demo_service_ok put_phase_def demo_run_def
        demo_video_env_def)
qed

lemma demo_still:
  assumes "A \<noteq> {} \<or> N \<noteq> {}" "cap_last_frame_id c = k"
  shows "video_step (demo_video_env E) (at_phase b k (demo_service A N) q (Vp_loop (demo_run out c yuv first))) =
    at_phase b k (demo_service A N) q (Vp_loop (demo_run out c yuv first))"
proof -
  have "capturer_look (Some (demo_frame k)) c = None"
    using assms(2) by (simp add: capturer_look_def demo_frame_def)
  then show ?thesis
    using assms(1)
    by (simp add: video_step_def at_phase_def run_round_def demo_service_ok put_phase_def demo_run_def
        latency_free_def)
qed

lemma demo_lone:
  "N \<noteq> {} \<Longrightarrow> video_step (demo_video_env E) (at_phase b k (demo_service {} N) q (Vp_snapshot r yuv)) =
     at_phase b k (demo_service N {}) q (Vp_encode r yuv)"
  by (simp add: video_step_def at_phase_def frame_snapshot_def snapshot_def demo_service_ok put_phase_def)

lemma demo_encode:
  "video_step (demo_video_env E) (at_phase b k s q (Vp_encode (demo_run out c yuv first) demo_image)) =
     at_phase (if first then set_incoming_service_started E True (b\<lparr>b_capture := Some (demo_frame k)\<rparr>) else b) k s
       (send_each (sv_subscribes s) (demo_msg (\<not> out)) q) (Vp_loop (demo_run True c yuv False))"
proof -
  have "encode_to_message demo_vpx \<lparr>en_ctx = out, en_width = 2, en_height = 2, en_yuvfmt = vpx_layout demo_vpx 2 2\<rparr>
      demo_image 0 =
    (Inr \<lparr>vm_display = 0, vm_vp9s = [\<lparr>ef_data = [0], ef_key = \<not> out, ef_pts = 0\<rparr>]\<rparr>,
     \<lparr>en_ctx = True, en_width = 2, en_height = 2, en_yuvfmt = vpx_layout demo_vpx 2 2\<rparr>)"
    by (simp add: encode_to_message_def vpx_encode_image_def vpx_flush_image_def demo_vpx_def demo_image_def
        Let_def)
  moreover have "set_incoming_service_started E True x\<lparr>b_capture := Some f\<rparr> = set_incoming_service_started E True x"
    if "b_capture x = Some f" for x f
    using that by (simp add: set_incoming_service_started_def queue_event_def Let_def)
  ultimately show ?thesis
    by (simp add: video_step_def at_phase_def frame_encode_def demo_run_def demo_video_env_def put_phase_def
        send_video_frame_def demo_msg_def)
qed

definition demo_world :: "bridge \<Rightarrow> bool video_world" where
  "demo_world b = video_world_new (service_new ''monitor0'' True) (b\<lparr>b_capture := Some (demo_frame 1)\<rparr>)"

text \<open>The world once connection 5 has subscribed and got its first frame.\<close>

definition demo_sent :: "bridge_env \<Rightarrow> bridge \<Rightarrow> bool video_world" where
  "demo_sent E b = (video_step (demo_video_env E) ^^ 4) (change_service (on_subscribe 5) (demo_world b))"

lemma demo_subscribed:
  "change_service (on_subscribe 5) (demo_world b) = at_phase b 1 (demo_service {} {5}) (\<lambda>_. no_channels) Vp_idle"
  by (simp add: demo_world_def video_world_new_def at_phase_def demo_service_def service_new_def on_subscribe_def
      video_thread_new_def)

lemma demo_sent_eq:
  "demo_sent E b = at_phase (set_incoming_service_started E True (b\<lparr>b_capture := Some (demo_frame 1)\<rparr>)) 1
     (demo_service {5} {}) (send_each {5} (demo_msg True) (\<lambda>_. no_channels))
     (Vp_loop (demo_run True (demo_capturer 1) demo_image False))"
  by (simp add: demo_sent_def eval_nat_numeral demo_subscribed demo_start demo_round demo_lone demo_encode
      capturer_new_def demo_service_ok)

lemma demo_sent_frames: "ch_video (vw_channels (demo_sent E b) 5) = [demo_msg True]"
  by (simp add: demo_sent_eq at_phase_def send_each_def demo_msg_def no_channels_def)



text \<open>The last active subscriber does leave while another one waits: the newcomer's stream starts in the
  middle.\<close>

definition demo_handover :: "bridge_env \<Rightarrow> bridge \<Rightarrow> bool video_world" where
  "demo_handover E b =
     (change_service (on_unsubscribe 5) (change_service (on_subscribe 6) (demo_sent E b)))
       \<lparr>vw_bridge := b\<lparr>b_capture := Some (demo_frame 2)\<rparr>\<rparr>"

lemma late_newcomer_gets_no_key_frame:
  "ch_video (vw_channels ((video_step (demo_video_env E) ^^ 3) (demo_handover E b)) 6) = [demo_msg False]"
    (is "?sent")
  and "\<not> is_key_msg (demo_msg False)"
proof -
  have "demo_handover E b = at_phase b 2 (demo_service {} {6})
      (send_each {5} (demo_msg True) (\<lambda>_. no_channels)) (Vp_loop (demo_run True (demo_capturer 1) demo_image False))"
    by (simp add: demo_handover_def demo_sent_eq at_phase_def demo_service_ok)
  then show ?sent
    by (simp add: eval_nat_numeral demo_round demo_lone demo_encode demo_capturer_def demo_service_ok)
      (simp add: at_phase_def send_each_def demo_msg_def no_channels_def)
  show "\<not> is_key_msg (demo_msg False)" by (simp add: is_key_msg_def demo_msg_def)
qed

text \<open>A subscriber who joins while the screen stands still gets nothing, however long the thread runs.\<close>

lemma still_screen_serves_no_newcomer:
  "(video_step (demo_video_env E) ^^ k) (change_service (on_subscribe 6) (demo_sent E b)) =
   change_service (on_subscribe 6) (demo_sent E b)"
proof (induction k)
  case (Suc k)
  have "change_service (on_subscribe 6) (demo_sent E b) =
      at_phase (set_incoming_service_started E True (b\<lparr>b_capture := Some (demo_frame 1)\<rparr>)) 1
        (demo_service {5} {6}) (send_each {5} (demo_msg True) (\<lambda>_. no_channels))
        (Vp_loop (demo_run True (demo_capturer 1) demo_image False))"
    by (simp add: demo_sent_eq at_phase_def demo_service_ok)
  with Suc show ?case by (simp add: demo_still demo_capturer_def)
qed simp



end
