(* ===== verification/OhosProps.thy ===== *)
theory OhosProps
  imports OhosServer OhosVideoProps
begin

text \<open>
  The invariant of the HarmonyOS server over all its runs: who is connected, subscribed and authorized,
  and that the ids of connections are fresh; then what a run does to one connection: how it became
  authorized, and that what it switched off stays off.
\<close>

section \<open>The invariant\<close>

definition authorized :: "'e ohos_server \<Rightarrow> int set" where
  "authorized S = {i. \<exists>cn. os_conns S i = Some cn \<and> cn_authorized cn}"

definition services_subed :: "'e ohos_server \<Rightarrow> int set" where
  "services_subed S = {i. \<exists>cn. os_conns S i = Some cn \<and> cn_services_subed cn}"

definition services_ok :: "'e ohos_server \<Rightarrow> bool" where
  "services_ok S \<longleftrightarrow>
     (\<forall>n s. os_services S n = Some s \<longrightarrow>
        sv_name s = n \<and> service_inv s \<and> subscribed s \<subseteq> dom (os_conns S) \<and>
        (n \<noteq> get_service_name Monitor 0 \<longrightarrow> subscribed s \<subseteq> services_subed S))"

definition server_inv :: "'e ohos_server \<Rightarrow> bool" where
  "server_inv S \<longleftrightarrow>
     services_ok S \<and> os_connections S \<subseteq> services_subed S \<and> services_subed S \<subseteq> authorized S \<and>
     set (os_alive S) \<subseteq> dom (os_conns S) \<and> ran (os_peer_conns S) \<subseteq> authorized S \<and>
     (\<forall>i\<in>dom (os_conns S). i \<le> os_id_count S)"

text \<open>What the invariant looks at.\<close>

definition server_view where
  "server_view S =
     (os_services S, os_connections S, os_alive S, os_peer_conns S, os_conns S, os_id_count S)"

lemma server_inv_view: "server_view S' = server_view S \<Longrightarrow> server_inv S' \<longleftrightarrow> server_inv S"
  by (simp add: server_view_def server_inv_def services_ok_def authorized_def services_subed_def)

lemma server_view_simps [simp]:
  "server_view (os_event E k d p S) = server_view S" "server_view (stream_send i m S) = server_view S"
  "server_view (put_auth a S) = server_view S" "server_view (close_connections S) = server_view S"
  "server_view (on_mouse E cn me S) = server_view S" "server_view (on_key E cn ev S) = server_view S"
  "server_view (S\<lparr>os_bridge := b\<rparr>) = server_view S" "server_view (S\<lparr>os_channels := q\<rparr>) = server_view S"
  by (simp_all add: server_view_def os_event_def stream_send_def put_auth_def close_connections_def
      on_mouse_def on_key_def Let_def split_def)

lemma server_inv_simps [simp]:
  "server_inv (os_event E k d p S) = server_inv S" "server_inv (stream_send i m S) = server_inv S"
  "server_inv (put_auth a S) = server_inv S" "server_inv (close_connections S) = server_inv S"
  "server_inv (on_mouse E cn me S) = server_inv S" "server_inv (on_key E cn ev S) = server_inv S"
  "server_inv (S\<lparr>os_bridge := b\<rparr>) = server_inv S" "server_inv (S\<lparr>os_channels := q\<rparr>) = server_inv S"
  by (rule server_inv_view, simp)+

lemma conns_simps [simp]:
  "os_conns (os_event E k d p S) = os_conns S" "os_conns (stream_send i m S) = os_conns S"
  "os_conns (put_auth a S) = os_conns S" "os_conns (put_conn i cn S) = (os_conns S)(i \<mapsto> cn)"
  "os_conns (on_mouse E cn me S) = os_conns S" "os_conns (on_key E cn ev S) = os_conns S"
  "os_conns (server_subscribe n i on S) = os_conns S" "os_conns (add_connection i np S) = os_conns S"
  "os_conns (try_add_primary_video_service S) = os_conns S"
  "os_conns (replace_old_connection p i S) = os_conns S"
  "os_conns (cleanup_connection E i S) = os_conns S"
  "os_conns (end_connection E i S) = (os_conns S)(i := None)"
  by (simp_all add: os_event_def stream_send_def put_auth_def put_conn_def on_mouse_def on_key_def
      server_subscribe_def add_connection_def try_add_primary_video_service_def replace_old_connection_def
      cleanup_connection_def remove_connection_def end_connection_def Let_def split_def split: option.split)

lemma authorized_put:
  "os_conns S i = Some cn0 \<Longrightarrow> cn_authorized cn0 \<longrightarrow> cn_authorized cn \<Longrightarrow> authorized S \<subseteq> authorized (put_conn i cn S)"
  by (auto simp: authorized_def)

lemma subed_put:
  "os_conns S i = Some cn0 \<Longrightarrow> cn_services_subed cn0 \<longrightarrow> cn_services_subed cn \<Longrightarrow>
   services_subed S \<subseteq> services_subed (put_conn i cn S)"
  by (auto simp: services_subed_def)

lemma server_inv_mono:
  assumes "server_inv S" "os_services T = os_services S" "os_connections T \<subseteq> services_subed T"
    "services_subed T \<subseteq> authorized T" "set (os_alive T) \<subseteq> dom (os_conns T)" "ran (os_peer_conns T) \<subseteq> authorized T"
    "\<forall>i\<in>dom (os_conns T). i \<le> os_id_count T" "dom (os_conns S) \<subseteq> dom (os_conns T)"
    "services_subed S \<subseteq> services_subed T"
  shows "server_inv T"
proof -
  have "services_ok T"
    unfolding services_ok_def assms(2)
  proof (intro allI impI)
    fix n s assume "os_services S n = Some s"
    then have "sv_name s = n" "service_inv s" "subscribed s \<subseteq> dom (os_conns S)"
      "n \<noteq> get_service_name Monitor 0 \<longrightarrow> subscribed s \<subseteq> services_subed S"
      using assms(1) by (simp_all add: server_inv_def services_ok_def)
    then show "sv_name s = n \<and> service_inv s \<and> subscribed s \<subseteq> dom (os_conns T) \<and>
        (n \<noteq> get_service_name Monitor 0 \<longrightarrow> subscribed s \<subseteq> services_subed T)"
      using assms(8,9) by blast
  qed
  then show ?thesis using assms(3-7) by (simp only: server_inv_def)
qed

lemma server_invD:
  assumes "server_inv S"
  shows "os_connections S \<subseteq> services_subed S" "services_subed S \<subseteq> authorized S"
    "set (os_alive S) \<subseteq> dom (os_conns S)" "ran (os_peer_conns S) \<subseteq> authorized S"
    "\<forall>i\<in>dom (os_conns S). i \<le> os_id_count S"
  using assms unfolding server_inv_def by blast+

lemma server_inv_put:
  assumes "server_inv S" "os_conns S i = Some cn0" "cn_authorized cn0 \<longrightarrow> cn_authorized cn"
    "cn_services_subed cn0 \<longrightarrow> cn_services_subed cn" "cn_services_subed cn \<longrightarrow> cn_authorized cn"
  shows "server_inv (put_conn i cn S)"
proof -
  note a = authorized_put [OF assms(2,3)] and s = subed_put [OF assms(2,4)]
  have d: "dom (os_conns (put_conn i cn S)) = dom (os_conns S)" using assms(2) by auto
  have f: "os_services (put_conn i cn S) = os_services S" "os_connections (put_conn i cn S) = os_connections S"
    "os_alive (put_conn i cn S) = os_alive S" "os_peer_conns (put_conn i cn S) = os_peer_conns S"
    "os_id_count (put_conn i cn S) = os_id_count S"
    by (simp_all add: put_conn_def)
  note inv = server_invD [OF assms(1)]
  have "services_subed (put_conn i cn S) \<subseteq> authorized (put_conn i cn S)"
    using inv(2) assms(5) by (auto simp: services_subed_def authorized_def)
  then show ?thesis
    by (rule server_inv_mono [OF assms(1) f(1) subset_trans [OF eq_refl [OF f(2)] subset_trans [OF inv(1) s]]])
      (use inv(5) in \<open>simp_all only: f d inv(3) subset_trans [OF inv(4) a] order_refl s\<close>)
qed

text \<open>Replacing services by others.\<close>

lemma server_inv_services:
  assumes "server_inv S" "\<And>n s. m n = Some s \<Longrightarrow> sv_name s = n \<and> service_inv s \<and>
      subscribed s \<subseteq> dom (os_conns S) \<and> (n \<noteq> get_service_name Monitor 0 \<longrightarrow> subscribed s \<subseteq> services_subed S)"
  shows "server_inv (S\<lparr>os_services := m\<rparr>)"
  using assms by (simp add: server_inv_def services_ok_def services_subed_def authorized_def)

lemma services_okD:
  assumes "server_inv S" "os_services S n = Some s"
  shows "sv_name s = n" "service_inv s" "subscribed s \<subseteq> dom (os_conns S)"
    "n \<noteq> get_service_name Monitor 0 \<Longrightarrow> subscribed s \<subseteq> services_subed S"
  using assms by (auto simp: server_inv_def services_ok_def)

lemma server_inv_subscribe:
  assumes "server_inv S" "on \<longrightarrow> n = get_service_name Monitor 0 \<and> i \<in> dom (os_conns S)"
  shows "server_inv (server_subscribe n i on S)"
proof (cases "os_services S n")
  case (Some s)
  note ok = services_okD [OF assms(1)]
  have "sv_name (change_subscription i on s) = sv_name s"
    by (simp add: change_subscription_def)
  then have "server_inv (S\<lparr>os_services := (os_services S)(n \<mapsto> change_subscription i on s)\<rparr>)"
    using ok [OF Some] assms(2)
    by (intro server_inv_services [OF assms(1)]) (auto split: if_splits dest: ok)
  then show ?thesis by (simp add: server_subscribe_def Some)
qed (use assms in \<open>simp add: server_subscribe_def\<close>)

lemma server_inv_add:
  assumes "server_inv S" "i \<in> services_subed S"
  shows "server_inv (add_connection i np S)"
proof -
  define add where "add s = (if is_video_service_name (sv_name s) \<and> sv_name s \<noteq> get_service_name Monitor 0 then s
    else if sv_name s \<in> set np then s else on_subscribe i s)" for s
  have i: "i \<in> dom (os_conns S)" using assms(2) by (auto simp: services_subed_def)
  have a: "sv_name (add s) = sv_name s" "service_inv s \<Longrightarrow> service_inv (add s)"
    "subscribed (add s) \<subseteq> insert i (subscribed s)" for s
    by (auto simp: add_def)
  have "server_inv (S\<lparr>os_services := (\<lambda>n. map_option add (os_services S n))\<rparr>)"
  proof (rule server_inv_services [OF assms(1)])
    fix n s assume "map_option add (os_services S n) = Some s"
    then obtain t where t: "os_services S n = Some t" "s = add t" by auto
    note ok = services_okD [OF assms(1) t(1)]
    have p: "insert i (subscribed t) \<subseteq> dom (os_conns S)"
      "n \<noteq> get_service_name Monitor 0 \<Longrightarrow> insert i (subscribed t) \<subseteq> services_subed S"
      using ok(3,4) i assms(2) by simp_all
    have q: "subscribed (add t) \<subseteq> dom (os_conns S)" by (rule subset_trans [OF a(3) p(1)])
    have r: "subscribed (add t) \<subseteq> services_subed S" if "n \<noteq> get_service_name Monitor 0"
      by (rule subset_trans [OF a(3) p(2)]) (rule that)
    show "sv_name s = n \<and> service_inv s \<and> subscribed s \<subseteq> dom (os_conns S) \<and>
        (n \<noteq> get_service_name Monitor 0 \<longrightarrow> subscribed s \<subseteq> services_subed S)"
      unfolding t(2) a(1) ok(1) by (intro conjI impI refl a(2) ok(2) q r)
  qed
  then have add: "server_inv (S\<lparr>os_services := (\<lambda>n. map_option add (os_services S n))\<rparr>)" (is "server_inv ?S") .
  let ?T = "add_connection i np S"
  have t: "os_services ?T = os_services ?S" "os_connections ?T = insert i (os_connections S)"
    "os_alive ?T = os_alive S" "os_peer_conns ?T = os_peer_conns S" "os_id_count ?T = os_id_count S"
    by (simp_all add: add_connection_def add_def [abs_def])
  have e: "authorized ?T = authorized S" "services_subed ?T = services_subed S" "services_subed ?S = services_subed S"
    by (simp_all add: authorized_def services_subed_def)
  note inv = server_invD [OF assms(1)]
  show ?thesis
    by (rule server_inv_mono [OF add t(1)]) (use inv assms(2) in \<open>simp_all add: t e del: domIff\<close>)
qed

lemma server_inv_try_add: "server_inv S \<Longrightarrow> server_inv (try_add_primary_video_service S)"
  by (auto simp: try_add_primary_video_service_def server_inv_def services_ok_def services_subed_def authorized_def
      add_service_def)

lemma server_inv_replace:
  assumes "server_inv S" "i \<in> authorized S"
  shows "server_inv (replace_old_connection p i S)"
proof -
  have "ran ((os_peer_conns S)(p \<mapsto> i)) \<subseteq> authorized S"
    using assms by (auto simp: server_inv_def ran_def split: if_splits)
  then show ?thesis
    using assms(1)
    by (auto simp: replace_old_connection_def server_inv_def services_ok_def services_subed_def authorized_def Let_def
        split: option.split)
qed

lemma server_inv_end:
  assumes "server_inv S"
  shows "server_inv (end_connection E i S)"
proof -
  have f: "os_services (end_connection E i S) = (\<lambda>n. map_option (on_unsubscribe i) (os_services S n))"
    "os_connections (end_connection E i S) = os_connections S - {i}"
    "set (os_alive (end_connection E i S)) = set (os_alive S) - {i}"
    "os_peer_conns (end_connection E i S) = (\<lambda>p. if os_peer_conns S p = Some i then None else os_peer_conns S p)"
    "os_id_count (end_connection E i S) = os_id_count S"
    by (auto simp: end_connection_def cleanup_connection_def remove_connection_def os_event_def Let_def)
  have a: "authorized (end_connection E i S) = authorized S - {i}"
    "services_subed (end_connection E i S) = services_subed S - {i}"
    by (auto simp: authorized_def services_subed_def split: if_splits)
  have "services_ok (end_connection E i S)"
    unfolding services_ok_def f a using services_okD [OF assms] by (fastforce simp: a)
  moreover have "ran (os_peer_conns (end_connection E i S)) \<subseteq> authorized S - {i}"
    using assms by (auto simp: f server_inv_def ran_def split: if_splits)
  ultimately show ?thesis
    using assms unfolding server_inv_def a f(2,3,5) by auto
qed

lemma server_inv_login:
  assumes "server_inv S" "os_conns S i = Some cn"
  shows "server_inv (on_login E i cn lr my_name S)"
proof -
  let ?cn = "cn\<lparr>cn_login := Some lr\<rparr>"
  have sub: "cn_services_subed cn \<longrightarrow> cn_authorized cn"
    using assms by (auto simp: server_inv_def services_subed_def authorized_def)
  have 1: "server_inv (put_conn i ?cn S)"
    by (rule server_inv_put [OF assms]) (simp_all add: sub)
  have 2: "server_inv (put_conn i (?cn\<lparr>cn_authorized := True\<rparr>) (put_conn i ?cn S))"
    by (rule server_inv_put [OF 1, of i ?cn]) simp_all
  define S2 where "S2 = os_event E ''login-authorized'' (''id='' @ lr_my_id lr @ '' name='' @ my_name) (lr_my_id lr)
    (stream_send i (Out_login_ok (own_peer_info E (os_bridge (replace_old_connection (lr_my_id lr) i
        (put_conn i (?cn\<lparr>cn_authorized := True\<rparr>) (put_conn i ?cn S))))))
      (replace_old_connection (lr_my_id lr) i (put_conn i (?cn\<lparr>cn_authorized := True\<rparr>) (put_conn i ?cn S))))"
  have "i \<in> authorized (put_conn i (?cn\<lparr>cn_authorized := True\<rparr>) (put_conn i ?cn S))"
    by (simp add: authorized_def)
  from server_inv_replace [OF 2 this] have 3: "server_inv S2" by (simp add: S2_def)
  have c: "os_conns S2 i = Some (?cn\<lparr>cn_authorized := True\<rparr>)" by (simp add: S2_def)
  have "server_inv (put_conn i (?cn\<lparr>cn_authorized := True, cn_services_subed := True\<rparr>) S2)"
    by (rule server_inv_put [OF 3 c]) simp_all
  from server_inv_try_add [OF this]
  have 4: "server_inv (add_connection i np (try_add_primary_video_service
      (put_conn i (?cn\<lparr>cn_authorized := True, cn_services_subed := True\<rparr>) S2)))" for np
    by (rule server_inv_add) (simp add: services_subed_def)
  have "server_inv (subscribe_services i (?cn\<lparr>cn_authorized := True\<rparr>) lr S2)"
    using 3 4 [of "[]"] 4 [of "[AUDIO]"] unfolding subscribe_services_def Let_def by auto
  then show ?thesis
    using 1 unfolding on_login_def Let_def S2_def [symmetric] by simp
qed

lemma server_inv_option:
  assumes "server_inv S" "os_conns S i = Some cn"
  shows "server_inv (handle_option_message i cn opt S)"
proof -
  have sub: "cn_services_subed cn \<longrightarrow> cn_authorized cn"
    using assms by (auto simp: server_inv_def services_subed_def authorized_def)
  have "server_inv (put_conn i cn' S)"
    if "cn_authorized cn' = cn_authorized cn" "cn_services_subed cn' = cn_services_subed cn" for cn'
    by (rule server_inv_put [OF assms]) (simp_all add: that sub)
  then show ?thesis
    by (auto simp: handle_option_message_def Let_def intro!: server_inv_subscribe)
qed

lemma server_inv_message:
  assumes "server_inv S" "os_conns S i = Some cn"
  shows "server_inv (receive_message E i m cn S)"
proof -
  have "i \<in> dom (os_conns S)" using assms(2) by auto
  then show ?thesis
    using assms server_inv_login [OF assms] server_inv_option [OF assms] server_inv_end [OF assms(1)]
      server_inv_subscribe [OF assms(1)]
    by (cases m) (simp_all add: receive_message_def handle_incoming_message_def)
qed

text \<open>A stream that comes in takes the next id.\<close>

lemma cleanup_fields:
  "os_services (cleanup_connection E i S) = (\<lambda>n. map_option (on_unsubscribe i) (os_services S n))"
  "os_connections (cleanup_connection E i S) = os_connections S - {i}"
  "os_alive (cleanup_connection E i S) = filter (\<lambda>x. x \<noteq> i) (os_alive S)"
  "os_peer_conns (cleanup_connection E i S) = (\<lambda>p. if os_peer_conns S p = Some i then None else os_peer_conns S p)"
  "os_id_count (cleanup_connection E i S) = os_id_count S"
  by (simp_all add: cleanup_connection_def remove_connection_def os_event_def)

lemma cleanup_view:
  assumes "os_services T = os_services S" "os_connections T = os_connections S" "os_alive T = os_alive S @ [i]"
    "os_peer_conns T = os_peer_conns S" "os_conns T = os_conns S" "os_id_count T = os_id_count S" "os_conns S i = None"
  shows "server_view (cleanup_connection E i T) = server_view (end_connection E i S)"
proof -
  have "os_services (end_connection E i S) = os_services (cleanup_connection E i S)"
    "os_connections (end_connection E i S) = os_connections (cleanup_connection E i S)"
    "os_alive (end_connection E i S) = os_alive (cleanup_connection E i S)"
    "os_peer_conns (end_connection E i S) = os_peer_conns (cleanup_connection E i S)"
    "os_id_count (end_connection E i S) = os_id_count (cleanup_connection E i S)"
    by (simp_all add: end_connection_def Let_def)
  then show ?thesis
    using assms(7) unfolding server_view_def cleanup_fields conns_simps assms(1-6) by (simp add: fun_upd_idem)
qed

lemma server_inv_start:
  assumes "server_inv S" "i \<notin> dom (os_conns S)" "i \<le> os_id_count S"
  shows "server_inv (connection_start E i rng sent S)"
    "os_id_count (connection_start E i rng sent S) = os_id_count S"
proof -
  obtain hash a where h: "connection_hash (oe_crypto E) (oe_draws E) rng
      (server_auth (S\<lparr>os_alive := os_alive S @ [i]\<rparr>)) = (hash, a)" by fastforce
  let ?S = "put_auth a (S\<lparr>os_alive := os_alive S @ [i]\<rparr>)"
  have f: "os_services ?S = os_services S" "os_connections ?S = os_connections S" "os_alive ?S = os_alive S @ [i]"
    "os_peer_conns ?S = os_peer_conns S" "os_conns ?S = os_conns S" "os_id_count ?S = os_id_count S"
    by (simp_all add: put_auth_def)
  have "server_view (cleanup_connection E i ?S) = server_view (end_connection E i S)"
    using assms(2) by (intro cleanup_view f) auto
  then have fail: "server_inv (cleanup_connection E i ?S)" "os_id_count (cleanup_connection E i ?S) = os_id_count S"
    using server_inv_end [OF assms(1)] server_inv_view by (blast, simp add: cleanup_fields f)
  let ?T = "put_conn i (connection_new hash) (stream_send i (Out_hash hash) ?S)"
  note inv = server_invD [OF assms(1)]
  have e: "authorized ?T = authorized S" "services_subed ?T = services_subed S"
    using assms(2) by (auto simp: authorized_def services_subed_def f connection_new_def split: if_splits)
  have d: "dom (os_conns ?T) = insert i (dom (os_conns S))" by (simp add: f)
  have g: "os_services ?T = os_services S" "os_connections ?T = os_connections S"
    "os_alive ?T = os_alive S @ [i]" "os_peer_conns ?T = os_peer_conns S" "os_id_count ?T = os_id_count S"
    by (simp_all add: put_conn_def stream_send_def f)
  have "server_inv ?T"
    by (rule server_inv_mono [OF assms(1) g(1)])
      (use inv assms(3) in \<open>simp_all only: e d g order_refl set_append list.set Un_insert_right Un_empty_right
        insert_mono subset_insertI ball_simps simp_thms\<close>)
  moreover have "os_id_count ?T = os_id_count S" by (rule g)
  ultimately have "server_inv ?T" "os_id_count ?T = os_id_count S" .
  with fail show "server_inv (connection_start E i rng sent S)"
    "os_id_count (connection_start E i rng sent S) = os_id_count S"
    by (simp_all add: connection_start_def h Let_def)
qed

lemma server_inv_incoming:
  assumes "server_inv S" "os_id_count S < 2 ^ 31 - 1" "- (2 ^ 31) \<le> os_id_count S"
  shows "server_inv (snd (create_tcp_connection E ic S))"
    "os_id_count (snd (create_tcp_connection E ic S)) = os_id_count S + 1"
proof -
  let ?i = "os_id_count S + 1"
  have id: "as_i32 ?i = ?i" using assms(2,3) by (simp add: is_i32_def)
  obtain key a where h: "secure_handshake (oe_crypto E) (oe_draws E) (ic_decode ic) (ic_secure ic) (ic_key_pair ic)
      (ic_reply ic) (server_auth (S\<lparr>os_id_count := ?i\<rparr>)) = (key, a)" by fastforce
  let ?S = "put_auth a (S\<lparr>os_id_count := ?i\<rparr>)"
  have le: "\<forall>i\<in>dom (os_conns S). i \<le> os_id_count S" using assms(1) by (simp add: server_inv_def)
  note inv = server_invD [OF assms(1)]
  have e: "authorized (S\<lparr>os_id_count := ?i\<rparr>) = authorized S"
    "services_subed (S\<lparr>os_id_count := ?i\<rparr>) = services_subed S"
    by (simp_all add: authorized_def services_subed_def)
  have "\<forall>i\<in>dom (os_conns S). i \<le> ?i"
  proof
    fix j assume "j \<in> dom (os_conns S)"
    with le have "j \<le> os_id_count S" by (rule bspec)
    then show "j \<le> ?i" by simp
  qed
  then have "server_inv (S\<lparr>os_id_count := ?i\<rparr>)"
    by (intro server_inv_mono [OF assms(1)]) (use inv in \<open>simp_all add: e del: domIff\<close>)
  then have S: "server_inv ?S" by simp
  have fresh: "?i \<notin> dom (os_conns ?S)"
  proof
    assume "?i \<in> dom (os_conns ?S)"
    then have "?i \<in> dom (os_conns S)" by (simp add: put_auth_def)
    with le have "?i \<le> os_id_count S" by (rule bspec)
    then show False by simp
  qed
  have n: "os_id_count ?S = ?i" by (simp add: put_auth_def)
  note st = server_inv_start [OF S fresh, unfolded n, OF order_refl]
  show "server_inv (snd (create_tcp_connection E ic S))"
    "os_id_count (snd (create_tcp_connection E ic S)) = os_id_count S + 1"
    using S n st unfolding create_tcp_connection_def get_new_id_def Let_def id prod.case h
    by (cases key; simp)+
qed

section \<open>The video thread and the sends\<close>

lemma subscribed_video_step:
  "service_inv (vw_service w) \<Longrightarrow> service_inv (vw_service (video_step V w))"
  "subscribed (vw_service (video_step V w)) = subscribed (vw_service w)"
  "sv_name (vw_service (video_step V w)) = sv_name (vw_service w)"
proof -
  have f: "vw_service (put_phase ph x) = vw_service x" "vw_service (run_failed V x) = vw_service x" for ph x
    by (simp_all add: put_phase_def run_failed_def Let_def)
  have round: "vw_service (run_round V r w) = vw_service w" for r
    unfolding run_round_def Let_def by (simp add: f split: option.split sum.split)
  have enc: "vw_service (frame_encode V r yuv w) = vw_service w" for r yuv
    unfolding frame_encode_def Let_def by (simp add: f split: sum.split prod.split)
  have start: "vw_service (run_start V w) \<in> {vw_service w, set_option_bool OPTION_REFRESH False (vw_service w)}"
    unfolding run_start_def Let_def by (simp add: f split: sum.split)
  have snap: "vw_service (frame_snapshot V r yuv w) \<in> {vw_service w, swap_new_subscribes (vw_service w)}" for r yuv
    unfolding frame_snapshot_def snapshot_def by (simp add: f)
  have step: "vw_service (video_step V w) \<in>
      {vw_service w, swap_new_subscribes (vw_service w), set_option_bool OPTION_REFRESH False (vw_service w)}"
    using start snap by (auto simp: video_step_def f round enc split: video_phase.split)
  have "sv_name (swap_new_subscribes s) = sv_name s" for s by (simp add: swap_new_subscribes_def)
  then show "service_inv (vw_service w) \<Longrightarrow> service_inv (vw_service (video_step V w))"
    "subscribed (vw_service (video_step V w)) = subscribed (vw_service w)"
    "sv_name (vw_service (video_step V w)) = sv_name (vw_service w)"
    using step by auto
qed

lemma server_inv_video:
  assumes "server_inv S"
  shows "server_inv (server_video_step V S)"
proof (cases "os_services S (get_service_name Monitor 0)")
  case (Some s)
  let ?s = "vw_service (video_step V (video_world_of S s))"
  have w: "vw_service (video_world_of S s) = s" by (simp add: video_world_of_def)
  note ok = services_okD [OF assms]
  have "server_inv (S\<lparr>os_services := (os_services S)(get_service_name Monitor 0 \<mapsto> ?s)\<rparr>)"
    using ok [OF Some] subscribed_video_step [where w = "video_world_of S s" and V = V]
    by (intro server_inv_services [OF assms]) (auto simp: w split: if_splits dest: ok)
  moreover have "server_view (server_video_step V S) =
      server_view (S\<lparr>os_services := (os_services S)(get_service_name Monitor 0 \<mapsto> ?s)\<rparr>)"
    by (simp add: server_video_step_def Some Let_def server_view_def)
  ultimately show ?thesis using server_inv_view by blast
qed (use assms in \<open>simp add: server_video_step_def\<close>)

lemma server_inv_send:
  assumes "server_inv S" "os_conns S i = Some cn"
  shows "server_inv (send_video E i cn ok S)" "server_inv (send_other E i ok S)"
proof -
  have sub: "cn_services_subed cn \<longrightarrow> cn_authorized cn"
    using assms by (auto simp: server_inv_def services_subed_def authorized_def)
  have put: "server_inv (put_conn i (cn\<lparr>cn_video_fails := k\<rparr>) S')" if "server_inv S'" "os_conns S' i = Some cn" for k S'
    by (rule server_inv_put [OF that]) (simp_all add: sub)
  show "server_inv (send_video E i cn ok S)"
    using assms(1,2)
    by (cases "ch_video (os_channels S i)") (simp_all add: send_video_def Let_def put server_inv_end)
  show "server_inv (send_other E i ok S)"
    using assms(1)
    by (cases "ch_main (os_channels S i)") (simp_all add: send_other_def Let_def server_inv_end)
qed

section \<open>All runs\<close>

lemma id_count_kept [simp]:
  "os_id_count (os_event E k d p S) = os_id_count S" "os_id_count (stream_send i m S) = os_id_count S"
  "os_id_count (put_conn i cn S) = os_id_count S" "os_id_count (server_subscribe n i on S) = os_id_count S"
  "os_id_count (add_connection i np S) = os_id_count S" "os_id_count (try_add_primary_video_service S) = os_id_count S"
  "os_id_count (replace_old_connection p i S) = os_id_count S" "os_id_count (close_connections S) = os_id_count S"
  "os_id_count (end_connection E i S) = os_id_count S" "os_id_count (server_video_step V S) = os_id_count S"
  by (simp_all add: os_event_def stream_send_def put_conn_def server_subscribe_def add_connection_def
      try_add_primary_video_service_def replace_old_connection_def close_connections_def end_connection_def
      cleanup_fields server_video_step_def Let_def split: option.split)

lemma id_count_message [simp]: "os_id_count (receive_message E i m cn S) = os_id_count S"
proof -
  have "os_id_count (on_login E i cn lr my_name S) = os_id_count S" for lr my_name
    by (simp add: on_login_def subscribe_services_def Let_def)
  moreover have "os_id_count (on_mouse E cn me S) = os_id_count S" "os_id_count (on_key E cn ev S) = os_id_count S" for me ev
    using server_view_simps(5) [of E cn me S] server_view_simps(6) [of E cn ev S]
    by (simp_all add: server_view_def)
  moreover have "os_id_count (handle_option_message i cn opt S) = os_id_count S" for opt
    by (simp add: handle_option_message_def Let_def)
  ultimately show ?thesis
    by (cases m) (simp_all add: receive_message_def handle_incoming_message_def)
qed

lemma id_count_send [simp]:
  "os_id_count (send_video E i cn ok S) = os_id_count S" "os_id_count (send_other E i ok S) = os_id_count S"
  by (simp_all add: send_video_def send_other_def Let_def split: list.split)

lemma server_inv_on_conn:
  assumes "server_inv S" "\<And>cn. os_conns S i = Some cn \<Longrightarrow> server_inv (f cn S) \<and> os_id_count (f cn S) = os_id_count S"
  shows "server_inv (on_conn i f S)" "os_id_count (on_conn i f S) = os_id_count S"
  using assms by (simp_all add: on_conn_def split: option.split)

lemma server_inv_step:
  assumes "server_inv S" "os_id_count S < 2 ^ 31 - 1" "- (2 ^ 31) \<le> os_id_count S"
  shows "server_inv (server_step p S)" "os_id_count (server_step p S) \<in> {os_id_count S, os_id_count S + 1}"
proof -
  obtain E op where p: "p = (E, op)" by (cases p)
  note on = server_inv_on_conn [OF assms(1)]
  have "server_inv (server_step (E, op) S) \<and> os_id_count (server_step (E, op) S) \<in> {os_id_count S, os_id_count S + 1}"
  proof (cases op)
    case (So_incoming ic)
    then show ?thesis using server_inv_incoming [OF assms] by simp
  next
    case (So_message i m)
    then show ?thesis using on [of i] server_inv_message [OF assms(1)] by simp
  next
    case (So_garbage i)
    then show ?thesis using assms(1) by simp
  next
    case (So_stream_end i)
    then show ?thesis using on [of i] server_inv_end [OF assms(1)] by simp
  next
    case (So_tick i secs)
    then show ?thesis using on [of i "\<lambda>cn S. if secs \<ge> RECV_TIMEOUT then end_connection E i S else S"]
        server_inv_end [OF assms(1)] assms(1) by simp
  next
    case (So_send_video i ok)
    then show ?thesis using on [of i] server_inv_send(1) [OF assms(1)] by simp
  next
    case (So_send_other i ok)
    then show ?thesis using on [of i "\<lambda>cn. send_other E i ok"] server_inv_send(2) [OF assms(1)] by simp
  next
    case (So_video V)
    then show ?thesis using server_inv_video [OF assms(1)] by simp
  next
    case So_close_connections
    then show ?thesis using assms(1) by simp
  next
    case (So_bridge B bop)
    then show ?thesis using assms(1) by simp
  qed
  then show "server_inv (server_step p S)" "os_id_count (server_step p S) \<in> {os_id_count S, os_id_count S + 1}"
    by (simp_all only: p)
qed

lemma server_inv_run:
  assumes "server_inv S" "- (2 ^ 31) \<le> os_id_count S" "os_id_count S + int (length ops) < 2 ^ 31"
  shows "server_inv (server_run ops S) \<and> os_id_count S \<le> os_id_count (server_run ops S) \<and>
    os_id_count (server_run ops S) \<le> os_id_count S + int (length ops)"
  using assms
proof (induction ops arbitrary: S)
  case (Cons p ops)
  note st = server_inv_step [OF Cons.prems(1) _ Cons.prems(2), of p]
  have "server_inv (server_run ops (server_step p S)) \<and>
      os_id_count (server_step p S) \<le> os_id_count (server_run ops (server_step p S)) \<and>
      os_id_count (server_run ops (server_step p S)) \<le> os_id_count (server_step p S) + int (length ops)"
    using st Cons.prems by (intro Cons.IH) auto
  then show ?case using st Cons.prems by (auto simp: server_run_def)
qed (simp add: server_run_def)

lemma server_inv_new: "server_inv (server_new draw b a)"
  "1 \<le> os_id_count (server_new draw b a)" "os_id_count (server_new draw b a) \<le> 1999"
proof -
  have "abs draw mod 1000 < 1000" "0 \<le> abs draw mod 1000" by simp_all
  then show "1 \<le> os_id_count (server_new draw b a)" "os_id_count (server_new draw b a) \<le> 1999"
    by (auto simp: server_new_def sgn_if)
  show "server_inv (server_new draw b a)"
    by (auto simp: server_inv_def services_ok_def server_new_def authorized_def services_subed_def add_service_def
        split: if_splits)
qed

text \<open>C14: In every run of the server from its start: whoever the server lists as connected, or any service
  but the video lists as a subscriber, runs a connection that has logged in; every subscriber of any
  service and every id in the two global tables belongs to a running connection; a peer's entry names a
  connection that has logged in; and no running connection has a later id than the last one given out.\<close>

theorem server_runs_keep_the_invariant:
  assumes "length ops < 2 ^ 31 - 2000"
  shows "server_inv (server_run ops (server_new draw b a :: 'e ohos_server))"
proof -
  let ?S = "server_new draw b a :: 'e ohos_server"
  have id: "1 \<le> os_id_count ?S" "os_id_count ?S \<le> 1999" by (rule server_inv_new)+
  have n: "int (length ops) < 2 ^ 31 - 2000" using assms by simp
  have "- (2 ^ 31) \<le> os_id_count ?S" using id(1) by simp
  moreover have "os_id_count ?S + int (length ops) < 2 ^ 31" using id(2) n by simp
  ultimately show ?thesis using server_inv_run [OF server_inv_new(1)] by blast
qed

definition demo_ohos_env :: ohos_env where
  "demo_ohos_env =
     \<lparr>oe_bridge = demo_bridge_env, oe_crypto = toy_crypto [], oe_draws = zero_draws, oe_inject = (\<lambda>_. 0),
      oe_username = [], oe_hostname = [], oe_version = ''1.4.2''\<rparr>"

definition demo_incoming :: incoming where
  "demo_incoming =
     \<lparr>ic_secure = False, ic_key_pair = ([], []), ic_decode = (\<lambda>_ _. Inl []), ic_reply = Reply_other,
      ic_challenge = [0, 1, 2, 3, 4, 5], ic_hash_sent = True\<rparr>"

theorem server_runs_keep_the_invariant_witness:
  "server_inv (server_run [(demo_ohos_env, So_incoming demo_incoming), (demo_ohos_env, So_message 1013 (In_chat ''hi''))]
     (server_new 12 demo_bridge hashed_auth :: bool ohos_server))"
  by (rule server_runs_keep_the_invariant) simp

section \<open>The life of one connection\<close>

text \<open>The operation is a login of this connection that the password check accepts.\<close>

definition logs_in :: "ohos_env \<times> 'e server_op \<Rightarrow> 'e ohos_server \<Rightarrow> int \<Rightarrow> hash_challenge \<Rightarrow> bool" where
  "logs_in p S i hash \<longleftrightarrow>
     (\<exists>lr my_name. snd p = So_message i (In_login lr my_name) \<and>
        validate_password (oe_crypto (fst p)) (server_auth S) hash lr)"

text \<open>What one operation may make of a running connection.\<close>

definition evolves :: "bool \<Rightarrow> connection \<Rightarrow> connection \<Rightarrow> bool" where
  "evolves login cn cn' \<longleftrightarrow>
     cn_hash cn' = cn_hash cn \<and> (cn_keyboard cn' \<longrightarrow> cn_keyboard cn) \<and> (cn_clipboard cn' \<longrightarrow> cn_clipboard cn) \<and>
     (cn_audio cn' \<longrightarrow> cn_audio cn) \<and> (cn_authorized cn' \<longrightarrow> cn_authorized cn \<or> login) \<and>
     (cn_authorized cn \<longrightarrow> cn_authorized cn')"

lemma evolves_refl [simp]: "evolves login cn cn"
  by (simp add: evolves_def)

definition conn_step_ok :: "ohos_env \<times> 'e server_op \<Rightarrow> 'e ohos_server \<Rightarrow> 'e ohos_server \<Rightarrow> bool" where
  "conn_step_ok p S S' \<longleftrightarrow>
     (\<forall>i cn'. os_conns S' i = Some cn' \<longrightarrow>
        (\<exists>cn. os_conns S i = Some cn \<and> evolves (logs_in p S i (cn_hash cn)) cn cn') \<or>
        i = as_i32 (os_id_count S + 1) \<and> (\<exists>ic. snd p = So_incoming ic) \<and> (\<exists>hash. cn' = connection_new hash))"

lemma conn_step_same: "os_conns S' = os_conns S \<Longrightarrow> conn_step_ok p S S'"
  by (auto simp: conn_step_ok_def)

lemma conn_step_end: "os_conns S' = (os_conns S)(j := None) \<Longrightarrow> conn_step_ok p S S'"
  by (auto simp: conn_step_ok_def split: if_splits)

lemma conn_step_put:
  "os_conns S j = Some cn \<Longrightarrow> evolves (logs_in p S j (cn_hash cn)) cn cn1 \<Longrightarrow> os_conns S' = (os_conns S)(j \<mapsto> cn1) \<Longrightarrow>
   conn_step_ok p S S'"
  by (auto simp: conn_step_ok_def split: if_splits)

lemma server_auth_put [simp]: "server_auth (put_conn i cn S) = server_auth S"
  by (simp add: server_auth_def put_conn_def)

lemma conns_login:
  assumes "os_conns S i = Some cn"
  shows "\<exists>cn1. os_conns (on_login E i cn lr my_name S) = (os_conns S)(i \<mapsto> cn1) \<and>
    evolves (validate_password (oe_crypto E) (server_auth S) (cn_hash cn) lr) cn cn1"
proof (cases "validate_password (oe_crypto E) (server_auth S) (cn_hash cn) lr")
  case False
  then show ?thesis by (simp add: on_login_def Let_def evolves_def exI [of _ "cn\<lparr>cn_login := Some lr\<rparr>"])
next
  case True
  let ?cn = "cn\<lparr>cn_login := Some lr, cn_authorized := True\<rparr>"
  have "os_conns (subscribe_services i ?cn lr T) \<in> {os_conns T, (os_conns T)(i \<mapsto> ?cn\<lparr>cn_services_subed := True\<rparr>)}"
    for T :: "'a ohos_server"
    by (simp add: subscribe_services_def Let_def)
  moreover obtain T where "on_login E i cn lr my_name S = subscribe_services i ?cn lr T"
    "os_conns T = (os_conns S)(i \<mapsto> ?cn)"
    using True by (simp add: on_login_def Let_def)
  ultimately have "os_conns (on_login E i cn lr my_name S) \<in>
      {(os_conns S)(i \<mapsto> ?cn), (os_conns S)(i \<mapsto> ?cn\<lparr>cn_services_subed := True\<rparr>)}"
    by (metis fun_upd_upd)
  moreover have "evolves True cn ?cn" "evolves True cn (?cn\<lparr>cn_services_subed := True\<rparr>)"
    by (simp_all add: evolves_def)
  ultimately show ?thesis using True by auto
qed

lemma conn_step_message:
  assumes "os_conns S i = Some cn"
  shows "conn_step_ok (E, So_message i m) S (receive_message E i m cn S)"
proof -
  have login: "conn_step_ok (E, So_message i (In_login lr my_name)) S (on_login E i cn lr my_name S)" for lr my_name
    using conns_login [OF assms, of E lr my_name] conn_step_put [OF assms]
    by (fastforce simp: logs_in_def)
  have option: "conn_step_ok (E, So_message i (In_option opt)) S (handle_option_message i cn opt S)" for opt
  proof -
    let ?cn = "let cn = (if om_disable_keyboard opt = BoolYes then cn\<lparr>cn_keyboard := False\<rparr> else cn);
      cn = (if om_disable_clipboard opt = BoolYes then cn\<lparr>cn_clipboard := False\<rparr> else cn)
      in if om_disable_audio opt = BoolYes then cn\<lparr>cn_audio := False\<rparr> else cn"
    have "os_conns (handle_option_message i cn opt S) = (os_conns S)(i \<mapsto> ?cn)"
      by (simp add: handle_option_message_def Let_def)
    moreover have "evolves b cn ?cn" for b by (simp add: evolves_def Let_def)
    ultimately show ?thesis using conn_step_put [OF assms] by blast
  qed
  show ?thesis
    by (cases m) (simp_all add: receive_message_def handle_incoming_message_def login option conn_step_same
        conn_step_end [where j = i])
qed

lemma conn_step_incoming: "conn_step_ok (E, So_incoming ic) S (snd (create_tcp_connection E ic S))"
proof -
  let ?i = "as_i32 (os_id_count S + 1)"
  have start: "os_conns (connection_start E i rng sent T) = os_conns T \<or>
      (\<exists>hash. os_conns (connection_start E i rng sent T) = (os_conns T)(i \<mapsto> connection_new hash))"
    for i rng sent and T :: "'a ohos_server"
    by (cases "connection_hash (oe_crypto E) (oe_draws E) rng (server_auth (T\<lparr>os_alive := os_alive T @ [i]\<rparr>))")
      (auto simp: connection_start_def Let_def)
  obtain key a where h: "secure_handshake (oe_crypto E) (oe_draws E) (ic_decode ic) (ic_secure ic) (ic_key_pair ic)
      (ic_reply ic) (server_auth (S\<lparr>os_id_count := ?i\<rparr>)) = (key, a)" by fastforce
  have "os_conns (snd (create_tcp_connection E ic S)) = os_conns S \<or>
      (\<exists>hash. os_conns (snd (create_tcp_connection E ic S)) = (os_conns S)(?i \<mapsto> connection_new hash))"
    using start [of ?i "ic_challenge ic" "ic_hash_sent ic" "put_auth a (S\<lparr>os_id_count := ?i\<rparr>)"]
    by (cases key) (simp_all add: create_tcp_connection_def get_new_id_def Let_def h)
  then show ?thesis by (auto simp: conn_step_ok_def split: if_splits)
qed

lemma conn_step: "conn_step_ok p S (server_step p S)"
proof -
  obtain E op where p: "p = (E, op)" by (cases p)
  have conn: "conn_step_ok p S (on_conn i f S)"
    if "\<And>cn. os_conns S i = Some cn \<Longrightarrow> conn_step_ok p S (f cn S)" for i f
    using that conn_step_same [of S S p] by (cases "os_conns S i") (simp_all add: on_conn_def)
  have keep: "evolves b cn (cn\<lparr>cn_video_fails := k\<rparr>)" for b cn k by (simp add: evolves_def)
  have video: "conn_step_ok p S (send_video E i cn ok S)" if cn: "os_conns S i = Some cn" for i cn ok
  proof (cases "ch_video (os_channels S i)")
    case Nil
    then show ?thesis by (simp add: send_video_def conn_step_same)
  next
    case (Cons m ms)
    have "os_conns (send_video E i cn ok S) = (os_conns S)(i := None) \<or>
        (\<exists>k. os_conns (send_video E i cn ok S) = (os_conns S)(i \<mapsto> cn\<lparr>cn_video_fails := k\<rparr>))"
      by (auto simp: send_video_def Cons Let_def)
    then show ?thesis using conn_step_end [of _ S i p] conn_step_put [OF cn keep] by blast
  qed
  have other: "conn_step_ok p S (send_other E i ok S)" for i ok
  proof -
    have "os_conns (send_other E i ok S) = os_conns S \<or> os_conns (send_other E i ok S) = (os_conns S)(i := None)"
      by (cases "ch_main (os_channels S i)") (auto simp: send_other_def Let_def)
    then show ?thesis using conn_step_same conn_step_end by blast
  qed
  have thread: "os_conns (server_video_step V S) = os_conns S" for V
    by (simp add: server_video_step_def Let_def split: option.split)
  have ended: "conn_step_ok p S (end_connection E i S)" for i
    by (rule conn_step_end) simp
  have self: "conn_step_ok p S S" by (rule conn_step_same) simp
  show ?thesis
  proof (cases op)
    case (So_message i m)
    then show ?thesis using conn [of i "receive_message E i m"] conn_step_message [of S i _ E m] by (simp add: p)
  next
    case (So_tick i secs)
    then show ?thesis
      using conn [of i "\<lambda>cn S. if secs \<ge> RECV_TIMEOUT then end_connection E i S else S"] ended self by (simp add: p)
  next
    case (So_stream_end i)
    then show ?thesis using conn [of i "\<lambda>cn. end_connection E i"] ended by (simp add: p)
  next
    case (So_send_video i ok)
    then show ?thesis using conn [of i "\<lambda>cn. send_video E i cn ok"] video by (simp add: p)
  next
    case (So_send_other i ok)
    then show ?thesis using conn [of i "\<lambda>cn. send_other E i ok"] other by (simp add: p)
  next
    case (So_incoming ic)
    then show ?thesis by (simp add: p conn_step_incoming)
  qed (use self in \<open>simp_all add: p conn_step_same thread close_connections_def\<close>)
qed


text \<open>A connection that has switched off the keyboard.\<close>

definition keyboard_off :: "int \<Rightarrow> 'e ohos_server \<Rightarrow> bool" where
  "keyboard_off i S \<longleftrightarrow> i \<le> os_id_count S \<and> (\<forall>cn. os_conns S i = Some cn \<longrightarrow> \<not> cn_keyboard cn)"

lemma keyboard_off_step:
  assumes "keyboard_off i S" "server_inv S" "os_id_count S < 2 ^ 31 - 1" "- (2 ^ 31) \<le> os_id_count S"
  shows "keyboard_off i (server_step p S)"
proof -
  have "as_i32 (os_id_count S + 1) = os_id_count S + 1" using assms(3,4) by (simp add: is_i32_def)
  then have "\<not> cn_keyboard cn'" if "os_conns (server_step p S) i = Some cn'" for cn'
    using conn_step [of p S] that assms(1) by (fastforce simp: conn_step_ok_def keyboard_off_def evolves_def)
  moreover have "i \<le> os_id_count (server_step p S)"
    using server_inv_step(2) [OF assms(2-4), of p] assms(1) by (auto simp: keyboard_off_def)
  ultimately show ?thesis by (simp add: keyboard_off_def)
qed

lemma keyboard_off_run:
  assumes "keyboard_off i S" "server_inv S" "- (2 ^ 31) \<le> os_id_count S" "os_id_count S + int (length ops) < 2 ^ 31"
  shows "keyboard_off i (server_run ops S)"
  using assms
proof (induction ops arbitrary: S)
  case (Cons p ops)
  note st = server_inv_step [OF Cons.prems(2) _ Cons.prems(3), of p]
  have "keyboard_off i (server_run ops (server_step p S))"
    using st Cons.prems keyboard_off_step [OF Cons.prems(1,2) _ Cons.prems(3), of p] by (intro Cons.IH) auto
  then show ?case by (simp add: server_run_def)
qed (simp add: server_run_def)

lemma injected_simps [simp]:
  "os_injected (os_event E k d p S) = os_injected S" "os_injected (stream_send i m S) = os_injected S"
  "os_injected (put_conn i cn S) = os_injected S" "os_injected (server_subscribe n i on S) = os_injected S"
  "os_injected (add_connection i np S) = os_injected S" "os_injected (try_add_primary_video_service S) = os_injected S"
  "os_injected (replace_old_connection p i S) = os_injected S" "os_injected (end_connection E i S) = os_injected S"
  by (simp_all add: os_event_def stream_send_def put_conn_def server_subscribe_def add_connection_def
      try_add_primary_video_service_def replace_old_connection_def end_connection_def cleanup_connection_def
      remove_connection_def Let_def split: option.split)

lemma keyboard_off_injects_nothing:
  assumes "keyboard_off i S"
  shows "os_injected (server_step (E, So_message i m) S) = os_injected S"
proof (cases "os_conns S i")
  case (Some cn)
  then have off: "\<not> cn_keyboard cn" using assms by (simp add: keyboard_off_def)
  have "os_injected (on_login E i cn lr my_name S) = os_injected S" for lr my_name
    by (simp add: on_login_def subscribe_services_def Let_def)
  moreover have "os_injected (handle_option_message i cn opt S) = os_injected S" for opt
    by (simp add: handle_option_message_def Let_def)
  ultimately show ?thesis
    using off by (cases m) (simp_all add: on_conn_def Some receive_message_def handle_incoming_message_def on_mouse_def
        on_key_def)
qed (simp add: on_conn_def)

text \<open>C37: Once a controlling side has asked for its keyboard to be disabled, no message of that connection
  injects any input, whatever happens in between: options only take rights away, and the id is never
  given to another connection.\<close>

theorem disabled_input_stays_disabled:
  assumes "server_inv S" "i \<in> dom (os_conns S)" "om_disable_keyboard opt = BoolYes"
    "- (2 ^ 31) \<le> os_id_count S" "os_id_count S + int (length ops) < 2 ^ 31 - 1"
  shows "let T = server_run ops (server_step (E, So_message i (In_option opt)) S) in
    os_injected (server_step (E', So_message i m) T) = os_injected T"
proof -
  let ?T = "server_step (E, So_message i (In_option opt)) S"
  obtain cn where cn: "os_conns S i = Some cn" using assms(2) by auto
  have le: "os_id_count S < 2 ^ 31 - 1" using assms(5) by simp
  note st = server_inv_step [OF assms(1) le assms(4), of "(E, So_message i (In_option opt))"]
  have "i \<le> os_id_count ?T"
    using assms(1,2) st(2) by (auto simp: server_inv_def dest!: bspec)
  moreover have "\<not> cn_keyboard cn'" if "os_conns ?T i = Some cn'" for cn'
    using that assms(3)
    by (simp add: on_conn_def cn receive_message_def handle_incoming_message_def handle_option_message_def Let_def
        split: if_splits) auto
  ultimately have "keyboard_off i ?T" by (simp add: keyboard_off_def)
  from keyboard_off_run [OF this st(1)] have "keyboard_off i (server_run ops ?T)"
    using st(2) assms(4,5) by auto
  then show ?thesis unfolding Let_def by (rule keyboard_off_injects_nothing)
qed

section \<open>Concrete runs\<close>

definition demo_start :: "bool ohos_server" where
  "demo_start = server_new 12 (initial_bridge blank_config ''123456'' Map.empty []) blank_auth"

definition demo_hash :: hash_challenge where
  "demo_hash = fst (connection_hash (toy_crypto []) zero_draws (ic_challenge demo_incoming) (server_auth demo_start))"

text \<open>A login with the temporary password.\<close>

definition demo_request :: login_request where
  "demo_request =
     \<lparr>lr_username = [], lr_password = sha256 (toy_crypto []) (sha256 (toy_crypto [])
        (''123456'' @ h_salt demo_hash) @ h_challenge demo_hash), lr_my_id = ''42'', lr_my_platform = [],
      lr_option = None, lr_session_id = 0, lr_version = [], lr_os_username = [], lr_os_password = [],
      lr_hwid = [], lr_kind = Login_default\<rparr>"

definition demo_ops :: "(ohos_env \<times> bool server_op) list" where
  "demo_ops = [(demo_ohos_env, So_incoming demo_incoming), (demo_ohos_env, So_message 1013 (In_login demo_request ''me''))]"

definition demo_connected :: "bool ohos_server" where
  "demo_connected = server_step (demo_ohos_env, So_incoming demo_incoming) demo_start"

lemma connection_hash_keeps:
  "base (snd (connection_hash c r rng s)) = base s"
  "temporary_password (snd (connection_hash c r rng s)) = temporary_password s"
  by (simp_all add: connection_hash_def get_effective_permanent_password_salt_def get_salt_def set_salt_def
      store_conf_def Let_def split_def)

lemma open_connection:
  fixes S :: "'e ohos_server" and E
  assumes "\<not> ic_secure ic" "ic_hash_sent ic"
  defines "T \<equiv> server_step (E, So_incoming ic) S"
  shows "os_conns T = (os_conns S)(as_i32 (os_id_count S + 1) \<mapsto>
      connection_new (fst (connection_hash (oe_crypto E) (oe_draws E) (ic_challenge ic) (server_auth S))))"
    "os_bridge T = os_bridge S"
proof -
  have a: "server_auth (S'\<lparr>os_id_count := k\<rparr>) = server_auth S'" "server_auth (S'\<lparr>os_alive := l\<rparr>) = server_auth S'"
    "server_auth (put_auth x S') = x" for S' :: "'e ohos_server" and k l x
    by (simp_all add: server_auth_def put_auth_def)
  have b: "os_bridge (put_auth x S') = os_bridge S'"
    if "base x = b_config (os_bridge S')" "temporary_password x = b_temporary_password (os_bridge S')"
    for S' :: "'e ohos_server" and x
    using that by (simp add: put_auth_def)
  obtain hash x where h: "connection_hash (oe_crypto E) (oe_draws E) (ic_challenge ic) (server_auth S) = (hash, x)"
    by fastforce
  then have x: "base x = b_config (os_bridge S)" "temporary_password x = b_temporary_password (os_bridge S)"
    using connection_hash_keeps [of "oe_crypto E" "oe_draws E" "ic_challenge ic" "server_auth S"]
    by (simp_all add: server_auth_def)
  have sh: "secure_handshake c r d (ic_secure ic) kp reply s = (Inr None, s)" for c r d kp reply s
    using assms(1) by (cases kp) (simp add: secure_handshake_def)
  show "os_conns T = (os_conns S)(as_i32 (os_id_count S + 1) \<mapsto>
      connection_new (fst (connection_hash (oe_crypto E) (oe_draws E) (ic_challenge ic) (server_auth S))))"
    using assms(2) unfolding T_def
    by (simp add: create_tcp_connection_def get_new_id_def sh connection_start_def Let_def a h)
  have k: "base (server_auth S) = b_config (os_bridge S)" "temporary_password (server_auth S) = b_temporary_password (os_bridge S)"
    by (simp_all add: server_auth_def)
  have "os_bridge (put_auth (server_auth S) (S\<lparr>os_id_count := n\<rparr>)) = os_bridge S" for n
    using b [of "server_auth S" "S\<lparr>os_id_count := n\<rparr>"] k by simp
  then have "os_bridge (put_auth x ((put_auth (server_auth S) (S\<lparr>os_id_count := n\<rparr>))\<lparr>os_alive := l\<rparr>)) = os_bridge S" for n l
    using b [of x "(put_auth (server_auth S) (S\<lparr>os_id_count := n\<rparr>))\<lparr>os_alive := l\<rparr>"] x by simp
  then show "os_bridge T = os_bridge S"
    using assms(2) unfolding T_def
    by (simp add: create_tcp_connection_def get_new_id_def sh connection_start_def Let_def a h put_conn_def
        stream_send_def)
qed

lemma demo_connected_facts:
  "os_conns demo_connected = [1013 \<mapsto> connection_new demo_hash]"
  "os_bridge demo_connected = initial_bridge blank_config ''123456'' Map.empty []"
  using open_connection [of demo_incoming demo_ohos_env demo_start]
  by (simp_all add: demo_connected_def demo_hash_def demo_incoming_def demo_ohos_env_def demo_start_def
      server_new_def is_i32_def)

lemma login_authorizes:
  assumes "os_conns S i = Some cn" "validate_password (oe_crypto E) (server_auth S) (cn_hash cn) lr"
  shows "\<exists>cn1. os_conns (on_login E i cn lr my_name S) i = Some cn1 \<and> cn_authorized cn1 \<and> cn_hash cn1 = cn_hash cn"
  using assms by (simp add: on_login_def Let_def subscribe_services_def)

lemma demo_login_accepted:
  "validate_password (toy_crypto []) (server_auth demo_connected) demo_hash demo_request"
proof -
  let ?s = "server_auth demo_connected"
  have "temporary_enabled ?s" "temporary_password ?s = ''123456''"
    by (simp_all add: temporary_enabled_def verification_method_def server_auth_def demo_connected_facts initial_bridge_def
        blank_config_def get_option_def get_or_def unwrap_or_default_def)
  then have "sha256 (toy_crypto []) (''123456'' @ h_salt demo_hash) \<in>
      set (temporary_h1 (toy_crypto []) ?s demo_hash @ permanent_h1 (toy_crypto []) ?s demo_hash)"
    by (simp add: temporary_h1_def)
  moreover have "length (lr_password demo_request) = 32"
    by (simp add: demo_request_def crypto_okD(7) [OF toy_crypto_ok])
  moreover have "lr_password demo_request = sha256 (toy_crypto []) (sha256 (toy_crypto [])
        (''123456'' @ h_salt demo_hash) @ h_challenge demo_hash)"
    by (simp add: demo_request_def)
  ultimately show ?thesis unfolding login_is_accepted by (intro disjI1 bexI) auto
qed

lemma demo_authorized:
  "\<exists>cn. os_conns (server_run demo_ops demo_start) 1013 = Some cn \<and> cn_authorized cn \<and> cn_hash cn = demo_hash"
proof -
  have run: "server_run demo_ops demo_start =
      server_step (demo_ohos_env, So_message 1013 (In_login demo_request ''me'')) demo_connected"
    by (simp add: server_run_def demo_ops_def demo_connected_def)
  have "oe_crypto demo_ohos_env = toy_crypto []" "cn_hash (connection_new demo_hash) = demo_hash"
    by (simp_all add: demo_ohos_env_def connection_new_def)
  then show ?thesis
    using login_authorizes [of demo_connected 1013 "connection_new demo_hash" demo_ohos_env demo_request "''me''"]
      demo_login_accepted
    unfolding run by (simp add: demo_connected_facts(1) on_conn_def receive_message_def handle_incoming_message_def)
qed


definition keyboard_disabled :: option_message where
  "keyboard_disabled = empty_option\<lparr>om_disable_keyboard := BoolYes\<rparr>"

theorem disabled_input_stays_disabled_witness:
  "let T = server_run [(demo_ohos_env, So_close_connections)]
      (server_step (demo_ohos_env, So_message 1013 (In_option keyboard_disabled)) demo_connected) in
    os_injected (server_step (demo_ohos_env, So_message 1013 (In_mouse \<lparr>me_mask = 0, me_x = 1, me_y = 2, me_modifiers = []\<rparr>)) T) =
    os_injected T"
proof -
  have id: "os_id_count demo_start = 1012" by (simp add: demo_start_def server_new_def)
  have start: "server_inv demo_start" unfolding demo_start_def by (rule server_inv_new)
  have inv: "server_inv demo_connected" "os_id_count demo_connected \<in> {1012, 1013}"
    using server_inv_step [OF start, of "(demo_ohos_env, So_incoming demo_incoming)"] id
    unfolding demo_connected_def by auto
  show ?thesis
    by (rule disabled_input_stays_disabled [OF inv(1)])
      (use inv(2) in \<open>auto simp: demo_connected_facts keyboard_disabled_def\<close>)
qed

section \<open>What needs no login\<close>

text \<open>Nothing consults \<open>authorized\<close>: a connection that has not logged in moves the mouse and gets the
  video once anybody has logged in.\<close>

lemma input_needs_no_login:
  "os_injected (server_step (demo_ohos_env, So_message 1013 (In_mouse me)) demo_connected) =
     os_injected demo_connected @ [Inject_mouse (me_mask me) (me_x me) (me_y me)]"
  "authorized demo_connected = {}"
  by (auto simp: on_conn_def demo_connected_facts(1) receive_message_def handle_incoming_message_def on_mouse_def
      connection_new_def Let_def authorized_def)

lemma video_needs_no_login:
  assumes "os_conns S i = Some cn" "os_services S (get_service_name Monitor 0) = Some s" "service_inv s"
  shows "\<exists>s'. os_services (server_step (E, So_message i (In_refresh_video v)) S) (get_service_name Monitor 0) = Some s' \<and>
    i \<in> subscribed s'"
  using assms
  by (simp add: on_conn_def receive_message_def handle_incoming_message_def server_subscribe_def)

text \<open>A connection that a later one of the same peer replaces stays subscribed to every service.\<close>

lemma replaced_connection_stays_subscribed:
  "os_services (replace_old_connection p i S) = os_services S"
  by (simp add: replace_old_connection_def Let_def split: option.split)

end
