(* ===== verification/RustFs.thy ===== *)
theory RustFs
  imports RD_Prelude
begin

text \<open>
  What \<open>libs/hbb_common/src/fs.rs\<close> uses of \<open>std::path\<close> and \<open>std::fs\<close>, on a Unix target: paths are
  byte strings and their components; a file system has directories, files (an inode each) and symbolic
  links, which the kernel follows while it resolves a path. Access that the system refuses is a
  parameter of the file system, and so is the order in which a directory lists its names.
\<close>

section \<open>Paths\<close>

datatype path_comp = Root_dir | Cur_dir | Parent_dir | Normal string

definition sep :: char where "sep = CHR ''/''"

definition is_absolute :: "string \<Rightarrow> bool" where
  "is_absolute p \<longleftrightarrow> p \<noteq> [] \<and> hd p = sep"

definition comp_of :: "string \<Rightarrow> path_comp" where
  "comp_of s = (if s = '''' \<or> s = ''.'' then Cur_dir else if s = ''..'' then Parent_dir else Normal s)"

text \<open>\<open>Path::components\<close>: repeated separators and inner dots are left out.\<close>

definition components :: "string \<Rightarrow> path_comp list" where
  "components p =
     (if p = [] then []
      else (case str_split sep p of
              [] \<Rightarrow> []
            | s # ss \<Rightarrow>
                (if s = [] then Root_dir else comp_of s)
                # filter (\<lambda>c. c \<noteq> Cur_dir) (map comp_of ss)))"

text \<open>\<open>Path::join\<close> and \<open>PathBuf::push\<close>.\<close>

definition path_join :: "string \<Rightarrow> string \<Rightarrow> string" where
  "path_join base p =
     (if is_absolute p then p else if base = [] \<or> List.last base = sep then base @ p else base @ [sep] @ p)"

text \<open>The last component and what is left without it: trailing separators and dots do not count.\<close>

definition trim_segments :: "string list \<Rightarrow> string list" where
  "trim_segments ss =
     hd ss # rev (dropWhile (\<lambda>s. s = [] \<or> s = ''.'') (rev (tl ss)))"

definition parent :: "string \<Rightarrow> string option" where
  "parent p =
     (let ss = trim_segments (str_split sep p) in
      if length ss = 1 then (if hd ss = [] then None else Some [])
      else let ps = trim_segments (butlast ss)
           in Some (if ps = [[]] then [sep] else str_join [sep] ps))"

definition file_name :: "string \<Rightarrow> string option" where
  "file_name p =
     (let s = List.last (trim_segments (str_split sep p))
      in if s = [] \<or> s = ''.'' \<or> s = ''..'' then None else Some s)"

section \<open>The file system\<close>

datatype node = Dir | File nat | Link string

record file_data =
  fd_bytes :: "u8 list"
  fd_mtime :: "int \<times> nat"

datatype fs_access = Access_open | Access_create | Access_remove | Access_rename | Access_mkdir | Access_stat
  | Access_read | Access_write | Access_sync | Access_mtime | Access_list

record fs =
  fs_nodes :: "string list \<rightharpoonup> node"
  fs_files :: "nat \<Rightarrow> file_data"
  fs_next :: nat
  fs_cwd :: "string list"
  fs_now :: "int \<times> nat"
  fs_refused :: "fs_access \<Rightarrow> string list \<Rightarrow> bool"
  fs_listing :: "(string list \<rightharpoonup> node) \<Rightarrow> string list \<Rightarrow> string list"
  fs_other_mtime :: "string list \<Rightarrow> int \<times> nat"

datatype os_error = Not_found | Invalid_input | Io_other

text \<open>The kernel's view of a path: dots are steps, and a trailing separator asks for a directory.\<close>

definition os_path :: "string \<Rightarrow> path_comp list" where
  "os_path p =
     (let ss = str_split sep p
      in (if is_absolute p then [Root_dir] else []) @
         map comp_of (filter (\<lambda>s. s \<noteq> []) (butlast ss)) @ [comp_of (List.last ss)])"

definition PATH_MAX :: nat where "PATH_MAX = 4096"
definition MAXSYMLINKS :: nat where "MAXSYMLINKS = 40"

text \<open>\<open>walk\<close> goes through components, all of them directories or links to one; \<open>n\<close> is the number of
  links it may still follow. It returns what is left of \<open>n\<close> and the directory reached.\<close>

function walk :: "fs \<Rightarrow> nat \<Rightarrow> string list \<Rightarrow> path_comp list \<Rightarrow> os_error + nat \<times> string list" where
  "walk F n d [] = Inr (n, d)"
| "walk F n d (Root_dir # cs) = walk F n [] cs"
| "walk F n d (Cur_dir # cs) = walk F n d cs"
| "walk F n d (Parent_dir # cs) = walk F n (butlast d) cs"
| "walk F n d (Normal s # cs) =
     (case fs_nodes F (d @ [s]) of
        None \<Rightarrow> Inl Not_found
      | Some Dir \<Rightarrow> walk F n (d @ [s]) cs
      | Some (File i) \<Rightarrow> Inl Io_other
      | Some (Link t) \<Rightarrow>
          if n = 0 then Inl Io_other else if t = [] then Inl Not_found
          else walk F (n - 1) d (os_path t @ cs))"
  by pat_completeness auto
termination
  by (relation "inv_image (less_than <*lex*> less_than) (\<lambda>(F, n, d, cs). (n, length cs))") auto

text \<open>The last component may be missing; a link there is followed when \<open>follow\<close> says so, at most as
  many times as links may be followed at all.\<close>

fun resolve_in :: "nat \<Rightarrow> fs \<Rightarrow> bool \<Rightarrow> nat \<Rightarrow> string list \<Rightarrow> path_comp list \<Rightarrow> os_error + string list" where
  "resolve_in 0 F follow n d cs = Inl Io_other"
| "resolve_in (Suc k) F follow n d cs =
     (case (if cs = [] then Cur_dir else List.last cs) of
        Normal s \<Rightarrow>
          (case walk F n d (butlast cs) of
             Inl e \<Rightarrow> Inl e
           | Inr (m, d') \<Rightarrow>
               (case fs_nodes F (d' @ [s]) of
                  Some (Link t) \<Rightarrow>
                    if \<not> follow then Inr (d' @ [s])
                    else if m = 0 then Inl Io_other else if t = [] then Inl Not_found
                    else resolve_in k F follow (m - 1) d' (os_path t)
                | _ \<Rightarrow> Inr (d' @ [s])))
      | _ \<Rightarrow> map_sum id snd (walk F n d cs))"

definition resolve :: "fs \<Rightarrow> bool \<Rightarrow> string \<Rightarrow> os_error + string list" where
  "resolve F follow p =
     (if p = [] then Inl Not_found
      else if CHR 0x00 \<in> set p then Inl Invalid_input
      else if length p \<ge> PATH_MAX then Inl Io_other
      else resolve_in (MAXSYMLINKS + 1) F follow MAXSYMLINKS (fs_cwd F) (os_path p))"

definition node_at :: "fs \<Rightarrow> string list \<Rightarrow> node option" where
  "node_at F q = (if q = [] then Some Dir else fs_nodes F q)"

definition stat :: "fs \<Rightarrow> bool \<Rightarrow> string \<Rightarrow> os_error + node" where
  "stat F follow p =
     (case resolve F follow p of
        Inl e \<Rightarrow> Inl e
      | Inr q \<Rightarrow>
          if fs_refused F Access_stat q then Inl Io_other
          else (case node_at F q of None \<Rightarrow> Inl Not_found | Some x \<Rightarrow> Inr x))"

definition path_exists :: "fs \<Rightarrow> string \<Rightarrow> bool" where
  "path_exists F p \<longleftrightarrow> \<not> isl (stat F True p)"

definition path_is_dir :: "fs \<Rightarrow> string \<Rightarrow> bool" where
  "path_is_dir F p \<longleftrightarrow> stat F True p = Inr Dir"

definition path_is_file :: "fs \<Rightarrow> string \<Rightarrow> bool" where
  "path_is_file F p \<longleftrightarrow> (case stat F True p of Inr (File i) \<Rightarrow> True | _ \<Rightarrow> False)"

definition put_node :: "string list \<Rightarrow> node option \<Rightarrow> fs \<Rightarrow> fs" where
  "put_node q x F = F\<lparr>fs_nodes := (fs_nodes F)(q := x)\<rparr>"

definition put_file :: "nat \<Rightarrow> file_data \<Rightarrow> fs \<Rightarrow> fs" where
  "put_file i x F = F\<lparr>fs_files := (fs_files F)(i := x)\<rparr>"

section \<open>Open files\<close>

record file_handle =
  fh_inode :: nat
  fh_path :: "string list"
  fh_pos :: nat
  fh_read :: bool
  fh_write :: bool

text \<open>\<open>File::open\<close>, \<open>File::create\<close>, and opening to write without truncation (creating the file when it
  is missing). A directory is refused at the opening; the system does so at the first read.\<close>

definition file_open :: "fs \<Rightarrow> string \<Rightarrow> os_error + file_handle" where
  "file_open F p =
     (case resolve F True p of
        Inl e \<Rightarrow> Inl e
      | Inr q \<Rightarrow>
          (case node_at F q of
             Some (File i) \<Rightarrow>
               if fs_refused F Access_open q then Inl Io_other
               else Inr \<lparr>fh_inode = i, fh_path = q, fh_pos = 0, fh_read = True, fh_write = False\<rparr>
           | Some x \<Rightarrow> Inl Io_other
           | None \<Rightarrow> Inl Not_found))"

definition file_create :: "bool \<Rightarrow> fs \<Rightarrow> string \<Rightarrow> (os_error + file_handle) \<times> fs" where
  "file_create trunc F p =
     (case resolve F True p of
        Inl e \<Rightarrow> (Inl e, F)
      | Inr q \<Rightarrow>
          if fs_refused F Access_create q then (Inl Io_other, F)
          else (case node_at F q of
             Some (File i) \<Rightarrow>
               (Inr \<lparr>fh_inode = i, fh_path = q, fh_pos = 0, fh_read = False, fh_write = True\<rparr>,
                if trunc then put_file i \<lparr>fd_bytes = [], fd_mtime = fs_now F\<rparr> F else F)
           | Some x \<Rightarrow> (Inl Io_other, F)
           | None \<Rightarrow>
               (Inr \<lparr>fh_inode = fs_next F, fh_path = q, fh_pos = 0, fh_read = False, fh_write = True\<rparr>,
                put_node q (Some (File (fs_next F)))
                  (put_file (fs_next F) \<lparr>fd_bytes = [], fd_mtime = fs_now F\<rparr> (F\<lparr>fs_next := fs_next F + 1\<rparr>)))))"

text \<open>Bytes written at a position; a gap is filled with zeros.\<close>

definition overwrite :: "nat \<Rightarrow> u8 list \<Rightarrow> u8 list \<Rightarrow> u8 list" where
  "overwrite pos new old =
     take pos old @ replicate (pos - length old) 0 @ new @ drop (pos + length new) old"

definition file_write :: "u8 list \<Rightarrow> file_handle \<Rightarrow> fs \<Rightarrow> (os_error + unit) \<times> file_handle \<times> fs" where
  "file_write bs h F =
     (if \<not> fh_write h \<or> fs_refused F Access_write (fh_path h) then (Inl Io_other, h, F)
      else if bs = [] then (Inr (), h, F)
      else
        let d = fs_files F (fh_inode h)
        in (Inr (), h\<lparr>fh_pos := fh_pos h + length bs\<rparr>,
            put_file (fh_inode h) \<lparr>fd_bytes = overwrite (fh_pos h) bs (fd_bytes d), fd_mtime = fs_now F\<rparr> F))"

definition file_read :: "nat \<Rightarrow> file_handle \<Rightarrow> fs \<Rightarrow> (os_error + u8 list) \<times> file_handle" where
  "file_read n h F =
     (if \<not> fh_read h \<or> fs_refused F Access_read (fh_path h) then (Inl Io_other, h)
      else
        let bs = take n (drop (fh_pos h) (fd_bytes (fs_files F (fh_inode h))))
        in (Inr bs, h\<lparr>fh_pos := fh_pos h + length bs\<rparr>))"

section \<open>Changes of the tree\<close>

definition remove_file_at :: "string \<Rightarrow> fs \<Rightarrow> (os_error + unit) \<times> fs" where
  "remove_file_at p F =
     (case resolve F False p of
        Inl e \<Rightarrow> (Inl e, F)
      | Inr q \<Rightarrow>
          (case node_at F q of
             None \<Rightarrow> (Inl Not_found, F)
           | Some Dir \<Rightarrow> (Inl Io_other, F)
           | Some x \<Rightarrow>
               if fs_refused F Access_remove q then (Inl Io_other, F) else (Inr (), put_node q None F)))"

text \<open>A directory moves with everything below it.\<close>

definition move_tree :: "string list \<Rightarrow> string list \<Rightarrow> (string list \<rightharpoonup> node) \<Rightarrow> string list \<rightharpoonup> node" where
  "move_tree src dst m =
     (\<lambda>r. if prefix dst r then m (src @ drop (length dst) r) else if prefix src r then None else m r)"

definition dir_is_empty :: "fs \<Rightarrow> string list \<Rightarrow> bool" where
  "dir_is_empty F q \<longleftrightarrow> fs_listing F (fs_nodes F) q = []"

text \<open>\<open>mkdir\<close>, \<open>rmdir\<close> and the renaming of a directory accept trailing separators.\<close>

definition strip_seps :: "string \<Rightarrow> string" where
  "strip_seps p =
     (let q = rev (dropWhile (\<lambda>c. c = sep) (rev p)) in if q = [] \<and> p \<noteq> [] then [sep] else q)"

definition rename_path :: "string \<Rightarrow> string \<Rightarrow> fs \<Rightarrow> (os_error + unit) \<times> fs" where
  "rename_path p q F =
     (case (resolve F False p,
            resolve F False (if stat F False (strip_seps p) = Inr Dir then strip_seps q else q)) of
        (Inr a, Inr b) \<Rightarrow>
          (case node_at F a of
             None \<Rightarrow> (Inl Not_found, F)
           | Some x \<Rightarrow>
               if a = [] \<or> b = [] \<or> fs_refused F Access_rename a \<or> fs_refused F Access_rename b then (Inl Io_other, F)
               else if a = b then (Inr (), F)
               else if prefix a b then (Inl Io_other, F)
               else (case node_at F b of
                  None \<Rightarrow> (Inr (), F\<lparr>fs_nodes := move_tree a b (fs_nodes F)\<rparr>)
                | Some y \<Rightarrow>
                    if (x = Dir) = (y = Dir) \<and> (y = Dir \<longrightarrow> dir_is_empty F b) \<and> \<not> prefix b a
                    then (Inr (), F\<lparr>fs_nodes := move_tree a b (fs_nodes F)\<rparr>)
                    else (Inl Io_other, F)))
      | (Inl e, _) \<Rightarrow> (Inl e, F)
      | (_, Inl e) \<Rightarrow> (Inl e, F))"

definition mkdir :: "string \<Rightarrow> fs \<Rightarrow> (os_error + unit) \<times> fs" where
  "mkdir p F =
     (case resolve F False (strip_seps p) of
        Inl e \<Rightarrow> (Inl e, F)
      | Inr q \<Rightarrow>
          if node_at F q \<noteq> None \<or> fs_refused F Access_mkdir q then (Inl Io_other, F)
          else (Inr (), put_node q (Some Dir) F))"

definition rmdir :: "string \<Rightarrow> fs \<Rightarrow> (os_error + unit) \<times> fs" where
  "rmdir p F =
     (case resolve F False (strip_seps p) of
        Inl e \<Rightarrow> (Inl e, F)
      | Inr q \<Rightarrow>
          if List.last (os_path (strip_seps p)) \<in> {Cur_dir, Parent_dir} then (Inl Io_other, F)
          else (case node_at F q of
             None \<Rightarrow> (Inl Not_found, F)
           | Some x \<Rightarrow>
               if x \<noteq> Dir \<or> q = [] \<or> \<not> dir_is_empty F q \<or> fs_refused F Access_remove q then (Inl Io_other, F)
               else (Inr (), put_node q None F)))"

definition set_mtime :: "string \<Rightarrow> int \<times> nat \<Rightarrow> fs \<Rightarrow> (os_error + unit) \<times> fs" where
  "set_mtime p t F =
     (case resolve F True p of
        Inl e \<Rightarrow> (Inl e, F)
      | Inr q \<Rightarrow>
          if fs_refused F Access_mtime q then (Inl Io_other, F)
          else (case node_at F q of
             None \<Rightarrow> (Inl Not_found, F)
           | Some (File i) \<Rightarrow> (Inr (), put_file i ((fs_files F i)\<lparr>fd_mtime := t\<rparr>) F)
           | Some x \<Rightarrow> (Inr (), F)))"

text \<open>\<open>create_dir_all\<close>: the missing ancestors are made first.\<close>

lemma length_str_split: "sum_list (map length (str_split c p)) + length (str_split c p) = length p + 1"
  by (induction p) (auto split: list.splits)

lemma length_str_join: "xs \<noteq> [] \<Longrightarrow> length (str_join [c] xs) + 1 = sum_list (map length xs) + length xs"
  by (cases xs) (simp_all add: str_join_def length_concat comp_def sum_list_Suc)

lemma trim_segments_prefix: "ss \<noteq> [] \<Longrightarrow> \<exists>zs. ss = trim_segments ss @ zs"
proof -
  assume "ss \<noteq> []"
  moreover have "\<exists>zs. tl ss = rev (dropWhile (\<lambda>s. s = [] \<or> s = ''.'') (rev (tl ss))) @ zs"
    by (metis rev_append rev_rev_ident takeWhile_dropWhile_id)
  ultimately show ?thesis
    by (cases ss) (auto simp: trim_segments_def)
qed

lemma trim_segments_nonempty [simp]: "trim_segments ss \<noteq> []"
  by (simp add: trim_segments_def)

lemma last_trim_segments:
  "length (trim_segments ss) \<noteq> 1 \<Longrightarrow> List.last (trim_segments ss) \<noteq> []"
  using hd_dropWhile [of "\<lambda>s. s = [] \<or> s = ''.''" "rev (tl ss)"]
  by (auto simp: trim_segments_def last_rev split: if_splits)

lemma parent_shorter:
  assumes "parent p = Some pp" shows "length pp < length p"
proof -
  let ?ss = "str_split sep p" let ?ts = "trim_segments ?ss" let ?us = "trim_segments (butlast ?ts)"
  obtain zs where zs: "?ss = ?ts @ zs" using trim_segments_prefix [of ?ss] by auto
  have len: "length p + 1 = sum_list (map length ?ss) + length ?ss" by (simp add: length_str_split)
  show ?thesis
  proof (cases "length ?ts = 1")
    case True
    then have "pp = []" "hd ?ts \<noteq> []" using assms by (auto simp: parent_def split: if_splits)
    moreover have "p = [] \<Longrightarrow> hd ?ts = []" by (simp add: trim_segments_def)
    ultimately show ?thesis by auto
  next
    case False
    then have "butlast ?ts \<noteq> []" by (cases ?ts rule: rev_cases) auto
    then obtain ys where ys: "butlast ?ts = ?us @ ys" using trim_segments_prefix by metis
    have ts: "?ts = ?us @ ys @ [List.last ?ts]"
      using ys by (metis append.assoc append_butlast_last_id trim_segments_nonempty)
    have lst: "0 < length (List.last ?ts)" using last_trim_segments [OF False] by simp
    have "length (str_join [sep] ?us) + 1 = sum_list (map length ?us) + length ?us"
      by (rule length_str_join) simp
    moreover have "sum_list (map length ?ss) = sum_list (map length ?us) + sum_list (map length ys)
        + length (List.last ?ts) + sum_list (map length zs)"
      by (subst zs, subst ts) simp
    moreover have "length ?ss = length ?us + length ys + 1 + length zs"
      by (subst zs, subst ts) simp
    moreover have "pp = (if ?us = [[]] then [sep] else str_join [sep] ?us)"
      using assms False by (simp add: parent_def Let_def)
    ultimately show ?thesis using len lst by (auto split: if_splits)
  qed
qed

function create_dir_all :: "string \<Rightarrow> fs \<Rightarrow> (os_error + unit) \<times> fs" where
  "create_dir_all p F =
     (if p = [] then (Inr (), F)
      else case mkdir p F of
             (Inr u, F) \<Rightarrow> (Inr (), F)
           | (Inl e, F) \<Rightarrow>
               if e \<noteq> Not_found then (if path_is_dir F p then (Inr (), F) else (Inl e, F))
               else (case parent p of
                  None \<Rightarrow> (Inl Io_other, F)
                | Some pp \<Rightarrow>
                    (case create_dir_all pp F of
                       (Inl e, F) \<Rightarrow> (Inl e, F)
                     | (Inr u, F) \<Rightarrow>
                         (case mkdir p F of
                            (Inr u, F) \<Rightarrow> (Inr (), F)
                          | (Inl e, F) \<Rightarrow> if path_is_dir F p then (Inr (), F) else (Inl e, F)))))"
  by pat_completeness auto
termination by (relation "measure (\<lambda>(p, F). length p)") (auto dest: parent_shorter)

declare create_dir_all.simps [simp del]

text \<open>\<open>std::fs::write\<close> and \<open>std::fs::read_to_string\<close> (of text that is known to be ASCII or fails).\<close>

definition write_file :: "string \<Rightarrow> u8 list \<Rightarrow> fs \<Rightarrow> (os_error + unit) \<times> fs" where
  "write_file p bs F =
     (case file_create True F p of
        (Inl e, F) \<Rightarrow> (Inl e, F)
      | (Inr h, F) \<Rightarrow> (case file_write bs h F of (r, h, F) \<Rightarrow> (r, F)))"

definition read_file :: "string \<Rightarrow> fs \<Rightarrow> os_error + u8 list" where
  "read_file p F =
     (case file_open F p of
        Inl e \<Rightarrow> Inl e
      | Inr h \<Rightarrow>
          if fs_refused F Access_read (fh_path h) then Inl Io_other
          else let bs = fd_bytes (fs_files F (fh_inode h))
               in if valid_utf8 (map (\<lambda>b. char_of (unat b)) bs) then Inr bs else Inl Io_other)"

end
