(* ===== verification/FileJobs.thy ===== *)
theory FileJobs
  imports RustFs Messages
begin

text \<open>
  File transfer jobs, \<open>libs/hbb_common/src/fs.rs\<close>: listings, the validation of names a peer sends, and
  \<open>TransferJob\<close> in both directions, with the digest files that make a transfer resumable. Compression
  and the JSON of a digest are the fields of \<open>codec_lib\<close>.
\<close>

section \<open>Listings\<close>

definition FT_DIR :: int where "FT_DIR = 0"
definition FT_DIR_LINK :: int where "FT_DIR_LINK = 2"
definition FT_FILE :: int where "FT_FILE = 4"
definition FT_FILE_LINK :: int where "FT_FILE_LINK = 5"

definition utf8_or_empty :: "string \<Rightarrow> string" where
  "utf8_or_empty s = (if valid_utf8 s then s else [])"

definition get_string :: "string \<Rightarrow> string" where
  "get_string p = utf8_or_empty p"

definition get_file_name :: "string \<Rightarrow> string" where
  "get_file_name p = (case file_name p of None \<Rightarrow> [] | Some n \<Rightarrow> utf8_or_empty n)"

definition node_mtime :: "fs \<Rightarrow> string list \<Rightarrow> int \<times> nat" where
  "node_mtime F q =
     (case node_at F q of Some (File i) \<Rightarrow> fd_mtime (fs_files F i) | _ \<Rightarrow> fs_other_mtime F q)"

definition unix_secs :: "int \<times> nat \<Rightarrow> nat" where
  "unix_secs t = (if fst t < 0 then 0 else nat (fst t))"

text \<open>\<open>read_dir\<close>, one entry.\<close>

definition dir_entry :: "fs \<Rightarrow> string \<Rightarrow> bool \<Rightarrow> string \<Rightarrow> file_entry option" where
  "dir_entry F path include_hidden raw =
     (let p = path_join path raw; name = get_file_name p in
      if name = [] then None
      else case (stat F False p, resolve F False p) of
             (Inr meta, Inr q) \<Rightarrow>
               let is_hidden = (hd name = CHR ''.'') in
               if is_hidden \<and> \<not> include_hidden then None
               else
                 let link = (case meta of Link t \<Rightarrow> True | _ \<Rightarrow> False);
                     (ty, sz) =
                       (if path_is_dir F p then (if link then FT_DIR_LINK else FT_DIR, 0)
                        else if link then (FT_FILE_LINK, 0)
                        else (FT_FILE, case meta of File i \<Rightarrow> length (fd_bytes (fs_files F i)) | _ \<Rightarrow> 0))
                 in Some \<lparr>fe_type = ty, fe_name = name, fe_hidden = is_hidden, fe_size = sz,
                          fe_time = unix_secs (node_mtime F q)\<rparr>
           | _ \<Rightarrow> None)"

definition read_dir :: "fs \<Rightarrow> string \<Rightarrow> bool \<Rightarrow> os_error + file_entry list" where
  "read_dir F path include_hidden =
     (case resolve F True path of
        Inl e \<Rightarrow> Inl e
      | Inr q \<Rightarrow>
          (case node_at F q of
             None \<Rightarrow> Inl Not_found
           | Some Dir \<Rightarrow>
               if fs_refused F Access_list q then Inl Io_other
               else Inr (List.map_filter (dir_entry F path include_hidden) (fs_listing F (fs_nodes F) q))
           | Some x \<Rightarrow> Inl Io_other))"

datatype job_error = Bail string | Io os_error | Bail_io string os_error

lemma path_is_dir_short: "path_is_dir F p \<Longrightarrow> length p < PATH_MAX"
  by (auto simp: path_is_dir_def stat_def resolve_def split: sum.splits if_splits)

lemma path_join_longer: "name \<noteq> [] \<Longrightarrow> \<not> is_absolute name \<Longrightarrow> length p < length (path_join p name)"
  by (simp add: path_join_def)

lemma file_name_no_sep: "file_name p = Some n \<Longrightarrow> sep \<notin> set n"
proof -
  assume n: "file_name p = Some n"
  have "List.last (trim_segments (str_split sep p)) \<in> set (str_split sep p)"
    by (metis Un_iff last_in_set set_append str_split_nonempty trim_segments_nonempty trim_segments_prefix)
  then show ?thesis
    using n str_split_pieces [of _ sep p] by (auto simp: file_name_def Let_def split: if_splits)
qed

lemma get_file_name_no_sep: "sep \<notin> set (get_file_name p)"
  using file_name_no_sep [of p] by (cases "file_name p") (auto simp: get_file_name_def utf8_or_empty_def)

lemma no_sep_relative: "sep \<notin> set n \<Longrightarrow> \<not> is_absolute n"
  by (cases n) (auto simp: is_absolute_def)

lemma dir_entry_name:
  "dir_entry F path h raw = Some e \<Longrightarrow> fe_name e \<noteq> [] \<and> fe_name e = get_file_name (path_join path raw)"
  by (auto simp: dir_entry_def Let_def split: sum.splits option.splits node.splits if_splits)

lemma read_dir_name:
  assumes "read_dir F path h = Inr es" and "e \<in> set es"
  shows "fe_name e \<noteq> []" and "\<not> is_absolute (fe_name e)"
proof -
  obtain raw where "dir_entry F path h raw = Some e"
    using assms by (auto simp: read_dir_def List.map_filter_def split: sum.splits option.splits node.splits if_splits)
  then have e: "fe_name e \<noteq> []" "fe_name e = get_file_name (path_join path raw)"
    using dir_entry_name by blast+
  then show "fe_name e \<noteq> []" "\<not> is_absolute (fe_name e)"
    using no_sep_relative [OF get_file_name_no_sep] by auto
qed

text \<open>\<open>read_dir_recursive\<close>: links are not followed, and a directory that cannot be read is left out.\<close>

function read_dir_recursive :: "fs \<Rightarrow> string \<Rightarrow> string \<Rightarrow> bool \<Rightarrow> job_error + file_entry list" where
  "read_dir_recursive F path pre include_hidden =
     (if path_is_dir F path then
        (case read_dir F path include_hidden of
           Inl e \<Rightarrow> Inl (Io e)
         | Inr es \<Rightarrow>
             Inr (concat (map (\<lambda>e.
               if fe_type e = FT_FILE then [e\<lparr>fe_name := get_string (path_join pre (fe_name e))\<rparr>]
               else if fe_type e = FT_DIR then
                 (case read_dir_recursive F (path_join path (fe_name e)) (path_join pre (fe_name e)) include_hidden of
                    Inl x \<Rightarrow> [] | Inr fs \<Rightarrow> fs)
               else []) es)))
      else if path_is_file F path then
        Inr [\<lparr>fe_type = FT_FILE, fe_name = [], fe_hidden = False,
              fe_size = (case resolve F True path of
                 Inr q \<Rightarrow> (case node_at F q of Some (File i) \<Rightarrow> length (fd_bytes (fs_files F i)) | _ \<Rightarrow> 0) | _ \<Rightarrow> 0),
              fe_time = (case resolve F True path of Inr q \<Rightarrow> unix_secs (node_mtime F q) | _ \<Rightarrow> 0)\<rparr>]
      else Inl (Bail ''Not exists''))"
  by pat_completeness auto
termination
  by (relation "measure (\<lambda>(F, path, pre, h). PATH_MAX - length path)")
    (auto intro!: diff_less_mono2 path_join_longer dest: read_dir_name path_is_dir_short)

declare read_dir_recursive.simps [simp del]

definition get_recursive_files :: "fs \<Rightarrow> string \<Rightarrow> bool \<Rightarrow> job_error + file_entry list" where
  "get_recursive_files F path include_hidden = read_dir_recursive F path [] include_hidden"

text \<open>\<open>read_empty_dirs_recursive\<close>: the empty directories below a path, by their own paths.\<close>

function read_empty_dirs_recursive :: "fs \<Rightarrow> string \<Rightarrow> bool \<Rightarrow> job_error + string list" where
  "read_empty_dirs_recursive F path include_hidden =
     (if path_is_dir F path then
        (case read_dir F path include_hidden of
           Inl e \<Rightarrow> Inl (Io e)
         | Inr es \<Rightarrow>
             if es = [] then Inr [get_string path]
             else Inr (concat (map (\<lambda>e.
               if fe_type e = FT_DIR then
                 (case read_empty_dirs_recursive F (path_join path (fe_name e)) include_hidden of
                    Inl x \<Rightarrow> [] | Inr ds \<Rightarrow> ds)
               else []) es)))
      else if path_is_file F path then Inr []
      else Inl (Bail ''Not exists''))"
  by pat_completeness auto
termination
  by (relation "measure (\<lambda>(F, path, h). PATH_MAX - length path)")
    (auto intro!: diff_less_mono2 path_join_longer dest: read_dir_name path_is_dir_short)

declare read_empty_dirs_recursive.simps [simp del]

text \<open>\<open>remove_all_empty_dir\<close>: links go, files stay, and so do the directories that hold them. The
  recursion's errors are dropped, but not the one of the listing.\<close>

fun remove_entries ::
    "(string \<Rightarrow> fs \<Rightarrow> fs) \<Rightarrow> string \<Rightarrow> file_entry list \<Rightarrow> fs \<Rightarrow> fs" where
  "remove_entries remove_sub path [] F = F"
| "remove_entries remove_sub path (e # es) F =
     remove_entries remove_sub path es
       (if fe_type e = FT_DIR then remove_sub (path_join path (fe_name e)) F
        else if fe_type e = FT_DIR_LINK \<or> fe_type e = FT_FILE_LINK
        then snd (remove_file_at (path_join path (fe_name e)) F)
        else F)"

text \<open>The recursion is at most as deep as a path is long: past that the listing fails.\<close>

fun remove_empty_dirs :: "nat \<Rightarrow> string \<Rightarrow> fs \<Rightarrow> (job_error + unit) \<times> fs" where
  "remove_empty_dirs 0 path F = (Inl (Io Io_other), F)"
| "remove_empty_dirs (Suc depth) path F =
     (case read_dir F path True of
        Inl e \<Rightarrow> (Inl (Io e), F)
      | Inr es \<Rightarrow>
          (Inr (), snd (rmdir path (remove_entries (\<lambda>p F. snd (remove_empty_dirs depth p F)) path es F))))"

definition remove_all_empty_dir :: "string \<Rightarrow> fs \<Rightarrow> (job_error + unit) \<times> fs" where
  "remove_all_empty_dir path F = remove_empty_dirs (Suc PATH_MAX) path F"

section \<open>The names a peer sends\<close>

definition validate_file_name_no_traversal :: "string \<Rightarrow> job_error + unit" where
  "validate_file_name_no_traversal name =
     (if CHR 0x00 \<in> set name then Inl (Bail ''file name contains null bytes'')
      else if ''..'' \<in> set (filter (\<lambda>s. s \<noteq> []) (str_split sep name))
      then Inl (Bail ''path traversal detected in file name'')
      else if is_absolute name then Inl (Bail ''absolute path detected in file name'')
      else Inr ())"

fun validate_names :: "file_entry list \<Rightarrow> job_error + unit" where
  "validate_names [] = Inr ()"
| "validate_names (f # fs) =
     (if fe_name f = [] then Inl (Bail ''empty file name in multi-file transfer'')
      else case validate_file_name_no_traversal (fe_name f) of
             Inl e \<Rightarrow> Inl e | Inr u \<Rightarrow> validate_names fs)"

definition validate_transfer_file_names :: "file_entry list \<Rightarrow> job_error + unit" where
  "validate_transfer_file_names files =
     (if length files = 1 \<and> fe_name (hd files) = [] then Inr () else validate_names files)"

definition validate_fs_path_argument :: "string \<Rightarrow> string \<Rightarrow> job_error + unit" where
  "validate_fs_path_argument path arg =
     (if path = [] then Inl (Bail (arg @ '' cannot be empty''))
      else if CHR 0x00 \<in> set path then Inl (Bail (arg @ '' contains null bytes''))
      else Inr ())"

fun check_components :: "fs \<Rightarrow> string \<Rightarrow> path_comp list \<Rightarrow> job_error + unit" where
  "check_components F current [] = Inr ()"
| "check_components F current (Normal seg # cs) =
     (let current = path_join current seg in
      case stat F False current of
        Inr (Link t) \<Rightarrow> Inl (Bail ''symlink path component is not allowed'')
      | Inr x \<Rightarrow> check_components F current cs
      | Inl Not_found \<Rightarrow> check_components F current cs
      | Inl e \<Rightarrow> Inl (Bail_io (''failed to validate path component '' @ [CHR 0x27] @ current @ [CHR 0x27] @ '': '') e))"
| "check_components F current (Cur_dir # cs) = check_components F current cs"
| "check_components F current (c # cs) = Inl (Bail ''invalid file name component'')"

definition validate_no_symlink_components :: "fs \<Rightarrow> string \<Rightarrow> string \<Rightarrow> job_error + unit" where
  "validate_no_symlink_components F base name =
     (if name = [] then Inr () else check_components F base (components name))"

definition job_join :: "string \<Rightarrow> string \<Rightarrow> string" where
  "job_join p name = (if name = [] then p else path_join p name)"

definition join_validated_path :: "fs \<Rightarrow> string \<Rightarrow> string \<Rightarrow> job_error + string" where
  "join_validated_path F base name =
     (case validate_file_name_no_traversal name of
        Inl e \<Rightarrow> Inl e
      | Inr u \<Rightarrow>
          (case validate_no_symlink_components F base name of
             Inl e \<Rightarrow> Inl e
           | Inr u \<Rightarrow> Inr (job_join base name)))"

end
