(* ===== verification/TransferJobs.thy ===== *)
theory TransferJobs
  imports FileJobs
begin

text \<open>
  \<open>TransferJob\<close> of \<open>libs/hbb_common/src/fs.rs\<close>: writing the blocks a peer sends, reading the blocks for
  a peer, the confirmation of files that exist already, and resuming. A panic is \<open>None\<close>. Messages are
  sent by appending them to a list: a failed send closes the connection.
\<close>

section \<open>State\<close>

record codec_lib =
  cl_compress :: "u8 list \<Rightarrow> u8 list"
  cl_decompress :: "u8 list \<Rightarrow> u8 list"
  cl_digest_json :: "nat \<times> nat \<Rightarrow> u8 list"
  cl_parse_digest :: "u8 list \<Rightarrow> (nat \<times> nat) option"

datatype job_type = Generic | Printer

definition job_type_of_i32 :: "int \<Rightarrow> job_type" where
  "job_type_of_i32 v = (if v = 1 then Printer else Generic)"

datatype data_source = File_path string | Memory_cursor "u8 list"

datatype data_stream = File_stream file_handle | Buf_stream "u8 list" nat

record transfer_job =
  tj_id :: int
  tj_type :: job_type
  tj_remote :: string
  tj_source :: data_source
  tj_show_hidden :: bool
  tj_is_remote :: bool
  tj_is_last_job :: bool
  tj_is_resume :: bool
  tj_file_num :: int
  tj_files :: "file_entry list"
  tj_conn_id :: int
  tj_stream :: "data_stream option"
  tj_total_size :: u64
  tj_finished_size :: u64
  tj_transferred :: u64
  tj_overwrite_detection :: bool
  tj_confirmed :: bool
  tj_skipped :: bool
  tj_waiting :: bool
  tj_default_overwrite :: "bool option"
  tj_digest :: "nat \<times> nat"

record file_block =
  fb_id :: int
  fb_file_num :: int
  fb_data :: "u8 list"
  fb_compressed :: bool

record file_digest =
  dg_id :: int
  dg_file_num :: int
  dg_modified :: nat
  dg_size :: nat
  dg_is_upload :: bool
  dg_identical :: bool
  dg_transferred :: nat
  dg_is_resume :: bool

datatype confirm_union = Confirm_skip bool | Confirm_offset u32 | Confirm_none

record send_confirm =
  sc_id :: int
  sc_file_num :: int
  sc_union :: confirm_union

datatype file_msg =
    Fm_error int job_error int
  | Fm_dir int string "file_entry list"
  | Fm_block file_block
  | Fm_done int int
  | Fm_digest file_digest
  | Fm_send_confirm send_confirm
  | Fm_receive int string int "file_entry list" u64
  | Fm_send int job_type string int bool
  | Fm_cancel int
  | Fm_all_files int string bool
  | Fm_remove_dir int string bool
  | Fm_remove_file int string int
  | Fm_create int string
  | Fm_rename int string string
  | Fm_read_dir string bool
  | Fm_read_empty_dirs string bool
  | Fm_empty_dirs string "string list"

definition as_usize :: "int \<Rightarrow> nat" where
  "as_usize i = nat (i mod 2 ^ 64)"

definition total_of :: "file_entry list \<Rightarrow> u64" where
  "total_of files = sum_list (map (\<lambda>f. word_of_nat (fe_size f)) files)"

section \<open>Construction\<close>

definition job_new :: "int \<Rightarrow> job_type \<Rightarrow> string \<Rightarrow> data_source \<Rightarrow> int \<Rightarrow> bool \<Rightarrow> bool \<Rightarrow> bool \<Rightarrow> transfer_job" where
  "job_new i ty remote src file_num show_hidden is_remote od =
     \<lparr>tj_id = i, tj_type = ty, tj_remote = remote, tj_source = src, tj_show_hidden = show_hidden,
      tj_is_remote = is_remote, tj_is_last_job = False, tj_is_resume = False, tj_file_num = file_num,
      tj_files = [], tj_conn_id = 0, tj_stream = None, tj_total_size = 0, tj_finished_size = 0,
      tj_transferred = 0, tj_overwrite_detection = od, tj_confirmed = False, tj_skipped = False,
      tj_waiting = False, tj_default_overwrite = None, tj_digest = (0, 0)\<rparr>"

definition new_write ::
    "int \<Rightarrow> job_type \<Rightarrow> string \<Rightarrow> data_source \<Rightarrow> int \<Rightarrow> bool \<Rightarrow> bool \<Rightarrow> bool \<Rightarrow> transfer_job" where
  "new_write i ty remote src file_num show_hidden is_remote od =
     job_new i ty remote src file_num show_hidden is_remote od"

definition new_read ::
    "fs \<Rightarrow> int \<Rightarrow> job_type \<Rightarrow> string \<Rightarrow> data_source \<Rightarrow> int \<Rightarrow> bool \<Rightarrow> bool \<Rightarrow> bool \<Rightarrow> job_error + transfer_job" where
  "new_read F i ty remote src file_num show_hidden is_remote od =
     (let job = job_new i ty remote src file_num show_hidden is_remote od in
      case src of
        File_path p \<Rightarrow>
          if \<not> valid_utf8 p then Inl (Bail ''Invalid path'')
          else (case get_recursive_files F p show_hidden of
             Inl e \<Rightarrow> Inl e
           | Inr files \<Rightarrow> Inr (job\<lparr>tj_files := files, tj_total_size := total_of files\<rparr>))
      | Memory_cursor c \<Rightarrow> Inr (job\<lparr>tj_total_size := word_of_nat (length c)\<rparr>))"

fun check_entries :: "fs \<Rightarrow> string \<Rightarrow> file_entry list \<Rightarrow> job_error + unit" where
  "check_entries F base [] = Inr ()"
| "check_entries F base (f # fs) =
     (case validate_no_symlink_components F base (fe_name f) of
        Inl e \<Rightarrow> Inl e | Inr u \<Rightarrow> check_entries F base fs)"

definition set_files :: "fs \<Rightarrow> file_entry list \<Rightarrow> transfer_job \<Rightarrow> (job_error + unit) \<times> transfer_job" where
  "set_files F files job =
     (case validate_transfer_file_names files of
        Inl e \<Rightarrow> (Inl e, job)
      | Inr u \<Rightarrow>
          (case (case tj_source job of File_path base \<Rightarrow> check_entries F base files | _ \<Rightarrow> Inr ()) of
             Inl e \<Rightarrow> (Inl e, job)
           | Inr u \<Rightarrow> (Inr (), job\<lparr>tj_total_size := total_of files, tj_files := files\<rparr>)))"

definition set_digest :: "nat \<Rightarrow> nat \<Rightarrow> transfer_job \<Rightarrow> transfer_job" where
  "set_digest sz modified job = job\<lparr>tj_digest := (sz, modified)\<rparr>"

section \<open>Writing\<close>

definition resolve_entry_path :: "fs \<Rightarrow> transfer_job \<Rightarrow> string \<Rightarrow> string \<Rightarrow> string option" where
  "resolve_entry_path F job base name =
     (if tj_type job = Generic
      then (case join_validated_path F base name of Inl e \<Rightarrow> None | Inr p \<Rightarrow> Some p)
      else Some (job_join base name))"

definition DOWNLOAD :: string where "DOWNLOAD = ''.download''"
definition DIGEST :: string where "DIGEST = ''.digest''"

text \<open>The path of the current file, if the job writes files.\<close>

definition current_entry :: "fs \<Rightarrow> transfer_job \<Rightarrow> (string \<times> file_entry) option" where
  "current_entry F job =
     (if tj_type job = Printer then None
      else case tj_source job of
             Memory_cursor c \<Rightarrow> None
           | File_path p \<Rightarrow>
               (let n = as_usize (tj_file_num job) in
                if n < length (tj_files job) then
                  let entry = tj_files job ! n
                  in map_option (\<lambda>path. (path, entry)) (resolve_entry_path F job p (fe_name entry))
                else None))"

definition modify_time :: "transfer_job \<Rightarrow> fs \<Rightarrow> fs" where
  "modify_time job F =
     (case current_entry F job of
        None \<Rightarrow> F
      | Some (path, entry) \<Rightarrow>
          let F = snd (remove_file_at (get_string path @ DIGEST) F);
              F = snd (rename_path (get_string path @ DOWNLOAD) path F)
          in snd (set_mtime path (as_i64 (int (fe_time entry)), 0) F))"

definition remove_download_file :: "transfer_job \<Rightarrow> fs \<Rightarrow> fs" where
  "remove_download_file job F =
     (case current_entry F job of
        None \<Rightarrow> F
      | Some (path, entry) \<Rightarrow>
          snd (remove_file_at (get_string path @ DIGEST)
            (snd (remove_file_at (get_string path @ DOWNLOAD) F))))"

definition set_finished_size_on_resume :: "transfer_job \<Rightarrow> transfer_job" where
  "set_finished_size_on_resume job =
     (if tj_is_resume job \<and> tj_file_num job > 0
      then job\<lparr>tj_finished_size := total_of (take (as_usize (tj_file_num job)) (tj_files job))\<rparr>
      else job)"

text \<open>The file a block belongs to is opened: the digest of the sender goes beside it.\<close>

definition open_target ::
    "codec_lib \<Rightarrow> transfer_job \<Rightarrow> string \<Rightarrow> file_entry \<Rightarrow> fs \<Rightarrow> (job_error + file_handle) \<times> fs" where
  "open_target L job base entry F =
     (if tj_type job = Printer then
        (case file_create True F base of (Inl e, F) \<Rightarrow> (Inl (Io e), F) | (Inr h, F) \<Rightarrow> (Inr h, F))
      else case join_validated_path F base (fe_name entry) of
        Inl e \<Rightarrow> (Inl e, F)
      | Inr path \<Rightarrow>
          let F = (case parent path of None \<Rightarrow> F | Some pp \<Rightarrow> snd (create_dir_all pp F));
              dp = get_string path @ DIGEST;
              (r, F) = (if path_exists F dp then remove_file_at dp F else (Inr (), F))
          in case r of
               Inl e \<Rightarrow> (Inl (Io e), F)
             | Inr u \<Rightarrow>
                 (case file_create True F (get_string path @ DOWNLOAD) of
                    (Inl e, F) \<Rightarrow> (Inl (Io e), F)
                  | (Inr h, F) \<Rightarrow> (Inr h, snd (write_file dp (cl_digest_json L (tj_digest job)) F))))"

definition stream_write :: "u8 list \<Rightarrow> data_stream \<Rightarrow> fs \<Rightarrow> (os_error + unit) \<times> data_stream \<times> fs" where
  "stream_write bs st F =
     (case st of
        File_stream h \<Rightarrow> (case file_write bs h F of (r, h, F) \<Rightarrow> (r, File_stream h, F))
      | Buf_stream data pos \<Rightarrow> (Inr (), Buf_stream (overwrite pos bs data) (pos + length bs), F))"

text \<open>The end of \<open>write\<close>: the bytes go to the open stream.\<close>

definition write_data ::
    "codec_lib \<Rightarrow> file_block \<Rightarrow> transfer_job \<Rightarrow> fs \<Rightarrow> (job_error + unit) \<times> transfer_job \<times> fs" where
  "write_data L b job F =
     (let bs = (if fb_compressed b then cl_decompress L (fb_data b) else fb_data b) in
      case tj_stream job of
        None \<Rightarrow> (Inl (Bail (if fb_compressed b then ''data stream is None'' else ''file is None'')), job, F)
      | Some st \<Rightarrow>
          (case stream_write bs st F of
             (Inl e, st, F) \<Rightarrow> (Inl (Io e), job\<lparr>tj_stream := Some st\<rparr>, F)
           | (Inr u, st, F) \<Rightarrow>
               (Inr (), job\<lparr>tj_stream := Some st,
                  tj_finished_size := tj_finished_size job + word_of_nat (length bs),
                  tj_transferred := tj_transferred job + word_of_nat (length (fb_data b))\<rparr>, F)))"

definition job_write ::
    "codec_lib \<Rightarrow> file_block \<Rightarrow> transfer_job \<Rightarrow> fs \<Rightarrow> (job_error + unit) \<times> transfer_job \<times> fs" where
  "job_write L b job F =
     (if fb_id b \<noteq> tj_id job then (Inl (Bail ''Wrong id''), job, F)
      else case tj_source job of
        File_path p \<Rightarrow>
          let file_num = as_usize (fb_file_num b) in
          if file_num \<ge> length (tj_files job) then (Inl (Bail ''Wrong file number''), job, F)
          else if file_num \<noteq> as_usize (tj_file_num job) \<or> tj_stream job = None then
            let F = modify_time job F;
                synced = (case tj_stream job of Some (File_stream h) \<Rightarrow> \<not> fs_refused F Access_sync (fh_path h) | _ \<Rightarrow> True)
            in if \<not> synced then (Inl (Io Io_other), job, F)
               else
                 let job = job\<lparr>tj_file_num := fb_file_num b\<rparr> in
                 (case open_target L job p (tj_files job ! file_num) F of
                    (Inl e, F) \<Rightarrow> (Inl e, job, F)
                  | (Inr h, F) \<Rightarrow> write_data L b (job\<lparr>tj_stream := Some (File_stream h)\<rparr>) F)
          else write_data L b job F
      | Memory_cursor c \<Rightarrow>
          write_data L b
            (if tj_stream job = None then job\<lparr>tj_stream := Some (Buf_stream c 0)\<rparr> else job) F)"

definition get_buf_data :: "transfer_job \<Rightarrow> u8 list option" where
  "get_buf_data job = (case tj_stream job of Some (Buf_stream data pos) \<Rightarrow> Some data | _ \<Rightarrow> None)"

section \<open>Reading\<close>

definition advance_file :: "transfer_job \<Rightarrow> transfer_job" where
  "advance_file job =
     job\<lparr>tj_file_num := as_i32 (tj_file_num job + 1), tj_confirmed := False, tj_waiting := False\<rparr>"

definition open_data_stream :: "fs \<Rightarrow> transfer_job \<Rightarrow> (job_error + bool) \<times> transfer_job" where
  "open_data_stream F job =
     (let file_num = as_usize (tj_file_num job) in
      case tj_source job of
        File_path p \<Rightarrow>
          if file_num \<ge> length (tj_files job) then (Inr True, job\<lparr>tj_stream := None\<rparr>)
          else if tj_stream job = None then
            (case file_open F (job_join p (fe_name (tj_files job ! file_num))) of
               Inr h \<Rightarrow>
                 (Inr False, job\<lparr>tj_stream := Some (File_stream h), tj_confirmed := False, tj_waiting := False\<rparr>)
             | Inl e \<Rightarrow> (Inl (Io e), advance_file job))
          else (Inr False, job)
      | Memory_cursor c \<Rightarrow>
          (Inr False,
           if tj_stream job = None
           then job\<lparr>tj_source := Memory_cursor [], tj_stream := Some (Buf_stream c 0)\<rparr> else job))"

definition get_current_digest :: "fs \<Rightarrow> transfer_job \<Rightarrow> job_error + (nat \<times> nat)" where
  "get_current_digest F job =
     (case tj_stream job of
        None \<Rightarrow> Inl (Bail ''file is None'')
      | Some (Buf_stream data pos) \<Rightarrow> Inl (Bail ''No digest for buf stream'')
      | Some (File_stream h) \<Rightarrow>
          let d = fs_files F (fh_inode h) in
          if fst (fd_mtime d) < 0 then Inl (Io Io_other)
          else Inr (nat (fst (fd_mtime d)), length (fd_bytes d)))"

definition send_current_digest :: "fs \<Rightarrow> transfer_job \<Rightarrow> job_error + file_msg" where
  "send_current_digest F job =
     (case get_current_digest F job of
        Inl e \<Rightarrow> Inl e
      | Inr (modified, sz) \<Rightarrow>
          Inr (Fm_digest \<lparr>dg_id = tj_id job, dg_file_num = tj_file_num job, dg_modified = modified,
            dg_size = sz, dg_is_upload = False, dg_identical = False, dg_transferred = 0,
            dg_is_resume = tj_is_resume job\<rparr>))"

definition wants_confirmation :: "transfer_job \<Rightarrow> bool" where
  "wants_confirmation job \<longleftrightarrow>
     tj_type job = Generic \<and> tj_overwrite_detection job \<and> \<not> tj_confirmed job \<and> \<not> tj_waiting job"

definition init_data_stream :: "fs \<Rightarrow> transfer_job \<Rightarrow> (job_error + file_msg list) \<times> transfer_job" where
  "init_data_stream F job =
     (case open_data_stream F job of
        (Inl e, job) \<Rightarrow> (Inl e, job)
      | (Inr done, job) \<Rightarrow>
          if \<not> done \<and> wants_confirmation job then
            (case send_current_digest F job of
               Inl e \<Rightarrow> (Inl e, job)
             | Inr m \<Rightarrow> (Inr [m], job\<lparr>tj_waiting := True\<rparr>))
          else (Inr [], job))"

text \<open>The same for the connection manager, which sends the digest itself.\<close>

definition init_data_stream_for_cm :: "fs \<Rightarrow> transfer_job \<Rightarrow> (job_error + (nat \<times> nat) option) \<times> transfer_job" where
  "init_data_stream_for_cm F job =
     (case open_data_stream F job of
        (Inl e, job) \<Rightarrow> (Inl e, job)
      | (Inr done, job) \<Rightarrow>
          if \<not> done \<and> wants_confirmation job then
            (case get_current_digest F job of
               Inl e \<Rightarrow> (Inl e, job)
             | Inr d \<Rightarrow> (Inr (Some d), job\<lparr>tj_waiting := True\<rparr>))
          else (Inr None, job))"

definition get_ext :: "string \<Rightarrow> string" where
  "get_ext name = (if CHR ''.'' \<in> set name then List.last (str_split (CHR ''.'') name) else [])"

definition is_compressed_file :: "string \<Rightarrow> bool" where
  "is_compressed_file name \<longleftrightarrow>
     get_ext name \<in> {''xz'', ''gz'', ''zip'', ''7z'', ''rar'', ''bz2'', ''tgz'', ''png'', ''jpg''}"

definition BUF_SIZE :: nat where "BUF_SIZE = 128 * 1024"

definition stream_read :: "fs \<Rightarrow> data_stream \<Rightarrow> (os_error + u8 list) \<times> data_stream" where
  "stream_read F st =
     (case st of
        File_stream h \<Rightarrow> (case file_read BUF_SIZE h F of (r, h) \<Rightarrow> (r, File_stream h))
      | Buf_stream data pos \<Rightarrow>
          let bs = take BUF_SIZE (drop pos data) in (Inr bs, Buf_stream data (pos + length bs)))"

definition job_read :: "codec_lib \<Rightarrow> fs \<Rightarrow> transfer_job \<Rightarrow> (job_error + file_block option) \<times> transfer_job" where
  "job_read L F job =
     (let file_num = as_usize (tj_file_num job);
          is_file = (case tj_source job of File_path p \<Rightarrow> True | _ \<Rightarrow> False)
      in
      if tj_type job = Generic \<and> tj_overwrite_detection job \<and> \<not> tj_confirmed job then (Inr None, job)
      else if is_file \<and> file_num \<ge> length (tj_files job) then (Inr None, job\<lparr>tj_stream := None\<rparr>)
      else case tj_stream job of
        None \<Rightarrow> (Inl (Bail ''data stream is None''), job)
      | Some st \<Rightarrow>
          (case stream_read F st of
             (Inl e, st) \<Rightarrow> (Inl (Io e), advance_file (job\<lparr>tj_stream := None\<rparr>))
           | (Inr buf, st) \<Rightarrow>
               if buf = [] \<and> \<not> is_file then (Inr None, job\<lparr>tj_stream := None\<rparr>)
               else
                 let name = (case tj_source job of
                               Memory_cursor c \<Rightarrow> []
                             | File_path p \<Rightarrow>
                                 if length (tj_files job) = 1 \<and> fe_name (tj_files job ! file_num) = []
                                 then get_file_name p else fe_name (tj_files job ! file_num));
                     tmp = cl_compress L buf;
                     compressed = (buf \<noteq> [] \<and> is_file \<and> \<not> is_compressed_file name \<and> length tmp < length buf);
                     data = (if compressed then tmp else buf);
                     block = \<lparr>fb_id = tj_id job, fb_file_num = as_i32 (int file_num), fb_data = data,
                              fb_compressed = compressed\<rparr>
                 in (Inr (Some block),
                     if buf = [] then advance_file (job\<lparr>tj_stream := None\<rparr>)
                     else job\<lparr>tj_stream := Some st,
                            tj_finished_size := tj_finished_size job + word_of_nat (length buf),
                            tj_transferred := tj_transferred job + word_of_nat (length data)\<rparr>)))"

section \<open>Confirmation\<close>

definition set_file_confirmed :: "bool \<Rightarrow> transfer_job \<Rightarrow> transfer_job" where
  "set_file_confirmed v job = job\<lparr>tj_confirmed := v, tj_skipped := False\<rparr>"

definition job_skipped :: "transfer_job \<Rightarrow> bool" where
  "job_skipped job \<longleftrightarrow> tj_skipped job \<and> length (tj_files job) = 1"

definition job_completed :: "transfer_job \<Rightarrow> bool" where
  "job_completed job \<longleftrightarrow> \<not> tj_overwrite_detection job \<or> (\<not> tj_confirmed job \<and> \<not> tj_waiting job)"

definition job_failure :: "transfer_job \<Rightarrow> string option" where
  "job_failure job = (if job_skipped job then Some ''skipped'' else None)"

definition set_file_skipped :: "transfer_job \<Rightarrow> transfer_job" where
  "set_file_skipped job =
     (let job = set_file_confirmed False (job\<lparr>tj_stream := None\<rparr>)
      in job\<lparr>tj_waiting := False, tj_file_num := as_i32 (tj_file_num job + 1), tj_skipped := True\<rparr>)"

text \<open>\<open>None\<close>: the index is out of range and the task panics.\<close>

definition set_stream_offset :: "nat \<Rightarrow> nat \<Rightarrow> transfer_job \<Rightarrow> fs \<Rightarrow> (transfer_job \<times> fs) option" where
  "set_stream_offset file_num offset job F =
     (case tj_source job of
        Memory_cursor c \<Rightarrow> Some (job, F)
      | File_path p \<Rightarrow>
          if file_num \<ge> length (tj_files job) then None
          else Some (case resolve_entry_path F job p (fe_name (tj_files job ! file_num)) of
             None \<Rightarrow> (job, F)
           | Some path \<Rightarrow>
               let file_path = get_string path;
                   seek = (\<lambda>h. job\<lparr>tj_stream := Some (File_stream (h\<lparr>fh_pos := offset\<rparr>)),
                       tj_transferred := tj_transferred job + word_of_nat offset,
                       tj_finished_size := tj_finished_size job + word_of_nat offset\<rparr>)
               in if path_exists F (file_path @ DOWNLOAD) \<and> path_exists F (file_path @ DIGEST) then
                    (case file_create False F (file_path @ DOWNLOAD) of
                       (Inl e, F) \<Rightarrow> (job, F) | (Inr h, F) \<Rightarrow> (seek h, F))
                  else if path_exists F file_path then
                    (case file_open F file_path of Inl e \<Rightarrow> (job, F) | Inr h \<Rightarrow> (seek h, F))
                  else (job, F)))"

definition job_confirm :: "send_confirm \<Rightarrow> transfer_job \<Rightarrow> fs \<Rightarrow> (transfer_job \<times> fs) option" where
  "job_confirm r job F =
     (if tj_file_num job \<noteq> sc_file_num r then Some (job, F)
      else case sc_union r of
        Confirm_skip s \<Rightarrow> Some (if s then set_file_skipped job else set_file_confirmed True job, F)
      | Confirm_offset offset \<Rightarrow>
          let job = set_file_confirmed True job in
          if unat offset > 0 then set_stream_offset (as_usize (sc_file_num r)) (unat offset) job F
          else Some (job, F)
      | Confirm_none \<Rightarrow> Some (job, F))"

datatype digest_check = Is_same | Need_confirm file_digest | No_such_file

text \<open>The size of the unfinished file of a resumed job, when its digest is that of the peer's file. (A
  directory in its place counts as empty.)\<close>

definition partial_size :: "codec_lib \<Rightarrow> fs \<Rightarrow> string \<Rightarrow> file_digest \<Rightarrow> nat" where
  "partial_size L F file_path digest =
     (if path_exists F (file_path @ DIGEST) \<and> path_exists F (file_path @ DOWNLOAD) then
        (case read_file (file_path @ DIGEST) F of
           Inl e \<Rightarrow> 0
         | Inr content \<Rightarrow>
             if cl_parse_digest L content = Some (dg_size digest, dg_modified digest) then
               (case resolve F True (file_path @ DOWNLOAD) of
                  Inl e \<Rightarrow> 0
                | Inr q \<Rightarrow> (case node_at F q of Some (File i) \<Rightarrow> length (fd_bytes (fs_files F i)) | _ \<Rightarrow> 0))
             else 0)
      else 0)"

definition is_write_need_confirmation ::
    "codec_lib \<Rightarrow> fs \<Rightarrow> bool \<Rightarrow> string \<Rightarrow> file_digest \<Rightarrow> job_error + digest_check" where
  "is_write_need_confirmation L F is_resume file_path digest =
     (let reply = \<lparr>dg_id = dg_id digest, dg_file_num = dg_file_num digest, dg_modified = dg_modified digest,
                   dg_size = dg_size digest, dg_is_upload = False, dg_identical = True, dg_transferred = 0,
                   dg_is_resume = False\<rparr>
      in if is_resume \<and> partial_size L F file_path digest > 0
         then Inr (Need_confirm (reply\<lparr>dg_transferred := partial_size L F file_path digest\<rparr>))
         else case (stat F True file_path, resolve F True file_path) of
           (Inr (File i), Inr q) \<Rightarrow>
             let d = fs_files F i in
             if fst (fd_mtime d) < 0 then Inl (Io Io_other)
             else Inr (Need_confirm (reply\<lparr>dg_modified := nat (fst (fd_mtime d)), dg_size := length (fd_bytes d),
               dg_identical := (fd_mtime d = (int (dg_modified digest), 0) \<and> dg_size digest = length (fd_bytes d))\<rparr>))
         | _ \<Rightarrow> Inr No_such_file)"

section \<open>Lists of jobs\<close>

definition get_job :: "int \<Rightarrow> transfer_job list \<Rightarrow> transfer_job option" where
  "get_job i jobs = List.find (\<lambda>j. tj_id j = i) jobs"

fun remove_job :: "int \<Rightarrow> transfer_job list \<Rightarrow> transfer_job option \<times> transfer_job list" where
  "remove_job i [] = (None, [])"
| "remove_job i (j # js) =
     (if tj_id j = i then (Some j, js) else let (r, js) = remove_job i js in (r, j # js))"

text \<open>The job that \<open>get_job\<close> finds is a reference: it is changed in its place.\<close>

fun put_job :: "int \<Rightarrow> transfer_job \<Rightarrow> transfer_job list \<Rightarrow> transfer_job list" where
  "put_job i new [] = []"
| "put_job i new (j # js) = (if tj_id j = i then new # js else j # put_job i new js)"

fun init_jobs :: "fs \<Rightarrow> transfer_job list \<Rightarrow> transfer_job list \<times> file_msg list" where
  "init_jobs F [] = ([], [])"
| "init_jobs F (job # jobs) =
     (let (r, job') = (if tj_is_last_job job then (Inr [], job) else init_data_stream F job);
          sent = (case r of Inl e \<Rightarrow> [Fm_error (tj_id job') e (tj_file_num job')] | Inr ms \<Rightarrow> ms);
          (jobs, msgs) = init_jobs F jobs
      in (job' # jobs, sent @ msgs))"

text \<open>One job at a time: the first that does not wait to be resumed. The flag says that it is finished.\<close>

definition read_one :: "codec_lib \<Rightarrow> fs \<Rightarrow> transfer_job \<Rightarrow> transfer_job \<times> file_msg list \<times> bool" where
  "read_one L F job =
     (case job_read L F job of
        (Inl e, job) \<Rightarrow> (job, [Fm_error (tj_id job) e (tj_file_num job)], False)
      | (Inr (Some block), job) \<Rightarrow> (job, [Fm_block block], False)
      | (Inr None, job) \<Rightarrow>
          if job_completed job then
            (job, [case job_failure job of
                     Some err \<Rightarrow> Fm_error (tj_id job) (Bail err) (tj_file_num job)
                   | None \<Rightarrow> Fm_done (tj_id job) (tj_file_num job)], True)
          else (job, [], False))"

fun read_first :: "codec_lib \<Rightarrow> fs \<Rightarrow> transfer_job list \<Rightarrow> transfer_job list \<times> file_msg list \<times> int option" where
  "read_first L F [] = ([], [], None)"
| "read_first L F (job # jobs) =
     (if tj_is_last_job job then (let (js, ms, fin) = read_first L F jobs in (job # js, ms, fin))
      else let (job, ms, fin) = read_one L F job
           in (job # jobs, ms, if fin then Some (tj_id job) else None))"

definition handle_read_jobs :: "codec_lib \<Rightarrow> fs \<Rightarrow> transfer_job list \<Rightarrow> transfer_job list \<times> file_msg list" where
  "handle_read_jobs L F jobs =
     (let (jobs, sent) = init_jobs F jobs; (jobs, ms, fin) = read_first L F jobs
      in (case fin of None \<Rightarrow> jobs | Some i \<Rightarrow> snd (remove_job i jobs), sent @ ms))"

section \<open>Commands on files\<close>

definition fs_remove_file :: "string \<Rightarrow> fs \<Rightarrow> (job_error + unit) \<times> fs" where
  "fs_remove_file file F =
     (case validate_fs_path_argument file ''file path'' of
        Inl e \<Rightarrow> (Inl e, F)
      | Inr u \<Rightarrow> (case remove_file_at file F of (Inl e, F) \<Rightarrow> (Inl (Io e), F) | (Inr u, F) \<Rightarrow> (Inr (), F)))"

definition fs_create_dir :: "string \<Rightarrow> fs \<Rightarrow> (job_error + unit) \<times> fs" where
  "fs_create_dir dir F =
     (case validate_fs_path_argument dir ''directory path'' of
        Inl e \<Rightarrow> (Inl e, F)
      | Inr u \<Rightarrow> (case create_dir_all dir F of (Inl e, F) \<Rightarrow> (Inl (Io e), F) | (Inr u, F) \<Rightarrow> (Inr (), F)))"

text \<open>The messages of \<open>fs_rename_file\<close> quote the path, which is left out here.\<close>

definition fs_rename_file :: "string \<Rightarrow> string \<Rightarrow> fs \<Rightarrow> (job_error + unit) \<times> fs" where
  "fs_rename_file path new_name F =
     (case validate_fs_path_argument path ''path'' of
        Inl e \<Rightarrow> (Inl e, F)
      | Inr u \<Rightarrow>
          if new_name = [] then (Inl (Bail ''new file name cannot be empty''), F)
          else (case validate_file_name_no_traversal new_name of
             Inl e \<Rightarrow> (Inl e, F)
           | Inr u \<Rightarrow>
               if path_exists F path then
                 (case parent path of
                    None \<Rightarrow> (Inl (Bail ''Parent directoy not exists''), F)
                  | Some dir \<Rightarrow>
                      (case rename_path path (path_join dir new_name) F of
                         (Inl e, F) \<Rightarrow> (Inl (Io e), F) | (Inr u, F) \<Rightarrow> (Inr (), F)))
               else (Inl (Bail ''path not exists''), F)))"

definition transform_windows_path :: "file_entry list \<Rightarrow> file_entry list" where
  "transform_windows_path entries =
     map (\<lambda>e. e\<lparr>fe_name := map (\<lambda>c. if c = CHR 0x5C then sep else c) (fe_name e)\<rparr>) entries"

end
