(* ===== verification/RustFsProps.thy ===== *)
theory RustFsProps
  imports RustFs
begin

text \<open>
  How paths resolve: dots do not count, walks compose, and a path below a directory that is reached
  without links of its own stays below it.
\<close>

section \<open>Walks\<close>

definition steps :: "string \<Rightarrow> path_comp list" where
  "steps p = filter (\<lambda>c. c \<noteq> Cur_dir) (os_path p)"

lemma walk_append:
  "walk F n d (xs @ ys) = (case walk F n d xs of Inl e \<Rightarrow> Inl e | Inr (m, d') \<Rightarrow> walk F m d' ys)"
  by (induction F n d xs rule: walk.induct) (auto split: option.splits node.splits)

lemma walk_fuel: "walk F n d cs = Inr (m, d') \<Longrightarrow> m \<le> n"
  by (induction F n d cs rule: walk.induct) (auto split: option.splits node.splits if_splits)

lemma walk_filter: "walk F n d (filter (\<lambda>c. c \<noteq> Cur_dir) cs) = walk F n d cs"
proof (induction n arbitrary: d cs rule: less_induct)
  case (less n)
  show ?case
  proof (induction cs arbitrary: d)
    case (Cons c cs)
    have "walk F n d (Normal s # filter (\<lambda>c. c \<noteq> Cur_dir) cs) = walk F n d (Normal s # cs)" for s
    proof -
      have "walk F (n - 1) d (os_path t @ filter (\<lambda>c. c \<noteq> Cur_dir) cs) = walk F (n - 1) d (os_path t @ cs)"
        if "n \<noteq> 0" for t
        using less.IH walk_fuel [of F "n - 1" d "os_path t"] that
        by (auto simp: walk_append split: sum.splits prod.splits)
      then show ?thesis
        by (auto simp: Cons.IH split: option.splits node.splits)
    qed
    then show ?case by (cases c) (simp_all add: Cons.IH)
  qed simp
qed

lemma walk_steps: "walk F n d (steps p) = walk F n d (os_path p)"
  by (simp add: steps_def walk_filter)

lemma walk_mono:
  assumes "walk G n d cs = Inr r" and "fs_nodes G \<subseteq>\<^sub>m fs_nodes F"
  shows "walk F n d cs = Inr r"
  using assms
proof (induction G n d cs rule: walk.induct)
  case (5 G n d s cs)
  then have "fs_nodes G (d @ [s]) = fs_nodes F (d @ [s])"
    by (cases "fs_nodes G (d @ [s])") (auto simp: map_le_def dom_def dest!: bspec)
  then show ?case using 5 by (auto split: option.splits node.splits if_splits)
qed auto

lemma walk_normals:
  assumes "\<And>j. 0 < j \<Longrightarrow> j \<le> length ks \<Longrightarrow> fs_nodes F (d @ take j ks) = Some Dir"
  shows "walk F n d (map Normal ks) = Inr (n, d @ ks)"
  using assms
proof (induction ks arbitrary: d)
  case (Cons k ks)
  have "fs_nodes F (d @ [k]) = Some Dir" using Cons.prems [of 1] by simp
  moreover have "walk F n (d @ [k]) (map Normal ks) = Inr (n, (d @ [k]) @ ks)"
    by (rule Cons.IH) (use Cons.prems [of "Suc j" for j] in simp)
  ultimately show ?case by simp
qed simp

section \<open>Paths below a directory\<close>

text \<open>No link among the nodes that the names lead through.\<close>

fun clear :: "fs \<Rightarrow> string list \<Rightarrow> string list \<Rightarrow> bool" where
  "clear F d [] = True"
| "clear F d (s # ss) =
     (case fs_nodes F (d @ [s]) of
        Some (Link t) \<Rightarrow> False | Some Dir \<Rightarrow> clear F (d @ [s]) ss | _ \<Rightarrow> True)"

lemma walk_clear:
  "clear F d ks \<Longrightarrow> walk F n d (map Normal ks) = Inr (m, q) \<Longrightarrow> m = n \<and> q = d @ ks"
proof (induction ks arbitrary: d)
  case (Cons k ks)
  then have "clear F (d @ [k]) ks" "walk F n (d @ [k]) (map Normal ks) = Inr (m, q)"
    by (auto split: option.splits node.splits)
  then show ?case using Cons.IH by fastforce
qed simp

lemma clear_append:
  "clear F d (ks @ ls) \<Longrightarrow> clear F d ks \<and> (walk F n d (map Normal ks) = Inr (m, q) \<longrightarrow> clear F q ls)"
  by (induction ks arbitrary: d) (auto split: option.splits node.splits)

text \<open>The base reaches \<open>r\<close> without what lies below \<open>r\<close>.\<close>

definition outer_fs :: "string list \<Rightarrow> fs \<Rightarrow> fs" where
  "outer_fs r F = F\<lparr>fs_nodes := (\<lambda>q. if strict_prefix r q then None else fs_nodes F q)\<rparr>"

definition leads_to :: "fs \<Rightarrow> string \<Rightarrow> string list \<Rightarrow> bool" where
  "leads_to F base r \<longleftrightarrow> base \<noteq> [] \<and> (\<exists>m. walk (outer_fs r F) MAXSYMLINKS (fs_cwd F) (os_path base) = Inr (m, r))"

lemma leads_to_walk:
  assumes "leads_to F base r"
  obtains m where "walk F MAXSYMLINKS (fs_cwd F) (steps base) = Inr (m, r)"
proof -
  obtain m where "walk (outer_fs r F) MAXSYMLINKS (fs_cwd F) (os_path base) = Inr (m, r)"
    using assms by (auto simp: leads_to_def)
  then have "walk F MAXSYMLINKS (fs_cwd F) (os_path base) = Inr (m, r)"
    by (rule walk_mono) (auto simp: outer_fs_def map_le_def)
  then show ?thesis using that by (simp add: walk_steps)
qed

lemma os_path_nonempty [simp]: "os_path p \<noteq> []"
  by (simp add: os_path_def Let_def)

lemma steps_last:
  assumes "List.last (os_path p) = Normal s"
  shows "steps p = filter (\<lambda>c. c \<noteq> Cur_dir) (butlast (os_path p)) @ [Normal s]"
proof -
  have *: "butlast (os_path p) @ [Normal s] = os_path p"
    using append_butlast_last_id [of "os_path p"] assms by simp
  have "filter (\<lambda>c. c \<noteq> Cur_dir) (butlast (os_path p) @ [Normal s]) =
      filter (\<lambda>c. c \<noteq> Cur_dir) (butlast (os_path p)) @ [Normal s]" by simp
  then show ?thesis unfolding * steps_def .
qed

lemma resolve_below:
  assumes base: "leads_to F base r"
    and st: "steps p = steps base @ map Normal ks"
    and clr: "clear F r ks"
    and empty: "ks = [] \<Longrightarrow> List.last (os_path p) = Cur_dir"
    and res: "resolve F follow p = Inr q"
  shows "q = r @ ks"
proof -
  obtain m where m: "walk F MAXSYMLINKS (fs_cwd F) (steps base) = Inr (m, r)"
    using leads_to_walk [OF base] .
  have in_all: "resolve_in (Suc MAXSYMLINKS) F follow MAXSYMLINKS (fs_cwd F) (os_path p) = Inr q"
    using res by (simp add: resolve_def split: if_splits)
  show ?thesis
  proof (cases "\<exists>s. List.last (os_path p) = Normal s")
    case False
    then have "map_sum id snd (walk F MAXSYMLINKS (fs_cwd F) (os_path p)) = Inr q"
      using in_all by (auto split: path_comp.splits)
    then obtain k where "walk F MAXSYMLINKS (fs_cwd F) (steps p) = Inr (k, q)"
      by (auto simp: walk_steps map_sum_def split: sum.splits)
    then have "walk F m r (map Normal ks) = Inr (k, q)" by (simp add: st walk_append m)
    then show ?thesis using walk_clear [OF clr] by blast
  next
    case True
    then obtain s where s: "List.last (os_path p) = Normal s" by blast
    note sp = steps_last [OF s]
    have "ks \<noteq> []" using s empty by auto
    then obtain ls where ks: "ks = ls @ [s]"
      using sp st by (cases ks rule: rev_cases) auto
    then have bl: "filter (\<lambda>c. c \<noteq> Cur_dir) (butlast (os_path p)) = steps base @ map Normal ls"
      using sp st by simp
    obtain k d where kd: "walk F MAXSYMLINKS (fs_cwd F) (butlast (os_path p)) = Inr (k, d)"
      using in_all s by (auto split: sum.splits)
    then have "walk F MAXSYMLINKS (fs_cwd F) (steps base @ map Normal ls) = Inr (k, d)"
      by (metis bl walk_filter)
    then have w: "walk F m r (map Normal ls) = Inr (k, d)" by (simp add: walk_append m)
    have d: "d = r @ ls" and c: "clear F d [s]"
      using clear_append [OF clr [unfolded ks]] walk_clear w by blast+
    show ?thesis
      using in_all s kd d ks c by (auto split: option.splits node.splits if_splits)
  qed
qed

lemma resolve_exact:
  assumes base: "leads_to F base r"
    and st: "steps p = steps base @ map Normal (ks @ [s])"
    and lst: "List.last (os_path p) = Normal s"
    and dirs: "\<And>j. 0 < j \<Longrightarrow> j \<le> length ks \<Longrightarrow> fs_nodes F (r @ take j ks) = Some Dir"
    and nolink: "\<And>t. follow \<Longrightarrow> fs_nodes F (r @ ks @ [s]) \<noteq> Some (Link t)"
    and p: "CHR 0x00 \<notin> set p" "length p < PATH_MAX"
  shows "resolve F follow p = Inr (r @ ks @ [s])"
proof -
  obtain m where m: "walk F MAXSYMLINKS (fs_cwd F) (steps base) = Inr (m, r)"
    using leads_to_walk [OF base] .
  have "filter (\<lambda>c. c \<noteq> Cur_dir) (butlast (os_path p)) = steps base @ map Normal ks"
    using st steps_last [OF lst] by simp
  then have "walk F MAXSYMLINKS (fs_cwd F) (filter (\<lambda>c. c \<noteq> Cur_dir) (butlast (os_path p))) = Inr (m, r @ ks)"
    using walk_normals [of ks F r m] dirs by (simp add: walk_append m)
  then have "walk F MAXSYMLINKS (fs_cwd F) (butlast (os_path p)) = Inr (m, r @ ks)"
    by (simp only: walk_filter)
  moreover have "p \<noteq> []" using lst by (auto simp: os_path_def Let_def comp_of_def is_absolute_def)
  ultimately show ?thesis
    using lst p nolink by (auto simp: resolve_def split: option.splits node.splits)
qed

section \<open>Names and paths\<close>

definition normals :: "string \<Rightarrow> string list" where
  "normals name = filter (\<lambda>s. s \<noteq> [] \<and> s \<noteq> ''.'') (str_split sep name)"

definition good_name :: "string \<Rightarrow> bool" where
  "good_name name \<longleftrightarrow> name \<noteq> [] \<and> \<not> is_absolute name \<and> ''..'' \<notin> set (str_split sep name)"

lemma str_split_sep: "str_split c (a @ c # b) = str_split c a @ str_split c b"
  by (induction a) (auto split: list.splits)

lemma str_split_suffix:
  "c \<notin> set suf \<Longrightarrow> str_split c (name @ suf) = butlast (str_split c name) @ [List.last (str_split c name) @ suf]"
  by (induction name) (auto split: list.splits)

lemma steps_alt:
  "steps p = (if is_absolute p then [Root_dir] else []) @ filter (\<lambda>c. c \<noteq> Cur_dir) (map comp_of (str_split sep p))"
proof -
  have "filter (\<lambda>c. c \<noteq> Cur_dir) (map comp_of (filter (\<lambda>s. s \<noteq> []) ss)) =
      filter (\<lambda>c. c \<noteq> Cur_dir) (map comp_of ss)" for ss
    by (induction ss) (simp_all add: comp_of_def)
  moreover have "map comp_of (str_split sep p) =
      map comp_of (butlast (str_split sep p)) @ [comp_of (List.last (str_split sep p))]"
    by (metis append_butlast_last_id list.simps(8,9) map_append str_split_nonempty)
  ultimately show ?thesis by (simp add: steps_def os_path_def Let_def)
qed

lemma steps_good: "good_name name \<Longrightarrow> steps name = map Normal (normals name)"
proof -
  have "filter (\<lambda>c. c \<noteq> Cur_dir) (map comp_of ss) = map Normal (filter (\<lambda>s. s \<noteq> [] \<and> s \<noteq> ''.'') ss)"
    if "''..'' \<notin> set ss" for ss
    using that by (induction ss) (auto simp: comp_of_def)
  then show "good_name name \<Longrightarrow> steps name = map Normal (normals name)"
    by (simp add: steps_alt good_name_def normals_def)
qed

lemma is_absolute_append: "a \<noteq> [] \<Longrightarrow> is_absolute (a @ b) = is_absolute a"
  by (simp add: is_absolute_def)

lemma steps_join:
  assumes "base \<noteq> []" and "\<not> is_absolute name"
  shows "steps (path_join base name) = steps base @ steps name"
proof (cases "List.last base = sep")
  case True
  then obtain b where b: "base = b @ [sep]" using assms by (metis append_butlast_last_id)
  have "str_split sep base = str_split sep b @ [[]]" unfolding b by (simp add: str_split_sep [of _ _ "[]"])
  moreover have "str_split sep (base @ name) = str_split sep b @ str_split sep name"
    unfolding b by (simp add: str_split_sep)
  ultimately show ?thesis
    using assms True by (simp add: path_join_def steps_alt is_absolute_append comp_of_def)
next
  case False
  then show ?thesis
    using assms by (simp add: path_join_def steps_alt is_absolute_append str_split_sep)
qed

lemma last_os_path: "List.last (os_path p) = comp_of (List.last (str_split sep p))"
  by (simp add: os_path_def Let_def)

lemma last_join:
  assumes "base \<noteq> []" and "\<not> is_absolute name"
  shows "List.last (str_split sep (path_join base name)) = List.last (str_split sep name)"
proof (cases "List.last base = sep")
  case True
  then obtain b where b: "base = b @ [sep]" using assms by (metis append_butlast_last_id)
  then show ?thesis using assms True by (simp add: path_join_def str_split_sep)
next
  case False
  then show ?thesis using assms by (simp add: path_join_def str_split_sep)
qed

lemma normals_pieces:
  assumes "good_name name" and "k \<in> set (normals name)"
  shows "good_name k" and "normals k = [k]"
proof -
  have k: "sep \<notin> set k" "k \<noteq> []" "k \<noteq> ''.''" "k \<noteq> ''..''"
    using assms str_split_pieces [of k sep name] by (auto simp: normals_def good_name_def)
  then show "good_name k" "normals k = [k]"
    by (cases k; auto simp: good_name_def normals_def is_absolute_def)+
qed

text \<open>A suffix changes the last name only, or makes a name of its own.\<close>

lemma normals_suffix:
  assumes "good_name name" and "sep \<notin> set suf" and "length suf \<ge> 3"
  defines "pre \<equiv> filter (\<lambda>s. s \<noteq> [] \<and> s \<noteq> ''.'') (butlast (str_split sep name))"
    and "l \<equiv> List.last (str_split sep name)"
  shows "good_name (name @ suf)" and "normals (name @ suf) = pre @ [l @ suf]"
    and "normals name = pre @ (if l = [] \<or> l = ''.'' then [] else [l])"
    and "List.last (str_split sep (name @ suf)) = l @ suf"
proof -
  have split: "str_split sep (name @ suf) = butlast (str_split sep name) @ [l @ suf]"
    unfolding l_def by (rule str_split_suffix) fact
  have "l @ suf \<noteq> ''.''" "l @ suf \<noteq> ''..''" "l @ suf \<noteq> []"
    using assms(3) by (auto dest!: arg_cong [where f = length])
  moreover have "''..'' \<notin> set (butlast (str_split sep name))"
    using assms(1) by (auto simp: good_name_def dest: in_set_butlastD)
  ultimately show "good_name (name @ suf)" "normals (name @ suf) = pre @ [l @ suf]"
      "List.last (str_split sep (name @ suf)) = l @ suf"
    using assms(1) split by (auto simp: good_name_def normals_def pre_def is_absolute_append)
  have "str_split sep name = butlast (str_split sep name) @ [l]" unfolding l_def by simp
  then have "normals name = filter (\<lambda>s. s \<noteq> [] \<and> s \<noteq> ''.'') (butlast (str_split sep name) @ [l])"
    unfolding normals_def by (rule arg_cong)
  then show "normals name = pre @ (if l = [] \<or> l = ''.'' then [] else [l])" by (simp add: pre_def)
qed

text \<open>Trailing separators and the parent of a path.\<close>

lemma steps_snoc_sep: "p \<noteq> [] \<Longrightarrow> steps (p @ [sep]) = steps p"
  by (simp add: steps_alt is_absolute_append str_split_sep [of _ _ "[]"] comp_of_def)

lemma steps_seps: "p \<noteq> [] \<Longrightarrow> set zs \<subseteq> {sep} \<Longrightarrow> steps (p @ zs) = steps p"
proof (induction zs arbitrary: p)
  case (Cons z zs)
  then have "steps ((p @ [z]) @ zs) = steps (p @ [z])" by (intro Cons.IH) auto
  then show ?case using Cons.prems steps_snoc_sep [of p] by simp
qed simp

lemma strip_seps_suffix:
  obtains zs where "p = strip_seps p @ zs" and "set zs \<subseteq> {sep}" and "p \<noteq> [] \<Longrightarrow> strip_seps p \<noteq> []"
proof -
  define q where "q = rev (dropWhile (\<lambda>c. c = sep) (rev p))"
  have p: "p = q @ rev (takeWhile (\<lambda>c. c = sep) (rev p))"
    unfolding q_def by (metis rev_append rev_rev_ident takeWhile_dropWhile_id)
  have seps: "set (takeWhile (\<lambda>c. c = sep) (rev p)) \<subseteq> {sep}" by (auto dest: set_takeWhileD)
  show ?thesis
  proof (cases "q = [] \<and> p \<noteq> []")
    case True
    then have "set p \<subseteq> {sep}" "p \<noteq> []" using p seps by (metis append_Nil set_rev)+
    then obtain zs where "p = [sep] @ zs" "set zs \<subseteq> {sep}" by (cases p) auto
    then show ?thesis using that [of zs] True by (simp add: strip_seps_def q_def)
  next
    case False
    then have "strip_seps p = q" by (auto simp: strip_seps_def q_def Let_def)
    then show ?thesis using that [of "rev (takeWhile (\<lambda>c. c = sep) (rev p))"] p seps False by auto
  qed
qed

lemma steps_strip: "steps (strip_seps p) = steps p"
proof (cases "p = []")
  case False
  then obtain zs where zs: "p = strip_seps p @ zs" "set zs \<subseteq> {sep}" "strip_seps p \<noteq> []"
    using strip_seps_suffix by metis
  then show ?thesis using steps_seps [OF zs(3,2)] by simp
qed (simp add: strip_seps_def)

lemma strip_join:
  assumes "good_name name" and "base \<noteq> []"
  shows "strip_seps (path_join base name) = path_join base (strip_seps name)"
    and "good_name (strip_seps name)" and "normals (strip_seps name) = normals name"
proof -
  have ex: "\<exists>c\<in>set name. c \<noteq> sep" using assms by (cases name) (auto simp: good_name_def is_absolute_def)
  then have strip: "strip_seps (pre @ name) = pre @ strip_seps name" for pre
    by (auto simp: strip_seps_def dropWhile_append)
  obtain zs where zs: "name = strip_seps name @ zs" "set zs \<subseteq> {sep}" "strip_seps name \<noteq> []"
    using strip_seps_suffix assms by (metis good_name_def)
  have abs: "\<not> is_absolute (strip_seps name)"
    using zs assms by (metis good_name_def is_absolute_append)
  then show "strip_seps (path_join base name) = path_join base (strip_seps name)"
    using strip [of base] strip [of "base @ [sep]"] assms by (simp add: path_join_def good_name_def)
  have ss: "steps (strip_seps name) = map Normal (normals name)"
    using steps_strip steps_good [OF assms(1)] by simp
  have "''..'' \<notin> set (str_split sep (strip_seps name))"
  proof
    assume "''..'' \<in> set (str_split sep (strip_seps name))"
    then have "Parent_dir \<in> set (steps (strip_seps name))" by (force simp: steps_alt comp_of_def)
    then show False unfolding ss by auto
  qed
  then show good: "good_name (strip_seps name)" using abs zs by (simp add: good_name_def)
  have "map Normal (normals (strip_seps name)) = map Normal (normals name)"
    using steps_good [OF good] ss by simp
  then show "normals (strip_seps name) = normals name"
    by (metis (no_types, lifting) inj_onI list.inj_map_strong path_comp.inject)
qed

lemma str_split_join:
  "ss \<noteq> [] \<Longrightarrow> \<forall>s\<in>set ss. c \<notin> set s \<Longrightarrow> str_split c (str_join [c] ss) = ss"
proof (induction ss rule: rev_induct)
  case (snoc s ss)
  show ?case
  proof (cases "ss = []")
    case False
    then have "str_join [c] (ss @ [s]) = str_join [c] ss @ c # s"
      by (cases ss) (auto simp: str_join_def)
    then show ?thesis using snoc False by (simp add: str_split_sep)
  qed (use snoc in \<open>simp add: str_join_def\<close>)
qed simp

lemma trim_filter:
  "ss \<noteq> [] \<Longrightarrow>
     filter (\<lambda>c. c \<noteq> Cur_dir) (map comp_of (trim_segments ss)) = filter (\<lambda>c. c \<noteq> Cur_dir) (map comp_of ss)"
proof -
  have "filter (\<lambda>c. c \<noteq> Cur_dir) (map comp_of (dropWhile (\<lambda>s. s = [] \<or> s = ''.'') xs)) =
      filter (\<lambda>c. c \<noteq> Cur_dir) (map comp_of xs)" for xs
    by (induction xs) (auto simp: comp_of_def)
  from arg_cong [where f = rev, OF this [of "rev (tl ss)"]] show "ss \<noteq> [] \<Longrightarrow> ?thesis"
    by (cases ss) (simp_all add: trim_segments_def rev_filter rev_map)
qed

lemma steps_parent:
  assumes "parent p = Some pp" shows "steps pp = butlast (steps p)"
proof -
  let ?ss = "str_split sep p" let ?ts = "trim_segments ?ss" let ?us = "trim_segments (butlast ?ts)"
  let ?f = "\<lambda>ss. filter (\<lambda>c. c \<noteq> Cur_dir) (map comp_of ss)"
  obtain zs where zs: "?ss = ?ts @ zs" using trim_segments_prefix [of ?ss] by auto
  have abs: "is_absolute p = (hd ?ts = [] \<and> p \<noteq> [])"
    using hd_str_split [of sep p] zs by (cases p) (auto simp: is_absolute_def trim_segments_def)
  show ?thesis
  proof (cases "length ?ts = 1")
    case True
    then obtain s where s: "?ts = [s]" "s \<noteq> []" "pp = []"
      using assms by (cases ?ts) (auto simp: parent_def split: if_splits)
    then have "steps p = (if comp_of s = Cur_dir then [] else [comp_of s])"
      using abs trim_filter [of ?ss] by (cases "comp_of s = Cur_dir") (simp_all add: steps_alt)
    then show ?thesis using s by (simp add: steps_alt is_absolute_def comp_of_def)
  next
    case False
    have bl: "butlast ?ts \<noteq> []" using False by (cases ?ts rule: rev_cases) auto
    have lst: "List.last ?ts \<noteq> []" "List.last ?ts \<noteq> ''.''"
      using False hd_dropWhile [of "\<lambda>s. s = [] \<or> s = ''.''" "rev (tl ?ss)"]
      by (auto simp: trim_segments_def last_rev split: if_splits)
    have "p \<noteq> []" using False by (auto simp: trim_segments_def)
    have "hd (butlast xs) = hd xs" if "butlast xs \<noteq> []" for xs :: "string list"
      using that by (cases xs) auto
    then have hd_us: "hd ?us = hd ?ts" using bl by (metis list.sel(1) trim_segments_def)
    have "?f ?ss = ?f (butlast ?ts) @ [comp_of (List.last ?ts)]"
    proof -
      have "?f xs = ?f (butlast xs) @ [comp_of (List.last xs)]"
        if "xs \<noteq> []" "List.last xs \<noteq> []" "List.last xs \<noteq> ''.''" for xs
        using that by (cases xs rule: rev_cases) (auto simp: comp_of_def)
      from this [OF trim_segments_nonempty lst] show ?thesis using trim_filter [of ?ss] by simp
    qed
    then have "butlast (steps p) = (if is_absolute p then [Root_dir] else []) @ ?f ?us"
      using trim_filter [OF bl] by (simp add: steps_alt butlast_append)
    moreover have "steps pp = (if is_absolute p then [Root_dir] else []) @ ?f ?us"
    proof (cases "?us = [[]]")
      case True
      then have "pp = [sep]" "is_absolute p"
        using assms False abs hd_us \<open>p \<noteq> []\<close> by (auto simp: parent_def Let_def)
      then show ?thesis using True by (simp add: steps_alt is_absolute_def comp_of_def)
    next
      case us: False
      then have pp: "pp = str_join [sep] ?us" using assms False by (simp add: parent_def Let_def)
      obtain ys where ys: "butlast ?ts = ?us @ ys" using trim_segments_prefix [OF bl] by blast
      have "\<forall>s\<in>set ?us. sep \<notin> set s"
        using zs ys str_split_pieces [of _ sep p] by (metis Un_iff in_set_butlastD set_append)
      then have sp: "str_split sep pp = ?us" unfolding pp by (intro str_split_join) auto
      have "pp \<noteq> []" using sp us by auto
      then have "is_absolute pp = (hd ?us = [])"
        using hd_str_split [of sep pp] sp by (cases pp) (auto simp: is_absolute_def)
      then show ?thesis using sp abs hd_us \<open>p \<noteq> []\<close> by (simp add: steps_alt)
    qed
    ultimately show ?thesis by simp
  qed
qed

end
