(* ===== verification/TransferProps.thy ===== *)
theory TransferProps
  imports TransferJobs RustFsProps
begin

text \<open>
  What a write job may touch: whatever names and blocks the peer sends, the files and directories that
  change lie below the directory the user chose.
\<close>

section \<open>The symlink check\<close>

lemma check_filter: "check_components F cur (filter (\<lambda>c. c \<noteq> Cur_dir) cs) = check_components F cur cs"
proof (induction F cur cs rule: check_components.induct)
  case (2 F cur seg cs)
  then show ?case by (simp add: Let_def split: sum.splits node.splits os_error.splits)
qed auto

lemma components_good:
  assumes "good_name name" shows "filter (\<lambda>c. c \<noteq> Cur_dir) (components name) = map Normal (normals name)"
proof -
  obtain s ss where ss: "str_split sep name = s # ss" by (cases "str_split sep name") auto
  have "name \<noteq> []" "hd name \<noteq> sep" using assms by (auto simp: good_name_def is_absolute_def)
  then have "s \<noteq> []" using ss hd_str_split [of sep name] by (cases name) auto
  then show ?thesis
    using ss \<open>name \<noteq> []\<close> assms steps_good [OF assms]
    by (cases "comp_of s = Cur_dir") (simp_all add: components_def steps_alt good_name_def)
qed

definition is_dir :: "fs \<Rightarrow> string list \<Rightarrow> bool" where
  "is_dir F q \<longleftrightarrow> q = [] \<or> fs_nodes F q = Some Dir"

lemma is_dir_Nil [simp]: "is_dir F []"
  by (simp add: is_dir_def)

definition no_links :: "fs \<Rightarrow> string list \<Rightarrow> string list \<Rightarrow> bool" where
  "no_links F r ks \<longleftrightarrow> (\<forall>j t. 0 < j \<longrightarrow> j \<le> length ks \<longrightarrow> fs_nodes F (r @ take j ks) \<noteq> Some (Link t))"

text \<open>Nodes hang under directories, and the process stands in one.\<close>

definition tree_ok :: "fs \<Rightarrow> bool" where
  "tree_ok F \<longleftrightarrow> (\<forall>q s. fs_nodes F (q @ [s]) \<noteq> None \<longrightarrow> is_dir F q) \<and> fs_nodes F [] = None \<and> is_dir F (fs_cwd F)"

lemma tree_okD:
  assumes "tree_ok F"
  shows "fs_nodes F (q @ [s]) \<noteq> None \<Longrightarrow> is_dir F q" and "fs_nodes F [] = None" and "is_dir F (fs_cwd F)"
  using assms by (auto simp: tree_ok_def)

lemma walk_is_dir:
  "walk F n d cs = Inr (m, q) \<Longrightarrow> tree_ok F \<Longrightarrow> is_dir F d \<Longrightarrow> is_dir F q"
proof (induction F n d cs rule: walk.induct)
  case (4 F n d cs)
  have "is_dir F (butlast d)"
    using 4(4) tree_okD(1) [OF 4(3), of "butlast d" "List.last d"]
    by (cases "d = []") (auto simp: is_dir_def)
  then show ?case using 4 by simp
qed (auto simp: is_dir_def split: option.splits node.splits if_splits)

lemma leads_to_dir: "leads_to F base r \<Longrightarrow> tree_ok F \<Longrightarrow> is_dir F r"
  using leads_to_walk [of F base r] walk_is_dir [of F MAXSYMLINKS "fs_cwd F"] tree_okD(3) by metis

lemma no_links_clear:
  assumes "no_links F r ks" shows "clear F r ks"
  using assms
proof (induction ks arbitrary: r)
  case (Cons k ks)
  have "no_links F (r @ [k]) ks"
    unfolding no_links_def using Cons.prems [unfolded no_links_def] by (auto dest: spec [of _ "Suc _"])
  then show ?case
    using Cons.IH Cons.prems [unfolded no_links_def, rule_format, of 1]
    by (auto split: option.splits node.splits)
qed simp

lemma clear_no_links:
  assumes "clear F r ks" and "tree_ok F" shows "no_links F r ks"
  using assms(1)
proof (induction ks arbitrary: r)
  case (Cons k ks)
  show ?case
    unfolding no_links_def
  proof (intro allI impI)
    fix j t assume j: "0 < j" "j \<le> length (k # ks)"
    show "fs_nodes F (r @ take j (k # ks)) \<noteq> Some (Link t)"
    proof (cases "fs_nodes F (r @ [k]) = Some Dir")
      case True
      then have "no_links F (r @ [k]) ks" using Cons by simp
      then show ?thesis using j True by (cases "j - 1") (auto simp: no_links_def take_Cons' split: nat.splits)
    next
      case False
      have "fs_nodes F (r @ [k] @ ls) = None" if "ls \<noteq> []" for ls
        using that
      proof (induction ls rule: rev_induct)
        case (snoc l ls)
        have "\<not> is_dir F (r @ [k] @ ls)"
          using snoc.IH False by (cases "ls = []") (auto simp: is_dir_def)
        then show ?case using tree_okD(1) [OF \<open>tree_ok F\<close>, of "r @ [k] @ ls" l] by (cases "fs_nodes F ((r @ [k] @ ls) @ [l])") simp_all
      qed simp
      then show ?thesis
        using j Cons.prems by (cases "take (j - 1) ks = []") (auto simp: take_Cons' split: option.splits node.splits)
    qed
  qed
qed (simp add: no_links_def)

lemma check_clear:
  assumes base: "leads_to F base r"
    and st: "steps cur = steps base @ map Normal ls"
    and dirs: "\<And>j. 0 < j \<Longrightarrow> j \<le> length ls \<Longrightarrow> fs_nodes F (r @ take j ls) = Some Dir"
    and ks: "\<And>k. k \<in> set ks \<Longrightarrow> good_name k \<and> normals k = [k]"
    and chk: "check_components F cur (map Normal ks) = Inr ()"
    and cur: "cur \<noteq> []"
  shows "clear F (r @ ls) ks"
  using st dirs ks chk cur
proof (induction ks arbitrary: cur ls)
  case (Cons k ks)
  let ?cur = "path_join cur k"
  have k: "good_name k" "normals k = [k]" using Cons.prems(3) by auto
  then have nabs: "\<not> is_absolute k" by (simp add: good_name_def)
  have st: "steps ?cur = steps base @ map Normal (ls @ [k])"
    using steps_join [OF Cons.prems(5) nabs] steps_good [OF k(1)] k(2) Cons.prems(1) by simp
  have "List.last (str_split sep k) = k"
    using k(2) str_split_absent [of sep k]
    by (metis (mono_tags, lifting) filter_is_subset last_ConsL list.set_intros(1) normals_def str_split_pieces
        subset_code(1))
  then have lst: "List.last (os_path ?cur) = Normal k"
    using last_os_path [of ?cur] last_join [OF Cons.prems(5) nabs] k
    by (auto simp: comp_of_def good_name_def normals_def split: if_splits)
  have "stat F False ?cur = Inr (Link t) \<or> (\<exists>e. stat F False ?cur = Inl e \<and> e \<noteq> Not_found)"
    if t: "fs_nodes F (r @ ls @ [k]) = Some (Link t)" for t
  proof (cases "CHR 0x00 \<notin> set ?cur \<and> length ?cur < PATH_MAX")
    case True
    have "resolve F False ?cur = Inr (r @ ls @ [k])"
      by (rule resolve_exact [OF base st lst]) (use True Cons.prems(2) in auto)
    then show ?thesis using t by (simp add: stat_def node_at_def)
  next
    case False
    then show ?thesis
      using path_join_longer [of k cur] k nabs by (auto simp: stat_def resolve_def good_name_def)
  qed
  then have nl: "fs_nodes F (r @ ls @ [k]) \<noteq> Some (Link t)" for t
    using Cons.prems(4) by (auto simp: Let_def split: os_error.splits)
  have rest: "clear F (r @ ls @ [k]) ks" if "fs_nodes F (r @ ls @ [k]) = Some Dir"
  proof -
    have "clear F (r @ (ls @ [k])) ks"
    proof (rule Cons.IH [OF st])
      show "fs_nodes F (r @ take j (ls @ [k])) = Some Dir" if "0 < j" "j \<le> length (ls @ [k])" for j
        using Cons.prems(2) [of j] that \<open>fs_nodes F (r @ ls @ [k]) = Some Dir\<close>
        by (cases "j \<le> length ls") (auto simp: take_Cons' not_le split: if_splits)
      show "check_components F ?cur (map Normal ks) = Inr ()"
        using Cons.prems(4) by (auto simp: Let_def split: sum.splits node.splits os_error.splits)
      show "?cur \<noteq> []" using path_join_longer [of k cur] k nabs by (auto simp: good_name_def)
    qed (use Cons.prems(3) in auto)
    then show ?thesis by simp
  qed
  show ?case using nl rest by (auto split: option.splits node.splits)
qed simp

lemma validated_good:
  "validate_file_name_no_traversal name = Inr u \<Longrightarrow> name \<noteq> [] \<Longrightarrow> good_name name"
  by (auto simp: validate_file_name_no_traversal_def good_name_def split: if_splits)

lemma join_validated:
  assumes base: "leads_to F base r" and ok: "join_validated_path F base name = Inr p"
    and name: "name \<noteq> []" and tree: "tree_ok F"
  shows "good_name name" and "p = path_join base name" and "no_links F r (normals name)"
proof -
  show good: "good_name name"
    using ok name by (auto simp: join_validated_path_def split: sum.splits intro: validated_good)
  show "p = path_join base name"
    using ok name by (auto simp: join_validated_path_def job_join_def split: sum.splits)
  have "check_components F base (components name) = Inr ()"
    using ok name by (auto simp: join_validated_path_def validate_no_symlink_components_def split: sum.splits)
  then have "check_components F base (map Normal (normals name)) = Inr ()"
    using check_filter [of F base "components name"] components_good [OF good] by simp
  then have "clear F (r @ []) (normals name)"
    by (intro check_clear [OF base]) (use base normals_pieces [OF good] in \<open>auto simp: leads_to_def\<close>)
  then show "no_links F r (normals name)" using clear_no_links tree by simp
qed

section \<open>Changes below a directory\<close>

definition inodes_below :: "string list \<Rightarrow> fs \<Rightarrow> nat set" where
  "inodes_below r F = {i. fs_next F \<le> i} \<union> {i. \<exists>q. strict_prefix r q \<and> fs_nodes F q = Some (File i)}"

text \<open>Nodes outside stay, and only files that were below the directory, or new ones, get other contents.\<close>

definition confined :: "string list \<Rightarrow> fs \<Rightarrow> fs \<Rightarrow> bool" where
  "confined r F F' \<longleftrightarrow>
     (\<forall>q. \<not> strict_prefix r q \<longrightarrow> fs_nodes F' q = fs_nodes F q) \<and>
     (\<forall>i. i \<notin> inodes_below r F \<longrightarrow> fs_files F' i = fs_files F i) \<and>
     inodes_below r F' \<subseteq> inodes_below r F \<and> fs_cwd F' = fs_cwd F"

definition partial_name :: "string \<Rightarrow> bool" where
  "partial_name s \<longleftrightarrow> suffix DOWNLOAD s \<or> suffix DIGEST s"

text \<open>The names of unfinished files and of their digests are not links.\<close>

definition no_partial_links :: "string list \<Rightarrow> fs \<Rightarrow> bool" where
  "no_partial_links r F \<longleftrightarrow>
     (\<forall>q s t. strict_prefix r (q @ [s]) \<longrightarrow> fs_nodes F (q @ [s]) = Some (Link t) \<longrightarrow> \<not> partial_name s)"

definition fs_wf :: "string list \<Rightarrow> fs \<Rightarrow> bool" where
  "fs_wf r F \<longleftrightarrow> tree_ok F \<and> no_partial_links r F \<and> \<not> strict_prefix r (fs_cwd F)"

definition tree_kept :: "string list \<Rightarrow> fs \<Rightarrow> fs \<Rightarrow> bool" where
  "tree_kept r F F' \<longleftrightarrow> (fs_wf r F \<longrightarrow> confined r F F' \<and> fs_wf r F')"

lemma confined_refl [simp]: "confined r F F"
  by (simp add: confined_def)

lemma confined_trans: "confined r F G \<Longrightarrow> confined r G H \<Longrightarrow> confined r F H"
  unfolding confined_def by (metis subset_iff)

lemma kept_refl [simp]: "tree_kept r F F"
  by (simp add: tree_kept_def)

lemma kept_trans: "tree_kept r F G \<Longrightarrow> tree_kept r G H \<Longrightarrow> tree_kept r F H"
  unfolding tree_kept_def using confined_trans by blast

lemma confined_leads_to:
  assumes "confined r F F'" and "leads_to F base r" shows "leads_to F' base r"
proof -
  have "fs_nodes (outer_fs r F) = fs_nodes (outer_fs r F')"
    using assms(1) by (auto simp: outer_fs_def confined_def)
  then show ?thesis
    using assms walk_mono [of "outer_fs r F" MAXSYMLINKS "fs_cwd F" "os_path base" _ "outer_fs r F'"]
    by (auto simp: leads_to_def confined_def)
qed

text \<open>No node becomes a link.\<close>

definition no_new_links :: "fs \<Rightarrow> fs \<Rightarrow> bool" where
  "no_new_links F F' \<longleftrightarrow> (\<forall>q t. fs_nodes F' q = Some (Link t) \<longrightarrow> fs_nodes F q = Some (Link t))"

lemma no_new_links_refl [simp]: "no_new_links F F"
  by (simp add: no_new_links_def)

lemma no_new_links_trans: "no_new_links F G \<Longrightarrow> no_new_links G H \<Longrightarrow> no_new_links F H"
  by (auto simp: no_new_links_def)

lemma no_new_links_keep: "no_new_links F F' \<Longrightarrow> no_links F r ks \<Longrightarrow> no_links F' r ks"
  by (auto simp: no_new_links_def no_links_def)

lemma fs_wf_cong:
  "fs_nodes F' = fs_nodes F \<Longrightarrow> fs_cwd F' = fs_cwd F \<Longrightarrow> fs_wf r F' = fs_wf r F"
  by (simp add: fs_wf_def tree_ok_def no_partial_links_def is_dir_def)

lemma kept_remove:
  assumes "strict_prefix r q" and "fs_nodes F q \<noteq> Some Dir"
  shows "tree_kept r F (put_node q None F)"
proof -
  have "is_dir F p \<Longrightarrow> is_dir (put_node q None F) p" for p
    using assms by (auto simp: is_dir_def put_node_def)
  then show ?thesis
    using assms
    by (auto simp: tree_kept_def fs_wf_def tree_ok_def confined_def inodes_below_def no_partial_links_def put_node_def
        split: if_splits)
qed

lemma kept_put_file: "i \<in> inodes_below r F \<Longrightarrow> tree_kept r F (put_file i x F)"
  using fs_wf_cong [of "put_file i x F" F]
  by (auto simp: tree_kept_def confined_def inodes_below_def put_file_def)

lemma kept_mkdir:
  assumes "strict_prefix r q" and "fs_nodes F q = None" and "is_dir F (butlast q)"
  shows "tree_kept r F (put_node q (Some Dir) F)"
proof -
  have "is_dir F p \<Longrightarrow> is_dir (put_node q (Some Dir) F) p" for p
    using assms by (auto simp: is_dir_def put_node_def)
  then show ?thesis
    using assms
    by (auto simp: tree_kept_def fs_wf_def tree_ok_def confined_def inodes_below_def no_partial_links_def put_node_def
        split: if_splits)
qed

lemma kept_create:
  assumes "strict_prefix r q" and "fs_nodes F q = None" and "is_dir F (butlast q)"
  shows "tree_kept r F (put_node q (Some (File (fs_next F))) (put_file (fs_next F) x (F\<lparr>fs_next := fs_next F + 1\<rparr>)))"
    (is "tree_kept r F ?F")
proof -
  have "is_dir F p \<Longrightarrow> is_dir ?F p" for p
    using assms by (auto simp: is_dir_def put_node_def put_file_def)
  then show ?thesis
    using assms
    by (auto simp: tree_kept_def fs_wf_def tree_ok_def confined_def inodes_below_def no_partial_links_def put_node_def
        put_file_def split: if_splits)
qed

text \<open>Where a resolved path may be.\<close>

lemma resolve_in_parent:
  "resolve_in k F follow n d cs = Inr q \<Longrightarrow> tree_ok F \<Longrightarrow> is_dir F d \<Longrightarrow> q = [] \<or> is_dir F (butlast q)"
proof (induction k F follow n d cs rule: resolve_in.induct)
  case (2 k F follow n d cs)
  have dirs: "is_dir F q' \<Longrightarrow> q' = [] \<or> is_dir F (butlast q')" for q'
    using tree_okD(1) [OF 2(3), of "butlast q'" "List.last q'"] by (auto simp: is_dir_def)
  show ?case
  proof (cases "\<exists>s. (if cs = [] then Cur_dir else List.last cs) = Normal s")
    case True
    then obtain s where s: "(if cs = [] then Cur_dir else List.last cs) = Normal s" by blast
    then obtain m d' where w: "walk F n d (butlast cs) = Inr (m, d')"
      using 2(2) by (auto split: sum.splits)
    then have d': "is_dir F d'" using walk_is_dir 2 by blast
    show ?thesis
      using 2 s w d' by (auto split: option.splits node.splits if_splits)
  next
    case False
    then have "map_sum id snd (walk F n d cs) = Inr q"
      using 2(2) by (auto split: path_comp.splits)
    then obtain m where "walk F n d cs = Inr (m, q)" by (auto simp: map_sum_def split: sum.splits)
    then show ?thesis using dirs walk_is_dir 2 by blast
  qed
qed simp

lemma resolve_parent: "resolve F follow p = Inr q \<Longrightarrow> tree_ok F \<Longrightarrow> q = [] \<or> is_dir F (butlast q)"
  using resolve_in_parent [of "MAXSYMLINKS + 1" F follow MAXSYMLINKS "fs_cwd F" "os_path p" q] tree_okD(3) [of F]
  by (simp add: resolve_def del: resolve_in.simps split: if_splits)

definition lands :: "fs \<Rightarrow> string list \<Rightarrow> string \<Rightarrow> bool" where
  "lands F r p \<longleftrightarrow> (\<forall>follow q. resolve F follow p = Inr q \<longrightarrow> strict_prefix r q)"

lemma node_at_below: "strict_prefix r q \<Longrightarrow> node_at F q = fs_nodes F q"
  by (auto simp: node_at_def)

lemma landsD: "lands F r p \<Longrightarrow> resolve F follow p = Inr q \<Longrightarrow> strict_prefix r q"
  by (simp add: lands_def)

lemma kept_remove_file:
  assumes "lands F r p" shows "tree_kept r F (snd (remove_file_at p F))"
proof (cases "resolve F False p")
  case (Inr q)
  have q: "strict_prefix r q" using landsD [OF assms Inr] .
  then show ?thesis
    using Inr kept_remove [OF q, of F] by (simp add: remove_file_at_def node_at_below split: option.splits node.splits)
qed (simp add: remove_file_at_def)

lemma links_remove_file: "no_new_links F (snd (remove_file_at p F))"
  by (auto simp: remove_file_at_def no_new_links_def put_node_def split: sum.splits option.splits node.splits if_splits)

lemma kept_file_create:
  assumes "lands F r p" and "tree_ok F"
  shows "tree_kept r F (snd (file_create trunc F p))"
    and "fst (file_create trunc F p) = Inr h \<Longrightarrow> fh_inode h \<in> inodes_below r (snd (file_create trunc F p))"
proof -
  show "tree_kept r F (snd (file_create trunc F p))"
  proof (cases "resolve F True p")
    case (Inr q)
    then have q: "strict_prefix r q" "is_dir F (butlast q)"
      using assms resolve_parent [OF Inr \<open>tree_ok F\<close>] by (auto simp: lands_def)
    then show ?thesis
      using Inr kept_create [OF q(1) _ q(2)] kept_put_file [of _ r F]
      by (auto simp: file_create_def node_at_below inodes_below_def split: option.splits node.splits)
  qed (simp add: file_create_def)
  show "fst (file_create trunc F p) = Inr h \<Longrightarrow> fh_inode h \<in> inodes_below r (snd (file_create trunc F p))"
    using assms
    by (fastforce simp: file_create_def lands_def node_at_below inodes_below_def put_node_def put_file_def
        split: sum.splits option.splits node.splits if_splits)
qed

lemma links_file_create: "no_new_links F (snd (file_create trunc F p))"
  by (auto simp: file_create_def no_new_links_def put_node_def put_file_def
      split: sum.splits option.splits node.splits if_splits)

lemma kept_file_write:
  "fh_inode h \<in> inodes_below r F \<Longrightarrow> tree_kept r F (snd (snd (file_write bs h F)))"
  by (simp add: file_write_def kept_put_file Let_def)

lemma file_write_fields [simp]:
  "fs_nodes (snd (snd (file_write bs h F))) = fs_nodes F" "fs_next (snd (snd (file_write bs h F))) = fs_next F"
  "fh_inode (fst (snd (file_write bs h F))) = fh_inode h"
  by (simp_all add: file_write_def put_file_def Let_def)

lemma kept_write_file:
  assumes "lands F r p" and "tree_ok F" shows "tree_kept r F (snd (write_file p bs F))"
proof (cases "file_create True F p")
  case (Pair res G)
  note created = kept_file_create [OF assms, of True, unfolded Pair, simplified]
  show ?thesis
  proof (cases res)
    case (Inr h)
    then show ?thesis
      using kept_trans [OF created(1) kept_file_write [OF created(2), of h bs]] Pair
      by (cases "file_write bs h G") (simp add: write_file_def)
  qed (use created Pair in \<open>simp add: write_file_def\<close>)
qed

lemma kept_set_mtime:
  assumes "\<And>q. resolve F True p = Inr q \<Longrightarrow> strict_prefix r q \<or> is_dir F q"
  shows "tree_kept r F (snd (set_mtime p t F))"
proof (cases "resolve F True p")
  case (Inr q)
  then have "fs_nodes F q = Some (File i) \<Longrightarrow> q \<noteq> [] \<Longrightarrow> i \<in> inodes_below r F" for i
    using assms [of q] by (auto simp: inodes_below_def is_dir_def)
  then show ?thesis
    using Inr kept_put_file [of _ r F] by (auto simp: set_mtime_def node_at_def split: option.splits node.splits)
qed (simp add: set_mtime_def)

text \<open>A directory that is moved takes its links along, so the moved node itself must not be one.\<close>

lemma move_tree_cases:
  "move_tree a b m q = Some x \<Longrightarrow>
     (\<exists>c. q = b @ c \<and> m (a @ c) = Some x) \<or> (\<not> prefix b q \<and> \<not> prefix a q \<and> m q = Some x)"
  by (auto simp: move_tree_def prefix_def split: if_splits)

lemma kept_move:
  assumes a: "strict_prefix r a" and b: "strict_prefix r b" and nab: "\<not> prefix a b"
    and par: "is_dir F (butlast b)" and nl: "\<And>t. fs_nodes F a \<noteq> Some (Link t)"
  shows "tree_kept r F (F\<lparr>fs_nodes := move_tree a b (fs_nodes F)\<rparr>)" (is "tree_kept r F ?F")
  unfolding tree_kept_def
proof
  assume wf: "fs_wf r F"
  then have tree: "tree_ok F" and np: "no_partial_links r F" and cwd: "\<not> strict_prefix r (fs_cwd F)"
    by (simp_all add: fs_wf_def)
  have below: "prefix a q \<Longrightarrow> strict_prefix r q" "prefix b q \<Longrightarrow> strict_prefix r q" for q
    using a b by (meson prefix_order.less_le_trans)+
  have same: "fs_nodes ?F q = fs_nodes F q" if "\<not> strict_prefix r q" for q
    using that below by (auto simp: move_tree_def)
  have conf: "confined r F ?F"
    using same a by (auto simp: confined_def inodes_below_def dest!: move_tree_cases)
      (meson prefixI prefix_order.less_le_trans)
  have outside: "is_dir ?F q" if "is_dir F q" "\<not> prefix b q" "\<not> prefix a q" for q
    using that by (auto simp: is_dir_def move_tree_def)
  have dirs: "is_dir ?F q" if q: "fs_nodes ?F (q @ [s]) = Some x" for q s x
    using q [simplified]
  proof (cases "q @ [s] = b")
    case True
    then have "is_dir F q" "\<not> prefix b q" using par by (auto dest: prefix_length_le)
    moreover have "\<not> prefix a q" using nab True by (auto simp: prefix_def)
    ultimately show ?thesis by (rule outside)
  next
    case False
    show ?thesis
    proof (cases "prefix b (q @ [s])")
      case True
      then obtain c where c: "q = b @ c" using False by (auto simp: prefix_snoc elim: prefixE)
      then have "is_dir F (a @ c)" using q tree_okD(1) [OF tree, of "a @ c" s] by (auto simp: move_tree_def)
      then show ?thesis using c a by (auto simp: is_dir_def move_tree_def)
    next
      case False
      then have "\<not> prefix b q" "\<not> prefix a q" "fs_nodes F (q @ [s]) = Some x"
        using q by (auto simp: move_tree_def split: if_splits)
      then show ?thesis using outside tree_okD(1) [OF tree, of q s] by auto
    qed
  qed
  have "fs_nodes ?F [] = None" using same [of "[]"] tree_okD(2) [OF tree] by simp
  moreover have "is_dir ?F (fs_cwd ?F)"
    using tree_okD(3) [OF tree] cwd below outside by auto
  moreover have "no_partial_links r ?F"
    unfolding no_partial_links_def
  proof (intro allI impI)
    fix q s t assume q: "strict_prefix r (q @ [s])" "fs_nodes ?F (q @ [s]) = Some (Link t)"
    then show "\<not> partial_name s"
      using np a nl move_tree_cases [of a b "fs_nodes F" "q @ [s]" "Link t"]
      by (auto simp: no_partial_links_def append_eq_append_conv2 Cons_eq_append_conv append_eq_Cons_conv)
        (metis append.assoc prefixI prefix_order.less_le_trans)+
  qed
  ultimately show "confined r F ?F \<and> fs_wf r ?F"
    using conf dirs cwd by (auto simp: fs_wf_def tree_ok_def)
qed

lemma kept_rename:
  assumes src: "lands F r p" and nl: "\<And>a t. resolve F False p = Inr a \<Longrightarrow> fs_nodes F a \<noteq> Some (Link t)"
    and dst: "\<And>b. resolve F False q = Inr b \<Longrightarrow> b = d" "\<And>b. resolve F False (strip_seps q) = Inr b \<Longrightarrow> b = d"
    and d: "prefix r d" "is_dir F r"
    and tree: "tree_ok F"
  shows "tree_kept r F (snd (rename_path p q F))"
    and "fs_nodes (snd (rename_path p q F)) x = Some (Link t) \<Longrightarrow> fs_nodes F x = Some (Link t) \<or> strict_prefix d x"
proof -
  let ?q = "if stat F False (strip_seps p) = Inr Dir then strip_seps q else q"
  let ?G = "snd (rename_path p q F)"
  have moved: "?G = F \<or> (\<exists>a. strict_prefix r a \<and> strict_prefix r d \<and> \<not> prefix a d \<and> is_dir F (butlast d) \<and>
      (\<forall>t. fs_nodes F a \<noteq> Some (Link t)) \<and> ?G = F\<lparr>fs_nodes := move_tree a d (fs_nodes F)\<rparr>)"
  proof (cases "\<exists>a b. resolve F False p = Inr a \<and> resolve F False ?q = Inr b")
    case True
    then obtain a b where ab: "resolve F False p = Inr a" "resolve F False ?q = Inr b" by blast
    have bd: "b = d" using ab(2) dst by (auto split: if_splits)
    have par: "d = [] \<or> is_dir F (butlast d)" using resolve_parent [OF ab(2) tree] bd by simp
    have ra: "strict_prefix r a" using landsD [OF src ab(1)] .
    have rd: "strict_prefix r d" if "\<not> prefix d a \<or> fs_nodes F d = None" "d \<noteq> []"
      using that d ra by (auto simp: strict_prefix_def is_dir_def)
    show ?thesis
      using ab bd par ra rd nl [OF ab(1)]
      by (auto simp: rename_path_def node_at_def split: option.splits if_splits)
  next
    case False
    then show ?thesis by (auto simp: rename_path_def split: sum.splits)
  qed
  then show "tree_kept r F ?G"
    using kept_move by (elim disjE exE conjE) simp_all
  show "fs_nodes ?G x = Some (Link t) \<Longrightarrow> fs_nodes F x = Some (Link t) \<or> strict_prefix d x"
    using moved
  proof (elim disjE exE conjE)
    fix a assume "fs_nodes ?G x = Some (Link t)" and a: "\<forall>t. fs_nodes F a \<noteq> Some (Link t)"
      and "?G = F\<lparr>fs_nodes := move_tree a d (fs_nodes F)\<rparr>"
    then have "move_tree a d (fs_nodes F) x = Some (Link t)" by simp
    from move_tree_cases [OF this] a show ?thesis by (auto simp: strict_prefix_def)
  qed simp
qed

section \<open>The paths of a write job\<close>

lemma comp_of_not_normal: "(\<forall>s. comp_of x \<noteq> Normal s) \<or> comp_of x = Normal x"
  by (simp add: comp_of_def)

lemma resolve_name:
  assumes "leads_to F base r" and good: "good_name name" and "no_links F r (normals name)"
    and "resolve F follow (path_join base name) = Inr q"
  shows "q = r @ normals name"
proof (rule resolve_below [OF assms(1) _ no_links_clear [OF assms(3)] _ assms(4)])
  have b: "base \<noteq> []" "\<not> is_absolute name" using assms by (auto simp: leads_to_def good_name_def)
  show "steps (path_join base name) = steps base @ map Normal (normals name)"
    using steps_join [OF b] steps_good [OF good] by simp
  assume "normals name = []"
  then have "List.last (str_split sep name) \<in> {[], ''.''}"
    using last_in_set [of "str_split sep name"] unfolding normals_def filter_empty_conv by auto
  then show "List.last (os_path (path_join base name)) = Cur_dir"
    using last_join [OF b] by (auto simp: last_os_path comp_of_def)
qed

lemma lands_name:
  assumes "leads_to F base r" and "good_name name" and "no_links F r (normals name)" and "normals name \<noteq> []"
  shows "lands F r (path_join base name)"
  unfolding lands_def
proof (intro allI impI)
  fix follow q assume "resolve F follow (path_join base name) = Inr q"
  then have "q = r @ normals name" by (rule resolve_name [OF assms(1-3)])
  then show "strict_prefix r q" using assms(4) by (simp add: strict_prefix_def)
qed

lemma no_links_snoc:
  "no_links F r (ks @ [k]) \<longleftrightarrow> no_links F r ks \<and> (\<forall>t. fs_nodes F (r @ ks @ [k]) \<noteq> Some (Link t))"
  unfolding no_links_def by (auto simp: le_Suc_eq)

lemma no_links_prefix: "no_links F r (ks @ ls) \<Longrightarrow> no_links F r ks"
  by (induction ls rule: rev_induct) (simp_all add: no_links_snoc flip: append_assoc)

lemma path_join_suffix: "good_name name \<Longrightarrow> path_join base name @ suf = path_join base (name @ suf)"
  by (simp add: path_join_def good_name_def is_absolute_append)

text \<open>The unfinished file and its digest.\<close>

lemma partial_path:
  assumes base: "leads_to F base r" and good: "good_name name" and nl: "no_links F r (normals name)"
    and wf: "fs_wf r F" and suf: "suf = DOWNLOAD \<or> suf = DIGEST"
  shows "lands F r (path_join base name @ suf)"
    and "resolve F follow (path_join base name @ suf) = Inr q \<Longrightarrow> fs_nodes F q \<noteq> Some (Link t)"
proof -
  have s: "sep \<notin> set suf" "length suf \<ge> 3"
    using suf by (auto simp: DOWNLOAD_def DIGEST_def sep_def)
  let ?pre = "filter (\<lambda>s. s \<noteq> [] \<and> s \<noteq> ''.'') (butlast (str_split sep name))"
  let ?l = "List.last (str_split sep name)"
  note ns = normals_suffix [OF good s]
  have "no_links F r ?pre" using nl unfolding ns(3) by (rule no_links_prefix)
  moreover have last: "fs_nodes F ((r @ ?pre) @ [?l @ suf]) \<noteq> Some (Link t)" for t
  proof
    assume "fs_nodes F ((r @ ?pre) @ [?l @ suf]) = Some (Link t)"
    moreover have "strict_prefix r ((r @ ?pre) @ [?l @ suf])" by (simp add: strict_prefix_def)
    moreover have "partial_name (?l @ suf)" using suf by (auto simp: partial_name_def suffix_def)
    ultimately show False using wf unfolding fs_wf_def no_partial_links_def by blast
  qed
  ultimately have nl': "no_links F r (normals (name @ suf))" unfolding ns(2) by (simp add: no_links_snoc)
  show "lands F r (path_join base name @ suf)"
    unfolding path_join_suffix [OF good] by (rule lands_name [OF base ns(1) nl']) (simp add: ns(2))
  show "resolve F follow (path_join base name @ suf) = Inr q \<Longrightarrow> fs_nodes F q \<noteq> Some (Link t)"
    unfolding path_join_suffix [OF good]
    using resolve_name [OF base ns(1) nl'] last by (simp add: ns(2))
qed

lemma mkdir_prefix_exists:
  assumes w: "walk F MAXSYMLINKS (fs_cwd F) (steps p) = Inr (m, r)" and tree: "tree_ok F" and p: "p \<noteq> []"
  shows "\<exists>e. mkdir p F = (Inl e, F) \<and> e \<noteq> Not_found"
proof -
  let ?p = "strip_seps p"
  have wp: "walk F MAXSYMLINKS (fs_cwd F) (os_path ?p) = Inr (m, r)"
    using w by (simp add: steps_strip flip: walk_steps)
  have pne: "?p \<noteq> []" using p strip_seps_suffix by metis
  have "\<exists>q. resolve F False ?p = Inr q \<and> node_at F q \<noteq> None"
    if ok: "CHR 0x00 \<notin> set ?p" "length ?p < PATH_MAX"
  proof (cases "\<exists>s. List.last (os_path ?p) = Normal s")
    case True
    then obtain s where s: "List.last (os_path ?p) = Normal s" by blast
    have sp: "os_path ?p = butlast (os_path ?p) @ [Normal s]"
      using append_butlast_last_id [of "os_path ?p"] s by simp
    then have "walk F MAXSYMLINKS (fs_cwd F) (butlast (os_path ?p) @ [Normal s]) = Inr (m, r)"
      using wp by simp
    then obtain k d where kd: "walk F MAXSYMLINKS (fs_cwd F) (butlast (os_path ?p)) = Inr (k, d)"
        "walk F k d [Normal s] = Inr (m, r)"
      by (auto simp: walk_append simp del: walk.simps split: sum.splits)
    then have "fs_nodes F (d @ [s]) \<noteq> None" by (auto split: option.splits)
    moreover have "resolve F False ?p = Inr (d @ [s])"
      using kd s ok pne by (auto simp: resolve_def split: option.splits node.splits)
    ultimately show ?thesis by (auto simp: node_at_def)
  next
    case False
    then have "resolve F False ?p = Inr r"
      using wp ok pne by (auto simp: resolve_def split: path_comp.splits)
    moreover have "node_at F r \<noteq> None"
      using walk_is_dir [OF w tree tree_okD(3) [OF tree]] by (auto simp: is_dir_def node_at_def)
    ultimately show ?thesis by blast
  qed
  moreover have "resolve F False ?p \<in> {Inl Invalid_input, Inl Io_other}"
    if "\<not> (CHR 0x00 \<notin> set ?p \<and> length ?p < PATH_MAX)"
    using that pne by (auto simp: resolve_def simp del: resolve_in.simps)
  ultimately show ?thesis by (fastforce simp: mkdir_def split: sum.splits)
qed

lemma create_dir_all_exists:
  assumes "walk F MAXSYMLINKS (fs_cwd F) (steps p) = Inr (m, r)" and "tree_ok F"
  shows "snd (create_dir_all p F) = F"
  using mkdir_prefix_exists [OF assms] by (cases "p = []") (auto simp: create_dir_all.simps [of p] create_dir_all.simps [of "[]"])

lemma kept_mkdir_call:
  assumes "leads_to F base r" and "steps p = steps base @ map Normal ks" and "no_links F r ks" and "ks \<noteq> []"
    and "tree_ok F"
  shows "tree_kept r F (snd (mkdir p F))" and "no_new_links F (snd (mkdir p F))"
proof -
  have q: "q = r @ ks" if "resolve F False (strip_seps p) = Inr q" for q
    using resolve_below [OF assms(1) _ no_links_clear [OF assms(3)] _ that] assms(2,4) by (simp add: steps_strip)
  have "tree_kept r F (put_node q (Some Dir) F)"
    if "resolve F False (strip_seps p) = Inr q" "node_at F q = None" for q
    by (rule kept_mkdir) (use q that assms(4) resolve_parent [OF that(1) \<open>tree_ok F\<close>] in
      \<open>auto simp: strict_prefix_def node_at_def split: if_splits\<close>)
  then show "tree_kept r F (snd (mkdir p F))" by (auto simp: mkdir_def split: sum.splits)
  show "no_new_links F (snd (mkdir p F))"
    by (auto simp: mkdir_def no_new_links_def put_node_def split: sum.splits)
qed

lemma kept_create_dir_all:
  assumes "leads_to F base r" and "steps p = steps base @ map Normal ks" and "no_links F r ks" and "fs_wf r F"
  shows "tree_kept r F (snd (create_dir_all p F)) \<and> no_new_links F (snd (create_dir_all p F))"
  using assms
proof (induction p F arbitrary: ks rule: create_dir_all.induct)
  case (1 p F)
  note base = 1(2) and st = 1(3) and nl = 1(4) and wf = 1(5)
  have tree: "tree_ok F" using wf by (simp add: fs_wf_def)
  show ?case
  proof (cases "p = []")
    case True
    then show ?thesis by (simp add: create_dir_all.simps)
  next
    case p: False
    show ?thesis
    proof (cases "ks = []")
      case True
      obtain m where "walk F MAXSYMLINKS (fs_cwd F) (steps p) = Inr (m, r)"
        using leads_to_walk [OF base] True st by auto
      then show ?thesis using create_dir_all_exists [OF _ tree] by simp
    next
      case ks: False
      note here = kept_mkdir_call [OF base st nl ks tree]
      obtain res G where G: "mkdir p F = (res, G)" by fastforce
      show ?thesis
      proof (cases "res = Inl Not_found \<and> parent p \<noteq> None")
        case False
        then show ?thesis
          using here p G by (cases res) (auto simp: create_dir_all.simps [of p] create_dir_all.simps [of "[]"])
      next
        case True
        then obtain pp where pp: "parent p = Some pp" "res = Inl Not_found" by blast
        have "G = F" using G pp by (auto simp: mkdir_def split: sum.splits if_splits)
        have bs: "steps pp = steps base @ map Normal (butlast ks)"
          using steps_parent [OF pp(1)] st ks by (simp add: butlast_append map_butlast)
        have nlb: "no_links F r (butlast ks)"
          using nl no_links_prefix [of F r "butlast ks" "[List.last ks]"] ks by simp
        obtain res' H where H: "create_dir_all pp F = (res', H)" by fastforce
        have rec: "tree_kept r F H \<and> no_new_links F H"
          using 1(1) [OF p G [symmetric] _ _ pp(1)] pp \<open>G = F\<close> bs nlb base wf H by auto
        then have wf': "fs_wf r H" and base': "leads_to H base r" and nl': "no_links H r ks"
          using wf confined_leads_to base no_new_links_keep nl by (auto simp: tree_kept_def)
        have again: "tree_kept r H (snd (mkdir p H))" "no_new_links H (snd (mkdir p H))"
          using kept_mkdir_call [OF base' st nl' ks] wf' by (auto simp: fs_wf_def)
        have "create_dir_all p F = (case res' of Inl e \<Rightarrow> (Inl e, H) | Inr u \<Rightarrow>
            (case mkdir p H of (Inr u, F) \<Rightarrow> (Inr (), F)
             | (Inl e, F) \<Rightarrow> if path_is_dir F p then (Inr (), F) else (Inl e, F)))"
          using p G pp \<open>G = F\<close> H by (simp add: create_dir_all.simps [of p])
        then have "snd (create_dir_all p F) \<in> {H, snd (mkdir p H)}"
          by (auto split: sum.split prod.split)
        then show ?thesis
          using rec kept_trans [OF _ again(1), of F] no_new_links_trans [OF _ again(2), of F] by auto
      qed
    qed
  qed
qed

end
