(* ===== verification/TransferSafety.thy ===== *)
theory TransferSafety
  imports TransferProps
begin

text \<open>
  The operations of a write job, and its runs: all of them stay below the destination.
\<close>

definition destination :: "string \<Rightarrow> string list \<Rightarrow> fs \<Rightarrow> bool" where
  "destination base r F \<longleftrightarrow> fs_wf r F \<and> leads_to F base r"

definition stays :: "string \<Rightarrow> string list \<Rightarrow> fs \<Rightarrow> fs \<Rightarrow> bool" where
  "stays base r F F' \<longleftrightarrow> confined r F F' \<and> destination base r F'"

lemma stays_refl: "destination base r F \<Longrightarrow> stays base r F F"
  by (simp add: stays_def)

lemma stays_trans: "stays base r F G \<Longrightarrow> stays base r G H \<Longrightarrow> stays base r F H"
  using confined_trans by (auto simp: stays_def)

lemma stays_kept: "tree_kept r F F' \<Longrightarrow> destination base r F \<Longrightarrow> stays base r F F'"
  using confined_leads_to by (auto simp: stays_def tree_kept_def destination_def)

lemma destination_tree: "destination base r F \<Longrightarrow> tree_ok F"
  by (simp add: destination_def fs_wf_def)

definition names_ok :: "string \<Rightarrow> file_entry list \<Rightarrow> bool" where
  "names_ok base files \<longleftrightarrow> (\<forall>f\<in>set files. fe_name f \<noteq> [] \<and> valid_utf8 (path_join base (fe_name f)))"

definition writes_to :: "string \<Rightarrow> transfer_job \<Rightarrow> bool" where
  "writes_to base job \<longleftrightarrow> tj_type job = Generic \<and> tj_source job = File_path base \<and> names_ok base (tj_files job)"

lemma entry_path:
  assumes w: "writes_to base job" and d: "destination base r F" and f: "f \<in> set (tj_files job)"
    and ok: "join_validated_path F base (fe_name f) = Inr path"
  shows "path = path_join base (fe_name f)" and "good_name (fe_name f)" and "no_links F r (normals (fe_name f))"
    and "get_string path = path"
proof -
  have n: "fe_name f \<noteq> []" "valid_utf8 (path_join base (fe_name f))"
    using w f by (auto simp: writes_to_def names_ok_def)
  note jv = join_validated [OF _ ok n(1) destination_tree [OF d]]
  show "path = path_join base (fe_name f)" "good_name (fe_name f)" "no_links F r (normals (fe_name f))"
    using jv d by (auto simp: destination_def)
  then show "get_string path = path" using n by (simp add: get_string_def utf8_or_empty_def)
qed

lemma current_entry_path:
  assumes "writes_to base job" and "current_entry F job = Some (path, entry)"
  shows "entry \<in> set (tj_files job)" and "join_validated_path F base (fe_name entry) = Inr path"
  using assms by (auto simp: current_entry_def writes_to_def resolve_entry_path_def Let_def split: if_splits sum.splits)

text \<open>One file: what the three paths allow.\<close>

lemma stays_remove:
  assumes "destination base r F" and "good_name name" and "no_links F r (normals name)"
    and "suf = DOWNLOAD \<or> suf = DIGEST"
  defines "F' \<equiv> snd (remove_file_at (path_join base name @ suf) F)"
  shows "stays base r F F'" and "no_links F' r (normals name)"
proof -
  have "lands F r (path_join base name @ suf)"
    using partial_path(1) assms by (simp add: destination_def)
  then show "stays base r F F'"
    unfolding F'_def by (intro stays_kept kept_remove_file assms)
  show "no_links F' r (normals name)"
    unfolding F'_def using no_new_links_keep [OF links_remove_file assms(3)] .
qed

lemma stays_finish:
  assumes d: "destination base r F" and good: "good_name name" and nl: "no_links F r (normals name)"
  defines "p \<equiv> path_join base name"
  shows "stays base r F (snd (set_mtime p t (snd (rename_path (p @ DOWNLOAD) p F))))"
proof -
  let ?ks = "normals name" let ?G = "snd (rename_path (p @ DOWNLOAD) p F)"
  have dd: "leads_to F base r" "fs_wf r F" "tree_ok F" "base \<noteq> []"
    using d destination_tree by (auto simp: destination_def leads_to_def)
  note sj = strip_join [OF good dd(4)]
  have partial: "lands F r (p @ DOWNLOAD)" "\<And>a t. resolve F False (p @ DOWNLOAD) = Inr a \<Longrightarrow> fs_nodes F a \<noteq> Some (Link t)"
    unfolding p_def using partial_path [OF dd(1) good nl dd(2), of DOWNLOAD] by auto
  have dst: "\<And>b. resolve F False p = Inr b \<Longrightarrow> b = r @ ?ks" "\<And>b. resolve F False (strip_seps p) = Inr b \<Longrightarrow> b = r @ ?ks"
    unfolding p_def sj(1)
    using resolve_name [OF dd(1) good nl] resolve_name [OF dd(1) sj(2)] nl by (auto simp: sj(3))
  have "tree_kept r F ?G"
    by (rule kept_rename(1) [where d = "r @ ?ks"]) (use partial dst dd leads_to_dir in auto)
  then have one: "stays base r F ?G" using d by (rule stays_kept)
  have links: "fs_nodes F x = Some (Link u) \<or> strict_prefix (r @ ?ks) x" if "fs_nodes ?G x = Some (Link u)" for x u
    by (rule kept_rename(2) [OF _ _ _ _ _ _ _ that, where r = r]) (use partial dst dd leads_to_dir in auto)
  have d': "leads_to ?G base r" "tree_ok ?G" using one by (auto simp: stays_def destination_def fs_wf_def)
  have "no_links ?G r ?ks"
    unfolding no_links_def
  proof (intro allI impI notI)
    fix j u assume j: "0 < j" "j \<le> length ?ks" and "fs_nodes ?G (r @ take j ?ks) = Some (Link u)"
    from links [OF this(3)] show False
    proof
      assume "strict_prefix (r @ ?ks) (r @ take j ?ks)"
      then show False using prefix_length_less by fastforce
    qed (use nl j in \<open>auto simp: no_links_def\<close>)
  qed
  then have "q = r @ ?ks" if "resolve ?G True p = Inr q" for q
    using resolve_name [OF d'(1) good] that unfolding p_def by blast
  then have "tree_kept r ?G (snd (set_mtime p t ?G))"
    using leads_to_dir [OF d'] by (intro kept_set_mtime) (cases "?ks = []"; simp add: strict_prefix_def)
  then show ?thesis using stays_trans [OF one stays_kept] one by (simp add: stays_def)
qed

lemma stays_modify_time:
  assumes w: "writes_to base job" and d: "destination base r F"
  shows "stays base r F (modify_time job F)"
proof (cases "current_entry F job")
  case None
  then show ?thesis using d by (simp add: modify_time_def stays_refl)
next
  case (Some pe)
  then obtain path entry where pe: "current_entry F job = Some (path, entry)" by (cases pe) auto
  note e = entry_path [OF w d current_entry_path [OF w pe]]
  note removed = stays_remove [OF d e(2,3), of DIGEST, simplified]
  then have "destination base r (snd (remove_file_at (path_join base (fe_name entry) @ DIGEST) F))"
    by (simp add: stays_def)
  from stays_trans [OF removed(1) stays_finish [OF this e(2) removed(2)]] show ?thesis
    using pe e(4) by (simp add: modify_time_def Let_def flip: e(1))
qed

lemma stays_remove_download:
  assumes w: "writes_to base job" and d: "destination base r F"
  shows "stays base r F (remove_download_file job F)"
proof (cases "current_entry F job")
  case None
  then show ?thesis using d by (simp add: remove_download_file_def stays_refl)
next
  case (Some pe)
  then obtain path entry where pe: "current_entry F job = Some (path, entry)" by (cases pe) auto
  note e = entry_path [OF w d current_entry_path [OF w pe]]
  note removed = stays_remove [OF d e(2,3), of DOWNLOAD, simplified]
  then have "destination base r (snd (remove_file_at (path_join base (fe_name entry) @ DOWNLOAD) F))"
    by (simp add: stays_def)
  from stays_trans [OF removed(1) stays_remove(1) [OF this e(2) removed(2), of DIGEST]] show ?thesis
    using pe e(4) by (simp add: remove_download_file_def flip: e(1))
qed

lemma stays_create:
  assumes d: "destination base r F" and good: "good_name name" and nl: "no_links F r (normals name)"
    and suf: "suf = DOWNLOAD \<or> suf = DIGEST"
  defines "p \<equiv> path_join base name @ suf"
  shows "stays base r F (snd (file_create trunc F p))"
    and "fst (file_create trunc F p) = Inr h \<Longrightarrow> fh_inode h \<in> inodes_below r (snd (file_create trunc F p))"
    and "no_links (snd (file_create trunc F p)) r (normals name)"
    and "stays base r F (snd (write_file p bs F))"
proof -
  have "lands F r p"
    unfolding p_def using partial_path(1) d good nl suf by (simp add: destination_def)
  note c = kept_file_create [OF this destination_tree [OF d]] kept_write_file [OF this destination_tree [OF d]]
  show "stays base r F (snd (file_create trunc F p))" "stays base r F (snd (write_file p bs F))"
    using c(1,3) d by (auto intro: stays_kept)
  show "fst (file_create trunc F p) = Inr h \<Longrightarrow> fh_inode h \<in> inodes_below r (snd (file_create trunc F p))"
    by (rule c(2))
  show "no_links (snd (file_create trunc F p)) r (normals name)"
    using no_new_links_keep [OF links_file_create nl] .
qed

lemma stays_parent:
  assumes d: "destination base r F" and good: "good_name name" and nl: "no_links F r (normals name)"
  defines "G \<equiv> (case parent (path_join base name) of None \<Rightarrow> F | Some pp \<Rightarrow> snd (create_dir_all pp F))"
  shows "stays base r F G" and "no_links G r (normals name)"
proof -
  have dd: "leads_to F base r" "fs_wf r F" "base \<noteq> []" using d by (auto simp: destination_def leads_to_def)
  have st: "steps (path_join base name) = steps base @ map Normal (normals name)"
    using steps_join [OF dd(3)] steps_good good by (simp add: good_name_def)
  have "tree_kept r F G \<and> no_new_links F G"
  proof (cases "parent (path_join base name)")
    case (Some pp)
    have sp: "steps pp = butlast (steps base @ map Normal (normals name))"
      using steps_parent [OF Some] st by simp
    show ?thesis
    proof (cases "normals name = []")
      case True
      obtain m where "walk F MAXSYMLINKS (fs_cwd F) (steps base) = Inr (m, r)"
        using leads_to_walk [OF dd(1)] .
      moreover have "steps base = butlast (steps base) \<or> steps base = butlast (steps base) @ [List.last (steps base)]"
        by (cases "steps base" rule: rev_cases) auto
      ultimately have "\<exists>m q. walk F MAXSYMLINKS (fs_cwd F) (steps pp) = Inr (m, q)"
        using sp True walk_append [of F MAXSYMLINKS "fs_cwd F" "butlast (steps base)" "[List.last (steps base)]"]
        by (auto split: sum.splits)
      then show ?thesis
        using create_dir_all_exists [OF _ destination_tree [OF d]] Some by (auto simp: G_def)
    next
      case False
      then have "steps pp = steps base @ map Normal (butlast (normals name))"
        using sp by (simp add: butlast_append map_butlast)
      moreover have "no_links F r (butlast (normals name))"
        using nl no_links_prefix [of F r "butlast (normals name)" "[List.last (normals name)]"] False by simp
      ultimately show ?thesis using kept_create_dir_all [OF dd(1) _ _ dd(2)] Some by (simp add: G_def)
    qed
  qed (simp add: G_def)
  then show "stays base r F G" "no_links G r (normals name)"
    using stays_kept d no_new_links_keep nl by blast+
qed

section \<open>The operations\<close>

lemma file_create_named:
  assumes "lands F r p" and "file_create trunc F p = (Inr h, G)"
  shows "fs_nodes G (fh_path h) = Some (File (fh_inode h))" and "strict_prefix r (fh_path h)"
proof -
  obtain q where q: "resolve F True p = Inr q" using assms(2) by (auto simp: file_create_def split: sum.splits)
  have "strict_prefix r q" using landsD [OF assms(1) q] .
  then show "fs_nodes G (fh_path h) = Some (File (fh_inode h))" "strict_prefix r (fh_path h)"
    using assms(2) q
    by (auto simp: file_create_def node_at_below put_node_def put_file_def
        split: option.splits node.splits if_splits)
qed

lemma write_file_nodes: "fs_nodes F q = Some x \<Longrightarrow> fs_nodes (snd (write_file p bs F)) q = Some x"
proof -
  assume q: "fs_nodes F q = Some x"
  have "fs_nodes (snd (file_create True F p)) q = Some x"
    using q by (auto simp: file_create_def put_node_def put_file_def node_at_def
        split: sum.splits option.splits node.splits if_splits)
  moreover obtain res G where G: "file_create True F p = (res, G)" by fastforce
  ultimately show ?thesis
  proof (cases res)
    case (Inr h)
    have "fs_nodes (snd (snd (file_write bs h G))) = fs_nodes G" by simp
    then show ?thesis
      using Inr G \<open>fs_nodes (snd (file_create True F p)) q = Some x\<close>
      by (cases "file_write bs h G") (simp add: write_file_def)
  qed (simp add: write_file_def)
qed

lemma stays_open_target:
  assumes w: "writes_to base job" and d: "destination base r F" and f: "f \<in> set (tj_files job)"
    and res: "open_target L job base f F = (res, G)"
  shows "stays base r F G" and "res = Inr h \<Longrightarrow> fh_inode h \<in> inodes_below r G"
proof -
  have "stays base r F G \<and> (\<forall>h. res = Inr h \<longrightarrow> fh_inode h \<in> inodes_below r G)"
  proof (cases "join_validated_path F base (fe_name f)")
    case (Inl e)
    then show ?thesis using res d w by (auto simp: open_target_def writes_to_def stays_refl)
  next
    case (Inr path)
    note e = entry_path [OF w d f Inr]
    define F1 where "F1 = (case parent path of None \<Rightarrow> F | Some pp \<Rightarrow> snd (create_dir_all pp F))"
    have s1: "stays base r F F1" and n1: "no_links F1 r (normals (fe_name f))"
      unfolding F1_def e(1) by (rule stays_parent [OF d e(2,3)])+
    then have d1: "destination base r F1" by (simp add: stays_def)
    define F2 where "F2 = (if path_exists F1 (path @ DIGEST) then snd (remove_file_at (path @ DIGEST) F1) else F1)"
    have s2: "stays base r F1 F2" and n2: "no_links F2 r (normals (fe_name f))"
      unfolding F2_def e(1) using stays_remove [OF d1 e(2) n1] d1 n1 stays_refl by auto
    then have d2: "destination base r F2" by (simp add: stays_def)
    note c = stays_create(1-3) [OF d2 e(2) n2, where suf = DOWNLOAD and trunc = True, simplified, folded e(1)]
    obtain rm where rm: "(if path_exists F1 (path @ DIGEST) then remove_file_at (path @ DIGEST) F1 else (Inr (), F1)) = (rm, F2)"
      by (cases "path_exists F1 (path @ DIGEST)"; cases "remove_file_at (path @ DIGEST) F1") (auto simp: F2_def)
    have gs: "get_string path = path" using e(4) .
    have eq: "open_target L job base f F = (case rm of Inl e \<Rightarrow> (Inl (Io e), F2)
        | Inr u \<Rightarrow> (case file_create True F2 (path @ DOWNLOAD) of
            (Inl e, F) \<Rightarrow> (Inl (Io e), F)
          | (Inr h, F) \<Rightarrow> (Inr h, snd (write_file (path @ DIGEST) (cl_digest_json L (tj_digest job)) F))))"
      using w Inr rm 
      by (cases "path_exists F1 (path @ DIGEST)")
        (auto simp: open_target_def writes_to_def Let_def gs split: sum.splits simp flip: F1_def)
    show ?thesis
    proof (cases rm)
      case (Inl e)
      then show ?thesis using eq res stays_trans [OF s1 s2] by auto
    next
      case (Inr u)
      obtain cr F3 where cr: "file_create True F2 (path @ DOWNLOAD) = (cr, F3)" by fastforce
      note c3 = c [unfolded cr, simplified]
      have s3: "stays base r F F3" using stays_trans [OF stays_trans [OF s1 s2] c3(1)] .
      show ?thesis
      proof (cases cr)
        case (Inl e)
        then show ?thesis using eq res Inr cr s3 by auto
      next
        case cr': (Inr h)
        have d3: "destination base r F3" using s3 by (simp add: stays_def)
        note s4 = stays_create(4) [OF d3 e(2) c3(3), of DIGEST "cl_digest_json L (tj_digest job)", simplified, folded e(1)]
        have "lands F2 r (path @ DOWNLOAD)"
          unfolding e(1) using partial_path(1) d2 e(2) n2 by (simp add: destination_def)
        note named = file_create_named [OF this cr [unfolded cr']]
        have "fh_inode h \<in> inodes_below r (snd (write_file (path @ DIGEST) (cl_digest_json L (tj_digest job)) F3))"
          using write_file_nodes [OF named(1)] named(2) by (auto simp: inodes_below_def)
        then show ?thesis using eq res Inr cr cr' stays_trans [OF s3 s4] by auto
      qed
    qed
  qed
  then show "stays base r F G" "res = Inr h \<Longrightarrow> fh_inode h \<in> inodes_below r G" by auto
qed

text \<open>Seen from the start of a run: the open file, if any, was below the destination then, or is new.\<close>

definition safe :: "string \<Rightarrow> string list \<Rightarrow> fs \<Rightarrow> transfer_job \<Rightarrow> fs \<Rightarrow> bool" where
  "safe base r F0 job F \<longleftrightarrow>
     confined r F0 F \<and> destination base r F \<and> writes_to base job \<and>
     (\<forall>h. tj_stream job = Some (File_stream h) \<longrightarrow> fh_inode h \<in> inodes_below r F0)"

lemma safe_stays: "safe base r F0 job F \<Longrightarrow> stays base r F G \<Longrightarrow> safe base r F0 job G"
  using confined_trans by (auto simp: safe_def stays_def)

lemma inodes_confined: "confined r F0 F \<Longrightarrow> i \<in> inodes_below r F \<Longrightarrow> i \<in> inodes_below r F0"
  by (auto simp: confined_def)

lemma safe_open:
  assumes "safe base r F0 job F" and "fh_inode h \<in> inodes_below r F"
  shows "safe base r F0 (job\<lparr>tj_stream := Some (File_stream h)\<rparr>) F"
  using assms inodes_confined [of r F0 F] by (auto simp: safe_def writes_to_def)

lemma confined_file_write:
  assumes "confined r F0 F" and "fh_inode h \<in> inodes_below r F0"
  shows "confined r F0 (snd (snd (file_write bs h F)))"
  using assms by (auto simp: file_write_def put_file_def confined_def inodes_below_def Let_def)

lemma walk_cong: "fs_nodes G = fs_nodes F \<Longrightarrow> walk G n d cs = walk F n d cs"
  by (induction F n d cs rule: walk.induct) (auto split: option.splits node.splits)

lemma destination_cong:
  assumes same: "fs_nodes G = fs_nodes F" "fs_cwd G = fs_cwd F"
  shows "destination base r G = destination base r F"
proof -
  have "walk (outer_fs r G) n d cs = walk (outer_fs r F) n d cs" for n d cs
    by (rule walk_cong) (auto simp: outer_fs_def same)
  then show ?thesis
    using fs_wf_cong [OF same] same by (simp add: destination_def leads_to_def)
qed

lemma destination_file_write: "destination base r F \<Longrightarrow> destination base r (snd (snd (file_write bs h F)))"
  using destination_cong [of "snd (snd (file_write bs h F))" F]
  by (simp add: file_write_def put_file_def Let_def)

lemma safe_write_data:
  assumes s: "safe base r F0 job F" and res: "write_data L b job F = (res, job', G)"
  shows "safe base r F0 job' G"
proof -
  let ?bs = "if fb_compressed b then cl_decompress L (fb_data b) else fb_data b"
  show ?thesis
  proof (cases "tj_stream job")
    case None
    then show ?thesis using assms by (auto simp: write_data_def Let_def)
  next
    case (Some st)
    show ?thesis
    proof (cases st)
      case (File_stream h)
      obtain wr h' H where wr: "file_write ?bs h F = (wr, h', H)" by (metis prod_cases3)
      have below: "fh_inode h \<in> inodes_below r F0" using s Some File_stream by (simp add: safe_def)
      have "confined r F0 H" "destination base r H" "fh_inode h' = fh_inode h"
        using confined_file_write [OF _ below, of F ?bs] destination_file_write [of base r F ?bs h] s wr
          file_write_fields(3) [of ?bs h F] by (auto simp: safe_def)
      then show ?thesis
        using res Some File_stream wr below s
        by (cases wr) (auto simp: write_data_def stream_write_def safe_def writes_to_def Let_def)
    next
      case (Buf_stream data pos)
      then show ?thesis
        using assms Some by (auto simp: write_data_def stream_write_def safe_def writes_to_def Let_def)
    qed
  qed
qed

lemma safe_write:
  assumes s: "safe base r F0 job F" and res: "job_write L b job F = (res, job', G)"
  shows "safe base r F0 job' G"
proof -
  let ?n = "as_usize (fb_file_num b)" let ?F1 = "modify_time job F"
  have w: "writes_to base job" and d: "destination base r F" using s by (auto simp: safe_def)
  have src: "tj_source job = File_path base" using w by (simp add: writes_to_def)
  have s1: "safe base r F0 job ?F1" using safe_stays [OF s stays_modify_time [OF w d]] .
  consider (same) "job' = job" "G = F"
    | (data) "write_data L b job F = (res, job', G)"
    | (sync) "job' = job" "G = ?F1"
    | (opened) "?n < length (tj_files job)"
        "(case open_target L (job\<lparr>tj_file_num := fb_file_num b\<rparr>) base (tj_files job ! ?n) ?F1 of
           (Inl e, H) \<Rightarrow> (Inl e, job\<lparr>tj_file_num := fb_file_num b\<rparr>, H)
         | (Inr h, H) \<Rightarrow> write_data L b (job\<lparr>tj_file_num := fb_file_num b, tj_stream := Some (File_stream h)\<rparr>) H)
         = (res, job', G)"
    using res by (auto simp: job_write_def src Let_def not_le split: if_splits)
  then show ?thesis
  proof cases
    case opened
    let ?job = "job\<lparr>tj_file_num := fb_file_num b\<rparr>"
    have s2: "safe base r F0 ?job ?F1" using s1 by (simp add: safe_def writes_to_def)
    obtain ores H where o: "open_target L ?job base (tj_files job ! ?n) ?F1 = (ores, H)" by fastforce
    have f: "tj_files job ! ?n \<in> set (tj_files ?job)" using opened(1) by simp
    note ot = stays_open_target [OF _ _ f o, where r = r]
    have s3: "safe base r F0 ?job H" using safe_stays [OF s2 ot(1)] s2 by (simp add: safe_def)
    show ?thesis
    proof (cases ores)
      case (Inl e)
      then show ?thesis using opened(2) o s3 by auto
    next
      case (Inr h)
      have "safe base r F0 (?job\<lparr>tj_stream := Some (File_stream h)\<rparr>) H"
        using safe_open [OF s3 ot(2)] Inr s2 by (simp add: safe_def)
      then show ?thesis using safe_write_data opened(2) o Inr by simp
    qed
  qed (use s s1 safe_write_data in auto)
qed

lemma safe_set_files:
  assumes "safe base r F0 job F" and "names_ok base files"
  shows "safe base r F0 (snd (set_files F files job)) F"
  using assms by (auto simp: set_files_def safe_def writes_to_def split: sum.splits)

lemma safe_offset:
  assumes s: "safe base r F0 job F" and res: "set_stream_offset n offset job F = Some (job', G)"
  shows "safe base r F0 job' G"
proof -
  have w: "writes_to base job" and d: "destination base r F" using s by (auto simp: safe_def)
  show ?thesis
  proof (cases "join_validated_path F base (fe_name (tj_files job ! n))")
    case (Inl e)
    then show ?thesis
      using s res w by (auto simp: set_stream_offset_def resolve_entry_path_def writes_to_def split: if_splits)
  next
    case (Inr path)
    have n: "n < length (tj_files job)" using res w by (auto simp: set_stream_offset_def writes_to_def split: if_splits)
    note e = entry_path [OF w d nth_mem [OF n] Inr]
    obtain cr H where cr: "file_create False F (path @ DOWNLOAD) = (cr, H)" by fastforce
    note c = stays_create(1-3) [OF d e(2,3), where suf = DOWNLOAD and trunc = False, simplified, folded e(1),
        unfolded cr, simplified]
    have sH: "safe base r F0 job H" using safe_stays [OF s c(1)] .
    have opened: "fh_inode h \<in> inodes_below r F" if op: "file_open F path = Inr h" for h
    proof -
      obtain q where q: "resolve F True path = Inr q" "node_at F q = Some (File (fh_inode h))"
        using op by (auto simp: file_open_def split: sum.splits option.splits node.splits if_splits)
      have "q = r @ normals (fe_name (tj_files job ! n))"
        using resolve_name [OF _ e(2,3) q(1) [unfolded e(1)]] d by (simp add: destination_def)
      moreover have "is_dir F r" using leads_to_dir [of F base r] d by (simp add: destination_def fs_wf_def)
      ultimately show ?thesis
        using q(2) by (cases "q = r")
          (auto simp: inodes_below_def is_dir_def node_at_def strict_prefix_def split: if_splits intro: prefixI)
    qed
    have sought: "safe base r F0 (j\<lparr>tj_stream := Some (File_stream (h\<lparr>fh_pos := offset\<rparr>)), tj_transferred := a, tj_finished_size := b\<rparr>) K"
      if "safe base r F0 j K" "fh_inode h \<in> inodes_below r K" for j h K a b
      using that inodes_confined [of r F0 K] by (auto simp: safe_def writes_to_def)
    define seek where "seek h = job\<lparr>tj_stream := Some (File_stream (h\<lparr>fh_pos := offset\<rparr>)),
        tj_transferred := tj_transferred job + word_of_nat offset,
        tj_finished_size := tj_finished_size job + word_of_nat offset\<rparr>" for h
    have "set_stream_offset n offset job F = Some
        (if path_exists F (path @ DOWNLOAD) \<and> path_exists F (path @ DIGEST) then
           (case cr of Inl e \<Rightarrow> (job, H) | Inr h \<Rightarrow> (seek h, H))
         else if path_exists F path then (case file_open F path of Inl e \<Rightarrow> (job, F) | Inr h \<Rightarrow> (seek h, F))
         else (job, F))"
      using w n Inr e(4) cr
      by (auto simp: set_stream_offset_def resolve_entry_path_def writes_to_def Let_def seek_def split: sum.splits)
    then consider "job' = job" "G = F" | "job' = job" "G = H" | h where "cr = Inr h" "job' = seek h" "G = H"
      | h where "file_open F path = Inr h" "job' = seek h" "G = F"
      using res by (cases cr; cases "file_open F path"; simp split: if_splits; metis)
    then show ?thesis
      by cases (use s sH c(2) opened sought in \<open>simp_all add: seek_def\<close>)
  qed
qed

lemma safe_confirm:
  assumes s: "safe base r F0 job F" and res: "job_confirm c job F = Some (job', G)"
  shows "safe base r F0 job' G"
proof -
  have conf: "safe base r F0 (set_file_confirmed v job) F" for v
    using s by (simp add: safe_def writes_to_def set_file_confirmed_def)
  have "safe base r F0 (set_file_skipped job) F"
    using s by (simp add: safe_def writes_to_def set_file_skipped_def set_file_confirmed_def Let_def)
  then show ?thesis
    using res s conf safe_offset [OF conf [of True]]
    by (auto simp: job_confirm_def Let_def split: if_splits confirm_union.splits)
qed

section \<open>Runs\<close>

text \<open>What a write job is asked to do: the list of files, a digest, a confirmation, a block, the end of
  the transfer and its cancellation. A step that panics leaves the job as it is.\<close>

datatype write_op =
    Wo_files "file_entry list"
  | Wo_digest nat nat
  | Wo_confirm send_confirm
  | Wo_block file_block
  | Wo_done
  | Wo_cancel

fun write_step :: "codec_lib \<Rightarrow> write_op \<Rightarrow> transfer_job \<times> fs \<Rightarrow> transfer_job \<times> fs" where
  "write_step L (Wo_files files) (job, F) = (set_finished_size_on_resume (snd (set_files F files job)), F)"
| "write_step L (Wo_digest sz modified) (job, F) = (set_digest sz modified job, F)"
| "write_step L (Wo_confirm c) (job, F) = (case job_confirm c job F of None \<Rightarrow> (job, F) | Some x \<Rightarrow> x)"
| "write_step L (Wo_block b) (job, F) = snd (job_write L b job F)"
| "write_step L Wo_done (job, F) = (job, modify_time job F)"
| "write_step L Wo_cancel (job, F) = (job, remove_download_file job F)"

definition op_names_ok :: "string \<Rightarrow> write_op \<Rightarrow> bool" where
  "op_names_ok base op \<longleftrightarrow> (case op of Wo_files files \<Rightarrow> names_ok base files | _ \<Rightarrow> True)"

lemma safe_step:
  assumes s: "safe base r F0 job F" and op: "op_names_ok base op"
  shows "case write_step L op (job, F) of (job', G) \<Rightarrow> safe base r F0 job' G"
proof (cases op)
  case (Wo_files files)
  have "safe base r F0 (snd (set_files F files job)) F"
    using safe_set_files [OF s] op Wo_files by (simp add: op_names_ok_def)
  then show ?thesis
    by (simp add: Wo_files safe_def writes_to_def set_finished_size_on_resume_def)
next
  case (Wo_digest sz modified)
  then show ?thesis using s by (simp add: set_digest_def safe_def writes_to_def)
next
  case (Wo_confirm c)
  then show ?thesis using s safe_confirm by (auto split: option.splits)
next
  case (Wo_block b)
  then show ?thesis using safe_write [OF s] by (cases "job_write L b job F") auto
next
  case Wo_done
  then show ?thesis using safe_stays [OF s stays_modify_time] s by (simp add: safe_def)
next
  case Wo_cancel
  then show ?thesis using safe_stays [OF s stays_remove_download] s by (simp add: safe_def)
qed

lemma safe_run:
  "safe base r F0 job F \<Longrightarrow> list_all (op_names_ok base) ops \<Longrightarrow>
     case fold (write_step L) ops (job, F) of (job', G) \<Rightarrow> safe base r F0 job' G"
proof (induction ops arbitrary: job F)
  case (Cons op ops)
  obtain job' G where g: "write_step L op (job, F) = (job', G)" by fastforce
  then show ?case using safe_step [OF Cons.prems(1), of op L] Cons by simp
qed simp

lemma safe_start:
  "destination base r F \<Longrightarrow> safe base r F (new_write i Generic remote (File_path base) n h is_remote od) F"
  by (simp add: safe_def writes_to_def names_ok_def new_write_def job_new_def)


definition demo_fs :: fs where
  "demo_fs =
     \<lparr>fs_nodes = [[''d''] \<mapsto> Dir, [''d'', ''s''] \<mapsto> Link ''/etc'', [''etc''] \<mapsto> Dir, [''etc'', ''p''] \<mapsto> File 0],
      fs_files = (\<lambda>i. \<lparr>fd_bytes = [1], fd_mtime = (5, 0)\<rparr>), fs_next = 1, fs_cwd = [], fs_now = (9, 0),
      fs_refused = (\<lambda>a q. False), fs_listing = (\<lambda>m q. []), fs_other_mtime = (\<lambda>q. (0, 0))\<rparr>"

definition demo_codec :: codec_lib where
  "demo_codec = \<lparr>cl_compress = id, cl_decompress = id, cl_digest_json = (\<lambda>d. []), cl_parse_digest = (\<lambda>bs. None)\<rparr>"

definition demo_entry :: "string \<Rightarrow> file_entry" where
  "demo_entry name = \<lparr>fe_type = FT_FILE, fe_name = name, fe_hidden = False, fe_size = 1, fe_time = 7\<rparr>"

lemma demo_destination: "destination ''/d'' [''d''] demo_fs"
  by (auto simp: destination_def fs_wf_def tree_ok_def is_dir_def no_partial_links_def leads_to_def demo_fs_def
      outer_fs_def os_path_def is_absolute_def sep_def comp_of_def partial_name_def DOWNLOAD_def DIGEST_def
      strict_prefix_def MAXSYMLINKS_def Let_def suffix_def)

lemma ascii_step: "of_char c < (128 :: nat) \<Longrightarrow> utf8_step (c # s) = (True, 1)"
  by (simp add: utf8_step_def byte_at_def Let_def)

lemma ascii_valid: "list_all (\<lambda>c. of_char c < (128 :: nat)) s \<Longrightarrow> valid_utf8 s"
proof (induction s)
  case (Cons c s)
  then show ?case by (simp add: valid_utf8.simps [of "c # s"] ascii_step)
qed (simp add: valid_utf8.simps)


end
