(* ===== verification/FileTransfers.thy ===== *)
theory FileTransfers
  imports TransferJobs
begin

text \<open>
  File transfers of the controlling side, the file commands and file messages of \<open>Remote\<close> in
  \<open>src/client/io_loop.rs\<close>: the jobs that read and write, the jobs that delete, and the answers to the
  peer's digests. The progress reports, which only the clock decides, are left out; the time since the
  last report is an argument where it decides what is reported.
\<close>

section \<open>State\<close>

record remove_job_state =
  rj_files :: "file_entry list"
  rj_path :: string
  rj_sep :: string
  rj_is_remote :: bool
  rj_no_confirm :: bool

record transfers =
  tr_read_jobs :: "transfer_job list"
  tr_write_jobs :: "transfer_job list"
  tr_remove_jobs :: "int \<rightharpoonup> remove_job_state"
  tr_fs :: fs
  tr_sent :: "file_msg list"
  tr_ui :: "ui_call list"
  tr_commands :: "data list"

text \<open>What the handlers read: the libraries, the peer's version and platform, the separators, the text
  of an error, and the milliseconds since the last report of a deletion.\<close>

record transfer_env =
  te_lib :: codec_lib
  te_version :: int
  te_platform :: string
  te_sep :: "bool \<Rightarrow> string"
  te_error :: "job_error \<Rightarrow> string"
  te_elapsed :: nat

definition tr_send :: "file_msg \<Rightarrow> transfers \<Rightarrow> transfers" where
  "tr_send m T = T\<lparr>tr_sent := tr_sent T @ [m]\<rparr>"

definition tr_call :: "ui_call \<Rightarrow> transfers \<Rightarrow> transfers" where
  "tr_call u T = T\<lparr>tr_ui := tr_ui T @ [u]\<rparr>"

definition can_enable_overwrite_detection :: "int \<Rightarrow> bool" where
  "can_enable_overwrite_detection version \<longleftrightarrow> version \<ge> get_version_number ''1.1.10''"

definition is_support_file_transfer_resume_num :: "int \<Rightarrow> bool" where
  "is_support_file_transfer_resume_num ver \<longleftrightarrow> ver \<ge> get_version_number ''1.4.2''"

section \<open>Status\<close>

definition report_status :: "transfer_env \<Rightarrow> int \<Rightarrow> int \<Rightarrow> job_error option \<Rightarrow> transfers \<Rightarrow> transfers" where
  "report_status E i file_num err =
     tr_call (case err of Some e \<Rightarrow> Ui_job_error i (te_error E e) file_num | None \<Rightarrow> Ui_job_done i file_num)"

text \<open>The deletion of the next file is asked for when the last is done and the user confirmed them all.\<close>

definition handle_job_status :: "transfer_env \<Rightarrow> int \<Rightarrow> int \<Rightarrow> job_error option \<Rightarrow> transfers \<Rightarrow> transfers" where
  "handle_job_status E i file_num err T =
     (case tr_remove_jobs T i of
        Some job \<Rightarrow>
          if rj_no_confirm job then
            let next_num = as_usize (as_i32 (file_num + 1)) in
            if next_num < length (rj_files job) then
              let path = rj_path job @ rj_sep job @ fe_name (rj_files job ! next_num);
                  T = T\<lparr>tr_commands := tr_commands T @
                    [RemoveFile i path (as_i32 (int next_num)) (rj_is_remote job)]\<rparr>
              in if te_elapsed E \<ge> 1000 then report_status E i file_num err T else T
            else report_status E i file_num err (T\<lparr>tr_remove_jobs := (tr_remove_jobs T)(i := None)\<rparr>)
          else report_status E i file_num err T
      | None \<Rightarrow> report_status E i file_num err T)"

definition cancel_transfer_job :: "int \<Rightarrow> transfers \<Rightarrow> transfers" where
  "cancel_transfer_job i T =
     (let T = tr_send (Fm_cancel i) T;
          (removed, ws) = remove_job i (tr_write_jobs T);
          T = T\<lparr>tr_write_jobs := ws,
            tr_fs := (case removed of None \<Rightarrow> tr_fs T | Some job \<Rightarrow> remove_download_file job (tr_fs T))\<rparr>
      in T\<lparr>tr_read_jobs := snd (remove_job i (tr_read_jobs T)), tr_remove_jobs := (tr_remove_jobs T)(i := None)\<rparr>)"

section \<open>Commands of the application\<close>

definition new_local_read ::
    "transfer_env \<Rightarrow> int \<Rightarrow> int \<Rightarrow> string \<Rightarrow> string \<Rightarrow> int \<Rightarrow> bool \<Rightarrow> bool \<Rightarrow> transfers \<Rightarrow> job_error + transfer_job" where
  "new_local_read E i ty path to file_num include_hidden is_remote T =
     new_read (tr_fs T) i (job_type_of_i32 ty) to (File_path path) file_num include_hidden is_remote
       (can_enable_overwrite_detection (te_version E))"

definition send_files_cmd ::
    "transfer_env \<Rightarrow> int \<Rightarrow> int \<Rightarrow> string \<Rightarrow> string \<Rightarrow> int \<Rightarrow> bool \<Rightarrow> bool \<Rightarrow> transfers \<Rightarrow> transfers" where
  "send_files_cmd E i ty path to file_num include_hidden is_remote T =
     (let od = can_enable_overwrite_detection (te_version E); jt = job_type_of_i32 ty in
      if is_remote then
        let src = (case jt of Generic \<Rightarrow> File_path to | Printer \<Rightarrow> Memory_cursor []);
            job = new_write i jt path src file_num include_hidden is_remote od
        in tr_send (Fm_send i jt path file_num include_hidden)
             (T\<lparr>tr_write_jobs := tr_write_jobs T @ [job]\<rparr>)
      else
        (case new_local_read E i ty path to file_num include_hidden is_remote T of
           Inl e \<Rightarrow> handle_job_status E i (-1) (Some e) T
         | Inr job \<Rightarrow>
             let T = tr_call (Ui_update_folder_files (tj_id job) (tj_files job) path (\<not> is_remote) True) T
             in tr_send (Fm_receive i to file_num (tj_files job) (tj_total_size job))
                  (T\<lparr>tr_read_jobs := tr_read_jobs T @ [job]\<rparr>)))"

text \<open>A job of an earlier session waits until it is resumed.\<close>

definition add_job_cmd ::
    "transfer_env \<Rightarrow> int \<Rightarrow> int \<Rightarrow> string \<Rightarrow> string \<Rightarrow> int \<Rightarrow> bool \<Rightarrow> bool \<Rightarrow> transfers \<Rightarrow> transfers" where
  "add_job_cmd E i ty path to file_num include_hidden is_remote T =
     (if is_remote then
        let job = new_write i (job_type_of_i32 ty) path (File_path to) file_num include_hidden is_remote
                    (can_enable_overwrite_detection (te_version E))
        in T\<lparr>tr_write_jobs := tr_write_jobs T @ [job\<lparr>tj_is_last_job := True\<rparr>]\<rparr>
      else
        (case new_local_read E i ty path to file_num include_hidden is_remote T of
           Inl e \<Rightarrow> handle_job_status E i (-1) (Some e) T
         | Inr job \<Rightarrow>
             let T = tr_call (Ui_update_folder_files (tj_id job) (tj_files job) path (\<not> is_remote) True) T
             in T\<lparr>tr_read_jobs := tr_read_jobs T @ [job\<lparr>tj_is_last_job := True\<rparr>]\<rparr>))"

definition resume_job_cmd :: "int \<Rightarrow> bool \<Rightarrow> transfers \<Rightarrow> transfers" where
  "resume_job_cmd i is_remote T =
     (if is_remote then
        (case get_job i (tr_write_jobs T) of
           None \<Rightarrow> T
         | Some job \<Rightarrow>
             let job = job\<lparr>tj_is_last_job := False, tj_is_resume := True\<rparr>
             in tr_send (Fm_send i Generic (tj_remote job) (tj_file_num job) (tj_show_hidden job))
                  (T\<lparr>tr_write_jobs := put_job i job (tr_write_jobs T)\<rparr>))
      else
        (case get_job i (tr_read_jobs T) of
           None \<Rightarrow> T
         | Some job \<Rightarrow>
             (case tj_source job of
                Memory_cursor c \<Rightarrow> T
              | File_path p \<Rightarrow>
                  let job = set_finished_size_on_resume (job\<lparr>tj_is_last_job := False, tj_is_resume := True\<rparr>)
                  in tr_send (Fm_receive i (tj_remote job) (tj_file_num job) (tj_files job) (tj_total_size job))
                       (T\<lparr>tr_read_jobs := put_job i job (tr_read_jobs T)\<rparr>))))"

definition override_confirm :: "int \<Rightarrow> int \<Rightarrow> bool \<Rightarrow> send_confirm" where
  "override_confirm i file_num need_override =
     \<lparr>sc_id = i, sc_file_num = file_num, sc_union = (if need_override then Confirm_offset 0 else Confirm_skip True)\<rparr>"

text \<open>The confirmation of a job in a list; a panic ends the connection, and the model keeps the job.\<close>

definition confirm_in :: "send_confirm \<Rightarrow> transfer_job \<Rightarrow> transfer_job list \<Rightarrow> fs \<Rightarrow> transfer_job list \<times> fs" where
  "confirm_in r job jobs F =
     (case job_confirm r job F of
        None \<Rightarrow> (jobs, F)
      | Some (job', F') \<Rightarrow> (put_job (tj_id job) job' jobs, F'))"

definition confirm_read :: "send_confirm \<Rightarrow> transfer_job \<Rightarrow> transfers \<Rightarrow> transfers" where
  "confirm_read r job T =
     (let (js, F) = confirm_in r job (tr_read_jobs T) (tr_fs T) in T\<lparr>tr_read_jobs := js, tr_fs := F\<rparr>)"

definition confirm_write :: "send_confirm \<Rightarrow> transfer_job \<Rightarrow> transfers \<Rightarrow> transfers" where
  "confirm_write r job T =
     (let (js, F) = confirm_in r job (tr_write_jobs T) (tr_fs T) in T\<lparr>tr_write_jobs := js, tr_fs := F\<rparr>)"

definition remember_strategy :: "bool \<Rightarrow> bool \<Rightarrow> transfer_job \<Rightarrow> transfer_job" where
  "remember_strategy remember need_override job =
     (if remember then job\<lparr>tj_default_overwrite := Some need_override\<rparr> else job)"

definition set_confirm_override_cmd :: "int \<Rightarrow> int \<Rightarrow> bool \<Rightarrow> bool \<Rightarrow> bool \<Rightarrow> transfers \<Rightarrow> transfers" where
  "set_confirm_override_cmd i file_num need_override remember is_upload T =
     (let r = override_confirm i file_num need_override in
      if is_upload then
        (case get_job i (tr_read_jobs T) of
           None \<Rightarrow> T
         | Some job \<Rightarrow>
             let job = remember_strategy remember need_override job
             in confirm_read r job (T\<lparr>tr_read_jobs := put_job i job (tr_read_jobs T)\<rparr>))
      else
        (case get_job i (tr_write_jobs T) of
           None \<Rightarrow> T
         | Some job \<Rightarrow>
             let job = remember_strategy remember need_override job
             in tr_send (Fm_send_confirm r)
                  (confirm_write r job (T\<lparr>tr_write_jobs := put_job i job (tr_write_jobs T)\<rparr>))))"

definition new_remove_job :: "file_entry list \<Rightarrow> string \<Rightarrow> string \<Rightarrow> bool \<Rightarrow> remove_job_state" where
  "new_remove_job files path separator is_remote =
     \<lparr>rj_files = files, rj_path = path, rj_sep = separator, rj_is_remote = is_remote, rj_no_confirm = False\<rparr>"

definition remove_dir_all_cmd :: "transfer_env \<Rightarrow> int \<Rightarrow> string \<Rightarrow> bool \<Rightarrow> bool \<Rightarrow> transfers \<Rightarrow> transfers" where
  "remove_dir_all_cmd E i path is_remote include_hidden T =
     (if is_remote then
        let T = tr_send (Fm_all_files i path include_hidden) T
        in T\<lparr>tr_remove_jobs := (tr_remove_jobs T)(i \<mapsto> new_remove_job [] path (te_sep E is_remote) is_remote)\<rparr>
      else
        (case get_recursive_files (tr_fs T) path include_hidden of
           Inl e \<Rightarrow> handle_job_status E i (-1) (Some e) T
         | Inr es \<Rightarrow>
             let T = tr_call (Ui_update_folder_files i es path (\<not> is_remote) False) T
             in T\<lparr>tr_remove_jobs := (tr_remove_jobs T)(i \<mapsto> new_remove_job es path (te_sep E is_remote) is_remote)\<rparr>))"

definition fs_result :: "transfer_env \<Rightarrow> int \<Rightarrow> int \<Rightarrow> (job_error + unit) \<times> fs \<Rightarrow> transfers \<Rightarrow> transfers" where
  "fs_result E i file_num rF T =
     handle_job_status E i file_num (case fst rF of Inl e \<Rightarrow> Some e | Inr u \<Rightarrow> None) (T\<lparr>tr_fs := snd rF\<rparr>)"

fun handle_file_command :: "transfer_env \<Rightarrow> data \<Rightarrow> transfers \<Rightarrow> transfers" where
  "handle_file_command E (SendFiles i ty path to file_num hidden is_remote) T =
     send_files_cmd E i ty path to file_num hidden is_remote T"
| "handle_file_command E (AddJob i ty path to file_num hidden is_remote) T =
     add_job_cmd E i ty path to file_num hidden is_remote T"
| "handle_file_command E (ResumeJob i is_remote) T = resume_job_cmd i is_remote T"
| "handle_file_command E (SetNoConfirm i) T =
     (case tr_remove_jobs T i of
        None \<Rightarrow> T
      | Some job \<Rightarrow> T\<lparr>tr_remove_jobs := (tr_remove_jobs T)(i \<mapsto> job\<lparr>rj_no_confirm := True\<rparr>)\<rparr>)"
| "handle_file_command E (ConfirmDeleteFiles i file_num) T =
     (case tr_remove_jobs T i of
        None \<Rightarrow> T
      | Some job \<Rightarrow>
          let n = as_usize file_num in
          if n < length (rj_files job)
          then tr_call (Ui_confirm_delete_files i file_num (fe_name (rj_files job ! n))) T else T)"
| "handle_file_command E (SetConfirmOverrideFile i file_num need_override remember is_upload) T =
     set_confirm_override_cmd i file_num need_override remember is_upload T"
| "handle_file_command E (RemoveDirAll i path is_remote hidden) T =
     remove_dir_all_cmd E i path is_remote hidden T"
| "handle_file_command E (CancelJob i) T = cancel_transfer_job i T"
| "handle_file_command E (RemoveDir i path) T = tr_send (Fm_remove_dir i path True) T"
| "handle_file_command E (RemoveFile i path file_num is_remote) T =
     (if is_remote then tr_send (Fm_remove_file i path file_num) T
      else fs_result E i file_num (fs_remove_file path (tr_fs T)) T)"
| "handle_file_command E (CreateDir i path is_remote) T =
     (if is_remote then tr_send (Fm_create i path) T
      else fs_result E i (-1) (fs_create_dir path (tr_fs T)) T)"
| "handle_file_command E (RenameFile i path new_name is_remote) T =
     (if is_remote then tr_send (Fm_rename i path new_name) T
      else fs_result E i (-1) (fs_rename_file path new_name (tr_fs T)) T)"
| "handle_file_command E d T = T"

section \<open>Messages of the peer\<close>

text \<open>The list of files: for a job that writes it is checked, and a list that fails cancels the job.\<close>

definition on_dir :: "transfer_env \<Rightarrow> int \<Rightarrow> string \<Rightarrow> file_entry list \<Rightarrow> transfers \<Rightarrow> transfers" where
  "on_dir E i path es T =
     (let es = (if te_platform E = ''Windows'' then transform_windows_path es else es) in
      case get_job i (tr_write_jobs T) of
        Some job \<Rightarrow>
          (case set_files (tr_fs T) es job of
             (Inl e, job) \<Rightarrow> handle_job_status E i (-1) (Some e) (cancel_transfer_job i T)
           | (Inr u, job) \<Rightarrow>
               let job = set_finished_size_on_resume job
               in tr_call (Ui_update_folder_files i (tj_files job) path False False)
                    (T\<lparr>tr_write_jobs := put_job i job (tr_write_jobs T)\<rparr>))
      | None \<Rightarrow>
          (case tr_remove_jobs T i of
             Some job \<Rightarrow>
               tr_call (Ui_update_folder_files i es path False False)
                 (T\<lparr>tr_remove_jobs := (tr_remove_jobs T)(i \<mapsto> job\<lparr>rj_files := es\<rparr>)\<rparr>)
           | None \<Rightarrow> tr_call (Ui_update_folder_files i es path False False) T))"

text \<open>The answer a digest gets: overwrite from an offset, skip, or ask the user.\<close>

definition strategy_answer :: "file_digest \<Rightarrow> transfer_job \<Rightarrow> send_confirm option" where
  "strategy_answer d job =
     (let resumed = (dg_identical d \<and> tj_is_resume job \<and> dg_transferred d > 0);
          strategy = (if resumed then Some True else tj_default_overwrite job);
          offset = (if resumed then word_of_nat (dg_transferred d) else 0)
      in case strategy of
           None \<Rightarrow> None
         | Some replace \<Rightarrow>
             Some \<lparr>sc_id = dg_id d, sc_file_num = dg_file_num d,
                   sc_union = (if replace then Confirm_offset offset else Confirm_skip True)\<rparr>)"

definition on_upload_digest :: "file_digest \<Rightarrow> transfers \<Rightarrow> transfers" where
  "on_upload_digest d T =
     (case get_job (dg_id d) (tr_read_jobs T) of
        None \<Rightarrow> T
      | Some job \<Rightarrow>
          let n = as_usize (dg_file_num d) in
          if n \<ge> length (tj_files job) then T
          else (case tj_source job of
             Memory_cursor c \<Rightarrow> T
           | File_path p \<Rightarrow>
               (case strategy_answer d job of
                  Some r \<Rightarrow> tr_send (Fm_send_confirm r) (confirm_read r job T)
                | None \<Rightarrow>
                    tr_call (Ui_override_file_confirm (dg_id d) (dg_file_num d)
                      (get_string (job_join p (fe_name (tj_files job ! n)))) True (dg_identical d)) T)))"

definition on_download_digest :: "transfer_env \<Rightarrow> file_digest \<Rightarrow> transfers \<Rightarrow> transfers" where
  "on_download_digest E d T =
     (case get_job (dg_id d) (tr_write_jobs T) of
        None \<Rightarrow> T
      | Some job \<Rightarrow>
          let n = as_usize (dg_file_num d) in
          if n \<ge> length (tj_files job) then T
          else (case tj_source job of
             Memory_cursor c \<Rightarrow> T
           | File_path p \<Rightarrow>
               let write_path = get_string (job_join p (fe_name (tj_files job ! n)));
                   job = set_digest (dg_size d) (dg_modified d) job;
                   T = T\<lparr>tr_write_jobs := put_job (dg_id d) job (tr_write_jobs T)\<rparr>;
                   reply = (\<lambda>u. \<lparr>sc_id = dg_id d, sc_file_num = dg_file_num d, sc_union = u\<rparr>);
                   answer = (\<lambda>r. tr_send (Fm_send_confirm r) (confirm_write r job T))
               in (case is_write_need_confirmation (te_lib E) (tr_fs T)
                     (is_support_file_transfer_resume_num (te_version E) \<and> tj_is_resume job) write_path d of
                     Inl e \<Rightarrow> T
                   | Inr Is_same \<Rightarrow> answer (reply (Confirm_skip True))
                   | Inr No_such_file \<Rightarrow> answer (reply (Confirm_offset 0))
                   | Inr (Need_confirm d') \<Rightarrow>
                       (case strategy_answer d' job of
                          Some r \<Rightarrow> answer r
                        | None \<Rightarrow>
                            tr_call (Ui_override_file_confirm (dg_id d') (dg_file_num d') write_path False
                              (dg_identical d')) T))))"

definition on_block :: "transfer_env \<Rightarrow> file_block \<Rightarrow> transfers \<Rightarrow> transfers" where
  "on_block E b T =
     (case get_job (fb_id b) (tr_write_jobs T) of
        None \<Rightarrow> T
      | Some job \<Rightarrow>
          (case job_write (te_lib E) b job (tr_fs T) of
             (r, job', F) \<Rightarrow> T\<lparr>tr_write_jobs := put_job (fb_id b) job' (tr_write_jobs T), tr_fs := F\<rparr>))"

definition on_done :: "transfer_env \<Rightarrow> int \<Rightarrow> int \<Rightarrow> transfers \<Rightarrow> transfers" where
  "on_done E i file_num T =
     (case remove_job i (tr_write_jobs T) of
        (None, ws) \<Rightarrow> handle_job_status E i file_num None (T\<lparr>tr_write_jobs := ws\<rparr>)
      | (Some job, ws) \<Rightarrow>
          let T = T\<lparr>tr_write_jobs := ws, tr_fs := modify_time job (tr_fs T)\<rparr>
          in (case tj_type job of
                Generic \<Rightarrow> handle_job_status E i file_num (map_option Bail (job_failure job)) T
              | Printer \<Rightarrow> T))"

definition on_file_error :: "transfer_env \<Rightarrow> int \<Rightarrow> job_error \<Rightarrow> int \<Rightarrow> transfers \<Rightarrow> transfers" where
  "on_file_error E i err file_num T =
     (let (w, ws) = remove_job i (tr_write_jobs T);
          (job, T) = (case w of
             Some job \<Rightarrow> (Some job, T\<lparr>tr_write_jobs := ws\<rparr>)
           | None \<Rightarrow> (let (r, rs) = remove_job i (tr_read_jobs T) in (r, T\<lparr>tr_read_jobs := rs\<rparr>)));
          ty = (case job of None \<Rightarrow> Generic | Some j \<Rightarrow> tj_type j)
      in (case ty of Generic \<Rightarrow> handle_job_status E i file_num (Some err) T | Printer \<Rightarrow> T))"

text \<open>\<open>FileResponse\<close>, and the \<open>SendConfirm\<close> of \<open>FileAction\<close>.\<close>

fun handle_file_msg :: "transfer_env \<Rightarrow> file_msg \<Rightarrow> transfers \<Rightarrow> transfers" where
  "handle_file_msg E (Fm_dir i path es) T = on_dir E i path es T"
| "handle_file_msg E (Fm_digest d) T =
     (if dg_is_upload d then on_upload_digest d T else on_download_digest E d T)"
| "handle_file_msg E (Fm_block b) T = on_block E b T"
| "handle_file_msg E (Fm_done i file_num) T = on_done E i file_num T"
| "handle_file_msg E (Fm_error i err file_num) T = on_file_error E i err file_num T"
| "handle_file_msg E (Fm_send_confirm r) T =
     (case get_job (sc_id r) (tr_read_jobs T) of None \<Rightarrow> T | Some job \<Rightarrow> confirm_read r job T)"
| "handle_file_msg E m T = T"

text \<open>A tick of the timer.\<close>

definition transfer_tick :: "transfer_env \<Rightarrow> transfers \<Rightarrow> transfers" where
  "transfer_tick E T =
     (if tr_read_jobs T = [] then T
      else let (js, ms) = handle_read_jobs (te_lib E) (tr_fs T) (tr_read_jobs T)
           in T\<lparr>tr_read_jobs := js, tr_sent := tr_sent T @ ms\<rparr>)"

end
