(* ===== verification/CmFiles.thy ===== *)
theory CmFiles
  imports FileTransfers
begin

text \<open>
  File transfers of the controlled side. The connection manager carries out file requests, \<open>handle_fs\<close>
  of \<open>src/ui_cm_interface.rs\<close>; the connection, \<open>src/server/connection.rs\<close>, turns the messages of the
  peer into such requests or serves them itself, as \<open>need_fs_cm_send_files\<close> says. The logs and audits of
  both are left out, and so is the encoding of a directory between them.
\<close>

section \<open>Requests and replies between the processes\<close>

datatype fs_request =
    Fs_read_empty_dirs string bool
  | Fs_read_dir string bool
  | Fs_remove_dir string int bool
  | Fs_remove_file string int int
  | Fs_create_dir string int
  | Fs_new_write string int int "(string \<times> nat) list" bool u64 int
  | Fs_cancel_write int
  | Fs_write_block int int "u8 list" bool
  | Fs_write_done int int
  | Fs_write_error int int job_error
  | Fs_write_offset int int u32
  | Fs_check_digest int int nat nat bool bool
  | Fs_send_confirm send_confirm
  | Fs_rename int string string
  | Fs_read_file string int int bool int bool
  | Fs_cancel_read int int
  | Fs_send_confirm_for_read int int bool u32 int
  | Fs_read_all_files string int bool int

datatype cm_reply =
    Cm_raw file_msg
  | Cm_read_init int int bool int "job_error + string \<times> file_entry list"
  | Cm_block int int "u8 list" bool int
  | Cm_read_done int int int
  | Cm_read_error int int job_error int
  | Cm_digest int int nat nat bool int
  | Cm_all_files int int string "job_error + file_entry list"

record cm_files =
  cm_write_jobs :: "transfer_job list"
  cm_read_jobs :: "transfer_job list"
  cm_fs :: fs
  cm_out :: "cm_reply list"

text \<open>The libraries, the home directory and the limit of files in a listing.\<close>

record cm_env =
  ce_lib :: codec_lib
  ce_home :: string
  ce_max_files :: nat

definition cm_send :: "cm_reply \<Rightarrow> cm_files \<Rightarrow> cm_files" where
  "cm_send m C = C\<lparr>cm_out := cm_out C @ [m]\<rparr>"

text \<open>The limit comes from an option: zero means the default, and what is not a number means none.\<close>

definition get_max_validated_files :: "string \<Rightarrow> nat" where
  "get_max_validated_files opt =
     (let s = str_trim opt;
          ds = (case s of c # cs \<Rightarrow> if c = CHR ''+'' then cs else s | [] \<Rightarrow> []);
          c = (case parse_nat ds of
                 Some n \<Rightarrow> if n < 2 ^ 64 then n else 2 ^ 64 - 1 | None \<Rightarrow> 2 ^ 64 - 1)
      in if c = 0 then 10000 else c)"

definition check_file_count_limit :: "cm_env \<Rightarrow> nat \<Rightarrow> job_error + unit" where
  "check_file_count_limit E n =
     (if n > ce_max_files E then Inl (Bail ''file transfer rejected: too many files'') else Inr ())"

section \<open>The connection manager\<close>

definition read_empty_dirs_req :: "string \<Rightarrow> bool \<Rightarrow> cm_files \<Rightarrow> cm_files" where
  "read_empty_dirs_req dir hidden C =
     (case read_empty_dirs_recursive (cm_fs C) dir hidden of
        Inl e \<Rightarrow> C | Inr ds \<Rightarrow> cm_send (Cm_raw (Fm_empty_dirs dir ds)) C)"

definition read_dir_req :: "cm_env \<Rightarrow> string \<Rightarrow> bool \<Rightarrow> cm_files \<Rightarrow> cm_files" where
  "read_dir_req E dir hidden C =
     (let path = (if dir = [] then ce_home E else dir) in
      case read_dir (cm_fs C) path hidden of
        Inl e \<Rightarrow> C | Inr es \<Rightarrow> cm_send (Cm_raw (Fm_dir 0 (get_string path) es)) C)"

definition handle_result :: "(job_error + unit) \<times> fs \<Rightarrow> int \<Rightarrow> int \<Rightarrow> cm_files \<Rightarrow> cm_files" where
  "handle_result rF i file_num C =
     cm_send (Cm_raw (case fst rF of Inl e \<Rightarrow> Fm_error i e file_num | Inr u \<Rightarrow> Fm_done i file_num))
       (C\<lparr>cm_fs := snd rF\<rparr>)"

definition remove_dir_req :: "string \<Rightarrow> int \<Rightarrow> bool \<Rightarrow> cm_files \<Rightarrow> cm_files" where
  "remove_dir_req path i recursive C =
     handle_result
       (if recursive then remove_all_empty_dir path (cm_fs C)
        else map_prod (map_sum Io id) id (rmdir path (cm_fs C))) i 0 C"

definition new_write_req ::
    "string \<Rightarrow> int \<Rightarrow> int \<Rightarrow> (string \<times> nat) list \<Rightarrow> bool \<Rightarrow> u64 \<Rightarrow> int \<Rightarrow> cm_files \<Rightarrow> cm_files" where
  "new_write_req path i file_num files od total_size conn C =
     (let entries = map (\<lambda>(name, t). \<lparr>fe_type = FT_DIR, fe_name = name, fe_hidden = False, fe_size = 0, fe_time = t\<rparr>) files;
          job = new_write i Generic [] (File_path path) file_num False False od
      in case set_files (cm_fs C) entries job of
           (Inl e, job) \<Rightarrow> cm_send (Cm_raw (Fm_error i e file_num)) C
         | (Inr u, job) \<Rightarrow>
             C\<lparr>cm_write_jobs := cm_write_jobs C @ [job\<lparr>tj_total_size := total_size, tj_conn_id := conn\<rparr>]\<rparr>)"

definition write_done_req :: "int \<Rightarrow> int \<Rightarrow> cm_files \<Rightarrow> cm_files" where
  "write_done_req i file_num C =
     (case remove_job i (cm_write_jobs C) of
        (None, ws) \<Rightarrow> C
      | (Some job, ws) \<Rightarrow>
          cm_send (Cm_raw (Fm_done i file_num)) (C\<lparr>cm_write_jobs := ws, cm_fs := modify_time job (cm_fs C)\<rparr>))"

definition write_block_req :: "cm_env \<Rightarrow> file_block \<Rightarrow> cm_files \<Rightarrow> cm_files" where
  "write_block_req E b C =
     (case get_job (fb_id b) (cm_write_jobs C) of
        None \<Rightarrow> C
      | Some job \<Rightarrow>
          (case job_write (ce_lib E) b job (cm_fs C) of
             (r, job, F) \<Rightarrow>
               let C = C\<lparr>cm_write_jobs := put_job (fb_id b) job (cm_write_jobs C), cm_fs := F\<rparr>
               in (case r of
                     Inl e \<Rightarrow> cm_send (Cm_raw (Fm_error (fb_id b) e (fb_file_num b))) C | Inr u \<Rightarrow> C)))"

definition check_digest_req ::
    "cm_env \<Rightarrow> int \<Rightarrow> int \<Rightarrow> nat \<Rightarrow> nat \<Rightarrow> bool \<Rightarrow> bool \<Rightarrow> cm_files \<Rightarrow> cm_files" where
  "check_digest_req E i file_num sz modified is_upload is_resume C =
     (case get_job i (cm_write_jobs C) of
        None \<Rightarrow> C
      | Some job \<Rightarrow>
          (case tj_source job of
             Memory_cursor c \<Rightarrow> C
           | File_path p \<Rightarrow>
               if as_usize file_num \<ge> length (tj_files job) then C
               else
                 let path = get_string (job_join p (fe_name (tj_files job ! as_usize file_num)));
                     digest = \<lparr>dg_id = i, dg_file_num = file_num, dg_modified = modified, dg_size = sz,
                       dg_is_upload = False, dg_identical = False, dg_transferred = 0, dg_is_resume = False\<rparr>;
                     reply = (\<lambda>u. Cm_raw (Fm_send_confirm \<lparr>sc_id = i, sc_file_num = file_num, sc_union = u\<rparr>));
                     known = C\<lparr>cm_write_jobs := put_job i (set_digest sz modified job) (cm_write_jobs C)\<rparr>
                 in (case is_write_need_confirmation (ce_lib E) (cm_fs C) is_resume path digest of
                       Inl e \<Rightarrow> cm_send (Cm_raw (Fm_error i e file_num)) C
                     | Inr Is_same \<Rightarrow> cm_send (reply (Confirm_skip True)) known
                     | Inr (Need_confirm d) \<Rightarrow> cm_send (Cm_raw (Fm_digest (d\<lparr>dg_is_upload := is_upload\<rparr>))) known
                     | Inr No_such_file \<Rightarrow> cm_send (reply (Confirm_offset 0)) known)))"

text \<open>The read jobs of the connection manager.\<close>

definition start_read_job ::
    "cm_env \<Rightarrow> string \<Rightarrow> int \<Rightarrow> bool \<Rightarrow> int \<Rightarrow> int \<Rightarrow> bool \<Rightarrow> cm_files \<Rightarrow> cm_files" where
  "start_read_job E path file_num hidden i conn od C =
     (case new_read (cm_fs C) i Generic [] (File_path path) file_num hidden True od of
        Inl e \<Rightarrow> cm_send (Cm_read_init i file_num hidden conn (Inl e)) C
      | Inr job \<Rightarrow>
          (case check_file_count_limit E (length (tj_files job)) of
             Inl e \<Rightarrow> cm_send (Cm_read_init i file_num hidden conn (Inl e)) C
           | Inr u \<Rightarrow>
               let C = cm_send (Cm_read_init i file_num hidden conn (Inr (path, tj_files job))) C
               in C\<lparr>cm_read_jobs := cm_read_jobs C @ [job\<lparr>tj_conn_id := conn\<rparr>]\<rparr>))"

definition read_all_files :: "cm_env \<Rightarrow> string \<Rightarrow> bool \<Rightarrow> int \<Rightarrow> int \<Rightarrow> cm_files \<Rightarrow> cm_files" where
  "read_all_files E path hidden i conn C =
     cm_send (Cm_all_files i conn path
       (case get_recursive_files (cm_fs C) path hidden of
          Inl e \<Rightarrow> Inl e
        | Inr files \<Rightarrow>
            (case check_file_count_limit E (length files) of Inl e \<Rightarrow> Inl e | Inr u \<Rightarrow> Inr files))) C"

definition init_read_job_for_cm :: "fs \<Rightarrow> int \<Rightarrow> transfer_job \<Rightarrow> (job_error + cm_reply list) \<times> transfer_job" where
  "init_read_job_for_cm F conn job =
     (case init_data_stream_for_cm F job of
        (Inl e, job) \<Rightarrow> (Inl e, job)
      | (Inr None, job) \<Rightarrow> (Inr [], job)
      | (Inr (Some (modified, sz)), job) \<Rightarrow>
          (Inr [Cm_digest (tj_id job) (tj_file_num job) modified sz (tj_is_resume job) conn], job))"

definition cm_read_one :: "codec_lib \<Rightarrow> fs \<Rightarrow> int \<Rightarrow> transfer_job \<Rightarrow> transfer_job \<times> cm_reply list \<times> int list" where
  "cm_read_one L F conn job =
     (case job_read L F job of
        (Inl e, job) \<Rightarrow> (job, [Cm_read_error (tj_id job) (tj_file_num job) e conn], [tj_id job])
      | (Inr (Some b), job) \<Rightarrow> (job, [Cm_block (fb_id b) (fb_file_num b) (fb_data b) (fb_compressed b) conn], [])
      | (Inr None, job) \<Rightarrow>
          if job_completed job then
            (job, [case job_failure job of
                     Some err \<Rightarrow> Cm_read_error (tj_id job) (tj_file_num job) (Bail err) conn
                   | None \<Rightarrow> Cm_read_done (tj_id job) (tj_file_num job) conn], [tj_id job])
          else (job, [], []))"

fun cm_read_first ::
    "codec_lib \<Rightarrow> fs \<Rightarrow> int \<Rightarrow> transfer_job list \<Rightarrow> transfer_job list \<times> cm_reply list \<times> int list" where
  "cm_read_first L F conn [] = ([], [], [])"
| "cm_read_first L F conn (job # jobs) =
     (if tj_is_last_job job then (let (js, ms, fin) = cm_read_first L F conn jobs in (job # js, ms, fin))
      else (case init_read_job_for_cm F conn job of
        (Inl e, job) \<Rightarrow>
          (let (js, ms, fin) = cm_read_first L F conn jobs
           in (job # js, Cm_read_error (tj_id job) (tj_file_num job) e conn # ms, tj_id job # fin))
      | (Inr sent, job) \<Rightarrow>
          (let (job, ms, fin) = cm_read_one L F conn job in (job # jobs, sent @ ms, fin))))"

definition handle_read_jobs_tick :: "cm_env \<Rightarrow> int \<Rightarrow> cm_files \<Rightarrow> cm_files" where
  "handle_read_jobs_tick E conn C =
     (let (jobs, ms, fin) = cm_read_first (ce_lib E) (cm_fs C) conn (cm_read_jobs C)
      in C\<lparr>cm_read_jobs := fold (\<lambda>i js. snd (remove_job i js)) fin jobs, cm_out := cm_out C @ ms\<rparr>)"

fun handle_fs :: "cm_env \<Rightarrow> fs_request \<Rightarrow> cm_files \<Rightarrow> cm_files" where
  "handle_fs E (Fs_read_empty_dirs dir hidden) C = read_empty_dirs_req dir hidden C"
| "handle_fs E (Fs_read_dir dir hidden) C = read_dir_req E dir hidden C"
| "handle_fs E (Fs_remove_dir path i recursive) C = remove_dir_req path i recursive C"
| "handle_fs E (Fs_remove_file path i file_num) C = handle_result (fs_remove_file path (cm_fs C)) i file_num C"
| "handle_fs E (Fs_create_dir path i) C = handle_result (fs_create_dir path (cm_fs C)) i 0 C"
| "handle_fs E (Fs_new_write path i file_num files od total_size conn) C =
     new_write_req path i file_num files od total_size conn C"
| "handle_fs E (Fs_cancel_write i) C =
     (case remove_job i (cm_write_jobs C) of
        (None, ws) \<Rightarrow> C
      | (Some job, ws) \<Rightarrow> C\<lparr>cm_write_jobs := ws, cm_fs := remove_download_file job (cm_fs C)\<rparr>)"
| "handle_fs E (Fs_write_done i file_num) C = write_done_req i file_num C"
| "handle_fs E (Fs_write_error i file_num err) C =
     (case remove_job i (cm_write_jobs C) of
        (None, ws) \<Rightarrow> C
      | (Some job, ws) \<Rightarrow>
          cm_send (Cm_raw (Fm_error (tj_id job) err file_num)) (C\<lparr>cm_write_jobs := ws\<rparr>))"
| "handle_fs E (Fs_write_block i file_num bs compressed) C =
     write_block_req E \<lparr>fb_id = i, fb_file_num = file_num, fb_data = bs, fb_compressed = compressed\<rparr> C"
| "handle_fs E (Fs_check_digest i file_num sz modified is_upload is_resume) C =
     check_digest_req E i file_num sz modified is_upload is_resume C"
| "handle_fs E (Fs_send_confirm r) C =
     (case get_job (sc_id r) (cm_write_jobs C) of
        None \<Rightarrow> C
      | Some job \<Rightarrow>
          (let (js, F) = confirm_in r job (cm_write_jobs C) (cm_fs C) in C\<lparr>cm_write_jobs := js, cm_fs := F\<rparr>))"
| "handle_fs E (Fs_rename i path new_name) C = handle_result (fs_rename_file path new_name (cm_fs C)) i 0 C"
| "handle_fs E (Fs_read_file path i file_num hidden conn od) C = start_read_job E path file_num hidden i conn od C"
| "handle_fs E (Fs_cancel_read i conn) C = C\<lparr>cm_read_jobs := snd (remove_job i (cm_read_jobs C))\<rparr>"
| "handle_fs E (Fs_send_confirm_for_read i file_num skip offset conn) C =
     (case get_job i (cm_read_jobs C) of
        None \<Rightarrow> C
      | Some job \<Rightarrow>
          let r = \<lparr>sc_id = i, sc_file_num = tj_file_num job,
                   sc_union = (if skip then Confirm_skip True else Confirm_offset offset)\<rparr>;
              (js, F) = confirm_in r job (cm_read_jobs C) (cm_fs C)
          in C\<lparr>cm_read_jobs := js, cm_fs := F\<rparr>)"
| "handle_fs E (Fs_read_all_files path i hidden conn) C = read_all_files E path hidden i conn C"
| "handle_fs E req C = C"

section \<open>The connection\<close>

record conn_files =
  cf_id :: int
  cf_file_transfer :: "(string \<times> bool) option"
  cf_delayed_read_dir :: "(string \<times> bool) option"
  cf_read_jobs :: "transfer_job list"
  cf_cm_read_ids :: "int set"
  cf_printer_data :: "(string \<times> u8 list) list"
  cf_transferred :: bool
  cf_fs :: fs
  cf_sent :: "file_msg list"
  cf_to_cm :: "fs_request list"

text \<open>Besides what the connection manager reads: whether it reads the files that are sent, whether files
  are only received, and the version of the peer.\<close>

record conn_env = cm_env +
  ne_via_cm :: bool
  ne_one_way :: string
  ne_version :: int

definition cf_send :: "file_msg \<Rightarrow> conn_files \<Rightarrow> conn_files" where
  "cf_send m S = S\<lparr>cf_sent := cf_sent S @ [m]\<rparr>"

definition send_fs :: "fs_request \<Rightarrow> conn_files \<Rightarrow> conn_files" where
  "send_fs r S = S\<lparr>cf_to_cm := cf_to_cm S @ [r]\<rparr>"

definition process_new_read_job :: "transfer_job \<Rightarrow> string \<Rightarrow> conn_files \<Rightarrow> conn_files" where
  "process_new_read_job job path S =
     (let S = cf_send (Fm_dir (tj_id job) path (tj_files job)) S
      in S\<lparr>cf_read_jobs := cf_read_jobs S @ [job\<lparr>tj_is_remote := True, tj_conn_id := cf_id S\<rparr>]\<rparr>)"

definition create_and_start_read_job ::
    "conn_env \<Rightarrow> int \<Rightarrow> job_type \<Rightarrow> data_source \<Rightarrow> int \<Rightarrow> bool \<Rightarrow> bool \<Rightarrow> string \<Rightarrow> bool \<Rightarrow> conn_files \<Rightarrow> conn_files" where
  "create_and_start_read_job E i ty src file_num hidden od path check_limit S =
     (case new_read (cf_fs S) i ty [] src file_num hidden False od of
        Inl e \<Rightarrow> cf_send (Fm_error i e 0) S
      | Inr job \<Rightarrow>
          (case (if check_limit then check_file_count_limit (cm_env.truncate E) (length (tj_files job)) else Inr ()) of
             Inl e \<Rightarrow> cf_send (Fm_error i e (-1)) S
           | Inr u \<Rightarrow> process_new_read_job job path S))"

fun take_printer_data :: "string \<Rightarrow> (string \<times> u8 list) list \<Rightarrow> (u8 list \<times> (string \<times> u8 list) list) option" where
  "take_printer_data path [] = None"
| "take_printer_data path ((p, bs) # ps) =
     (if p = path then Some (bs, ps) else map_option (map_prod id ((#) (p, bs))) (take_printer_data path ps))"

definition on_send :: "conn_env \<Rightarrow> int \<Rightarrow> job_type \<Rightarrow> string \<Rightarrow> int \<Rightarrow> bool \<Rightarrow> conn_files \<Rightarrow> conn_files" where
  "on_send E i ty path file_num hidden S =
     (case ty of
        Generic \<Rightarrow>
          let od = can_enable_overwrite_detection (ne_version E);
              S = (if ne_via_cm E
                   then send_fs (Fs_read_file path i file_num hidden (cf_id S) od)
                          (S\<lparr>cf_cm_read_ids := insert i (cf_cm_read_ids S)\<rparr>)
                   else create_and_start_read_job E i ty (File_path path) file_num hidden od path True S)
          in S\<lparr>cf_transferred := True\<rparr>
      | Printer \<Rightarrow>
          (case take_printer_data path (cf_printer_data S) of
             None \<Rightarrow> S
           | Some (bs, ps) \<Rightarrow>
               (create_and_start_read_job E i ty (Memory_cursor bs) file_num hidden True path False
                 (S\<lparr>cf_printer_data := ps\<rparr>))\<lparr>cf_transferred := True\<rparr>))"

definition on_all_files :: "conn_env \<Rightarrow> int \<Rightarrow> string \<Rightarrow> bool \<Rightarrow> conn_files \<Rightarrow> conn_files" where
  "on_all_files E i path hidden S =
     (if ne_via_cm E then send_fs (Fs_read_all_files path i hidden (cf_id S)) S
      else (case get_recursive_files (cf_fs S) path hidden of
        Inl e \<Rightarrow> cf_send (Fm_error i e (-1)) S
      | Inr files \<Rightarrow>
          (case check_file_count_limit (cm_env.truncate E) (length files) of
             Inl e \<Rightarrow> cf_send (Fm_error i e (-1)) S
           | Inr u \<Rightarrow> cf_send (Fm_dir i path files) S)))"

definition on_send_confirm :: "send_confirm \<Rightarrow> conn_files \<Rightarrow> conn_files" where
  "on_send_confirm r S =
     (case get_job (sc_id r) (cf_read_jobs S) of
        Some job \<Rightarrow>
          (let (js, F) = confirm_in r job (cf_read_jobs S) (cf_fs S) in S\<lparr>cf_read_jobs := js, cf_fs := F\<rparr>)
      | None \<Rightarrow>
          if sc_id r \<in> cf_cm_read_ids S then
            send_fs (Fs_send_confirm_for_read (sc_id r) (sc_file_num r)
              (case sc_union r of Confirm_skip b \<Rightarrow> b | _ \<Rightarrow> False)
              (case sc_union r of Confirm_offset offset \<Rightarrow> offset | _ \<Rightarrow> 0) (cf_id S)) S
          else send_fs (Fs_send_confirm r) S)"

fun file_action :: "conn_env \<Rightarrow> file_msg \<Rightarrow> conn_files \<Rightarrow> conn_files" where
  "file_action E (Fm_read_empty_dirs path hidden) S = send_fs (Fs_read_empty_dirs path hidden) S"
| "file_action E (Fm_read_dir path hidden) S = send_fs (Fs_read_dir path hidden) S"
| "file_action E (Fm_all_files i path hidden) S = on_all_files E i path hidden S"
| "file_action E (Fm_send i ty path file_num hidden) S = on_send E i ty path file_num hidden S"
| "file_action E (Fm_receive i path file_num files total_size) S =
     (send_fs (Fs_new_write path i file_num (map (\<lambda>f. (fe_name f, fe_time f)) files)
        (can_enable_overwrite_detection (ne_version E)) total_size (cf_id S)) S)\<lparr>cf_transferred := True\<rparr>"
| "file_action E (Fm_remove_dir i path recursive) S = send_fs (Fs_remove_dir path i recursive) S"
| "file_action E (Fm_remove_file i path file_num) S = send_fs (Fs_remove_file path i file_num) S"
| "file_action E (Fm_create i path) S = send_fs (Fs_create_dir path i) S"
| "file_action E (Fm_cancel i) S =
     (let S = send_fs (Fs_cancel_write i) S;
          S = S\<lparr>cf_cm_read_ids := cf_cm_read_ids S - {i}\<rparr>;
          S = send_fs (Fs_cancel_read i (cf_id S)) S
      in S\<lparr>cf_read_jobs := snd (remove_job i (cf_read_jobs S))\<rparr>)"
| "file_action E (Fm_send_confirm r) S = on_send_confirm r S"
| "file_action E (Fm_rename i path new_name) S = send_fs (Fs_rename i path new_name) S"
| "file_action E m S = S"

text \<open>The actions that only a sender of files may ask for.\<close>

fun one_way_job :: "file_msg \<Rightarrow> int option" where
  "one_way_job (Fm_send i ty path file_num hidden) = Some i"
| "one_way_job (Fm_remove_file i path file_num) = Some i"
| "one_way_job (Fm_rename i path new_name) = Some i"
| "one_way_job (Fm_create i path) = Some i"
| "one_way_job (Fm_remove_dir i path recursive) = Some i"
| "one_way_job m = None"

definition on_file_action :: "conn_env \<Rightarrow> file_msg \<Rightarrow> conn_files \<Rightarrow> conn_files" where
  "on_file_action E m S =
     (let printing = (case m of Fm_send i ty path file_num hidden \<Rightarrow> ty = Printer | _ \<Rightarrow> False) in
      if cf_file_transfer S = None \<and> \<not> printing then S
      else if cf_delayed_read_dir S \<noteq> None then
        (case m of Fm_read_dir path hidden \<Rightarrow> S\<lparr>cf_delayed_read_dir := Some (path, hidden)\<rparr> | _ \<Rightarrow> S)
      else if ne_one_way E = ''Y'' \<and> one_way_job m \<noteq> None then
        cf_send (Fm_error (the (one_way_job m)) (Bail ''one-way-file-transfer-tip'') 0) S
      else file_action E m S)"

fun on_file_response :: "file_msg \<Rightarrow> conn_files \<Rightarrow> conn_files" where
  "on_file_response (Fm_block b) S =
     send_fs (Fs_write_block (fb_id b) (fb_file_num b) (fb_data b) (fb_compressed b)) S"
| "on_file_response (Fm_done i file_num) S = send_fs (Fs_write_done i file_num) S"
| "on_file_response (Fm_digest d) S =
     send_fs (Fs_check_digest (dg_id d) (dg_file_num d) (dg_size d) (dg_modified d) True (dg_is_resume d)) S"
| "on_file_response (Fm_error i err file_num) S = send_fs (Fs_write_error i file_num err) S"
| "on_file_response m S = S"

section \<open>What the connection manager answers\<close>

definition handle_read_job_init_result ::
    "int \<Rightarrow> job_error + string \<times> file_entry list \<Rightarrow> conn_files \<Rightarrow> conn_files" where
  "handle_read_job_init_result i res S =
     (if i \<notin> cf_cm_read_ids S then S
      else case res of
        Inl e \<Rightarrow> cf_send (Fm_error i e 0) (S\<lparr>cf_cm_read_ids := cf_cm_read_ids S - {i}\<rparr>)
      | Inr (path, files) \<Rightarrow> (cf_send (Fm_dir i path files) S)\<lparr>cf_transferred := True\<rparr>)"

definition handle_file_block_from_cm :: "int \<Rightarrow> int \<Rightarrow> u8 list \<Rightarrow> bool \<Rightarrow> conn_files \<Rightarrow> conn_files" where
  "handle_file_block_from_cm i file_num bs compressed S =
     (if i \<notin> cf_cm_read_ids S then S
      else cf_send (Fm_block \<lparr>fb_id = i, fb_file_num = file_num, fb_data = bs, fb_compressed = compressed\<rparr>) S)"

definition handle_file_read_done :: "int \<Rightarrow> int \<Rightarrow> conn_files \<Rightarrow> conn_files" where
  "handle_file_read_done i file_num S =
     (if i \<notin> cf_cm_read_ids S then S
      else cf_send (Fm_done i file_num) (S\<lparr>cf_cm_read_ids := cf_cm_read_ids S - {i}\<rparr>))"

definition handle_file_read_error :: "int \<Rightarrow> int \<Rightarrow> job_error \<Rightarrow> conn_files \<Rightarrow> conn_files" where
  "handle_file_read_error i file_num err S =
     (if i \<notin> cf_cm_read_ids S then S
      else cf_send (Fm_error i err file_num) (S\<lparr>cf_cm_read_ids := cf_cm_read_ids S - {i}\<rparr>))"

definition handle_file_digest_from_cm :: "int \<Rightarrow> int \<Rightarrow> nat \<Rightarrow> nat \<Rightarrow> bool \<Rightarrow> conn_files \<Rightarrow> conn_files" where
  "handle_file_digest_from_cm i file_num modified sz is_resume S =
     (if i \<notin> cf_cm_read_ids S then S
      else cf_send (Fm_digest \<lparr>dg_id = i, dg_file_num = file_num, dg_modified = modified, dg_size = sz,
        dg_is_upload = False, dg_identical = False, dg_transferred = 0, dg_is_resume = is_resume\<rparr>) S)"

definition handle_all_files_result :: "int \<Rightarrow> string \<Rightarrow> job_error + file_entry list \<Rightarrow> conn_files \<Rightarrow> conn_files" where
  "handle_all_files_result i path res S =
     (case res of Inl e \<Rightarrow> cf_send (Fm_error i e (-1)) S | Inr files \<Rightarrow> cf_send (Fm_dir i path files) S)"

fun on_cm_reply :: "cm_reply \<Rightarrow> conn_files \<Rightarrow> conn_files" where
  "on_cm_reply (Cm_raw m) S = cf_send m S"
| "on_cm_reply (Cm_read_init i file_num hidden conn res) S =
     (if conn = cf_id S then handle_read_job_init_result i res S else S)"
| "on_cm_reply (Cm_block i file_num bs compressed conn) S =
     (if conn = cf_id S then handle_file_block_from_cm i file_num bs compressed S else S)"
| "on_cm_reply (Cm_read_done i file_num conn) S =
     (if conn = cf_id S then handle_file_read_done i file_num S else S)"
| "on_cm_reply (Cm_read_error i file_num err conn) S =
     (if conn = cf_id S then handle_file_read_error i file_num err S else S)"
| "on_cm_reply (Cm_digest i file_num modified sz is_resume conn) S =
     (if conn = cf_id S then handle_file_digest_from_cm i file_num modified sz is_resume S else S)"
| "on_cm_reply (Cm_all_files i conn path res) S =
     (if conn = cf_id S then handle_all_files_result i path res S else S)"

text \<open>The file timer of the connection.\<close>

definition conn_file_tick :: "conn_env \<Rightarrow> conn_files \<Rightarrow> conn_files" where
  "conn_file_tick E S =
     (if cf_read_jobs S = [] then S
      else let (js, ms) = handle_read_jobs (ce_lib E) (cf_fs S) (cf_read_jobs S)
           in S\<lparr>cf_read_jobs := js, cf_sent := cf_sent S @ ms\<rparr>)"

end
