(* ===== verification/TransferConsent.thy ===== *)
theory TransferConsent
  imports CmFiles
begin

text \<open>
  The sending side of a transfer: the connection sends no block of a file before the peer has agreed to
  that file.
\<close>

section \<open>Runs of a connection\<close>

text \<open>What happens to a connection: an action or a response of the peer, a tick of the file timer, an
  answer of the connection manager, and any change of the file system by others.\<close>

datatype conn_op =
    Co_action file_msg
  | Co_response file_msg
  | Co_tick
  | Co_reply cm_reply
  | Co_fs fs

fun conn_files_step :: "conn_env \<Rightarrow> conn_op \<Rightarrow> conn_files \<Rightarrow> conn_files" where
  "conn_files_step E (Co_action m) S = on_file_action E m S"
| "conn_files_step E (Co_response m) S = on_file_response m S"
| "conn_files_step E Co_tick S = conn_file_tick E S"
| "conn_files_step E (Co_reply r) S = on_cm_reply r S"
| "conn_files_step E (Co_fs F) S = S\<lparr>cf_fs := F\<rparr>"

text \<open>Numbers of files are \<open>i32\<close>, and the connection manager forwards no block as it is.\<close>

definition conn_op_ok :: "conn_op \<Rightarrow> bool" where
  "conn_op_ok op \<longleftrightarrow>
     (case op of
        Co_action (Fm_send i ty path file_num hidden) \<Rightarrow> is_i32 file_num
      | Co_reply (Cm_raw (Fm_block b)) \<Rightarrow> False
      | _ \<Rightarrow> True)"

definition agrees :: "confirm_union \<Rightarrow> bool" where
  "agrees u \<longleftrightarrow> (case u of Confirm_skip s \<Rightarrow> \<not> s | Confirm_offset n \<Rightarrow> True | Confirm_none \<Rightarrow> False)"

definition consent :: "conn_op list \<Rightarrow> int \<Rightarrow> int \<Rightarrow> bool" where
  "consent ops i file_num \<longleftrightarrow>
     (\<exists>r. Co_action (Fm_send_confirm r) \<in> set ops \<and> sc_id r = i \<and> sc_file_num r = file_num \<and> agrees (sc_union r))"

definition printed :: "conn_op list \<Rightarrow> int \<Rightarrow> bool" where
  "printed ops i \<longleftrightarrow> (\<exists>path file_num hidden. Co_action (Fm_send i Printer path file_num hidden) \<in> set ops)"

definition job_agreed :: "conn_op list \<Rightarrow> transfer_job \<Rightarrow> bool" where
  "job_agreed ops job \<longleftrightarrow>
     is_i32 (tj_file_num job) \<and>
     (case tj_type job of
        Generic \<Rightarrow> tj_overwrite_detection job \<and> (tj_confirmed job \<longrightarrow> consent ops (tj_id job) (tj_file_num job))
      | Printer \<Rightarrow> printed ops (tj_id job))"

definition block_agreed :: "conn_op list \<Rightarrow> file_msg \<Rightarrow> bool" where
  "block_agreed ops m \<longleftrightarrow>
     (\<forall>b. m = Fm_block b \<longrightarrow> consent ops (fb_id b) (fb_file_num b) \<or> printed ops (fb_id b))"

lemma block_agreed_others [simp]: "(\<And>b. m \<noteq> Fm_block b) \<Longrightarrow> block_agreed ops m"
  by (simp add: block_agreed_def)

lemma consent_mono: "consent ops i n \<Longrightarrow> set ops \<subseteq> set ops' \<Longrightarrow> consent ops' i n"
  unfolding consent_def by blast

lemma printed_mono: "printed ops i \<Longrightarrow> set ops \<subseteq> set ops' \<Longrightarrow> printed ops' i"
  unfolding printed_def by blast

lemma job_agreed_mono: "job_agreed ops job \<Longrightarrow> set ops \<subseteq> set ops' \<Longrightarrow> job_agreed ops' job"
  using consent_mono printed_mono by (auto simp: job_agreed_def split: job_type.splits)

lemma block_agreed_mono: "block_agreed ops m \<Longrightarrow> set ops \<subseteq> set ops' \<Longrightarrow> block_agreed ops' m"
  using consent_mono printed_mono by (auto simp: block_agreed_def split: file_msg.splits)

lemma file_num_sent: "is_i32 n \<Longrightarrow> as_i32 (int (as_usize n)) = n"
proof -
  assume n: "is_i32 n"
  have "int (as_usize n) = n mod 2 ^ 64" by (simp add: as_usize_def)
  moreover have "(n mod 2 ^ 64 + 2 ^ 31) mod 2 ^ 32 = (n + 2 ^ 31) mod (2 ^ 32 :: int)"
    by (rule mod_add_cong) (simp_all add: mod_mod_cancel)
  ultimately have "as_i32 (int (as_usize n)) = as_i32 n" by (simp add: as_i32_def)
  then show ?thesis using n by simp
qed

section \<open>One job\<close>

lemma agreed_advance: "job_agreed ops job \<Longrightarrow> job_agreed ops (advance_file (job\<lparr>tj_stream := st\<rparr>))"
  by (auto simp: job_agreed_def advance_file_def as_i32_range split: job_type.splits)

lemma agreed_fields [simp]:
  "job_agreed ops (job\<lparr>tj_stream := st\<rparr>) = job_agreed ops job"
  "job_agreed ops (job\<lparr>tj_waiting := w\<rparr>) = job_agreed ops job"
  "job_agreed ops (job\<lparr>tj_source := src\<rparr>) = job_agreed ops job"
  "job_agreed ops (job\<lparr>tj_finished_size := a\<rparr>) = job_agreed ops job"
  "job_agreed ops (job\<lparr>tj_transferred := a\<rparr>) = job_agreed ops job"
  "job_agreed ops (job\<lparr>tj_skipped := b\<rparr>) = job_agreed ops job"
  "job_agreed ops (job\<lparr>tj_is_remote := b\<rparr>) = job_agreed ops job"
  "job_agreed ops (job\<lparr>tj_conn_id := c\<rparr>) = job_agreed ops job"
  by (cases "tj_type job"; simp add: job_agreed_def)+

lemma agreed_unconfirmed: "job_agreed ops job \<Longrightarrow> job_agreed ops (job\<lparr>tj_confirmed := False\<rparr>)"
  by (auto simp: job_agreed_def split: job_type.splits)

lemma agreed_open:
  "job_agreed ops job \<Longrightarrow> open_data_stream F job = (r, job') \<Longrightarrow> job_agreed ops job'"
  using agreed_advance [of ops job "tj_stream job"] agreed_unconfirmed [of ops "job\<lparr>tj_stream := _\<rparr>"]
  by (auto simp: open_data_stream_def Let_def split: data_source.splits if_splits sum.splits)

lemma agreed_init:
  "job_agreed ops job \<Longrightarrow> init_data_stream F job = (r, job') \<Longrightarrow>
     job_agreed ops job' \<and> (\<forall>ms. r = Inr ms \<longrightarrow> list_all (block_agreed ops) ms)"
  using agreed_open [of ops job F]
  by (auto simp: init_data_stream_def send_current_digest_def
      split: prod.splits sum.splits if_splits)

lemma agreed_block:
  assumes "job_agreed ops job" and "\<not> (tj_type job = Generic \<and> tj_overwrite_detection job \<and> \<not> tj_confirmed job)"
  shows "block_agreed ops (Fm_block \<lparr>fb_id = tj_id job, fb_file_num = as_i32 (int (as_usize (tj_file_num job))),
           fb_data = data, fb_compressed = c\<rparr>)"
  using assms by (cases "tj_type job") (auto simp: block_agreed_def job_agreed_def file_num_sent)

lemma agreed_read:
  assumes a: "job_agreed ops job" and res: "job_read L F job = (r, job')"
  shows "job_agreed ops job'" and "r = Inr (Some b) \<Longrightarrow> block_agreed ops (Fm_block b)"
proof -
  have "job_agreed ops job' \<and> (\<forall>b. r = Inr (Some b) \<longrightarrow> block_agreed ops (Fm_block b))"
  proof (cases "tj_type job = Generic \<and> tj_overwrite_detection job \<and> \<not> tj_confirmed job")
    case True
    then show ?thesis using a res by (auto simp: job_read_def)
  next
    case False
    then show ?thesis
      using res a agreed_block [OF a False] agreed_advance [OF a]
      by (auto simp: job_read_def Let_def split: if_splits option.splits prod.splits sum.splits)
  qed
  then show "job_agreed ops job'" "r = Inr (Some b) \<Longrightarrow> block_agreed ops (Fm_block b)" by auto
qed

lemma agreed_confirm:
  assumes a: "job_agreed ops job" and id: "sc_id r = tj_id job" and r: "Co_action (Fm_send_confirm r) \<in> set ops"
    and res: "job_confirm r job F = Some (job', G)"
  shows "job_agreed ops job'"
proof -
  have conf: "job_agreed ops (set_file_confirmed True job)" if "tj_file_num job = sc_file_num r" "agrees (sc_union r)"
    using a id r that by (auto simp: job_agreed_def set_file_confirmed_def consent_def split: job_type.splits)
  have skip: "job_agreed ops (set_file_skipped job)"
    using a by (auto simp: job_agreed_def set_file_skipped_def set_file_confirmed_def as_i32_range Let_def
        split: job_type.splits)
  have offset: "job_agreed ops job2"
    if "set_stream_offset n k job1 F = Some (job2, H)" "job_agreed ops job1" for n k job1 job2 H
    using that by (auto simp: set_stream_offset_def Let_def
        split: data_source.splits if_splits option.splits prod.splits sum.splits)
  show ?thesis
    using res a conf skip offset
    by (auto simp: job_confirm_def agrees_def Let_def split: if_splits confirm_union.splits)
qed

section \<open>Lists of jobs\<close>

lemma agreed_put:
  "list_all (job_agreed ops) jobs \<Longrightarrow> job_agreed ops new \<Longrightarrow> list_all (job_agreed ops) (put_job i new jobs)"
  by (induction i new jobs rule: put_job.induct) auto

lemma agreed_remove: "list_all P jobs \<Longrightarrow> list_all P (snd (remove_job i jobs))"
  by (induction i jobs rule: remove_job.induct) (auto split: prod.splits)

lemma agreed_init_jobs:
  "list_all (job_agreed ops) jobs \<Longrightarrow> init_jobs F jobs = (jobs', ms) \<Longrightarrow>
     list_all (job_agreed ops) jobs' \<and> list_all (block_agreed ops) ms"
proof (induction jobs arbitrary: jobs' ms)
  case (Cons job jobs)
  obtain r job1 where j: "(if tj_is_last_job job then (Inr [], job) else init_data_stream F job) = (r, job1)"
    by fastforce
  obtain js ns where js: "init_jobs F jobs = (js, ns)" by fastforce
  have "job_agreed ops job1" "\<forall>xs. r = Inr xs \<longrightarrow> list_all (block_agreed ops) xs"
    using j agreed_init [of ops job F] Cons.prems(1) by (auto split: if_splits)
  then show ?case
    using Cons.prems j js Cons.IH [OF _ js] by (auto split: sum.splits)
qed simp

lemma agreed_read_one:
  "job_agreed ops job \<Longrightarrow> read_one L F job = (job', ms, fin) \<Longrightarrow>
     job_agreed ops job' \<and> list_all (block_agreed ops) ms"
  using agreed_read [of ops job L F]
  by (auto simp: read_one_def split: prod.splits sum.splits option.splits if_splits)

lemma agreed_read_first:
  "list_all (job_agreed ops) jobs \<Longrightarrow> read_first L F jobs = (jobs', ms, fin) \<Longrightarrow>
     list_all (job_agreed ops) jobs' \<and> list_all (block_agreed ops) ms"
proof (induction jobs arbitrary: jobs' ms fin)
  case (Cons job jobs)
  then show ?case
    using agreed_read_one [of ops job L F] by (auto split: prod.splits if_splits)
qed simp

lemma agreed_tick:
  assumes "list_all (job_agreed ops) jobs" and "handle_read_jobs L F jobs = (jobs', ms)"
  shows "list_all (job_agreed ops) jobs' \<and> list_all (block_agreed ops) ms"
proof -
  obtain js ns where js: "init_jobs F jobs = (js, ns)" by fastforce
  obtain ks xs fin where ks: "read_first L F js = (ks, xs, fin)" by (metis prod_cases3)
  have "list_all (job_agreed ops) ks \<and> list_all (block_agreed ops) (ns @ xs)"
    using agreed_init_jobs [OF assms(1) js] agreed_read_first [OF _ ks] by auto
  then show ?thesis
    using assms(2) js ks agreed_remove by (auto simp: handle_read_jobs_def split: option.splits)
qed

lemma find_job: "get_job i jobs = Some job \<Longrightarrow> job \<in> set jobs \<and> tj_id job = i"
  by (auto simp: get_job_def find_Some_iff)

lemma agreed_confirm_in:
  assumes "list_all (job_agreed ops) jobs" and "get_job (sc_id r) jobs = Some job"
    and "Co_action (Fm_send_confirm r) \<in> set ops" and "confirm_in r job jobs F = (jobs', G)"
  shows "list_all (job_agreed ops) jobs'"
proof -
  have job: "job_agreed ops job" "sc_id r = tj_id job"
    using find_job [OF assms(2)] assms(1) by (auto simp: list_all_iff)
  show ?thesis
  proof (cases "job_confirm r job F")
    case (Some x)
    then obtain job' H where "job_confirm r job F = Some (job', H)" by (cases x) auto
    then show ?thesis
      using assms agreed_put [OF assms(1)] agreed_confirm [OF job assms(3)] by (auto simp: confirm_in_def)
  qed (use assms in \<open>simp add: confirm_in_def\<close>)
qed

section \<open>The connection\<close>

definition conn_agreed :: "conn_op list \<Rightarrow> conn_files \<Rightarrow> bool" where
  "conn_agreed ops S \<longleftrightarrow>
     cf_cm_read_ids S = {} \<and> list_all (job_agreed ops) (cf_read_jobs S) \<and> list_all (block_agreed ops) (cf_sent S)"

lemma conn_agreed_mono:
  assumes "conn_agreed ops S" and "set ops \<subseteq> set ops'" shows "conn_agreed ops' S"
  using assms job_agreed_mono block_agreed_mono unfolding conn_agreed_def list_all_iff by blast

lemma agreed_send [simp]:
  "conn_agreed ops (cf_send m S) \<longleftrightarrow> conn_agreed ops S \<and> block_agreed ops m"
  "conn_agreed ops (send_fs r S) \<longleftrightarrow> conn_agreed ops S"
  "conn_agreed ops (S\<lparr>cf_transferred := t\<rparr>) \<longleftrightarrow> conn_agreed ops S"
  by (auto simp: conn_agreed_def cf_send_def send_fs_def)

lemma agreed_start:
  assumes "conn_agreed ops S" and "is_i32 n" and "ty = Generic \<longrightarrow> od" and "ty = Printer \<longrightarrow> printed ops i"
  shows "conn_agreed ops (create_and_start_read_job E i ty src n hidden od path chk S)"
proof -
  have "job_agreed ops job" if "new_read F i ty [] src n hidden False od = Inr job" for F job
    using that assms(2-4) by (cases ty)
      (auto simp: new_read_def job_new_def job_agreed_def Let_def split: data_source.splits if_splits sum.splits)
  then show ?thesis
    using assms(1)
    by (auto simp: create_and_start_read_job_def process_new_read_job_def conn_agreed_def cf_send_def
        Let_def split: sum.splits)
qed

lemma agreed_action:
  assumes a: "conn_agreed ops S" and E: "\<not> ne_via_cm E" "can_enable_overwrite_detection (ne_version E)"
    and op: "Co_action m \<in> set ops" "conn_op_ok (Co_action m)"
  shows "conn_agreed ops (on_file_action E m S)"
proof -
  have acts: "conn_agreed ops (file_action E m S)"
  proof (cases m)
    case (Fm_send i ty path n hidden)
    then have i: "is_i32 n" using op by (simp add: conn_op_ok_def)
    show ?thesis
    proof (cases ty)
      case Generic
      then show ?thesis using Fm_send E agreed_start [OF a i] by (simp add: on_send_def)
    next
      case Printer
      have "printed ops i" using op Fm_send Printer unfolding printed_def by blast
      moreover have "conn_agreed ops (S\<lparr>cf_printer_data := ps\<rparr>)" for ps using a by (simp add: conn_agreed_def)
      ultimately show ?thesis using Fm_send Printer a agreed_start [OF _ i]
        by (auto simp: on_send_def split: option.splits)
    qed
  next
    case (Fm_send_confirm r)
    then show ?thesis
      using a op agreed_confirm_in [of ops "cf_read_jobs S" r]
      by (auto simp: on_send_confirm_def conn_agreed_def send_fs_def split: option.splits prod.splits)
  next
    case (Fm_cancel i)
    then show ?thesis using a agreed_remove by (auto simp: conn_agreed_def send_fs_def Let_def)
  qed (use a E in \<open>auto simp: on_all_files_def split: sum.splits\<close>)
  moreover have "conn_agreed ops (S\<lparr>cf_delayed_read_dir := d\<rparr>)" for d using a by (simp add: conn_agreed_def)
  ultimately show ?thesis
    using a by (auto simp: on_file_action_def Let_def split: file_msg.splits)
qed

lemma agreed_step:
  assumes a: "conn_agreed ops S" and E: "\<not> ne_via_cm E" "can_enable_overwrite_detection (ne_version E)"
    and op: "op \<in> set ops" "conn_op_ok op"
  shows "conn_agreed ops (conn_files_step E op S)"
proof (cases op)
  case (Co_action m)
  then show ?thesis using agreed_action assms by simp
next
  case (Co_response m)
  then show ?thesis using a by (cases m) auto
next
  case Co_tick
  then show ?thesis
    using a agreed_tick [of ops "cf_read_jobs S" "ce_lib E" "cf_fs S"]
    by (auto simp: conn_file_tick_def conn_agreed_def split: prod.splits)
next
  case (Co_reply r)
  then show ?thesis
    using a op
    by (cases r) (auto simp: conn_op_ok_def handle_read_job_init_result_def handle_file_block_from_cm_def
        handle_file_read_done_def handle_file_read_error_def handle_file_digest_from_cm_def
        handle_all_files_result_def conn_agreed_def cf_send_def split: file_msg.splits sum.splits)
next
  case (Co_fs F)
  then show ?thesis using a by (simp add: conn_agreed_def)
qed

lemma agreed_run:
  assumes E: "\<not> ne_via_cm E" "can_enable_overwrite_detection (ne_version E)"
  shows "conn_agreed ops S \<Longrightarrow> set ops' \<subseteq> set ops \<Longrightarrow> list_all conn_op_ok ops' \<Longrightarrow>
    conn_agreed ops (fold (conn_files_step E) ops' S)"
  by (induction ops' arbitrary: S) (simp_all add: agreed_step [OF _ E])

text \<open>C4: On a system where the connection reads the files itself, and with a peer that can confirm files
  (version 1.1.10 or later), the controlled side sends no block of a file before the peer agreed to that
  very file: however the peer's messages, the answers of the connection manager, the ticks of the timer
  and changes of the file system follow each other, each block sent belongs to a file whose number and
  job an agreeing confirmation named, or to a job of the printer.\<close>

theorem no_block_without_consent:
  assumes "\<not> ne_via_cm E" and "can_enable_overwrite_detection (ne_version E)"
    and "cf_read_jobs S = []" and "cf_cm_read_ids S = {}" and "cf_sent S = []"
    and "list_all conn_op_ok ops"
    and "Fm_block b \<in> set (cf_sent (fold (conn_files_step E) ops S))"
  shows "consent ops (fb_id b) (fb_file_num b) \<or> printed ops (fb_id b)"
proof -
  have "conn_agreed ops (fold (conn_files_step E) ops S)"
    using assms by (intro agreed_run) (simp_all add: conn_agreed_def)
  then show ?thesis using assms(7) by (auto simp: conn_agreed_def list_all_iff block_agreed_def)
qed

definition demo_conn_env :: conn_env where
  "demo_conn_env =
     \<lparr>ce_lib = \<lparr>cl_compress = id, cl_decompress = id, cl_digest_json = (\<lambda>d. []), cl_parse_digest = (\<lambda>bs. None)\<rparr>,
      ce_home = ''/'', ce_max_files = 100, ne_via_cm = False, ne_one_way = [], ne_version = 1004002000\<rparr>"

definition demo_file :: fs where
  "demo_file =
     \<lparr>fs_nodes = [[''f''] \<mapsto> File 0], fs_files = (\<lambda>i. \<lparr>fd_bytes = [65], fd_mtime = (5, 0)\<rparr>), fs_next = 1,
      fs_cwd = [], fs_now = (9, 0), fs_refused = (\<lambda>a q. False), fs_listing = (\<lambda>m q. []),
      fs_other_mtime = (\<lambda>q. (0, 0))\<rparr>"

definition demo_conn :: conn_files where
  "demo_conn =
     \<lparr>cf_id = 1, cf_file_transfer = Some ([], False), cf_delayed_read_dir = None, cf_read_jobs = [],
      cf_cm_read_ids = {}, cf_printer_data = [], cf_transferred = False, cf_fs = demo_file,
      cf_sent = [], cf_to_cm = []\<rparr>"

lemma demo_resolve: "resolve demo_file follow ''/f'' = Inr [''f'']"
  by (simp add: resolve_def os_path_def is_absolute_def sep_def comp_of_def demo_file_def PATH_MAX_def)

lemma demo_node: "node_at demo_file [''f''] = Some (File 0)" "fs_refused demo_file a q = False"
    "fs_files demo_file i = \<lparr>fd_bytes = [65], fd_mtime = (5, 0)\<rparr>"
  by (simp_all add: demo_file_def node_at_def)

lemma demo_path: "valid_utf8 ''/f''" "file_name ''/f'' = Some ''f''"
  by (simp_all add: valid_utf8.simps utf8_step_def byte_at_def file_name_def trim_segments_def sep_def)

lemma demo_files: "get_recursive_files demo_file ''/f'' False = 
    Inr [\<lparr>fe_type = FT_FILE, fe_name = [], fe_hidden = False, fe_size = 1, fe_time = 5\<rparr>]"
  by (simp add: get_recursive_files_def read_dir_recursive.simps path_is_dir_def path_is_file_def stat_def
      demo_resolve demo_node node_mtime_def unix_secs_def)

lemma demo_open: "file_open demo_file ''/f'' =
    Inr \<lparr>fh_inode = 0, fh_path = [''f''], fh_pos = 0, fh_read = True, fh_write = False\<rparr>"
  by (simp add: file_open_def demo_resolve demo_node)

lemma demo_version: "can_enable_overwrite_detection (ne_version demo_conn_env)"
  unfolding can_enable_overwrite_detection_def demo_conn_env_def by code_simp

definition demo_job :: transfer_job where
  "demo_job = (job_new 3 Generic [] (File_path ''/f'') 0 False True True)\<lparr>tj_conn_id := 1,
     tj_files := [\<lparr>fe_type = FT_FILE, fe_name = [], fe_hidden = False, fe_size = 1, fe_time = 5\<rparr>],
     tj_total_size := 1\<rparr>"

definition demo_digest :: file_digest where
  "demo_digest = \<lparr>dg_id = 3, dg_file_num = 0, dg_modified = 5, dg_size = 1, dg_is_upload = False,
     dg_identical = False, dg_transferred = 0, dg_is_resume = False\<rparr>"

definition demo_block :: file_block where
  "demo_block = \<lparr>fb_id = 3, fb_file_num = 0, fb_data = [65], fb_compressed = False\<rparr>"

definition demo_confirm :: send_confirm where
  "demo_confirm = \<lparr>sc_id = 3, sc_file_num = 0, sc_union = Confirm_offset 0\<rparr>"

definition demo_started :: conn_files where
  "demo_started = demo_conn\<lparr>cf_read_jobs := [demo_job], cf_sent := [Fm_dir 3 ''/f'' (tj_files demo_job)],
     cf_transferred := True\<rparr>"

definition demo_opened :: transfer_job where
  "demo_opened = demo_job\<lparr>tj_stream := Some (File_stream
     \<lparr>fh_inode = 0, fh_path = [''f''], fh_pos = 0, fh_read = True, fh_write = False\<rparr>)\<rparr>"

lemma demo_sent_dir: "on_file_action demo_conn_env (Fm_send 3 Generic ''/f'' 0 False) demo_conn = demo_started"
  using demo_version
  by (simp add: on_file_action_def on_send_def create_and_start_read_job_def new_read_def demo_conn_def demo_files
      demo_path job_new_def process_new_read_job_def cf_send_def check_file_count_limit_def demo_job_def
      cm_env.truncate_def total_of_def demo_started_def) (simp add: demo_conn_env_def)

lemma demo_tick1: "handle_read_jobs L demo_file [demo_job] =
    ([demo_opened\<lparr>tj_waiting := True\<rparr>], [Fm_digest demo_digest])"
  by (simp add: handle_read_jobs_def init_data_stream_def open_data_stream_def demo_job_def job_new_def
      wants_confirmation_def send_current_digest_def get_current_digest_def demo_opened_def demo_digest_def
      read_one_def job_read_def job_completed_def as_usize_def job_join_def demo_open demo_node Let_def)

lemma demo_confirmed: "confirm_in demo_confirm (demo_opened\<lparr>tj_waiting := True\<rparr>) [demo_opened\<lparr>tj_waiting := True\<rparr>] F =
    ([demo_opened\<lparr>tj_waiting := True, tj_confirmed := True\<rparr>], F)"
  by (simp add: confirm_in_def job_confirm_def demo_confirm_def demo_opened_def demo_job_def job_new_def
      set_file_confirmed_def Let_def)

lemma demo_tick2: "snd (handle_read_jobs (ce_lib demo_conn_env) demo_file
    [demo_opened\<lparr>tj_waiting := True, tj_confirmed := True\<rparr>]) = [Fm_block demo_block]"
  by (simp add: handle_read_jobs_def init_data_stream_def open_data_stream_def demo_opened_def demo_job_def
      job_new_def wants_confirmation_def read_one_def job_read_def stream_read_def file_read_def demo_node
      as_usize_def BUF_SIZE_def demo_conn_env_def demo_block_def as_i32_def get_file_name_def demo_path
      utf8_or_empty_def Let_def)

lemma demo_sends: "Fm_block demo_block \<in> set (cf_sent (fold (conn_files_step demo_conn_env)
    [Co_action (Fm_send 3 Generic ''/f'' 0 False), Co_tick, Co_action (Fm_send_confirm demo_confirm), Co_tick]
    demo_conn))"
proof -
  define asked agreed where "asked = demo_opened\<lparr>tj_waiting := True\<rparr>"
    and "agreed = demo_opened\<lparr>tj_waiting := True, tj_confirmed := True\<rparr>"
  define S where "S = conn_file_tick demo_conn_env demo_started"
  have S: "cf_read_jobs S = [asked]" "cf_fs S = demo_file" "cf_file_transfer S \<noteq> None" "cf_delayed_read_dir S = None"
    by (simp_all add: S_def conn_file_tick_def demo_started_def demo_conn_def demo_tick1 asked_def)
  have job: "get_job 3 [asked] = Some asked"
    by (simp add: get_job_def asked_def demo_opened_def demo_job_def job_new_def)
  have "sc_id demo_confirm = 3" by (simp add: demo_confirm_def)
  then have conf: "on_file_action demo_conn_env (Fm_send_confirm demo_confirm) S =
      S\<lparr>cf_read_jobs := [agreed], cf_fs := demo_file\<rparr>"
    using S job demo_confirmed by (auto simp: on_file_action_def on_send_confirm_def asked_def agreed_def)
  obtain js where "handle_read_jobs (ce_lib demo_conn_env) demo_file [agreed] = (js, [Fm_block demo_block])"
    using demo_tick2 unfolding agreed_def by (metis prod.collapse)
  then have "Fm_block demo_block \<in> set (cf_sent (conn_file_tick demo_conn_env
      (S\<lparr>cf_read_jobs := [agreed], cf_fs := demo_file\<rparr>)))"
    by (simp add: conn_file_tick_def)
  then show ?thesis by (simp add: demo_sent_dir conf flip: S_def)
qed

theorem no_block_without_consent_witness:
  "consent [Co_action (Fm_send 3 Generic ''/f'' 0 False), Co_tick, Co_action (Fm_send_confirm demo_confirm), Co_tick]
     (fb_id demo_block) (fb_file_num demo_block) \<or>
   printed [Co_action (Fm_send 3 Generic ''/f'' 0 False), Co_tick, Co_action (Fm_send_confirm demo_confirm), Co_tick]
     (fb_id demo_block)"
  by (rule no_block_without_consent [OF _ demo_version _ _ _ _ demo_sends])
    (simp_all add: demo_conn_env_def demo_conn_def conn_op_ok_def is_i32_def)

end
