(* ===== verification/TransferDelivery.thy ===== *)
theory TransferDelivery
  imports TransferSafety TransferConsent
begin

text \<open>
  A whole download: the connection of the controlled side sends one file, the client writes it, and the
  rounds of their messages end with the file in its place.
\<close>

section \<open>The place of the file\<close>

text \<open>The directory \<open>dir\<close> leads to \<open>r\<close>, \<open>l\<close> is a plain name, and the system refuses nothing.\<close>

definition same_place :: "string \<Rightarrow> string list \<Rightarrow> string \<Rightarrow> fs \<Rightarrow> bool" where
  "same_place dir r l F \<longleftrightarrow>
     destination dir r F \<and> l \<noteq> [] \<and> l \<noteq> ''.'' \<and> l \<noteq> ''..'' \<and> sep \<notin> set l \<and>
     CHR 0x00 \<notin> set (path_join dir l) \<and> length (path_join dir l) + 9 < PATH_MAX \<and> valid_utf8 (path_join dir l) \<and>
     (\<forall>a q. \<not> fs_refused F a q)"

text \<open>Neither the file nor its unfinished version exist.\<close>

definition free_place :: "string \<Rightarrow> string list \<Rightarrow> string \<Rightarrow> fs \<Rightarrow> bool" where
  "free_place dir r l F \<longleftrightarrow>
     same_place dir r l F \<and> fs_nodes F (r @ [l]) = None \<and>
     fs_nodes F (r @ [l @ DOWNLOAD]) = None \<and> fs_nodes F (r @ [l @ DIGEST]) = None"

lemma suffixes [simp]: "sep \<notin> set DOWNLOAD" "sep \<notin> set DIGEST" "length DOWNLOAD = 9" "length DIGEST = 7"
    "CHR 0x00 \<notin> set DOWNLOAD" "CHR 0x00 \<notin> set DIGEST" "DOWNLOAD \<noteq> []" "DIGEST \<noteq> []" "DOWNLOAD \<noteq> DIGEST"
  by (simp_all add: DOWNLOAD_def DIGEST_def sep_def)

lemma plain_name:
  assumes "l \<noteq> []" "l \<noteq> ''.''" "l \<noteq> ''..''" "sep \<notin> set l"
  shows "good_name l" and "normals l = [l]" and "str_split sep l = [l]"
  using assms no_sep_relative [of l] by (auto simp: good_name_def normals_def str_split_absent)

lemma place_resolve:
  assumes p: "same_place dir r l F" and suf: "suf \<in> {[], DOWNLOAD, DIGEST}"
    and nl: "\<And>t. fs_nodes F (r @ [l @ suf]) \<noteq> Some (Link t)"
  shows "resolve F follow (path_join dir l @ suf) = Inr (r @ [l @ suf])"
proof -
  have l: "l \<noteq> []" "l \<noteq> ''.''" "l \<noteq> ''..''" "sep \<notin> set l" and d: "leads_to F dir r" "dir \<noteq> []"
    using p by (auto simp: same_place_def destination_def leads_to_def)
  have "length DOWNLOAD \<noteq> 0" "length DIGEST \<noteq> 0" by simp_all
  have ls: "l @ suf \<noteq> []" "l @ suf \<noteq> ''.''" "l @ suf \<noteq> ''..''" "sep \<notin> set (l @ suf)"
    using l suf by (auto simp: DOWNLOAD_def DIGEST_def sep_def append_eq_Cons_conv)
  note n = plain_name [OF ls]
  have eq: "path_join dir l @ suf = path_join dir (l @ suf)"
    by (rule path_join_suffix) (rule plain_name(1) [OF l])
  have abs: "\<not> is_absolute (l @ suf)" using n(1) by (simp add: good_name_def)
  have "resolve F follow (path_join dir (l @ suf)) = Inr (r @ [] @ [l @ suf])"
  proof (rule resolve_exact [OF d(1)])
    show "steps (path_join dir (l @ suf)) = steps dir @ map Normal ([] @ [l @ suf])"
      using steps_join [OF d(2) abs] steps_good [OF n(1)] n(2) by simp
    show "List.last (os_path (path_join dir (l @ suf))) = Normal (l @ suf)"
      using last_join [OF d(2) abs] n(3) ls by (simp add: last_os_path comp_of_def)
    show "CHR 0x00 \<notin> set (path_join dir (l @ suf))" "length (path_join dir (l @ suf)) < PATH_MAX"
      using p suf by (auto simp: same_place_def simp flip: eq)
  qed (use nl in auto)
  then show ?thesis by (simp add: eq)
qed

lemma empty_below:
  assumes t: "tree_ok F" and q: "fs_nodes F q \<noteq> Some Dir" "q \<noteq> []" and ks: "ks \<noteq> []"
  shows "fs_nodes F (q @ ks) = None"
  using ks
proof (induction ks rule: rev_induct)
  case (snoc k ks)
  have "\<not> is_dir F (q @ ks)" using snoc.IH q by (cases "ks = []") (auto simp: is_dir_def)
  then show ?case using tree_okD(1) [OF t, of "q @ ks" k] by (cases "fs_nodes F ((q @ ks) @ [k])") simp_all
qed simp

lemma place_node [simp]: "node_at F (r @ [x]) = fs_nodes F (r @ [x])"
  by (simp add: node_at_def)

section \<open>Receiving\<close>

text \<open>The unfinished file is the inode \<open>j\<close> and holds \<open>bs\<close>; the digest is beside it.\<close>

definition receiving :: "string \<Rightarrow> string list \<Rightarrow> string \<Rightarrow> fs \<Rightarrow> nat \<Rightarrow> u8 list \<Rightarrow> fs \<Rightarrow> bool" where
  "receiving dir r l F0 j bs F \<longleftrightarrow>
     same_place dir r l F \<and> fd_bytes (fs_files F j) = bs \<and>
     (\<exists>k. fs_nodes F = (fs_nodes F0)(r @ [l @ DOWNLOAD] \<mapsto> File j, r @ [l @ DIGEST] \<mapsto> File k))"

lemma free_same: "free_place dir r l F \<Longrightarrow> same_place dir r l F"
  by (simp add: free_place_def same_place_def)

lemma free_resolve:
  assumes "free_place dir r l F" and "suf \<in> {[], DOWNLOAD, DIGEST}"
  shows "resolve F follow (path_join dir l @ suf) = Inr (r @ [l @ suf])" and "fs_nodes F (r @ [l @ suf]) = None"
proof -
  show "fs_nodes F (r @ [l @ suf]) = None" using assms by (auto simp: free_place_def)
  then show "resolve F follow (path_join dir l @ suf) = Inr (r @ [l @ suf])"
    by (intro place_resolve [OF free_same [OF assms(1)] assms(2)]) simp
qed

lemma free_missing:
  assumes "free_place dir r l F" and "suf \<in> {[], DOWNLOAD, DIGEST}"
  shows "stat F follow (path_join dir l @ suf) = Inl Not_found"
  using free_resolve [OF assms] assms(1) by (auto simp: stat_def free_place_def same_place_def)

lemma target_checked:
  assumes "free_place dir r l F"
  shows "join_validated_path F (path_join dir l) [] = Inr (path_join dir l)"
  by (simp add: join_validated_path_def validate_file_name_no_traversal_def is_absolute_def
      validate_no_symlink_components_def job_join_def sep_def)

lemma free_parent:
  assumes "free_place dir r l F" and "parent (path_join dir l) = Some pp"
  shows "snd (create_dir_all pp F) = F"
proof -
  have f: "leads_to F dir r" "dir \<noteq> []" "tree_ok F" "good_name l" "normals l = [l]"
    using assms(1) plain_name [of l] by (auto simp: free_place_def same_place_def destination_def fs_wf_def leads_to_def)
  have "steps pp = steps dir"
    using steps_parent [OF assms(2)] steps_join [OF f(2)] steps_good [OF f(4)] f(4,5) by (simp add: good_name_def)
  moreover obtain m where "walk F MAXSYMLINKS (fs_cwd F) (steps dir) = Inr (m, r)"
    using leads_to_walk [OF f(1)] .
  ultimately show ?thesis using create_dir_all_exists [of F pp m r] f(3) by simp
qed

lemma free_get_string: "free_place dir r l F \<Longrightarrow> get_string (path_join dir l) = path_join dir l"
  by (simp add: get_string_def utf8_or_empty_def free_place_def same_place_def)


text \<open>Changes keep the place.\<close>

lemma place_stays:
  "same_place dir r l F \<Longrightarrow> stays dir r F F' \<Longrightarrow> fs_refused F' = fs_refused F \<Longrightarrow> same_place dir r l F'"
  by (simp add: same_place_def stays_def)

lemma place_name:
  assumes "same_place dir r l F" and "\<And>t. fs_nodes F (r @ [l]) \<noteq> Some (Link t)"
  shows "destination dir r F" and "good_name l" and "normals l = [l]" and "no_links F r (normals l)"
proof -
  show "destination dir r F" "good_name l" "normals l = [l]"
    using assms(1) plain_name by (auto simp: same_place_def)
  then show "no_links F r (normals l)" using assms(2) by (auto simp: no_links_def le_Suc_eq)
qed

lemma create_new:
  assumes p: "same_place dir r l F" and suf: "suf = DOWNLOAD \<or> suf = DIGEST"
    and new: "fs_nodes F (r @ [l @ suf]) = None" and nl: "\<And>t. fs_nodes F (r @ [l]) \<noteq> Some (Link t)"
  defines "F' \<equiv> put_node (r @ [l @ suf]) (Some (File (fs_next F)))
    (put_file (fs_next F) \<lparr>fd_bytes = [], fd_mtime = fs_now F\<rparr> (F\<lparr>fs_next := fs_next F + 1\<rparr>))"
  shows "file_create True F (path_join dir l @ suf) =
      (Inr \<lparr>fh_inode = fs_next F, fh_path = r @ [l @ suf], fh_pos = 0, fh_read = False, fh_write = True\<rparr>, F')"
    and "same_place dir r l F'"
proof -
  have res: "resolve F True (path_join dir l @ suf) = Inr (r @ [l @ suf])"
    using suf new by (intro place_resolve [OF p]) auto
  then show *: "file_create True F (path_join dir l @ suf) =
      (Inr \<lparr>fh_inode = fs_next F, fh_path = r @ [l @ suf], fh_pos = 0, fh_read = False, fh_write = True\<rparr>, F')"
    using p new by (simp add: file_create_def F'_def same_place_def)
  have "stays dir r F F'"
    using stays_create(1) [OF place_name(1,2,4) [OF p nl] suf, of True] by (simp add: *)
  then show "same_place dir r l F'"
    by (rule place_stays [OF p]) (simp add: F'_def put_node_def put_file_def)
qed

lemma place_write:
  assumes "same_place dir r l F" shows "same_place dir r l (snd (snd (file_write bs h F)))"
  using assms destination_file_write [of dir r F bs h]
  by (simp add: same_place_def file_write_def put_file_def Let_def)

lemma receive_open:
  assumes f: "free_place dir r l F" and job: "tj_type job = Generic" "fe_name entry = []"
  obtains h F' where "open_target L job (path_join dir l) entry F = (Inr h, F')"
    and "receiving dir r l F (fh_inode h) [] F'" and "fh_pos h = 0" and "fh_write h"
proof -
  let ?p = "path_join dir l" and ?json = "cl_digest_json L (tj_digest job)"
  have p: "same_place dir r l F" using f by (rule free_same)
  have nodes: "fs_nodes F (r @ [l]) = None" "fs_nodes F (r @ [l @ DOWNLOAD]) = None" "fs_nodes F (r @ [l @ DIGEST]) = None"
    using f by (auto simp: free_place_def)
  have made: "(case parent ?p of None \<Rightarrow> F | Some pp \<Rightarrow> snd (create_dir_all pp F)) = F"
    using free_parent [OF f] by (auto split: option.splits)
  have no_digest: "\<not> path_exists F (?p @ DIGEST)"
    using free_missing [OF f, of DIGEST True] by (simp add: path_exists_def)
  define h where "h = \<lparr>fh_inode = fs_next F, fh_path = r @ [l @ DOWNLOAD], fh_pos = 0, fh_read = False, fh_write = True\<rparr>"
  define F1 where "F1 = put_node (r @ [l @ DOWNLOAD]) (Some (File (fs_next F)))
    (put_file (fs_next F) \<lparr>fd_bytes = [], fd_mtime = fs_now F\<rparr> (F\<lparr>fs_next := fs_next F + 1\<rparr>))"
  have c1: "file_create True F (?p @ DOWNLOAD) = (Inr h, F1)" "same_place dir r l F1"
    unfolding F1_def h_def by (rule create_new [OF p]; use nodes in simp)+
  define F2 where "F2 = put_node (r @ [l @ DIGEST]) (Some (File (fs_next F1)))
    (put_file (fs_next F1) \<lparr>fd_bytes = [], fd_mtime = fs_now F1\<rparr> (F1\<lparr>fs_next := fs_next F1 + 1\<rparr>))"
  define g where "g = \<lparr>fh_inode = fs_next F1, fh_path = r @ [l @ DIGEST], fh_pos = 0, fh_read = False, fh_write = True\<rparr>"
  have c2: "file_create True F1 (?p @ DIGEST) = (Inr g, F2)" "same_place dir r l F2"
  proof -
    have "fs_nodes F1 (r @ [l @ DIGEST]) = None" "fs_nodes F1 (r @ [l]) = None"
      using nodes suffixes(9) by (simp_all add: F1_def put_node_def put_file_def not_sym)
    then show "file_create True F1 (?p @ DIGEST) = (Inr g, F2)" "same_place dir r l F2"
      using create_new [OF c1(2), of DIGEST] by (simp_all add: F2_def g_def)
  qed
  define F3 where "F3 = snd (snd (file_write ?json g F2))"
  have w: "snd (write_file (?p @ DIGEST) ?json F1) = F3"
    by (simp add: write_file_def c2 F3_def split: prod.splits)
  have "open_target L job ?p entry F = (Inr h, F3)"
    using job made no_digest target_checked [OF f] free_get_string [OF f] c1(1) w
    by (simp add: open_target_def Let_def split: sum.splits)
  moreover have "receiving dir r l F (fh_inode h) [] F3"
  proof -
    have "same_place dir r l F3" unfolding F3_def by (rule place_write [OF c2(2)])
    moreover have "fs_nodes F3 = (fs_nodes F)(r @ [l @ DOWNLOAD] \<mapsto> File (fs_next F), r @ [l @ DIGEST] \<mapsto> File (fs_next F1))"
      by (simp add: F3_def F2_def F1_def put_node_def put_file_def)
    moreover have "fd_bytes (fs_files F3 (fs_next F)) = []"
      by (simp add: F3_def file_write_def g_def F2_def F1_def put_node_def put_file_def Let_def)
    ultimately show ?thesis by (auto simp: receiving_def h_def)
  qed
  ultimately show ?thesis using that [of h F3] by (simp add: h_def)
qed

text \<open>Bytes written at the end of what is there.\<close>

lemma overwrite_end: "overwrite (length old) new old = old @ new"
  by (simp add: overwrite_def)

lemma receive_bytes:
  assumes rc: "receiving dir r l F0 (fh_inode h) old F" and h: "fh_pos h = length old" "fh_write h"
    and st: "tj_stream job = Some (File_stream h)"
    and bs: "bs = (if fb_compressed b then cl_decompress L (fb_data b) else fb_data b)"
  obtains job' F' h' where "write_data L b job F = (Inr (), job', F')"
    and "job' = job\<lparr>tj_stream := Some (File_stream h'), tj_finished_size := tj_finished_size job',
      tj_transferred := tj_transferred job'\<rparr>"
    and "receiving dir r l F0 (fh_inode h) (old @ bs) F'"
    and "fh_inode h' = fh_inode h" and "fh_pos h' = length (old @ bs)" and "fh_write h'"
proof -
  obtain u h' F' where w: "file_write bs h F = (u, h', F')" by (metis prod_cases3)
  have p: "same_place dir r l F" "\<not> fs_refused F Access_write (fh_path h)"
    using rc by (auto simp: receiving_def same_place_def)
  have "same_place dir r l F'" using place_write [OF p(1), of bs h] w by simp
  moreover have w': "u = Inr ()" "fh_inode h' = fh_inode h" "fh_pos h' = length (old @ bs)" "fh_write h'"
      "fd_bytes (fs_files F' (fh_inode h)) = old @ bs" "fs_nodes F' = fs_nodes F"
    using w p(2) h rc by (auto simp: file_write_def put_file_def overwrite_end receiving_def Let_def split: if_splits)
  ultimately have rc': "receiving dir r l F0 (fh_inode h) (old @ bs) F'"
    using rc by (auto simp: receiving_def)
  show ?thesis
    by (rule that [OF _ _ rc' w'(2-4)])
      (use st w w'(1) bs in \<open>auto simp: write_data_def stream_write_def Let_def\<close>)
qed

text \<open>Nothing to finish before the first block.\<close>

lemma current_target:
  assumes "free_place dir r l F0" and "tj_type job = Generic" and "tj_source job = File_path (path_join dir l)"
    and "tj_files job = [e]" and "fe_name e = []" and "tj_file_num job = 0"
  shows "current_entry F job = Some (path_join dir l, e)"
  using assms by (simp add: current_entry_def resolve_entry_path_def join_validated_path_def as_usize_def
      validate_file_name_no_traversal_def is_absolute_def validate_no_symlink_components_def job_join_def)

lemma free_modify_time:
  assumes f: "free_place dir r l F" and cur: "current_entry F job = Some (path_join dir l, e)"
  shows "modify_time job F = F"
proof -
  have r: "resolve F follow (path_join dir l) = Inr (r @ [l])" "fs_nodes F (r @ [l]) = None" for follow
    using free_resolve [OF f, of "[]"] by simp_all
  have d: "resolve F follow (path_join dir l @ suf) = Inr (r @ [l @ suf])" "fs_nodes F (r @ [l @ suf]) = None"
    if "suf \<in> {DOWNLOAD, DIGEST}" for suf follow
    using free_resolve [OF f, of suf] that by auto
  have "\<not> fs_refused F a q" for a q using f by (simp add: free_place_def same_place_def)
  moreover have "snd (remove_file_at (path_join dir l @ DIGEST) F) = F"
    by (simp add: remove_file_at_def d)
  moreover have "snd (rename_path (path_join dir l @ DOWNLOAD) (path_join dir l) F) = F"
    by (simp add: rename_path_def d split: sum.splits)
  ultimately show ?thesis
    by (simp add: modify_time_def cur free_get_string [OF f] set_mtime_def r Let_def)
qed

text \<open>The end: the file gets its name and its time, and the digest goes.\<close>

lemma strip_download: "strip_seps (p @ DOWNLOAD) = p @ DOWNLOAD"
  by (simp add: strip_seps_def DOWNLOAD_def sep_def)

lemma receive_end:
  assumes f: "free_place dir r l F0" and rc: "receiving dir r l F0 j bs F"
    and cur: "current_entry F job = Some (path_join dir l, e)"
  shows "fs_nodes (modify_time job F) = (fs_nodes F0)(r @ [l] \<mapsto> File j)"
    and "fs_files (modify_time job F) j = \<lparr>fd_bytes = bs, fd_mtime = (as_i64 (int (fe_time e)), 0)\<rparr>"
proof -
  let ?p = "path_join dir l" and ?d = "r @ [l @ DOWNLOAD]" and ?g = "r @ [l @ DIGEST]"
  have nodes0: "fs_nodes F0 (r @ [l]) = None" "fs_nodes F0 ?d = None" "fs_nodes F0 ?g = None"
    and tree0: "tree_ok F0"
    using f by (auto simp: free_place_def same_place_def destination_def fs_wf_def)
  obtain k where nodes: "fs_nodes F = (fs_nodes F0)(?d \<mapsto> File j, ?g \<mapsto> File k)"
    and p: "same_place dir r l F" and bytes: "fd_bytes (fs_files F j) = bs"
    using rc by (auto simp: receiving_def)
  have ne: "l @ DOWNLOAD \<noteq> l @ DIGEST" using suffixes(9) by simp
  have nl: "fs_nodes F (r @ [l]) \<noteq> Some (Link t)" for t using nodes nodes0 by simp
  note pn = place_name [OF p nl]
  have gs: "get_string ?p = ?p" using free_get_string [OF f] .
  have res: "resolve F follow (?p @ DIGEST) = Inr ?g" for follow
    by (rule place_resolve [OF p]) (use nodes in auto)
  have removed: "remove_file_at (?p @ DIGEST) F = (Inr (), put_node ?g None F)"
    using p by (simp add: remove_file_at_def res nodes same_place_def)
  define F1 where "F1 = put_node ?g None F"
  have s1: "stays dir r F F1"
    using stays_remove(1) [OF pn(1,2,4), of DIGEST] by (simp add: removed F1_def)
  have p1: "same_place dir r l F1" by (rule place_stays [OF p s1]) (simp add: F1_def put_node_def)
  have nodes1: "fs_nodes F1 = (fs_nodes F0)(?d \<mapsto> File j)"
    using nodes nodes0 ne by (auto simp: F1_def put_node_def)
  have nl1: "fs_nodes F1 (r @ [l]) \<noteq> Some (Link t)" for t using nodes1 nodes0 by simp
  note pn1 = place_name [OF p1 nl1]
  have resd: "resolve F1 follow (?p @ DOWNLOAD) = Inr ?d" for follow
    by (rule place_resolve [OF p1]) (use nodes1 in auto)
  have resp: "resolve F1 follow ?p = Inr (r @ [l])" for follow
    using place_resolve [OF p1, of "[]"] nl1 by simp
  define F2 where "F2 = F1\<lparr>fs_nodes := move_tree ?d (r @ [l]) (fs_nodes F1)\<rparr>"
  have st: "stat F1 False (strip_seps (?p @ DOWNLOAD)) = Inr (File j)"
    using p1 by (simp add: strip_download stat_def resd nodes1 same_place_def)
  have renamed: "rename_path (?p @ DOWNLOAD) ?p F1 = (Inr (), F2)"
    using p1 ne nodes0 by (simp add: rename_path_def resd resp st nodes1 same_place_def F2_def prefix_def)
  have below0: "fs_nodes F0 (q @ [x] @ ks) = None" if "fs_nodes F0 (q @ [x]) = None" "ks \<noteq> []" for q x ks
    using empty_below [OF tree0, of "q @ [x]" ks] that by simp
  have nodes2: "fs_nodes F2 = (fs_nodes F0)(r @ [l] \<mapsto> File j)"
  proof
    fix q
    show "fs_nodes F2 q = ((fs_nodes F0)(r @ [l] \<mapsto> File j)) q"
    proof (cases "prefix (r @ [l]) q")
      case True
      then obtain ks where q: "q = r @ [l] @ ks" by (auto simp: prefix_def)
      have "fs_nodes F2 q = fs_nodes F1 (?d @ ks)" by (simp add: F2_def move_tree_def q)
      then show ?thesis
        using below0 [OF nodes0(2), of ks] below0 [OF nodes0(1), of ks] nodes1 q by (cases "ks = []") auto
    next
      case False
      have "fs_nodes F0 (r @ (l @ DOWNLOAD) # zs) = None" for zs
        using nodes0(2) below0 [OF nodes0(2), of zs] by (cases "zs = []") auto
      moreover have "q \<noteq> r @ [l]" using False by auto
      ultimately show ?thesis
        using False nodes1 by (auto simp: F2_def move_tree_def prefix_def)
    qed
  qed
  define t where "t = (as_i64 (int (fe_time e)), 0 :: nat)"
  have "stays dir r F1 (snd (set_mtime ?p t F2))"
    using stays_finish [OF pn1(1,2,4), of t] renamed by simp
  then have "destination dir r (snd (set_mtime ?p t F2))" by (simp add: stays_def)
  moreover have "fs_nodes (snd (set_mtime ?p t F2)) = fs_nodes F2" "fs_cwd (snd (set_mtime ?p t F2)) = fs_cwd F2"
    by (auto simp: set_mtime_def put_file_def split: sum.splits option.splits node.splits)
  ultimately have "destination dir r F2" using destination_cong by blast
  then have p2: "same_place dir r l F2" using p1 by (simp add: same_place_def F2_def)
  have "resolve F2 True ?p = Inr (r @ [l])"
    using place_resolve [OF p2, of "[]"] nodes2 by simp
  then have timed: "set_mtime ?p t F2 = (Inr (), put_file j ((fs_files F2 j)\<lparr>fd_mtime := t\<rparr>) F2)"
    using p2 nodes2 by (simp add: set_mtime_def same_place_def)
  have eq: "modify_time job F = put_file j ((fs_files F2 j)\<lparr>fd_mtime := t\<rparr>) F2"
    using cur gs removed renamed timed by (simp add: modify_time_def F1_def t_def Let_def)
  show "fs_nodes (modify_time job F) = (fs_nodes F0)(r @ [l] \<mapsto> File j)"
    using nodes2 by (simp add: eq put_file_def)
  have "fs_files F2 j = fs_files F j" by (simp add: F2_def F1_def put_node_def)
  then show "fs_files (modify_time job F) j = \<lparr>fd_bytes = bs, fd_mtime = (as_i64 (int (fe_time e)), 0)\<rparr>"
    using bytes by (simp add: eq put_file_def t_def)
qed

section \<open>Sending\<close>

definition sending :: "int \<Rightarrow> string \<Rightarrow> string list \<Rightarrow> nat \<Rightarrow> nat \<Rightarrow> transfer_job \<Rightarrow> bool" where
  "sending i path q ino pos job \<longleftrightarrow>
     tj_id job = i \<and> tj_type job = Generic \<and> tj_source job = File_path path \<and>
     map fe_name (tj_files job) = [[]] \<and> tj_file_num job = 0 \<and> tj_overwrite_detection job \<and> tj_confirmed job \<and>
     \<not> tj_skipped job \<and> \<not> tj_is_last_job job \<and>
     tj_stream job = Some (File_stream \<lparr>fh_inode = ino, fh_path = q, fh_pos = pos, fh_read = True, fh_write = False\<rparr>)"

definition all_sent :: "int \<Rightarrow> transfer_job \<Rightarrow> bool" where
  "all_sent i job \<longleftrightarrow>
     tj_id job = i \<and> tj_type job = Generic \<and> (\<exists>path. tj_source job = File_path path) \<and>
     map fe_name (tj_files job) = [[]] \<and> tj_file_num job = 1 \<and> tj_overwrite_detection job \<and> \<not> tj_confirmed job \<and>
     \<not> tj_waiting job \<and> \<not> tj_skipped job \<and> \<not> tj_is_last_job job"

definition readable :: "fs \<Rightarrow> string list \<Rightarrow> nat \<Rightarrow> u8 list \<Rightarrow> bool" where
  "readable F q ino bytes \<longleftrightarrow> (\<forall>a q. \<not> fs_refused F a q) \<and> fd_bytes (fs_files F ino) = bytes"

definition decoded :: "codec_lib \<Rightarrow> file_block \<Rightarrow> u8 list" where
  "decoded L b = (if fb_compressed b then cl_decompress L (fb_data b) else fb_data b)"

lemma init_sending:
  "sending i path q ino pos job \<Longrightarrow> init_jobs F [job] = ([job], [])"
  by (auto simp: sending_def init_data_stream_def open_data_stream_def wants_confirmation_def as_usize_def
      Let_def split: list.splits dest!: arg_cong [where f = length])

lemma one_name: "map fe_name fs = [[]] \<longleftrightarrow> (\<exists>e. fs = [e] \<and> fe_name e = [])"
  by (cases fs) auto

lemma send_block:
  assumes s: "sending i path q ino pos job" and F: "readable F q ino bytes" and L: "\<And>x. cl_decompress L' (cl_compress L x) = x"
    and pos: "pos < length bytes"
  obtains job' b where "handle_read_jobs L F [job] = ([job'], [Fm_block b])"
    and "fb_id b = i" and "fb_file_num b = 0" and "decoded L' b = take BUF_SIZE (drop pos bytes)"
    and "sending i path q ino (pos + length (decoded L' b)) job'"
proof -
  have buf: "take BUF_SIZE (drop pos bytes) \<noteq> []" using pos by (simp add: BUF_SIZE_def)
  obtain r job' where rd: "job_read L F job = (r, job')" by fastforce
  have "case r of Inr (Some b) \<Rightarrow> fb_id b = i \<and> fb_file_num b = 0 \<and> decoded L' b = take BUF_SIZE (drop pos bytes) \<and>
      sending i path q ino (pos + length (decoded L' b)) job' | _ \<Rightarrow> False"
    using rd s F buf L
    by (auto simp: sending_def readable_def job_read_def stream_read_def file_read_def as_usize_def one_name
        decoded_def as_i32_def Let_def)
  then obtain b where b: "r = Inr (Some b)" "fb_id b = i" "fb_file_num b = 0"
      "decoded L' b = take BUF_SIZE (drop pos bytes)" "sending i path q ino (pos + length (decoded L' b)) job'"
    by (auto split: sum.splits option.splits)
  have "\<not> tj_is_last_job job" using s by (simp add: sending_def)
  then have "handle_read_jobs L F [job] = ([job'], [Fm_block b])"
    using rd b init_sending [OF s, of F] by (simp add: handle_read_jobs_def read_one_def)
  then show ?thesis using that b by blast
qed

lemma send_last:
  assumes s: "sending i path q ino pos job" and F: "readable F q ino bytes" and pos: "length bytes \<le> pos"
  obtains job' b where "handle_read_jobs L F [job] = ([job'], [Fm_block b])"
    and "fb_id b = i" and "fb_file_num b = 0" and "decoded L' b = []" and "all_sent i job'"
proof -
  obtain r job' where rd: "job_read L F job = (r, job')" by fastforce
  have "case r of Inr (Some b) \<Rightarrow> fb_id b = i \<and> fb_file_num b = 0 \<and> decoded L' b = [] \<and> all_sent i job' | _ \<Rightarrow> False"
    using rd s F pos
    by (auto simp: sending_def readable_def job_read_def stream_read_def file_read_def as_usize_def one_name
        decoded_def as_i32_def all_sent_def advance_file_def Let_def)
  moreover have "\<not> tj_is_last_job job" using s by (simp add: sending_def)
  ultimately show ?thesis
    using that rd init_sending [OF s, of F]
    by (auto simp: handle_read_jobs_def read_one_def split: sum.splits option.splits)
qed

lemma send_done: "all_sent i job \<Longrightarrow> handle_read_jobs L F [job] = ([], [Fm_done i 1])"
  by (auto simp: all_sent_def handle_read_jobs_def init_data_stream_def open_data_stream_def one_name as_usize_def
      wants_confirmation_def read_one_def job_read_def job_completed_def job_failure_def job_skipped_def Let_def)

end
