(* ===== verification/TransferRounds.thy ===== *)
theory TransferRounds
  imports TransferDelivery
begin

text \<open>
  Rounds of a download: a tick of the connection's timer, the client's handling of what was sent, and the
  connection's handling of the client's answers. They deliver the file.
\<close>

section \<open>Both sides\<close>

definition client_round :: "transfer_env \<Rightarrow> file_msg list \<Rightarrow> transfers \<Rightarrow> transfers" where
  "client_round TE ms T = fold (handle_file_msg TE) ms (T\<lparr>tr_sent := []\<rparr>)"

definition exchange :: "conn_env \<Rightarrow> transfer_env \<Rightarrow> conn_files \<times> transfers \<Rightarrow> conn_files \<times> transfers" where
  "exchange CE TE st =
     (let S = conn_file_tick CE ((fst st)\<lparr>cf_sent := []\<rparr>);
          T = client_round TE (cf_sent S) (snd st)
      in (fold (on_file_action CE) (tr_sent T) S, T))"

text \<open>The user asks for the file \<open>path\<close> of the peer, to be written at \<open>to\<close>.\<close>

definition start_download ::
    "conn_env \<Rightarrow> transfer_env \<Rightarrow> int \<Rightarrow> string \<Rightarrow> string \<Rightarrow> conn_files \<times> transfers \<Rightarrow> conn_files \<times> transfers" where
  "start_download CE TE i path to st =
     (let T = handle_file_command TE (SendFiles i 0 path to 0 False True) ((snd st)\<lparr>tr_sent := []\<rparr>);
          S = fold (on_file_action CE) (tr_sent T) ((fst st)\<lparr>cf_sent := []\<rparr>)
      in (S, client_round TE (cf_sent S) T))"

section \<open>The client\<close>

definition taking ::
    "int \<Rightarrow> string \<Rightarrow> string list \<Rightarrow> string \<Rightarrow> nat \<Rightarrow> fs \<Rightarrow> u8 list \<Rightarrow> transfers \<Rightarrow> bool" where
  "taking i dir r l time F0 bs T \<longleftrightarrow> tr_remove_jobs T i = None \<and> free_place dir r l F0 \<and>
     (\<exists>w e. tr_write_jobs T = [w] \<and> tj_id w = i \<and> tj_type w = Generic \<and> tj_source w = File_path (path_join dir l) \<and>
       tj_files w = [e] \<and> fe_name e = [] \<and> fe_time e = time \<and> tj_file_num w = 0 \<and> \<not> tj_skipped w \<and>
       \<not> tj_is_resume w \<and>
       (case tj_stream w of
          None \<Rightarrow> bs = [] \<and> tr_fs T = F0
        | Some (File_stream h) \<Rightarrow> receiving dir r l F0 (fh_inode h) bs (tr_fs T) \<and> fh_pos h = length bs \<and> fh_write h
        | _ \<Rightarrow> False))"

definition stream_open :: "transfers \<Rightarrow> bool" where
  "stream_open T \<longleftrightarrow> (\<exists>w. tr_write_jobs T = [w] \<and> tj_stream w \<noteq> None)"

lemma taking_sent [simp]: "taking i dir r l time F0 bs (T\<lparr>tr_sent := ms\<rparr>) = taking i dir r l time F0 bs T"
  by (simp add: taking_def cong: option.case_cong data_stream.case_cong)

lemma put_one [simp]: "tj_id w = i \<Longrightarrow> put_job i w' [w] = [w']"
  by simp

lemma get_one [simp]: "tj_id w = i \<Longrightarrow> get_job i [w] = Some w"
  by (simp add: get_job_def)

text \<open>A block.\<close>

lemma take_block:
  fixes TE :: transfer_env
  assumes t: "taking i dir r l time F0 bs T" and b: "fb_id b = i" "fb_file_num b = 0"
  defines "T' \<equiv> on_block TE b T"
  shows "taking i dir r l time F0 (bs @ decoded (te_lib TE) b) T'" and "stream_open T'"
    and "tr_sent T' = tr_sent T" and "tr_ui T' = tr_ui T"
proof -
  obtain w e where w: "tr_write_jobs T = [w]" "tj_id w = i" "tj_type w = Generic"
      "tj_source w = File_path (path_join dir l)" "tj_files w = [e]" "fe_name e = []" "fe_time e = time"
      "tj_file_num w = 0" "\<not> tj_skipped w" "\<not> tj_is_resume w"
    and st: "case tj_stream w of None \<Rightarrow> bs = [] \<and> tr_fs T = F0
        | Some (File_stream h) \<Rightarrow> receiving dir r l F0 (fh_inode h) bs (tr_fs T) \<and> fh_pos h = length bs \<and> fh_write h
        | _ \<Rightarrow> False"
    and more: "tr_remove_jobs T i = None" "free_place dir r l F0"
    using t unfolding taking_def by blast
  have zero: "as_usize 0 = 0" by (simp add: as_usize_def)
  have same: "w\<lparr>tj_file_num := 0\<rparr> = w" using w(8) by (cases w) simp
  obtain w1 h F1 where opened: "job_write (te_lib TE) b w (tr_fs T) = write_data (te_lib TE) b w1 F1"
    and w1: "w1 = w\<lparr>tj_stream := Some (File_stream h)\<rparr>"
    and rc: "receiving dir r l F0 (fh_inode h) bs F1" "fh_pos h = length bs" "fh_write h"
  proof (cases "tj_stream w")
    case None
    then have bs: "bs = []" "tr_fs T = F0" using st by auto
    obtain h F1 where h: "open_target (te_lib TE) w (path_join dir l) e F0 = (Inr h, F1)"
        "receiving dir r l F0 (fh_inode h) [] F1" "fh_pos h = 0" "fh_write h"
      using receive_open [OF more(2) w(3,6)] by blast
    have "modify_time w F0 = F0"
      by (rule free_modify_time [OF more(2) current_target [OF more(2) w(3-6,8)]])
    then have "job_write (te_lib TE) b w (tr_fs T) = write_data (te_lib TE) b (w\<lparr>tj_stream := Some (File_stream h)\<rparr>) F1"
      using w b bs None h zero by (simp add: job_write_def Let_def same)
    then show ?thesis using that h bs by auto
  next
    case (Some x)
    then obtain h where h: "x = File_stream h" "receiving dir r l F0 (fh_inode h) bs (tr_fs T)"
        "fh_pos h = length bs" "fh_write h"
      using st by (cases x) auto
    have "job_write (te_lib TE) b w (tr_fs T) = write_data (te_lib TE) b w (tr_fs T)"
      using w b Some zero by (simp add: job_write_def)
    moreover have "w = w\<lparr>tj_stream := Some (File_stream h)\<rparr>" using Some h by simp
    ultimately show ?thesis using that h by metis
  qed
  have st1: "tj_stream w1 = Some (File_stream h)" by (simp add: w1)
  obtain w2 F2 h2 where w2: "write_data (te_lib TE) b w1 F1 = (Inr (), w2, F2)"
      "w2 = w1\<lparr>tj_stream := Some (File_stream h2), tj_finished_size := tj_finished_size w2,
        tj_transferred := tj_transferred w2\<rparr>"
      "receiving dir r l F0 (fh_inode h) (bs @ decoded (te_lib TE) b) F2"
      "fh_inode h2 = fh_inode h" "fh_pos h2 = length (bs @ decoded (te_lib TE) b)" "fh_write h2"
    using receive_bytes [OF rc st1 decoded_def] by blast
  have T': "T' = T\<lparr>tr_write_jobs := [w2], tr_fs := F2\<rparr>"
    using w b opened w2(1) by (simp add: T'_def on_block_def)
  have "tj_stream w2 = Some (File_stream h2)" "tj_id w2 = i" "tj_type w2 = Generic"
      "tj_source w2 = File_path (path_join dir l)" "tj_files w2 = [e]" "tj_file_num w2 = 0" "\<not> tj_skipped w2"
      "\<not> tj_is_resume w2"
    using w by (subst w2(2), simp add: w1)+
  then show "taking i dir r l time F0 (bs @ decoded (te_lib TE) b) T'" "stream_open T'"
    using w2 more w(6,7) by (auto simp: T' taking_def stream_open_def)
  show "tr_sent T' = tr_sent T" "tr_ui T' = tr_ui T" by (simp_all add: T')
qed

text \<open>The end.\<close>

definition delivered ::
    "string list \<Rightarrow> string \<Rightarrow> nat \<Rightarrow> fs \<Rightarrow> u8 list \<Rightarrow> fs \<Rightarrow> bool" where
  "delivered r l time F0 bs F \<longleftrightarrow>
     (\<exists>j. fs_nodes F = (fs_nodes F0)(r @ [l] \<mapsto> File j) \<and>
       fs_files F j = \<lparr>fd_bytes = bs, fd_mtime = (as_i64 (int time), 0)\<rparr>)"

lemma take_end:
  fixes TE :: transfer_env and n :: int
  assumes t: "taking i dir r l time F0 bs T" and op: "stream_open T"
  defines "T' \<equiv> on_done TE i n T"
  shows "delivered r l time F0 bs (tr_fs T')" and "tr_write_jobs T' = []" and "tr_sent T' = tr_sent T"
    and "tr_ui T' = tr_ui T @ [Ui_job_done i n]"
proof -
  obtain w e where w: "tr_write_jobs T = [w]" "tj_id w = i" "tj_type w = Generic"
      "tj_source w = File_path (path_join dir l)" "tj_files w = [e]" "fe_name e = []" "fe_time e = time"
      "tj_file_num w = 0" "\<not> tj_skipped w"
    and st: "case tj_stream w of None \<Rightarrow> bs = [] \<and> tr_fs T = F0
        | Some (File_stream h) \<Rightarrow> receiving dir r l F0 (fh_inode h) bs (tr_fs T) \<and> fh_pos h = length bs \<and> fh_write h
        | _ \<Rightarrow> False"
    and more: "tr_remove_jobs T i = None" "free_place dir r l F0"
    using t unfolding taking_def by blast
  have "\<exists>h :: file_handle. receiving dir r l F0 (fh_inode h) bs (tr_fs T)"
    using st op w(1) by (auto simp: stream_open_def split: option.splits data_stream.splits)
  then obtain h :: file_handle where rc: "receiving dir r l F0 (fh_inode h) bs (tr_fs T)" by blast
  note fin = receive_end [OF more(2) rc current_target [OF more(2) w(3-6,8)]]
  have T': "T' = tr_call (Ui_job_done i n) (T\<lparr>tr_write_jobs := [], tr_fs := modify_time w (tr_fs T)\<rparr>)"
    using w more(1) by (simp add: T'_def on_done_def job_failure_def job_skipped_def handle_job_status_def report_status_def)
  show "delivered r l time F0 bs (tr_fs T')"
    using fin w(7) by (auto simp: delivered_def T' tr_call_def)
  show "tr_write_jobs T' = []" "tr_sent T' = tr_sent T" "tr_ui T' = tr_ui T @ [Ui_job_done i n]"
    by (simp_all add: T' tr_call_def)
qed

text \<open>The digest of a file that the client does not have is answered: send it from the start.\<close>

lemma take_digest:
  fixes TE :: transfer_env
  assumes t: "taking i dir r l time F0 [] T" and op: "\<not> stream_open T"
    and d: "dg_id d = i" "dg_file_num d = 0"
  defines "T' \<equiv> on_download_digest TE d T"
  shows "taking i dir r l time F0 [] T'" and "\<not> stream_open T'"
    and "tr_sent T' = tr_sent T @ [Fm_send_confirm \<lparr>sc_id = i, sc_file_num = 0, sc_union = Confirm_offset 0\<rparr>]"
    and "tr_ui T' = tr_ui T"
proof -
  let ?r = "\<lparr>sc_id = i, sc_file_num = 0, sc_union = Confirm_offset 0\<rparr>"
  obtain w e where w: "tr_write_jobs T = [w]" "tj_id w = i" "tj_type w = Generic"
      "tj_source w = File_path (path_join dir l)" "tj_files w = [e]" "fe_name e = []" "fe_time e = time"
      "tj_file_num w = 0" "\<not> tj_skipped w" "\<not> tj_is_resume w"
    and st: "tj_stream w = None" "tr_fs T = F0"
    and more: "tr_remove_jobs T i = None" "free_place dir r l F0"
    using t op unfolding taking_def stream_open_def by fastforce
  have zero: "as_usize 0 = 0" by (simp add: as_usize_def)
  have missing: "stat F0 True (path_join dir l) = Inl Not_found"
    using free_missing [OF more(2), of "[]"] by simp
  then have check: "is_write_need_confirmation L F0 False (path_join dir l) d = Inr No_such_file" for L
    by (simp add: is_write_need_confirmation_def Let_def)
  let ?w = "set_file_confirmed True (set_digest (dg_size d) (dg_modified d) w)"
  have T': "T' = tr_send (Fm_send_confirm ?r) (T\<lparr>tr_write_jobs := [?w], tr_fs := F0\<rparr>)"
    using w d st zero check free_get_string [OF more(2)]
    by (simp add: T'_def on_download_digest_def job_join_def set_digest_def confirm_write_def confirm_in_def
        job_confirm_def set_file_confirmed_def Let_def)
  show "taking i dir r l time F0 [] T'"
    unfolding taking_def T' using w st more
    by (simp add: tr_send_def set_file_confirmed_def set_digest_def)
  show "\<not> stream_open T'" using st by (simp add: stream_open_def T' tr_send_def set_file_confirmed_def set_digest_def)
  show "tr_sent T' = tr_sent T @ [Fm_send_confirm ?r]" "tr_ui T' = tr_ui T"
    by (simp_all add: T' tr_send_def)
qed

section \<open>Rounds\<close>

definition ready :: "conn_files \<Rightarrow> bool" where
  "ready S \<longleftrightarrow> cf_file_transfer S \<noteq> None \<and> cf_delayed_read_dir S = None"

lemma tick_one:
  "cf_read_jobs S = [job] \<Longrightarrow> handle_read_jobs (ce_lib CE) (cf_fs S) [job] = (js, ms) \<Longrightarrow>
     conn_file_tick CE (S\<lparr>cf_sent := []\<rparr>) = S\<lparr>cf_read_jobs := js, cf_sent := ms\<rparr>"
  by (simp add: conn_file_tick_def)

text \<open>The job before its file is open, and the round that asks about it.\<close>

definition waiting_job :: "int \<Rightarrow> string \<Rightarrow> transfer_job \<Rightarrow> bool" where
  "waiting_job i path job \<longleftrightarrow>
     tj_id job = i \<and> tj_type job = Generic \<and> tj_source job = File_path path \<and> map fe_name (tj_files job) = [[]] \<and>
     tj_file_num job = 0 \<and> tj_overwrite_detection job \<and> \<not> tj_confirmed job \<and> \<not> tj_waiting job \<and>
     \<not> tj_skipped job \<and> \<not> tj_is_last_job job \<and> tj_stream job = None"

lemma send_digest:
  assumes j: "waiting_job i path job"
    and op: "file_open F path = Inr \<lparr>fh_inode = ino, fh_path = q, fh_pos = 0, fh_read = True, fh_write = False\<rparr>"
    and t: "0 \<le> fst (fd_mtime (fs_files F ino))"
  obtains job' d where "handle_read_jobs L F [job] = ([job'], [Fm_digest d])"
    and "dg_id d = i" and "dg_file_num d = 0" and "\<not> dg_is_upload d" and "tj_id job' = i"
    and "\<And>G. \<exists>job2. confirm_in \<lparr>sc_id = i, sc_file_num = 0, sc_union = Confirm_offset 0\<rparr> job' [job'] G = ([job2], G) \<and>
      sending i path q ino 0 job2"
proof -
  let ?h = "\<lparr>fh_inode = ino, fh_path = q, fh_pos = 0, fh_read = True, fh_write = False\<rparr>"
  let ?job = "job\<lparr>tj_stream := Some (File_stream ?h), tj_confirmed := False, tj_waiting := True\<rparr>"
  have "\<exists>d. handle_read_jobs L F [job] = ([?job], [Fm_digest d]) \<and> dg_id d = i \<and> dg_file_num d = 0 \<and> \<not> dg_is_upload d"
    using j op t
    by (auto simp: waiting_job_def one_name handle_read_jobs_def init_data_stream_def open_data_stream_def as_usize_def
        wants_confirmation_def send_current_digest_def get_current_digest_def read_one_def job_read_def
        job_completed_def job_join_def Let_def)
  moreover have "\<exists>job2. confirm_in \<lparr>sc_id = i, sc_file_num = 0, sc_union = Confirm_offset 0\<rparr> ?job [?job] G = ([job2], G) \<and>
      sending i path q ino 0 job2" for G
    using j by (simp add: waiting_job_def confirm_in_def job_confirm_def set_file_confirmed_def sending_def Let_def)
  ultimately show ?thesis using that [of ?job] j by (auto simp: waiting_job_def)
qed

lemma round_digest:
  assumes r: "ready S" and S: "cf_read_jobs S = [job]" "waiting_job i path job"
    and op: "file_open (cf_fs S) path = Inr \<lparr>fh_inode = ino, fh_path = q, fh_pos = 0, fh_read = True, fh_write = False\<rparr>"
    and t: "0 \<le> fst (fd_mtime (fs_files (cf_fs S) ino))"
    and T: "taking i dir r' l time F0 [] T" "\<not> stream_open T"
  obtains S' T' job' where "exchange CE TE (S, T) = (S', T')" and "ready S'" and "cf_fs S' = cf_fs S"
    and "cf_read_jobs S' = [job']" and "sending i path q ino 0 job'" and "taking i dir r' l time F0 [] T'"
    and "tr_ui T' = tr_ui T"
proof -
  let ?c = "\<lparr>sc_id = i, sc_file_num = 0, sc_union = Confirm_offset 0\<rparr>"
  obtain job1 d where d: "handle_read_jobs (ce_lib CE) (cf_fs S) [job] = ([job1], [Fm_digest d])"
      "dg_id d = i" "dg_file_num d = 0" "\<not> dg_is_upload d" "tj_id job1 = i"
    and conf: "\<And>G. \<exists>job2. confirm_in ?c job1 [job1] G = ([job2], G) \<and> sending i path q ino 0 job2"
    using send_digest [OF S(2) op t, where L = "ce_lib CE"] by blast
  obtain job2 where job2: "confirm_in ?c job1 [job1] (cf_fs S) = ([job2], cf_fs S)" "sending i path q ino 0 job2"
    using conf by blast
  define T' where "T' = on_download_digest TE d (T\<lparr>tr_sent := []\<rparr>)"
  have op': "\<not> stream_open (T\<lparr>tr_sent := []\<rparr>)" using T(2) by (simp add: stream_open_def)
  note td = take_digest [OF _ op' d(2,3), of dir r' l time F0 TE, folded T'_def, simplified, OF T(1)]
  define S1 where "S1 = S\<lparr>cf_read_jobs := [job1], cf_sent := [Fm_digest d]\<rparr>"
  have "on_file_action CE (Fm_send_confirm ?c) S1 = S1\<lparr>cf_read_jobs := [job2], cf_fs := cf_fs S\<rparr>"
    using r d(5) job2(1) by (auto simp: S1_def ready_def on_file_action_def on_send_confirm_def)
  then have "exchange CE TE (S, T) = (S1\<lparr>cf_read_jobs := [job2], cf_fs := cf_fs S\<rparr>, T')"
    using tick_one [OF S(1) d(1)] td(3) d(4)
    by (simp add: exchange_def client_round_def T'_def S1_def)
  then show ?thesis
    using that r td job2(2) by (simp add: ready_def S1_def)
qed

lemma round_block:
  assumes r: "ready S" and S: "cf_read_jobs S = [job]" and T: "taking i dir r' l time F0 bs T"
    and tick: "handle_read_jobs (ce_lib CE) (cf_fs S) [job] = ([job'], [Fm_block b])"
    and b: "fb_id b = i" "fb_file_num b = 0"
  obtains S' T' where "exchange CE TE (S, T) = (S', T')" and "ready S'" and "cf_fs S' = cf_fs S"
    and "cf_read_jobs S' = [job']" and "taking i dir r' l time F0 (bs @ decoded (te_lib TE) b) T'"
    and "stream_open T'" and "tr_ui T' = tr_ui T"
proof -
  define T' where "T' = on_block TE b (T\<lparr>tr_sent := []\<rparr>)"
  note tb = take_block [OF _ b, of dir r' l time F0 bs "T\<lparr>tr_sent := []\<rparr>" TE, folded T'_def, simplified, OF T]
  have "exchange CE TE (S, T) = (S\<lparr>cf_read_jobs := [job'], cf_sent := [Fm_block b]\<rparr>, T')"
    using tick_one [OF S tick] tb(3) by (simp add: exchange_def client_round_def T'_def)
  then show ?thesis using that r tb by (simp add: ready_def)
qed

lemma round_done:
  assumes S: "cf_read_jobs S = [job]" "all_sent i job" and T: "taking i dir r' l time F0 bs T" "stream_open T"
  obtains S' T' where "exchange CE TE (S, T) = (S', T')" and "cf_read_jobs S' = []" and "tr_write_jobs T' = []"
    and "delivered r' l time F0 bs (tr_fs T')" and "tr_ui T' = tr_ui T @ [Ui_job_done i 1]"
proof -
  define T' where "T' = on_done TE i 1 (T\<lparr>tr_sent := []\<rparr>)"
  have op: "stream_open (T\<lparr>tr_sent := []\<rparr>)" using T(2) by (simp add: stream_open_def)
  note te = take_end [OF _ op, of i dir r' l time F0 bs TE 1, folded T'_def, simplified, OF T(1)]
  have "exchange CE TE (S, T) = (S\<lparr>cf_read_jobs := [], cf_sent := [Fm_done i 1]\<rparr>, T')"
    using tick_one [OF S(1) send_done [OF S(2)], of CE] te(3) by (simp add: exchange_def client_round_def T'_def)
  then show ?thesis using that te by simp
qed

text \<open>When both sides are done, nothing changes any more.\<close>

definition completed ::
    "string list \<Rightarrow> string \<Rightarrow> nat \<Rightarrow> fs \<Rightarrow> u8 list \<Rightarrow> ui_call list \<Rightarrow> conn_files \<times> transfers \<Rightarrow> bool" where
  "completed r l time F0 bs ui st \<longleftrightarrow>
     cf_read_jobs (fst st) = [] \<and> tr_write_jobs (snd st) = [] \<and> delivered r l time F0 bs (tr_fs (snd st)) \<and>
     tr_ui (snd st) = ui"

lemma completed_exchange: "completed r l time F0 bs ui st \<Longrightarrow> completed r l time F0 bs ui (exchange CE TE st)"
  by (simp add: completed_def exchange_def client_round_def conn_file_tick_def)

lemma completed_rounds:
  "completed r l time F0 bs ui ((exchange CE TE ^^ m) st) \<Longrightarrow> m \<le> n \<Longrightarrow>
     completed r l time F0 bs ui ((exchange CE TE ^^ n) st)"
proof -
  assume "completed r l time F0 bs ui ((exchange CE TE ^^ m) st)"
  then have "completed r l time F0 bs ui ((exchange CE TE ^^ k) ((exchange CE TE ^^ m) st))" for k
    by (induction k) (simp_all add: completed_exchange)
  then have "completed r l time F0 bs ui ((exchange CE TE ^^ (k + m)) st)" for k
    by (simp add: funpow_add)
  then show "m \<le> n \<Longrightarrow> completed r l time F0 bs ui ((exchange CE TE ^^ n) st)"
    by (metis le_add_diff_inverse2)
qed

text \<open>The blocks of the file.\<close>

definition moving ::
    "int \<Rightarrow> string \<Rightarrow> string list \<Rightarrow> nat \<Rightarrow> u8 list \<Rightarrow> string \<Rightarrow> string list \<Rightarrow> string \<Rightarrow> nat \<Rightarrow> fs \<Rightarrow> ui_call list \<Rightarrow>
      nat \<Rightarrow> conn_files \<times> transfers \<Rightarrow> bool" where
  "moving i path q ino bytes dir r l time F0 ui pos st \<longleftrightarrow>
     ready (fst st) \<and> readable (cf_fs (fst st)) q ino bytes \<and> pos \<le> length bytes \<and>
     (\<exists>job. cf_read_jobs (fst st) = [job] \<and> sending i path q ino pos job) \<and>
     taking i dir r l time F0 (take pos bytes) (snd st) \<and> tr_ui (snd st) = ui"

lemma moving_block:
  assumes m: "moving i path q ino bytes dir r l time F0 ui pos st" and pos: "pos < length bytes"
    and L: "\<And>x. cl_decompress (te_lib TE) (cl_compress (ce_lib CE) x) = x"
  shows "moving i path q ino bytes dir r l time F0 ui (min (pos + BUF_SIZE) (length bytes)) (exchange CE TE st)"
proof -
  obtain S T where st: "st = (S, T)" by fastforce
  obtain job where job: "cf_read_jobs S = [job]" "sending i path q ino pos job" "ready S"
      "readable (cf_fs S) q ino bytes" "taking i dir r l time F0 (take pos bytes) T" "tr_ui T = ui"
    using m by (auto simp: moving_def st)
  obtain job' b where b: "handle_read_jobs (ce_lib CE) (cf_fs S) [job] = ([job'], [Fm_block b])"
      "fb_id b = i" "fb_file_num b = 0" "decoded (te_lib TE) b = take BUF_SIZE (drop pos bytes)"
      "sending i path q ino (pos + length (decoded (te_lib TE) b)) job'"
    using send_block [OF job(2,4) L pos] by blast
  obtain S' T' where e: "exchange CE TE (S, T) = (S', T')" "ready S'" "cf_fs S' = cf_fs S" "cf_read_jobs S' = [job']"
      "taking i dir r l time F0 (take pos bytes @ decoded (te_lib TE) b) T'" "tr_ui T' = tr_ui T"
    using round_block [OF job(3,1,5) b(1-3)] by metis
  have len: "pos + length (decoded (te_lib TE) b) = min (pos + BUF_SIZE) (length bytes)" using b(4) pos by auto
  have "take pos bytes @ decoded (te_lib TE) b = take (pos + BUF_SIZE) bytes"
    by (simp add: b(4) take_add)
  also have "\<dots> = take (min (pos + BUF_SIZE) (length bytes)) bytes" by (simp add: min_def)
  finally have "take pos bytes @ decoded (te_lib TE) b = take (min (pos + BUF_SIZE) (length bytes)) bytes" .
  then show ?thesis using e job b(5) by (simp add: moving_def st len)
qed

lemma moving_blocks:
  assumes L: "\<And>x. cl_decompress (te_lib TE) (cl_compress (ce_lib CE) x) = x"
  shows "moving i path q ino bytes dir r l time F0 ui pos st \<Longrightarrow> length bytes \<le> pos + k * BUF_SIZE \<Longrightarrow>
    \<exists>m\<le>k. moving i path q ino bytes dir r l time F0 ui (length bytes) ((exchange CE TE ^^ m) st)"
proof (induction k arbitrary: pos st)
  case 0
  then have "pos = length bytes" by (auto simp: moving_def)
  then show ?case using 0 by auto
next
  case (Suc k)
  show ?case
  proof (cases "pos < length bytes")
    case True
    let ?pos = "min (pos + BUF_SIZE) (length bytes)"
    have "length bytes \<le> ?pos + k * BUF_SIZE" using Suc.prems(2) by auto
    then obtain m where "m \<le> k"
        "moving i path q ino bytes dir r l time F0 ui (length bytes) ((exchange CE TE ^^ m) (exchange CE TE st))"
      using Suc.IH [OF moving_block [OF Suc.prems(1) True L]] by blast
    then show ?thesis by (intro exI [of _ "Suc m"]) (simp add: funpow_swap1)
  next
    case False
    then have "pos = length bytes" using Suc.prems(1) by (simp add: moving_def)
    then show ?thesis using Suc.prems(1) by (intro exI [of _ 0]) simp
  qed
qed

text \<open>The end: an empty block, and the message that says so.\<close>

lemma moving_end:
  assumes m: "moving i path q ino bytes dir r l time F0 ui (length bytes) st"
  shows "completed r l time F0 bytes (ui @ [Ui_job_done i 1]) (exchange CE TE (exchange CE TE st))"
proof -
  obtain S T where st: "st = (S, T)" by fastforce
  obtain job where job: "cf_read_jobs S = [job]" "sending i path q ino (length bytes) job" "ready S"
      "readable (cf_fs S) q ino bytes" "taking i dir r l time F0 bytes T" "tr_ui T = ui"
    using m by (auto simp: moving_def st)
  obtain job' b where b: "handle_read_jobs (ce_lib CE) (cf_fs S) [job] = ([job'], [Fm_block b])"
      "fb_id b = i" "fb_file_num b = 0" "decoded (te_lib TE) b = []" "all_sent i job'"
    using send_last [OF job(2,4) order_refl] by blast
  obtain S1 T1 where e: "exchange CE TE (S, T) = (S1, T1)" "cf_read_jobs S1 = [job']"
      "taking i dir r l time F0 bytes T1" "stream_open T1" "tr_ui T1 = tr_ui T"
    using round_block [OF job(3,1,5) b(1-3)] b(4) by (metis append_Nil2)
  obtain S2 T2 where f: "exchange CE TE (S1, T1) = (S2, T2)" "cf_read_jobs S2 = []" "tr_write_jobs T2 = []"
      "delivered r l time F0 bytes (tr_fs T2)" "tr_ui T2 = tr_ui T1 @ [Ui_job_done i 1]"
    using round_done [OF e(2) b(5) e(3,4)] by metis
  show ?thesis using e f job(6) by (simp add: st completed_def)
qed

section \<open>A download\<close>

definition servable :: "fs \<Rightarrow> string \<Rightarrow> string list \<Rightarrow> nat \<Rightarrow> u8 list \<Rightarrow> nat \<Rightarrow> bool" where
  "servable F path q ino bytes time \<longleftrightarrow>
     resolve F True path = Inr q \<and> node_at F q = Some (File ino) \<and> (\<forall>a q. \<not> fs_refused F a q) \<and> valid_utf8 path \<and>
     fd_bytes (fs_files F ino) = bytes \<and> fst (fd_mtime (fs_files F ino)) = int time"

lemma servable_files:
  assumes "servable F path q ino bytes time"
  shows "get_recursive_files F path hidden =
    Inr [\<lparr>fe_type = FT_FILE, fe_name = [], fe_hidden = False, fe_size = length bytes, fe_time = time\<rparr>]"
  using assms by (simp add: servable_def get_recursive_files_def read_dir_recursive.simps path_is_dir_def
      path_is_file_def stat_def node_mtime_def unix_secs_def)

lemma servable_open:
  "servable F path q ino bytes time \<Longrightarrow>
     file_open F path = Inr \<lparr>fh_inode = ino, fh_path = q, fh_pos = 0, fh_read = True, fh_write = False\<rparr>"
  by (simp add: servable_def file_open_def)

text \<open>What both sides need to be in: the connection transfers files, sends them itself, and neither side has
  jobs.\<close>

definition idle :: "conn_env \<Rightarrow> int \<Rightarrow> conn_files \<times> transfers \<Rightarrow> bool" where
  "idle CE i st \<longleftrightarrow>
     ready (fst st) \<and> cf_read_jobs (fst st) = [] \<and> tr_write_jobs (snd st) = [] \<and> tr_remove_jobs (snd st) i = None \<and>
     \<not> ne_via_cm CE \<and> ne_one_way CE \<noteq> ''Y'' \<and> 1 \<le> ce_max_files CE \<and> can_enable_overwrite_detection (ne_version CE)"

lemma start_conn:
  assumes idle: "idle CE i (S, T)" and sv: "servable (cf_fs S) path q ino bytes time"
  obtains S' job e where "on_file_action CE (Fm_send i Generic path 0 False) (S\<lparr>cf_sent := []\<rparr>) = S'"
    and "ready S'" and "cf_fs S' = cf_fs S" and "cf_read_jobs S' = [job]" and "waiting_job i path job"
    and "cf_sent S' = [Fm_dir i path [e]]" and "fe_name e = []" and "fe_time e = time"
proof -
  define e where "e = \<lparr>fe_type = FT_FILE, fe_name = [], fe_hidden = False, fe_size = length bytes, fe_time = time\<rparr>"
  define job where "job = (job_new i Generic [] (File_path path) 0 False True True)\<lparr>tj_conn_id := cf_id S,
    tj_files := [e], tj_total_size := total_of [e]\<rparr>"
  have "on_file_action CE (Fm_send i Generic path 0 False) (S\<lparr>cf_sent := []\<rparr>) =
      S\<lparr>cf_sent := [Fm_dir i path [e]], cf_read_jobs := [job], cf_transferred := True\<rparr>"
    using idle sv servable_files [OF sv, of False]
    by (auto simp: idle_def ready_def on_file_action_def on_send_def create_and_start_read_job_def new_read_def
        servable_def check_file_count_limit_def cm_env.truncate_def process_new_read_job_def cf_send_def
        job_new_def job_def e_def Let_def)
  then show ?thesis
    by (rule that [where job = job and e = e])
      (use idle in \<open>auto simp: idle_def ready_def job_def job_new_def waiting_job_def e_def\<close>)
qed

lemma start_client:
  fixes TE :: transfer_env and path :: string
  assumes place: "free_place dir r l (tr_fs T)" and idle: "tr_write_jobs T = []" "tr_remove_jobs T i = None"
    and e: "fe_name e = []" "fe_time e = time"
  defines "T1 \<equiv> handle_file_command TE (SendFiles i 0 path (path_join dir l) 0 False True) (T\<lparr>tr_sent := []\<rparr>)"
  shows "tr_sent T1 = [Fm_send i Generic path 0 False]"
    and "taking i dir r l time (tr_fs T) [] (client_round TE [Fm_dir i path [e]] T1)"
    and "\<not> stream_open (client_round TE [Fm_dir i path [e]] T1)"
    and "tr_ui (client_round TE [Fm_dir i path [e]] T1) = tr_ui T @ [Ui_update_folder_files i [e] path False False]"
proof -
  define w where "w = new_write i Generic path (File_path (path_join dir l)) 0 False True
    (can_enable_overwrite_detection (te_version TE))"
  have T1: "T1 = T\<lparr>tr_sent := [Fm_send i Generic path 0 False], tr_write_jobs := [w]\<rparr>"
    using idle(1) by (simp add: T1_def send_files_cmd_def job_type_of_i32_def tr_send_def w_def)
  then show "tr_sent T1 = [Fm_send i Generic path 0 False]" by simp
  have "e\<lparr>fe_name := []\<rparr> = e" using e(1) by (cases e) simp
  then have same: "(if te_platform TE = ''Windows'' then transform_windows_path [e] else [e]) = [e]"
    using e(1) by (simp add: transform_windows_path_def)
  have files: "set_files F [e] w = (Inr (), w\<lparr>tj_total_size := total_of [e], tj_files := [e]\<rparr>)" for F
    using e(1) by (simp add: set_files_def validate_transfer_file_names_def w_def new_write_def job_new_def
        validate_no_symlink_components_def)
  have id: "tj_id w = i" "\<not> tj_is_resume w" by (simp_all add: w_def new_write_def job_new_def)
  have T2: "client_round TE [Fm_dir i path [e]] T1 = T\<lparr>tr_sent := [],
      tr_write_jobs := [w\<lparr>tj_total_size := total_of [e], tj_files := [e]\<rparr>],
      tr_ui := tr_ui T @ [Ui_update_folder_files i [e] path False False]\<rparr>"
    unfolding T1 using id
    by (simp add: client_round_def on_dir_def same files set_finished_size_on_resume_def tr_call_def Let_def)
  show "taking i dir r l time (tr_fs T) [] (client_round TE [Fm_dir i path [e]] T1)"
    unfolding T2 taking_def using place idle e by (simp add: w_def new_write_def job_new_def)
  show "\<not> stream_open (client_round TE [Fm_dir i path [e]] T1)"
    by (simp add: T2 stream_open_def w_def new_write_def job_new_def)
  show "tr_ui (client_round TE [Fm_dir i path [e]] T1) = tr_ui T @ [Ui_update_folder_files i [e] path False False]"
    by (simp add: T2)
qed

lemma download_moves:
  assumes idle: "idle CE i (S, T)" and sv: "servable (cf_fs S) path q ino bytes time"
    and place: "free_place dir r l (tr_fs T)"
  obtains ui where "moving i path q ino bytes dir r l time (tr_fs T) ui 0
    (exchange CE TE (start_download CE TE i path (path_join dir l) (S, T)))"
proof -
  obtain S1 job e where s: "on_file_action CE (Fm_send i Generic path 0 False) (S\<lparr>cf_sent := []\<rparr>) = S1"
      "ready S1" "cf_fs S1 = cf_fs S" "cf_read_jobs S1 = [job]" "waiting_job i path job"
      "cf_sent S1 = [Fm_dir i path [e]]" "fe_name e = []" "fe_time e = time"
    using start_conn [OF idle sv] by metis
  define T0 where "T0 = handle_file_command TE (SendFiles i 0 path (path_join dir l) 0 False True) (T\<lparr>tr_sent := []\<rparr>)"
  define T1 where "T1 = client_round TE [Fm_dir i path [e]] T0"
  have "tr_write_jobs T = []" "tr_remove_jobs T i = None" using idle by (simp_all add: idle_def)
  note c = start_client [OF place this s(7,8), of TE path, folded T0_def, folded T1_def]
  have start: "start_download CE TE i path (path_join dir l) (S, T) = (S1, T1)"
    using s(1,6) c(1) by (simp add: start_download_def T1_def del: handle_file_command.simps flip: T0_def)
  have op: "file_open (cf_fs S1) path = Inr \<lparr>fh_inode = ino, fh_path = q, fh_pos = 0, fh_read = True, fh_write = False\<rparr>"
      "0 \<le> fst (fd_mtime (fs_files (cf_fs S1) ino))"
    using servable_open [OF sv] sv s(3) by (simp_all add: servable_def)
  obtain S2 T2 job2 where x: "exchange CE TE (S1, T1) = (S2, T2)" "ready S2" "cf_fs S2 = cf_fs S1"
      "cf_read_jobs S2 = [job2]" "sending i path q ino 0 job2" "taking i dir r l time (tr_fs T) [] T2"
    using round_digest [OF s(2,4,5) op c(2,3)] by metis
  have "moving i path q ino bytes dir r l time (tr_fs T) (tr_ui T2) 0 (S2, T2)"
    using x s(3) sv by (simp add: moving_def servable_def readable_def)
  then show ?thesis using that by (simp add: start x(1))
qed

lemma download_completes:
  assumes idle: "idle CE i (S, T)" and sv: "servable (cf_fs S) path q ino bytes time"
    and place: "free_place dir r l (tr_fs T)" and L: "\<And>x. cl_decompress (te_lib TE) (cl_compress (ce_lib CE) x) = x"
    and n: "length bytes div BUF_SIZE + 4 \<le> n"
  shows "\<exists>ui. completed r l time (tr_fs T) bytes (ui @ [Ui_job_done i 1])
    ((exchange CE TE ^^ n) (start_download CE TE i path (path_join dir l) (S, T)))"
proof -
  let ?st = "start_download CE TE i path (path_join dir l) (S, T)"
  obtain ui where ui: "moving i path q ino bytes dir r l time (tr_fs T) ui 0 (exchange CE TE ?st)"
    using download_moves [OF idle sv place] .
  have "length bytes \<le> (length bytes div BUF_SIZE + 1) * BUF_SIZE"
    using dividend_less_div_times [of BUF_SIZE "length bytes"] by (simp add: BUF_SIZE_def)
  then obtain m where m: "m \<le> length bytes div BUF_SIZE + 1"
      "moving i path q ino bytes dir r l time (tr_fs T) ui (length bytes) ((exchange CE TE ^^ m) (exchange CE TE ?st))"
    using moving_blocks [OF L ui, of "length bytes div BUF_SIZE + 1"] by auto
  have "completed r l time (tr_fs T) bytes (ui @ [Ui_job_done i 1]) ((exchange CE TE ^^ (m + 3)) ?st)"
    using moving_end [OF m(2), of CE TE] by (simp add: numeral_3_eq_3 funpow_swap1)
  moreover have "m + 3 \<le> n" using m(1) n by simp
  ultimately show ?thesis using completed_rounds by blast
qed

text \<open>C2: A download delivers the file. The user asks an idle connection for a file that the controlled
  side can read, to be written under a name that is free: after as many rounds as the file has blocks and
  four more, however the blocks were compressed, the client has under that name a file with exactly the
  bytes and the time of modification of the peer's file, nothing else in its tree has changed (the
  unfinished file and its digest are gone), neither side has a job left, and the last thing the user was
  told is that the job is done.\<close>

theorem download_delivers_the_file:
  assumes "idle CE i (S, T)" and "servable (cf_fs S) path q ino bytes time" and "free_place dir r l (tr_fs T)"
    and "\<forall>x. cl_decompress (te_lib TE) (cl_compress (ce_lib CE) x) = x"
    and "time < 2 ^ 63" and "length bytes div BUF_SIZE + 4 \<le> n"
  shows "case (exchange CE TE ^^ n) (start_download CE TE i path (path_join dir l) (S, T)) of (S', T') \<Rightarrow>
    (\<exists>j. fs_nodes (tr_fs T') = (fs_nodes (tr_fs T))(r @ [l] \<mapsto> File j) \<and>
      fs_files (tr_fs T') j = \<lparr>fd_bytes = bytes, fd_mtime = (int time, 0)\<rparr>) \<and>
    cf_read_jobs S' = [] \<and> tr_write_jobs T' = [] \<and> List.last (tr_ui T') = Ui_job_done i 1"
proof -
  have "as_i64 (int time) = int time" using assms(5) by (intro as_i64_id) simp_all
  then show ?thesis
    using download_completes [OF assms(1-3) _ assms(6), of TE] assms(4)
    by (auto simp: completed_def delivered_def split: prod.splits)
qed

definition demo_downloader :: transfers where
  "demo_downloader = \<lparr>tr_read_jobs = [], tr_write_jobs = [], tr_remove_jobs = (\<lambda>i. None), tr_fs = demo_fs,
     tr_sent = [], tr_ui = [], tr_commands = []\<rparr>"

definition demo_transfer_env :: transfer_env where
  "demo_transfer_env = \<lparr>te_lib = demo_codec, te_version = 1004002000, te_platform = ''Linux'', te_sep = (\<lambda>b. ''/''),
     te_error = (\<lambda>e. []), te_elapsed = 0\<rparr>"

lemma demo_idle: "idle demo_conn_env 3 (demo_conn, demo_downloader)"
  using demo_version
  by (simp add: idle_def ready_def demo_conn_def demo_downloader_def) (simp add: demo_conn_env_def)

lemma demo_servable: "servable (cf_fs demo_conn) ''/f'' [''f''] 0 [65] 5"
  by (simp add: servable_def demo_conn_def demo_resolve demo_node demo_path)

lemma demo_place: "free_place ''/d'' [''d''] ''x'' (tr_fs demo_downloader)"
  using demo_destination
  by (simp add: free_place_def same_place_def demo_downloader_def path_join_def is_absolute_def sep_def PATH_MAX_def
      ascii_valid) (simp add: demo_fs_def DOWNLOAD_def DIGEST_def)

theorem download_delivers_the_file_witness:
  "case (exchange demo_conn_env demo_transfer_env ^^ 4)
      (start_download demo_conn_env demo_transfer_env 3 ''/f'' (path_join ''/d'' ''x'') (demo_conn, demo_downloader)) of
    (S', T') \<Rightarrow>
     (\<exists>j. fs_nodes (tr_fs T') = (fs_nodes (tr_fs demo_downloader))([''d''] @ [''x''] \<mapsto> File j) \<and>
       fs_files (tr_fs T') j = \<lparr>fd_bytes = [65], fd_mtime = (int 5, 0)\<rparr>) \<and>
     cf_read_jobs S' = [] \<and> tr_write_jobs T' = [] \<and> List.last (tr_ui T') = Ui_job_done 3 1"
  by (rule download_delivers_the_file [OF demo_idle demo_servable demo_place])
    (simp_all add: demo_transfer_env_def demo_codec_def demo_conn_env_def BUF_SIZE_def)

end
