(* ===== verification/TransferChecks.thy ===== *)
theory TransferChecks
  imports TransferConsent
begin

text \<open>
  The receiving side of a transfer: when a file that exists is replaced, what a confirmation may break, and
  what the code does where an error interrupts it.
\<close>

section \<open>Consent to replace a file\<close>

lemma existing_file:
  assumes "path_is_file F path"
  obtains i q where "stat F True path = Inr (File i)" and "resolve F True path = Inr q"
  using assms by (auto simp: path_is_file_def stat_def split: sum.splits node.splits)

text \<open>The digest of an earlier attempt at the same file.\<close>

definition same_attempt :: "codec_lib \<Rightarrow> fs \<Rightarrow> string \<Rightarrow> file_digest \<Rightarrow> bool" where
  "same_attempt L F path d \<longleftrightarrow>
     path_exists F (path @ DOWNLOAD) \<and>
     (\<exists>content. read_file (path @ DIGEST) F = Inr content \<and> cl_parse_digest L content = Some (dg_size d, dg_modified d))"

lemma confirmation_needed:
  assumes fl: "path_is_file F path" and res: "is_write_need_confirmation L F resume path d = Inr c"
  shows "\<exists>d'. c = Need_confirm d' \<and> (dg_transferred d' = 0 \<or> resume \<and> same_attempt L F path d)"
proof -
  obtain i q where q: "stat F True path = Inr (File i)" "resolve F True path = Inr q"
    using existing_file [OF fl] .
  show ?thesis
  proof (cases "resume \<and> partial_size L F path d > 0")
    case True
    then have "same_attempt L F path d"
      by (auto simp: partial_size_def same_attempt_def split: if_splits sum.splits)
    then show ?thesis using res True by (auto simp: is_write_need_confirmation_def Let_def)
  next
    case False
    then have "is_write_need_confirmation L F resume path d =
      (if fst (fd_mtime (fs_files F i)) < 0 then Inl (Io Io_other)
       else Inr (Need_confirm \<lparr>dg_id = dg_id d, dg_file_num = dg_file_num d,
         dg_modified = nat (fst (fd_mtime (fs_files F i))), dg_size = length (fd_bytes (fs_files F i)),
         dg_is_upload = False,
         dg_identical = (fd_mtime (fs_files F i) = (int (dg_modified d), 0) \<and> dg_size d = length (fd_bytes (fs_files F i))),
         dg_transferred = 0, dg_is_resume = False\<rparr>))"
      using q False by (auto simp: is_write_need_confirmation_def Let_def)
    then show ?thesis using res by (auto split: if_splits)
  qed
qed

text \<open>The answers to a digest leave the file system as it is: an unfinished file is opened at most.\<close>

lemma existing_create: "path_exists F p \<Longrightarrow> snd (file_create False F p) = F"
  by (auto simp: path_exists_def stat_def file_create_def split: sum.splits option.splits node.splits if_splits)

lemma offset_keeps_files: "set_stream_offset n k job F = Some (job', G) \<Longrightarrow> G = F"
proof -
  assume res: "set_stream_offset n k job F = Some (job', G)"
  have "H = F" if "path_exists F p" "file_create False F p = (r, H)" for p r H
    using existing_create [OF that(1)] that(2) by simp
  then show ?thesis
    using res by (auto simp: set_stream_offset_def Let_def
        split: data_source.splits if_splits option.splits prod.splits sum.splits)
qed

lemma confirm_keeps_files: "job_confirm r job F = Some (job', G) \<Longrightarrow> G = F"
  using offset_keeps_files by (auto simp: job_confirm_def Let_def split: if_splits confirm_union.splits)

lemma confirm_write_keeps [simp]: "tr_fs (confirm_write r job T) = tr_fs T" "tr_sent (confirm_write r job T) = tr_sent T"
  using confirm_keeps_files
  by (auto simp: confirm_write_def confirm_in_def split: prod.splits option.splits)

lemma agreed_strategy:
  assumes "strategy_answer d job = Some r" and "agrees (sc_union r)"
  shows "tj_default_overwrite job = Some True \<or> tj_is_resume job \<and> dg_transferred d > 0"
  using assms by (auto simp: strategy_answer_def agrees_def Let_def split: if_splits option.splits)

lemma download_digest_keeps: "tr_fs (on_download_digest E d T) = tr_fs T"
  by (auto simp: on_download_digest_def tr_send_def tr_call_def Let_def
      split: option.splits data_source.splits sum.splits digest_check.splits)

lemma digest_answer:
  assumes job: "get_job (dg_id d) (tr_write_jobs T) = Some job" "tj_source job = File_path p"
    and n: "as_usize (dg_file_num d) < length (tj_files job)"
  defines "path \<equiv> get_string (job_join p (fe_name (tj_files job ! as_usize (dg_file_num d))))"
  assumes fl: "path_is_file (tr_fs T) path"
    and sent: "tr_sent (on_download_digest E d T) = tr_sent T @ [Fm_send_confirm r]" and agreed: "agrees (sc_union r)"
  shows "tj_default_overwrite job = Some True \<or> tj_is_resume job \<and> same_attempt (te_lib E) (tr_fs T) path d"
proof -
  let ?res = "is_write_need_confirmation (te_lib E) (tr_fs T)
      (is_support_file_transfer_resume_num (te_version E) \<and> tj_is_resume job) path d"
  have keep: "tj_is_resume (set_digest a b job) = tj_is_resume job"
      "tj_default_overwrite (set_digest a b job) = tj_default_overwrite job" for a b
    by (simp_all add: set_digest_def)
  show ?thesis
  proof (cases ?res)
    case (Inl e)
    then show ?thesis
      using sent job n by (simp add: on_download_digest_def keep Let_def flip: path_def)
  next
    case (Inr c)
    then obtain d' where c: "c = Need_confirm d'"
        "dg_transferred d' = 0 \<or>
          (is_support_file_transfer_resume_num (te_version E) \<and> tj_is_resume job) \<and> same_attempt (te_lib E) (tr_fs T) path d"
      using confirmation_needed [OF fl] by blast
    then have "strategy_answer d' (set_digest (dg_size d) (dg_modified d) job) = Some r"
      using sent job n Inr
      by (auto simp: on_download_digest_def keep tr_send_def tr_call_def Let_def split: option.splits simp flip: path_def)
    from agreed_strategy [OF this agreed] show ?thesis using c(2) by (auto simp: keep)
  qed
qed

text \<open>C7: A file that exists is not given up unasked. When the peer announces a file and the client already
  has one at its destination, the client's answer lets the peer send only if the user chose to overwrite
  every file of the job, or if the job is a resumed one and the digest beside the unfinished file is that
  of the very same version of the peer's file; in no case does the announcement change the client's files.\<close>

theorem existing_file_needs_consent:
  assumes "get_job (dg_id d) (tr_write_jobs T) = Some job" and "tj_source job = File_path p"
    and "as_usize (dg_file_num d) < length (tj_files job)" and "\<not> dg_is_upload d"
    and "path = get_string (job_join p (fe_name (tj_files job ! as_usize (dg_file_num d))))"
    and "path_is_file (tr_fs T) path"
  shows "tr_fs (handle_file_msg E (Fm_digest d) T) = tr_fs T \<and>
    (\<forall>r. tr_sent (handle_file_msg E (Fm_digest d) T) = tr_sent T @ [Fm_send_confirm r] \<longrightarrow> agrees (sc_union r) \<longrightarrow>
      tj_default_overwrite job = Some True \<or> tj_is_resume job \<and> same_attempt (te_lib E) (tr_fs T) path d)"
  using digest_answer [OF assms(1-3), of E] assms download_digest_keeps by auto

definition demo_target :: fs where
  "demo_target = demo_file"

definition demo_writer :: transfer_job where
  "demo_writer = (new_write 7 Generic ''/r'' (File_path ''/f'') 0 False True True)
     \<lparr>tj_files := [\<lparr>fe_type = FT_FILE, fe_name = [], fe_hidden = False, fe_size = 1, fe_time = 5\<rparr>]\<rparr>"

definition demo_receiver :: transfers where
  "demo_receiver = \<lparr>tr_read_jobs = [], tr_write_jobs = [demo_writer], tr_remove_jobs = (\<lambda>i. None), tr_fs = demo_target,
     tr_sent = [], tr_ui = [], tr_commands = []\<rparr>"

definition demo_receiver_env :: transfer_env where
  "demo_receiver_env = \<lparr>te_lib = ce_lib demo_conn_env, te_version = 1004002000, te_platform = ''Linux'',
     te_sep = (\<lambda>b. ''/''), te_error = (\<lambda>e. []), te_elapsed = 0\<rparr>"

theorem existing_file_needs_consent_witness:
  "tr_fs (handle_file_msg demo_receiver_env (Fm_digest (demo_digest\<lparr>dg_id := 7\<rparr>)) demo_receiver) = tr_fs demo_receiver \<and>
   \<not> (\<exists>r. tr_sent (handle_file_msg demo_receiver_env (Fm_digest (demo_digest\<lparr>dg_id := 7\<rparr>)) demo_receiver) =
      tr_sent demo_receiver @ [Fm_send_confirm r] \<and> agrees (sc_union r))"
proof -
  have "\<not> (tj_default_overwrite demo_writer = Some True \<or> tj_is_resume demo_writer \<and> same_attempt l F q d)" for l F q d
    by (simp add: demo_writer_def new_write_def job_new_def)
  moreover have "tr_fs (handle_file_msg demo_receiver_env (Fm_digest (demo_digest\<lparr>dg_id := 7\<rparr>)) demo_receiver) = tr_fs demo_receiver \<and>
   (\<forall>r. tr_sent (handle_file_msg demo_receiver_env (Fm_digest (demo_digest\<lparr>dg_id := 7\<rparr>)) demo_receiver) =
      tr_sent demo_receiver @ [Fm_send_confirm r] \<longrightarrow> agrees (sc_union r) \<longrightarrow>
      tj_default_overwrite demo_writer = Some True \<or>
      tj_is_resume demo_writer \<and> same_attempt (te_lib demo_receiver_env) (tr_fs demo_receiver) ''/f'' (demo_digest\<lparr>dg_id := 7\<rparr>))"
    by (rule existing_file_needs_consent [where p = "''/f''"])
      (simp_all add: demo_receiver_def demo_writer_def new_write_def job_new_def get_job_def demo_digest_def as_usize_def
        job_join_def get_string_def utf8_or_empty_def demo_path demo_target_def path_is_file_def stat_def demo_resolve demo_node)
  ultimately show ?thesis by blast
qed

section \<open>Confirmations that break the task\<close>


text \<open>A peer can bring that about in the connection manager, with two messages.\<close>

lemma peer_panics_connection_manager:
  assumes "cm_write_jobs C = []" and "C' = handle_fs E (Fs_new_write path i n [] od total_size conn) C"
  shows "\<exists>job. get_job i (cm_write_jobs C') = Some job \<and>
    job_confirm \<lparr>sc_id = i, sc_file_num = n, sc_union = Confirm_offset 1\<rparr> job (cm_fs C') = None"
  using assms
  by (auto simp: new_write_req_def set_files_def validate_transfer_file_names_def new_write_def job_new_def
      get_job_def job_confirm_def set_stream_offset_def set_file_confirmed_def Let_def)

text \<open>On Windows the connection manager reads the files, and takes any confirmation for the file it is at.\<close>

lemma cm_confirms_any_file:
  "handle_fs E (Fs_send_confirm_for_read i n skip offset conn) C =
     handle_fs E (Fs_send_confirm_for_read i m skip offset conn) C"
  by simp

section \<open>Errors in the middle of a transfer\<close>

text \<open>The file of a block cannot be opened: the stream of the file before stays, and takes the next block.\<close>

lemma failed_open_keeps_stream:
  assumes "tj_source job = File_path p" and "tj_stream job = Some st" and "fb_id b = tj_id job"
    and "as_usize (fb_file_num b) < length (tj_files job)" and "as_usize (fb_file_num b) \<noteq> as_usize (tj_file_num job)"
    and "\<forall>a q. \<not> fs_refused F a q" and "fs_refused (modify_time job F) = fs_refused F"
    and "open_target L (job\<lparr>tj_file_num := fb_file_num b\<rparr>) p (tj_files job ! as_usize (fb_file_num b)) (modify_time job F) =
      (Inl e, G)"
    and "fb_id b' = tj_id job" and "fb_file_num b' = fb_file_num b"
  defines "job' \<equiv> job\<lparr>tj_file_num := fb_file_num b\<rparr>"
  shows "job_write L b job F = (Inl e, job', G)" and "job_write L b' job' G = write_data L b' job' G"
  using assms by (auto simp: job_write_def job'_def Let_def split: data_stream.splits)

text \<open>A file that cannot be opened ends the job when overwriting is confirmed per file: the same tick that
  reports the error reports the job as done, and the files after it are never sent.\<close>

lemma unreadable_file_ends_the_job:
  assumes "tj_type job = Generic" and "tj_source job = File_path p" and "tj_overwrite_detection job"
    and "tj_stream job = None" and "as_usize (tj_file_num job) < length (tj_files job)" and "\<not> tj_is_last_job job"
    and "file_open F (job_join p (fe_name (tj_files job ! as_usize (tj_file_num job)))) = Inl e" and "\<not> tj_skipped job"
  defines "n \<equiv> as_i32 (tj_file_num job + 1)"
  shows "handle_read_jobs L F [job] = ([], [Fm_error (tj_id job) (Io e) n, Fm_done (tj_id job) n])"
  using assms
  by (simp add: handle_read_jobs_def init_data_stream_def open_data_stream_def advance_file_def read_one_def
      job_read_def job_completed_def job_failure_def job_skipped_def n_def Let_def)

text \<open>A compression that fails yields no bytes, which is shorter than any block: the block is sent empty.\<close>

lemma failed_compression_loses_the_block:
  assumes "tj_source job = File_path p" and "tj_stream job = Some st" and "stream_read F st = (Inr buf, st')"
    and "buf \<noteq> []" and "cl_compress L buf = []" and "tj_confirmed job"
    and "as_usize (tj_file_num job) < length (tj_files job)"
    and "\<not> is_compressed_file (if length (tj_files job) = 1 \<and> fe_name (tj_files job ! as_usize (tj_file_num job)) = []
      then get_file_name p else fe_name (tj_files job ! as_usize (tj_file_num job)))"
  shows "\<exists>b job'. job_read L F job = (Inr (Some b), job') \<and> fb_data b = [] \<and> fb_compressed b"
  using assms by (auto simp: job_read_def Let_def)

text \<open>Blocks are written whether or not the file was confirmed.\<close>

lemma write_ignores_confirmation:
  "write_data L b (job\<lparr>tj_confirmed := c\<rparr>) F =
     (case write_data L b job F of (r, job', G) \<Rightarrow> (r, job'\<lparr>tj_confirmed := c\<rparr>, G))"
  by (auto simp: write_data_def Let_def split: option.splits prod.splits sum.splits)

end
