(* ===== verification/Spec2Isabelle.thy ===== *)
theory Spec2Isabelle
  imports BytesCodec ConfigStore AddrMangle BridgeState LoginFailure VideoQosProps PasswordSecurity PeerConfigs
    LoginToggles LoginPasswords SessionProps OhosProps TransferRounds TransferChecks
begin

text \<open>
  Verification library of the RustDesk core for HarmonyOS (paths are relative to \<open>src/\<close>; those that
  do not start with \<open>native_rust_core\<close> are under \<open>src/rustdesk-master/\<close>).

  \<^bold>\<open>The program.\<close> A RustDesk client keeps an encrypted configuration on disk (\<open>hbb_common\<close>'s
  \<open>config.rs\<close>), finds a peer through a rendezvous server (mangled socket addresses, release numbers:
  \<open>lib.rs\<close>), talks to it in length-prefixed frames (\<open>bytes_codec.rs\<close>), logs in with a password or a
  challenge (\<open>LoginConfigHandler\<close> in \<open>client.rs\<close>) and runs a session the front end drives
  (\<open>ui_session_interface.rs\<close>, \<open>file_trait.rs\<close>). The controlled side checks the login
  (\<open>password_security.rs\<close>, \<open>permanent_password.rs\<close>, \<open>login_failure_check.rs\<close>) and adapts the frame
  rate and quality of its screen to the network (\<open>video_qos.rs\<close>). Files go both ways in jobs
  (\<open>fs.rs\<close>), which the client (\<open>client/io_loop.rs\<close>), the connection (\<open>server/connection.rs\<close>) and the
  connection manager (\<open>ui_cm_interface.rs\<close>) drive. A bridge runs the sessions for the
  HarmonyOS application and hands it state, events and frames (\<open>harmony_bridge/core.rs\<close>, the stub
  \<open>native_rust_core\<close>); a server of its own lets the application be controlled
  (\<open>harmony_bridge/server_ohos.rs\<close>).

  \<^bold>\<open>Theories, in the order they import each other.\<close>
  \<^item> \<open>RD_Prelude\<close>: strings as UTF-8 bytes and the functions of the Rust standard library the code
    calls (\<open>trim\<close>, \<open>split\<close>, \<open>parse\<close>, \<open>to_lowercase\<close>, \<open>from_utf8_lossy\<close>), casts and saturating
    arithmetic at their width, the bounded queue, and the lemma collections \<open>frame_simps\<close>,
    \<open>codec_simps\<close> and \<open>bridge_simps\<close>.
  \<^item> \<open>BytesCodec\<close>: \<open>libs/hbb_common/src/bytes_codec.rs\<close>. The record \<open>bytes_codec\<close> is the Rust struct;
    \<open>decode_head\<close>, \<open>decode_data\<close>, \<open>decode\<close> and \<open>encode\<close> are its methods; \<open>drain_buffer\<close> and
    \<open>receive\<close> are the loop of the framed reader. The lemmas take a stream cut into arbitrary chunks to
    one buffer, then to the sequence of frames.
  \<^item> \<open>ConfigStore\<close>: options, defaults, overwriting settings, the status table, the serial and NAT type,
    the unlock pin, the choice of a rendezvous server by latency, all of
    \<open>libs/hbb_common/src/config.rs\<close>. The record \<open>config_state\<close> gathers its static cells. The locale
    \<open>option_store\<close> states what a table of options promises; the three tables of the code
    (\<open>Config2\<close>, \<open>LocalConfig\<close>, \<open>UserDefaultConfig\<close>) are its interpretations.
  \<^item> \<open>AddrMangle\<close>: \<open>AddrMangle\<close>, \<open>get_version_number\<close> and \<open>get_version_from_url\<close> of
    \<open>libs/hbb_common/src/lib.rs\<close>, on 128-bit words.
  \<^item> \<open>BridgeState\<close>: \<open>native_rust_core/src/bridge_state.rs\<close>, its hand-written JSON and its event queue.
  \<^item> \<open>LoginFailure\<close>: \<open>src/server/login_failure_check.rs\<close>, with the inductive set of its reachable
    states.
  \<^item> \<open>PasswordSecurity\<close>: secrets at rest, the temporary and the permanent password, salts, trusted
    devices and the identity part of \<open>Config\<close>; libsodium, base64, SHA-256 and JSON are the fields of
    the record \<open>crypto\<close>, and what their documentation promises is the predicate \<open>crypto_ok\<close>, which
    \<open>toy_crypto\<close> meets.
  \<^item> \<open>PeerConfigs\<close>: \<open>PeerConfig\<close> of \<open>config.rs\<close>: defaults, the checks of a load, load and store, and the
    two-round listing of recent peers.
  \<^item> \<open>Messages\<close>: the protocol messages a client sends, the \<open>Data\<close> commands, the user-interface
    callbacks, the keyboard modes.
  \<^item> \<open>LoginConfig\<close>, \<open>LoginToggles\<close>, \<open>LoginPasswords\<close>: \<open>LoginConfigHandler\<close> and the login functions of
    \<open>src/client.rs\<close>. \<open>login_config\<close> is the handler, \<open>client\<close> adds the peer files, \<open>client_env\<close> what
    the handler only reads. \<open>client_step\<close> lists the operations; \<open>synced\<close> relates memory and disk.
  \<^item> \<open>ClientKeys\<close>: key table, modifiers, mouse masks and typing of \<open>client.rs\<close> and
    \<open>keyboard_ohos.rs\<close>.
  \<^item> \<open>Sessions\<close>, \<open>SessionProps\<close>: \<open>Session\<close> of \<open>src/ui_session_interface.rs\<close> with the file commands of
    \<open>src/client/file_trait.rs\<close>; commands sent, callbacks called and threads started are lists of the
    state. \<open>rounds\<close> is the step relation of the connection rounds with the loops still running.

  \<^item> \<open>VideoQos\<close>, \<open>VideoQosProps\<close>: \<open>src/server/video_qos.rs\<close>. The record \<open>video_qos\<close> is \<open>VideoQoS\<close>;
    \<open>qos_op\<close> lists its operations. Single-precision arithmetic is exact arithmetic followed by a
    rounding function, of which \<open>f32_ok\<close> says what the properties need.
  \<^item> \<open>HarmonyState\<close>, \<open>HarmonyHandler\<close>, \<open>HarmonyBridge\<close>, \<open>HarmonyCommands\<close>: \<open>src/harmony_bridge/core.rs\<close>
    and the capture library \<open>libs/scrap/src/common/harmony_bridge/ohos.rs\<close>. The record \<open>bridge\<close> holds
    the static cells. \<open>handler_call\<close> is \<open>HarmonyHandler\<close>, the receiver of the callbacks that a session
    of \<open>Sessions\<close> lists; \<open>run_session\<close> runs a session operation and delivers them. An application call
    is a function of its name.
  \<^item> \<open>HarmonyProps\<close>, \<open>HarmonyRuns\<close>, \<open>HarmonySpec\<close>: the locale \<open>kept\<close> is the interface of a property
    that callbacks and commands keep; it is interpreted for the invariant \<open>bridge_inv\<close> and for the
    fields that only opening, closing and screen frames change. \<open>bridge_op\<close> and \<open>bridge_run\<close> are the
    runs of the bridge, stale connection threads included.
  \<^item> \<open>OhosService\<close>: the service template of \<open>src/harmony_bridge/server_ohos.rs\<close>. The record \<open>service\<close> is
    the code's \<open>ServiceInner\<close>; the locale \<open>subscriptions\<close> is what a set of subscribers promises, interpreted
    on it as \<open>subs\<close>.
  \<^item> \<open>OhosVideo\<close>, \<open>OhosVideoProps\<close>: the thread of the video service, a state machine of phases (idle,
    run, snapshot, encoding), so that subscribers may come and go between any two of them. The record
    \<open>vpx\<close> holds libvpx and libyuv; the capturer is the one of \<open>HarmonyCommands\<close>.
  \<^item> \<open>OhosLogin\<close>, \<open>OhosServer\<close>, \<open>OhosProps\<close>: the login check, the key exchange, the server and its
    connections. The record \<open>ohos_server\<close> gathers the bridge, the configuration, the services and each
    running connection; \<open>server_op\<close> and \<open>server_run\<close> are its runs in any order of events, and \<open>server_inv\<close>
    is what they keep.
  \<^item> \<open>RustFs\<close>, \<open>RustFsProps\<close>: what the jobs use of \<open>std::path\<close> and \<open>std::fs\<close> on Unix: a tree of
    directories, files with inodes and symbolic links, the resolution of paths (at most 40 links, as on
    Linux), open files. What the system refuses is a function of the state \<open>fs\<close>. The lemmas say where
    a path leads that goes below a given directory.
  \<^item> \<open>FileJobs\<close>, \<open>TransferJobs\<close>: \<open>libs/hbb_common/src/fs.rs\<close>. The record \<open>transfer_job\<close> is
    \<open>TransferJob\<close>; \<open>job_write\<close>, \<open>job_read\<close> and \<open>job_confirm\<close> are its \<open>write\<close>, \<open>read\<close> and \<open>confirm\<close>. A
    panic is \<open>None\<close>.
  \<^item> \<open>FileTransfers\<close>: the file commands and file messages of \<open>src/client/io_loop.rs\<close>, on the record
    \<open>transfers\<close>. \<open>CmFiles\<close>: the connection manager (\<open>handle_fs\<close> of \<open>src/ui_cm_interface.rs\<close>) and the file
    messages of \<open>src/server/connection.rs\<close>, on the records \<open>cm_files\<close> and \<open>conn_files\<close>.
  \<^item> \<open>TransferProps\<close>, \<open>TransferSafety\<close>: no operation of a write job leaves its directory (\<open>confined\<close>,
    \<open>stays\<close>), so no run of them (\<open>write_step\<close>) does. \<open>TransferConsent\<close>: runs of the sending side.
    \<open>TransferDelivery\<close>, \<open>TransferRounds\<close>: both sides together, round by round (\<open>exchange\<close>).
    \<open>TransferChecks\<close>: the consent to replace a file, panics, and what an error in the middle leaves.

  \<^bold>\<open>How the code is read.\<close> A static cell or a locked object is a field of an explicit state; each
  operation is a function that returns the new state. Random bytes, the clock and the file system are
  arguments. \<open>i32\<close>, \<open>i64\<close> are integers with the wrap-around (\<open>as_i32\<close>, \<open>as_i64\<close>) or the saturation
  written out; bytes, masks and rounds are words. An error is the left side of a sum, an absent value
  \<open>None\<close>. Floating-point values are bit patterns, and parsing them a parameter. Every loop is a
  structural recursion or has a measure (the buffer of the codec shrinks with each frame), except the
  wait of the screen capturer, which may last as long as its timeout: \<open>capturer_frame\<close> has fuel, and
  since the code sleeps eight milliseconds between two looks, one unit for each eight milliseconds
  and one more are enough, as is proved. The depth of a directory that is removed is bounded by the
  longest path the system takes. A download needs one round to ask for the file, one for each block of
  128 KiB, one for the end of the file and one for the end of the job.

  \<^bold>\<open>What the properties show.\<close> Each is introduced by its number. In short: framing, mangling, JSON, secrets and
  peer files round-trip; options, toggles and passwords are written to disk exactly when they change;
  limits hold (packets, queues, numeric options, back-off); the order in which passwords are tried,
  remembered and forgotten; the rounds of connections of a session; the frame rate and quality stay in
  their limits; threads of closed sessions change nothing, and what the application hands in (screen
  frames, keys, options) reaches the encoder, the peer and the session unchanged. Of the controlled
  side: who is authorized proved a password, input that is disabled stays so, the first video message a
  viewer gets is a key frame, and while new frames of the screen come in a viewer who waits is served
  within seven steps of the video thread. Of file transfers: a download changes nothing outside the
  directory it was meant for, it delivers the bytes and the time of the peer's file, the peer is sent no
  block of a file it has not agreed to, and which confirmations make the code panic.

  \<^bold>\<open>Not modelled.\<close> The network loops (\<open>client/io_loop.rs\<close> and \<open>server/connection.rs\<close> but for files, the
  rendezvous mediators) and, but for the VP9 encoder, the codecs of \<open>libs/scrap\<close>: sockets, threads and encoders
  around the modelled state. The
  desktop platforms, their user interfaces, services, drivers and clipboards; the translations
  (\<open>src/lang\<close>, tables only); the Flutter and C interfaces, which marshal arguments; generated protocol
  code and third-party crates, which are parameters where a definition needs them.
\<close>

end
